(* ===== verification/Go_Prelude.thy ===== *)
theory Go_Prelude
  imports Main "HOL-Library.Sublist"
begin

text \<open>
  The shared base of the development: the Go values and the functions of Go's standard
  library that all three services use, with the generic lemmas the component theories rest on.

  \<^item> Go strings and byte slices are both \<^typ>\<open>string\<close>: a \<^typ>\<open>char\<close> is a byte, so \<open>length\<close>
    is Go's \<open>len\<close>, and non-ASCII text is its UTF-8 encoding.
  \<^item> A Go \<open>(value, error)\<close> result is a sum, \<open>Inl\<close> the error and \<open>Inr\<close> the value; an \<open>error\<close>
    result alone is an \<open>option\<close>, \<open>None\<close> for \<open>nil\<close>.
  \<^item> A \<open>time.Time\<close> is an \<^typ>\<open>int\<close>, nanoseconds since the Unix epoch in UTC; a
    \<open>time.Duration\<close> is an \<^typ>\<open>int\<close> in nanoseconds.
  \<^item> A Go map is an Isabelle map; a pointer that may be \<open>nil\<close> is an \<open>option\<close>.

  The parts of the standard library whose results are tables or cryptography (Unicode case
  mapping, SHA-256, content sniffing, date formatting, verb \<open>%q\<close>) are fields of the record
  \<open>runtime\<close>, an argument of every definition that uses one: the theorems hold for every value
  of these fields, and name what they need of them as hypotheses.
\<close>

named_theorems go_string \<open>facts on the string functions of the standard library\<close>
named_theorems go_eval \<open>definitions to unfold when evaluating on concrete inputs\<close>

subsection \<open>Types\<close>

type_synonym bytes = string
type_synonym time = int
type_synonym duration = int

text \<open>
  The runtime: \<open>lower_uni\<close> is \<open>strings.ToLower\<close> on a string with a non-ASCII byte, \<open>sha256\<close> is
  \<open>sha256.Sum256\<close>, \<open>detect_content_type\<close> is \<open>http.DetectContentType\<close>, \<open>rfc3339\<close> is
  \<open>Time.Format(time.RFC3339)\<close> of a UTC time, \<open>quote\<close> is the formatting verb \<open>%q\<close>.
\<close>

record runtime =
  lower_uni :: "string \<Rightarrow> string"
  sha256 :: "bytes \<Rightarrow> bytes"
  detect_content_type :: "bytes \<Rightarrow> string"
  rfc3339 :: "time \<Rightarrow> string"
  quote :: "string \<Rightarrow> string"

definition zero_time :: time where
  \<comment> \<open>the zero \<open>time.Time\<close>, January 1 of year 1\<close>
  "zero_time = - 62135596800000000000"

definition time_IsZero :: "time \<Rightarrow> bool" where
  "time_IsZero t \<longleftrightarrow> t = zero_time"

text \<open>\<open>Time.Unix\<close>, and a time as PostgreSQL keeps it: a \<open>TIMESTAMPTZ\<close> has microseconds.\<close>

definition time_Unix :: "time \<Rightarrow> int" where
  "time_Unix t = t div 1000000000"

definition timestamptz :: "time \<Rightarrow> time" where
  "timestamptz t = t - t mod 1000"

abbreviation second :: duration where "second \<equiv> 1000000000"
abbreviation minute :: duration where "minute \<equiv> 60000000000"

subsection \<open>Error results\<close>

fun is_ok :: "'e + 'a \<Rightarrow> bool" where
  "is_ok (Inl e) = False"
| "is_ok (Inr a) = True"

lemma is_ok_iff: "is_ok r \<longleftrightarrow> (\<exists>a. r = Inr a)"
  by (cases r) auto

subsection \<open>Bytes\<close>

definition byte :: "char \<Rightarrow> nat" where
  "byte c = of_char c"

lemma byte_less [simp]: "byte c < 256"
proof -
  have "of_char c = (of_char c :: nat) mod 256"
    using of_char_of [of "of_char c :: nat"] by simp
  then show ?thesis unfolding byte_def by (metis mod_less_divisor zero_less_numeral)
qed

lemma byte_char_of [simp]: "n < 256 \<Longrightarrow> byte (char_of n) = n"
  by (simp add: byte_def)

lemma char_of_byte [simp]: "char_of (byte c) = c"
  by (simp add: byte_def)

lemma byte_inject [simp]: "byte c = byte d \<longleftrightarrow> c = d"
  by (simp add: byte_def)

definition is_ascii :: "string \<Rightarrow> bool" where
  "is_ascii s \<longleftrightarrow> list_all (\<lambda>c. byte c < 128) s"

lemma is_ascii_append [simp]: "is_ascii (s @ t) \<longleftrightarrow> is_ascii s \<and> is_ascii t"
  by (simp add: is_ascii_def)

subsection \<open>strings.TrimSpace\<close>

text \<open>
  The UTF-8 encodings of the code points with Unicode's White\_Space property. \<open>TrimSpace\<close>
  removes them from both ends, left end first.
\<close>

definition space_runes :: "string list" where
  "space_runes =
    [[CHR 0x09], [CHR 0x0A], [CHR 0x0B], [CHR 0x0C], [CHR 0x0D], [CHR 0x20],
     [CHR 0xC2, CHR 0x85], [CHR 0xC2, CHR 0xA0], [CHR 0xE1, CHR 0x9A, CHR 0x80],
     [CHR 0xE2, CHR 0x80, CHR 0x80], [CHR 0xE2, CHR 0x80, CHR 0x81],
     [CHR 0xE2, CHR 0x80, CHR 0x82], [CHR 0xE2, CHR 0x80, CHR 0x83],
     [CHR 0xE2, CHR 0x80, CHR 0x84], [CHR 0xE2, CHR 0x80, CHR 0x85],
     [CHR 0xE2, CHR 0x80, CHR 0x86], [CHR 0xE2, CHR 0x80, CHR 0x87],
     [CHR 0xE2, CHR 0x80, CHR 0x88], [CHR 0xE2, CHR 0x80, CHR 0x89],
     [CHR 0xE2, CHR 0x80, CHR 0x8A], [CHR 0xE2, CHR 0x80, CHR 0xA8],
     [CHR 0xE2, CHR 0x80, CHR 0xA9], [CHR 0xE2, CHR 0x80, CHR 0xAF],
     [CHR 0xE2, CHR 0x81, CHR 0x9F], [CHR 0xE3, CHR 0x80, CHR 0x80]]"

function strip_any :: "'a list list \<Rightarrow> 'a list \<Rightarrow> 'a list" where
  "strip_any ps s =
     (case find (\<lambda>p. p \<noteq> [] \<and> prefix p s) ps of
        None \<Rightarrow> s
      | Some p \<Rightarrow> strip_any ps (drop (length p) s))"
  by pat_completeness auto
termination
  by (relation "measure (\<lambda>(ps, s). length s)")
    (auto simp: find_Some_iff prefix_def)

declare strip_any.simps [simp del]

definition TrimLeftSpace :: "string \<Rightarrow> string" where
  "TrimLeftSpace s = strip_any space_runes s"

definition TrimRightSpace :: "string \<Rightarrow> string" where
  "TrimRightSpace s = rev (strip_any (map rev space_runes) (rev s))"

definition TrimSpace :: "string \<Rightarrow> string" where
  "TrimSpace s = TrimRightSpace (TrimLeftSpace s)"

lemma strip_any_suffix: "suffix (strip_any ps s) s"
proof (induction ps s rule: strip_any.induct)
  case (1 ps s)
  show ?case
  proof (cases "find (\<lambda>p. p \<noteq> [] \<and> prefix p s) ps")
    case None
    then show ?thesis by (simp add: strip_any.simps)
  next
    case (Some p)
    with "1.IH" have "suffix (strip_any ps (drop (length p) s)) (drop (length p) s)"
      by simp
    then have "suffix (strip_any ps (drop (length p) s)) s"
      using suffix_drop suffix_order.trans by blast
    with Some show ?thesis by (simp add: strip_any.simps [of ps s])
  qed
qed

lemma strip_any_stop: "p \<in> set ps \<Longrightarrow> p \<noteq> [] \<Longrightarrow> \<not> prefix p (strip_any ps s)"
proof (induction ps s rule: strip_any.induct)
  case (1 ps s)
  show ?case
  proof (cases "find (\<lambda>p. p \<noteq> [] \<and> prefix p s) ps")
    case None
    then have "strip_any ps s = s" by (simp add: strip_any.simps)
    with None "1.prems" show ?thesis by (auto simp: find_None_iff)
  next
    case (Some q)
    with "1.IH" "1.prems" show ?thesis by (simp add: strip_any.simps [of ps s])
  qed
qed

lemma strip_any_id:
  assumes "\<And>p. p \<in> set ps \<Longrightarrow> p = [] \<or> \<not> prefix p s"
  shows "strip_any ps s = s"
proof -
  have "find (\<lambda>p. p \<noteq> [] \<and> prefix p s) ps = None"
    using assms by (auto simp: find_None_iff)
  then show ?thesis by (simp add: strip_any.simps)
qed

lemma strip_any_idem: "strip_any ps (strip_any ps s) = strip_any ps s"
  by (rule strip_any_id) (use strip_any_stop in blast)

lemma TrimRightSpace_prefix: "prefix (TrimRightSpace s) s"
  using strip_any_suffix [of "map rev space_runes" "rev s"]
  by (simp add: TrimRightSpace_def suffix_to_prefix)

lemma TrimLeftSpace_TrimSpace: "TrimLeftSpace (TrimSpace s) = TrimSpace s"
  unfolding TrimLeftSpace_def
proof (rule strip_any_id)
  fix p assume p: "p \<in> set space_runes"
  have "\<not> prefix p (TrimLeftSpace s)" if "p \<noteq> []"
    using strip_any_stop [OF p that] by (simp add: TrimLeftSpace_def)
  then show "p = [] \<or> \<not> prefix p (TrimSpace s)"
    using TrimRightSpace_prefix [of "TrimLeftSpace s"] prefix_order.trans
    unfolding TrimSpace_def by blast
qed

lemma TrimSpace_idem [simp, go_string]: "TrimSpace (TrimSpace s) = TrimSpace s"
proof -
  have "TrimRightSpace (TrimSpace s) = TrimSpace s"
    by (simp add: TrimSpace_def TrimRightSpace_def strip_any_idem)
  then show ?thesis
    by (simp add: TrimSpace_def [of "TrimSpace s"] TrimLeftSpace_TrimSpace)
qed

lemma TrimSpace_Nil [simp]: "TrimSpace [] = []"
  by (simp add: TrimSpace_def TrimRightSpace_def TrimLeftSpace_def strip_any_id)

lemma TrimSpace_set: "set (TrimSpace s) \<subseteq> set s"
proof -
  have "set (TrimSpace s) \<subseteq> set (TrimLeftSpace s)"
    unfolding TrimSpace_def by (rule set_mono_prefix [OF TrimRightSpace_prefix])
  also have "\<dots> \<subseteq> set s"
    unfolding TrimLeftSpace_def by (rule set_mono_suffix [OF strip_any_suffix])
  finally show ?thesis .
qed

text \<open>A string whose first and last bytes are printable ASCII is its own trimming.\<close>

definition graphic :: "char \<Rightarrow> bool" where
  "graphic c \<longleftrightarrow> 33 \<le> byte c \<and> byte c < 127"

lemma space_runes_hd_last:
  "p \<in> set space_runes \<Longrightarrow> p \<noteq> [] \<and> \<not> graphic (hd p) \<and> \<not> graphic (last p)"
  by (auto simp: space_runes_def graphic_def byte_def)

lemma TrimSpace_graphic:
  assumes "s \<noteq> []" and "graphic (hd s)" and "graphic (last s)"
  shows "TrimSpace s = s"
proof -
  have l: "TrimLeftSpace s = s"
    unfolding TrimLeftSpace_def
  proof (rule strip_any_id)
    fix p assume "p \<in> set space_runes"
    then have "p \<noteq> []" and "\<not> graphic (hd p)" using space_runes_hd_last by auto
    with assms(2) show "p = [] \<or> \<not> prefix p s" by (auto simp: prefix_def)
  qed
  have "strip_any (map rev space_runes) (rev s) = rev s"
  proof (rule strip_any_id)
    fix p assume "p \<in> set (map rev space_runes)"
    then obtain q where q: "q \<in> set space_runes" "p = rev q" by auto
    then have "q \<noteq> []" and "\<not> graphic (last q)" using space_runes_hd_last by auto
    with q assms(3) show "p = [] \<or> \<not> prefix p (rev s)"
      by (auto simp: prefix_def hd_rev last_rev dest!: arg_cong [of "rev s" _ hd] split: if_splits)
  qed
  with l show ?thesis by (simp add: TrimSpace_def TrimRightSpace_def)
qed

subsection \<open>strings.ToLower\<close>

definition lower_char :: "char \<Rightarrow> char" where
  "lower_char c = (if 65 \<le> byte c \<and> byte c \<le> 90 then char_of (byte c + 32) else c)"

definition ToLower :: "'z runtime_scheme \<Rightarrow> string \<Rightarrow> string" where
  "ToLower rt s = (if is_ascii s then map lower_char s else lower_uni rt s)"

lemma lower_char_idem [simp]: "lower_char (lower_char c) = lower_char c"
  by (auto simp: lower_char_def)

lemma byte_lower_char: "byte c < 128 \<Longrightarrow> byte (lower_char c) < 128"
  by (auto simp: lower_char_def)

lemma is_ascii_map_lower [simp]: "is_ascii s \<Longrightarrow> is_ascii (map lower_char s)"
  by (auto simp: is_ascii_def list_all_iff byte_lower_char)

lemma ToLower_ascii_idem [go_string]:
  "is_ascii s \<Longrightarrow> ToLower rt (ToLower rt s) = ToLower rt s"
  by (simp add: ToLower_def comp_def)

lemma ToLower_Nil [simp]: "ToLower rt [] = []"
  by (simp add: ToLower_def is_ascii_def)

lemma ToLower_ascii_eq_Nil: "is_ascii s \<Longrightarrow> ToLower rt s = [] \<longleftrightarrow> s = []"
  by (simp add: ToLower_def)

subsection \<open>strings.Split, strings.Join, strings.HasPrefix\<close>

text \<open>\<open>Split\<close> with a separator of one byte, the only use the services make of it.\<close>

fun Split :: "string \<Rightarrow> char \<Rightarrow> string list" where
  "Split [] c = [[]]"
| "Split (x # xs) c =
     (if x = c then [] # Split xs c
      else (case Split xs c of [] \<Rightarrow> [[x]] | y # ys \<Rightarrow> (x # y) # ys))"

fun Join :: "string list \<Rightarrow> string \<Rightarrow> string" where
  "Join [] sep = []"
| "Join [x] sep = x"
| "Join (x # y # xs) sep = x @ sep @ Join (y # xs) sep"

lemma Split_not_Nil [simp]: "Split s c \<noteq> []"
  by (induction s c rule: Split.induct) (auto split: list.split)

lemma Join_Split [go_string]: "Join (Split s c) [c] = s"
proof (induction s c rule: Split.induct)
  case (2 x xs c)
  then show ?case
    by (cases "Split xs c"; cases "tl (Split xs c)") auto
qed simp

lemma Split_no_sep: "p \<in> set (Split s c) \<Longrightarrow> c \<notin> set p"
proof (induction s c arbitrary: p rule: Split.induct)
  case (2 x xs c)
  then show ?case by (auto split: if_splits list.splits)
qed simp

lemma Split_single: "c \<notin> set s \<Longrightarrow> Split s c = [s]"
  by (induction s) auto

lemma Split_append_sep [go_string]: "c \<notin> set s \<Longrightarrow> Split (s @ c # t) c = s # Split t c"
  by (induction s) auto

lemma Split_Join:
  "xs \<noteq> [] \<Longrightarrow> (\<And>x. x \<in> set xs \<Longrightarrow> c \<notin> set x) \<Longrightarrow> Split (Join xs [c]) c = xs"
proof (induction xs "[c]" rule: Join.induct)
  case (3 x y xs)
  then show ?case by (simp add: Split_append_sep)
qed (auto simp: Split_single)

definition HasPrefix :: "string \<Rightarrow> string \<Rightarrow> bool" where
  "HasPrefix s p \<longleftrightarrow> take (length p) s = p"

definition TrimPrefix :: "string \<Rightarrow> string \<Rightarrow> string" where
  "TrimPrefix s p = (if HasPrefix s p then drop (length p) s else s)"

lemma TrimPrefix_append [simp]: "TrimPrefix (p @ s) p = s" and HasPrefix_append [simp]: "HasPrefix (p @ s) p"
  by (simp_all add: TrimPrefix_def HasPrefix_def)

subsection \<open>hex.EncodeToString\<close>

definition hex_digits :: string where
  "hex_digits = ''0123456789abcdef''"

definition hex_byte :: "char \<Rightarrow> string" where
  "hex_byte c = [hex_digits ! (byte c div 16), hex_digits ! (byte c mod 16)]"

definition hex_encode :: "bytes \<Rightarrow> string" where
  "hex_encode s = concat (map hex_byte s)"

lemma hex_digits_length [simp]: "length hex_digits = 16"
  by (simp add: hex_digits_def)

lemma hex_digits_inj: "i < 16 \<Longrightarrow> j < 16 \<Longrightarrow> hex_digits ! i = hex_digits ! j \<longleftrightarrow> i = j"
  by (rule nth_eq_iff_index_eq) (simp_all add: hex_digits_def)

lemma hex_byte_inj: "hex_byte c = hex_byte d \<Longrightarrow> c = d"
proof -
  assume "hex_byte c = hex_byte d"
  moreover have "byte c div 16 < 16" "byte d div 16 < 16"
    using byte_less [of c] byte_less [of d] by (simp_all add: div_less_iff_less_mult)
  ultimately have "byte c div 16 = byte d div 16" and "byte c mod 16 = byte d mod 16"
    by (simp_all add: hex_byte_def hex_digits_inj)
  then have "byte c = byte d" by (metis div_mult_mod_eq)
  then show ?thesis by simp
qed

lemma hex_encode_length [simp]: "length (hex_encode s) = 2 * length s"
  by (induction s) (auto simp: hex_encode_def hex_byte_def)

lemma hex_encode_inj: "hex_encode s = hex_encode t \<Longrightarrow> s = t"
proof (induction s arbitrary: t)
  case Nil
  then show ?case by (cases t) (auto simp: hex_encode_def hex_byte_def)
next
  case (Cons c s)
  then obtain d u where t: "t = d # u"
    by (cases t) (auto simp: hex_encode_def hex_byte_def)
  with Cons.prems have "hex_byte c = hex_byte d" and "hex_encode s = hex_encode u"
    by (auto simp: hex_encode_def hex_byte_def)
  with Cons.IH t show ?case by (auto dest: hex_byte_inj)
qed

lemma hex_digits_nth: "i < 16 \<Longrightarrow> hex_digits ! i \<in> set hex_digits"
  by (rule nth_mem) simp

lemma hex_encode_digits: "c \<in> set (hex_encode s) \<Longrightarrow> c \<in> set hex_digits"
  using byte_less
  by (auto simp: hex_encode_def hex_byte_def intro!: hex_digits_nth simp: div_less_iff_less_mult)

subsection \<open>Decimal integers: verb \<open>%d\<close>, strconv.ParseInt and strconv.Atoi\<close>

definition digit_char :: "nat \<Rightarrow> char" where
  "digit_char d = char_of (48 + d)"

fun show_nat :: "nat \<Rightarrow> string" where
  "show_nat n = (if n < 10 then [digit_char n] else show_nat (n div 10) @ [digit_char (n mod 10)])"

declare show_nat.simps [simp del]

definition show_int :: "int \<Rightarrow> string" where
  "show_int i = (if i < 0 then ''-'' @ show_nat (nat (- i)) else show_nat (nat i))"

definition is_digit :: "char \<Rightarrow> bool" where
  "is_digit c \<longleftrightarrow> 48 \<le> byte c \<and> byte c \<le> 57"

definition digits_value :: "string \<Rightarrow> nat" where
  "digits_value s = fold (\<lambda>c n. 10 * n + (byte c - 48)) s 0"

definition in_int64 :: "int \<Rightarrow> bool" where
  "in_int64 i \<longleftrightarrow> - (2 ^ 63) \<le> i \<and> i < 2 ^ 63"

text \<open>
  \<open>ParseInt(s, 10, 64)\<close>, and \<open>Atoi\<close> on a 64-bit platform: an optional sign, at least one
  digit, nothing else, and the value within \<open>int64\<close>; \<open>None\<close> is any error.
\<close>

definition ParseInt :: "string \<Rightarrow> int option" where
  "ParseInt s =
     (let neg = (s \<noteq> [] \<and> hd s = CHR ''-'');
          ds = (if s \<noteq> [] \<and> (hd s = CHR ''-'' \<or> hd s = CHR ''+'') then tl s else s);
          v = (if neg then - int (digits_value ds) else int (digits_value ds))
      in if ds = [] \<or> \<not> list_all is_digit ds \<or> \<not> in_int64 v then None else Some v)"

lemma is_digit_digit_char [simp]: "d < 10 \<Longrightarrow> is_digit (digit_char d)"
  by (simp add: is_digit_def digit_char_def)

lemma show_nat_digits: "list_all is_digit (show_nat n) \<and> show_nat n \<noteq> []"
proof (induction n rule: show_nat.induct)
  case (1 n)
  then show ?case by (cases "n < 10") (auto simp: show_nat.simps [of n])
qed

lemma digits_value_snoc: "digits_value (s @ [c]) = 10 * digits_value s + (byte c - 48)"
  by (simp add: digits_value_def)

lemma digits_value_show_nat [simp]: "digits_value (show_nat n) = n"
proof (induction n rule: show_nat.induct)
  case (1 n)
  show ?case
  proof (cases "n < 10")
    case True
    then show ?thesis by (simp add: show_nat.simps digits_value_def digit_char_def)
  next
    case False
    with 1 show ?thesis
      by (simp add: show_nat.simps [of n] digits_value_snoc digit_char_def)
  qed
qed

lemma show_nat_hd: "hd (show_nat n) \<noteq> CHR ''-'' \<and> hd (show_nat n) \<noteq> CHR ''+''"
proof -
  have "is_digit (hd (show_nat n))"
    using show_nat_digits [of n] by (cases "show_nat n") auto
  then show ?thesis by (auto simp: is_digit_def byte_def)
qed

lemma ParseInt_show_int: "in_int64 i \<Longrightarrow> ParseInt (show_int i) = Some i"
  using show_nat_digits show_nat_hd
  by (auto simp: ParseInt_def show_int_def Let_def in_int64_def)

subsection \<open>Printable text survives trimming\<close>

lemma TrimSpace_all_graphic: "list_all graphic s \<Longrightarrow> TrimSpace s = s"
  by (cases "s = []") (auto intro!: TrimSpace_graphic simp: list_all_iff)

lemma hex_encode_graphic: "list_all graphic (hex_encode s)"
proof -
  have "graphic c" if "c \<in> set hex_digits" for c
    using that by (auto simp: hex_digits_def graphic_def byte_def)
  then show ?thesis using hex_encode_digits by (auto simp: list_all_iff)
qed

lemma show_int_graphic: "list_all graphic (show_int i)"
proof -
  have "graphic c" if "is_digit c" for c using that by (simp add: is_digit_def graphic_def)
  then have "list_all graphic (show_nat n)" for n using show_nat_digits [of n] by (auto simp: list_all_iff)
  then show ?thesis by (simp add: show_int_def graphic_def byte_def)
qed

lemma find_SomeD: "find P xs = Some x \<Longrightarrow> x \<in> set xs \<and> P x"
  by (auto simp: find_Some_iff)

end
