(* ===== verification/Grpc.thy ===== *)
theory Grpc
  imports Go_Prelude
begin

text \<open>
  What the services use of gRPC: status codes and status errors, and the metadata of an
  incoming call (a map from lower-case keys to lists of values, absent when the context
  carries none).
\<close>

datatype code =
    OK | Canceled | Unknown | InvalidArgument | DeadlineExceeded | NotFound | AlreadyExists
  | PermissionDenied | ResourceExhausted | FailedPrecondition | Aborted | OutOfRange
  | Unimplemented | Internal | Unavailable | DataLoss | Unauthenticated

datatype status_error = Status (status_code: code) (status_message: string)

type_synonym metadata = "string \<rightharpoonup> string list"

text \<open>\<open>MD.Get\<close> and \<open>metadata.Pairs\<close>; the second collects the values of a repeated key.\<close>

definition md_Get :: "metadata \<Rightarrow> string \<Rightarrow> string list" where
  "md_Get md k = (case md k of None \<Rightarrow> [] | Some vs \<Rightarrow> vs)"

definition md_append :: "metadata \<Rightarrow> string \<Rightarrow> string \<Rightarrow> metadata" where
  "md_append md k v = md(k \<mapsto> md_Get md k @ [v])"

definition md_Pairs :: "(string \<times> string) list \<Rightarrow> metadata" where
  "md_Pairs kvs = fold (\<lambda>(k, v) md. md_append md k v) kvs Map.empty"

lemma md_Get_append [simp]:
  "md_Get (md_append md k v) j = (if j = k then md_Get md k @ [v] else md_Get md j)"
  by (simp add: md_Get_def md_append_def)

lemma md_Get_empty [simp]: "md_Get Map.empty k = []"
  by (simp add: md_Get_def)

type_synonym 'a rpc_result = "status_error + 'a"

end
