(* ===== verification/Authz.thy ===== *)
theory Authz
  imports Grpc
begin

text \<open>
  Package \<open>authz\<close> of the Document Intake service: the organization and role check every
  handler starts with (\<open>authz.go\<close>) and the server interceptor (\<open>interceptor.go\<close>).
\<close>

type_synonym Permission = string

definition PermissionRead :: Permission where "PermissionRead = ''documents:read''"
definition PermissionCreate :: Permission where "PermissionCreate = ''documents:create''"
definition PermissionUpload :: Permission where "PermissionUpload = ''documents:upload''"

fun first_value :: "string list \<Rightarrow> string" where
  "first_value [] = []"
| "first_value (v # vs) = v"

definition grants :: "string \<Rightarrow> Permission \<Rightarrow> bool" where
  "grants role permission =
     (if permission = PermissionRead then
        role = ''platform_admin'' \<or> role = ''org_admin'' \<or> role = ''reviewer'' \<or> role = ''analyst''
          \<or> role = ''user'' \<or> role = ''member''
      else if permission = PermissionCreate \<or> permission = PermissionUpload then
        role = ''platform_admin'' \<or> role = ''org_admin'' \<or> role = ''reviewer'' \<or> role = ''analyst''
          \<or> role = ''user'' \<or> role = ''member''
      else False)"

text \<open>\<open>None\<close> is Go's \<open>nil\<close>: the call may proceed.\<close>

definition Require :: "'z runtime_scheme \<Rightarrow> metadata option \<Rightarrow> string \<Rightarrow> Permission \<Rightarrow> status_error option" where
  "Require rt ctx organizationID permission =
     (case ctx of
        None \<Rightarrow> Some (Status Unauthenticated ''authenticated gateway metadata is required'')
      | Some md \<Rightarrow>
          let claimedOrganization = TrimSpace (first_value (md_Get md ''x-organization-id''))
          in if claimedOrganization = [] \<or> claimedOrganization \<noteq> TrimSpace organizationID then
               Some (Status PermissionDenied ''organization scope does not match authenticated identity'')
             else
               let roles = md_Get md ''x-roles''
               in if roles = [] then
                    Some (Status PermissionDenied ''authenticated roles are required'')
                  else if list_ex (\<lambda>role. list_ex (\<lambda>value. grants (ToLower rt (TrimSpace value)) permission)
                                     (Split role CHR '','')) roles then None
                  else Some (Status PermissionDenied ''role is not allowed for this operation''))"

text \<open>
  The interceptor: health checks pass, any other call without metadata is refused. \<open>Inl\<close> is the
  refusal, \<open>Inr\<close> what the handler does with the context.
\<close>

definition UnaryServerInterceptor :: "metadata option \<Rightarrow> string \<Rightarrow> (metadata option \<Rightarrow> 'b) \<Rightarrow> status_error + 'b" where
  "UnaryServerInterceptor ctx fullMethod handler =
     (if fullMethod = ''/grpc.health.v1.Health/Check'' then Inr (handler ctx)
      else case ctx of
        None \<Rightarrow> Inl (Status Unauthenticated ''authenticated gateway metadata is required'')
      | Some _ \<Rightarrow> Inr (handler ctx))"

subsection \<open>The identity a call is authorised for\<close>

definition claimed_org :: "metadata \<Rightarrow> string" where
  "claimed_org md = TrimSpace (first_value (md_Get md ''x-organization-id''))"

definition has_role :: "'z runtime_scheme \<Rightarrow> metadata \<Rightarrow> Permission \<Rightarrow> bool" where
  "has_role rt md permission \<longleftrightarrow>
     (\<exists>role \<in> set (md_Get md ''x-roles''). \<exists>value \<in> set (Split role CHR '','').
        grants (ToLower rt (TrimSpace value)) permission)"

lemma Require_None_iff:
  "Require rt ctx org perm = None \<longleftrightarrow>
     (\<exists>md. ctx = Some md \<and> claimed_org md \<noteq> [] \<and> claimed_org md = TrimSpace org \<and> has_role rt md perm)"
  by (auto simp: Require_def claimed_org_def has_role_def Let_def list_ex_iff split: option.splits)

lemma Require_Some_code:
  "Require rt ctx org perm = Some e \<Longrightarrow>
     status_code e = (if ctx = None then Unauthenticated else PermissionDenied)"
  by (auto simp: Require_def Let_def split: option.splits if_splits)

lemma Require_org_nonempty: "Require rt ctx org perm = None \<Longrightarrow> TrimSpace org \<noteq> []"
  by (auto simp: Require_None_iff)

lemma grants_lower: "grants role perm \<Longrightarrow> role \<noteq> ''admin'' \<and> role \<noteq> []"
  by (auto simp: grants_def split: if_splits)

end
