(* ===== verification/Store_Interface.thy ===== *)
theory Store_Interface
  imports Go_Prelude
begin

text \<open>
  The data of package \<open>store\<close> of the Document Intake service (\<open>UploadRecord\<close>, \<open>Document\<close>,
  \<open>OutboxEvent\<close>, the sentinel errors) and its interfaces. A Go interface value is a record of
  functions over the implementation's state; an optional interface, which the service finds
  by a type assertion, is an \<open>option\<close> field.

  The locale \<open>tenant_store\<close> is the contract the service relies on for tenant isolation. The
  in-memory store and the PostgreSQL store both interpret it.
\<close>

datatype store_error =
    ErrDocumentNotFound | ErrOrganizationMismatch | ErrUploadNotFound | ErrUploadNotPending
  | ErrUploadMismatch | ErrOther string

fun store_error_text :: "store_error \<Rightarrow> string" where
  "store_error_text ErrDocumentNotFound = ''document not found''"
| "store_error_text ErrOrganizationMismatch = ''document belongs to a different organization''"
| "store_error_text ErrUploadNotFound = ''upload not found''"
| "store_error_text ErrUploadNotPending = ''upload is not pending''"
| "store_error_text ErrUploadMismatch = ''upload verification failed''"
| "store_error_text (ErrOther msg) = msg"

record UploadRecord =
  u_ID :: string
  u_DocumentID :: string
  u_OrganizationID :: string
  u_Filename :: string
  u_ContentType :: string
  u_SizeBytes :: int
  u_Checksum :: string
  u_StorageRef :: string
  u_IdempotencyKey :: string
  u_Status :: string
  u_UploadMethod :: string
  u_ExpectedSize :: int
  u_ConfirmedAt :: "time option"
  u_CreatedAt :: time

record Document =
  d_ID :: string
  d_OrganizationID :: string
  d_Type :: string
  d_Filename :: string
  d_ContentType :: string
  d_Status :: string
  d_ProcessingJobStatus :: string
  d_StorageRef :: string
  d_SizeBytes :: int
  d_CreatedAt :: time
  d_UpdatedAt :: time
  d_Uploads :: "UploadRecord list"

record OutboxEvent =
  ev_ID :: string
  ev_EventType :: string
  ev_EventVersion :: int
  ev_RoutingKey :: string
  ev_OrganizationID :: string
  ev_DocumentID :: string
  ev_Payload :: bytes
  ev_CreatedAt :: time

text \<open>
  The interfaces. An operation that reads the clock takes the reading as its first argument.
  \<open>UploadIntentStore\<close> is the record \<open>intent_iface\<close>; \<open>DurableDocumentStore\<close> and
  \<open>DurableUploadStore\<close> have one method each.
\<close>

type_synonym ('s, 'a) store_op = "'s \<Rightarrow> (store_error + 'a) \<times> 's"

record 's intent_iface =
  ii_CreateUploadIntent :: "time \<Rightarrow> string \<Rightarrow> string \<Rightarrow> UploadRecord \<Rightarrow> ('s, UploadRecord) store_op"
  ii_ConfirmUpload ::
    "time \<Rightarrow> string \<Rightarrow> string \<Rightarrow> string \<Rightarrow> int \<Rightarrow> string \<Rightarrow> OutboxEvent \<Rightarrow> ('s, UploadRecord) store_op"

record 's store_iface =
  si_CreateDocument :: "Document \<Rightarrow> ('s, Document) store_op"
  si_GetDocument :: "string \<Rightarrow> string \<Rightarrow> 's \<Rightarrow> store_error + Document"
  si_UploadDocument :: "time \<Rightarrow> string \<Rightarrow> string \<Rightarrow> UploadRecord \<Rightarrow> ('s, Document) store_op"
  si_GetDocumentStatus :: "string \<Rightarrow> string \<Rightarrow> 's \<Rightarrow> store_error + Document"
  si_CreateDocumentAndQueue ::
    "(time \<Rightarrow> Document \<Rightarrow> UploadRecord \<Rightarrow> OutboxEvent \<Rightarrow> ('s, Document) store_op) option"
  si_UploadDocumentAndQueue ::
    "(time \<Rightarrow> string \<Rightarrow> string \<Rightarrow> UploadRecord \<Rightarrow> OutboxEvent \<Rightarrow> ('s, Document) store_op) option"
  si_intents :: "'s intent_iface option"

subsection \<open>Tenant isolation as a contract\<close>

definition owned_by :: "string \<Rightarrow> Document \<Rightarrow> bool" where
  "owned_by org d \<longleftrightarrow> TrimSpace (d_OrganizationID d) = TrimSpace org"

text \<open>
  A step on behalf of an organization: a document that differs before and after belongs to
  that organization on both sides.
\<close>

definition tenant_step :: "('s \<Rightarrow> string \<rightharpoonup> Document) \<Rightarrow> string \<Rightarrow> 's \<Rightarrow> 's \<Rightarrow> bool" where
  "tenant_step view org s t \<longleftrightarrow>
     (\<forall>i. view t i = view s i
        \<or> (\<forall>d. view s i = Some d \<longrightarrow> owned_by org d) \<and> (\<forall>d. view t i = Some d \<longrightarrow> owned_by org d))"

lemma tenant_step_refl [simp, intro]: "tenant_step view org s s"
  by (simp add: tenant_step_def)

lemma tenant_step_trans:
  "tenant_step view org s t \<Longrightarrow> tenant_step view org t u \<Longrightarrow> tenant_step view org s u"
  unfolding tenant_step_def by metis

lemma tenant_step_other:
  "tenant_step view org s t \<Longrightarrow> view s i = Some d \<Longrightarrow> \<not> owned_by org d \<Longrightarrow> view t i = Some d"
  unfolding tenant_step_def by metis

lemma tenant_step_trim: "tenant_step view (TrimSpace org) s t \<longleftrightarrow> tenant_step view org s t"
  by (simp add: tenant_step_def owned_by_def)

lemma owned_by_trim [simp]: "owned_by (TrimSpace org) d \<longleftrightarrow> owned_by org d"
  by (simp add: owned_by_def)

lemma tenant_step_upd:
  assumes "view t = (view s)(i \<mapsto> e)" and "owned_by org e"
    and "\<And>d. view s i = Some d \<Longrightarrow> owned_by org d"
  shows "tenant_step view org s t"
  using assms by (auto simp: tenant_step_def)

locale tenant_store =
  fixes ops :: "'s store_iface"
    and view :: "'s \<Rightarrow> string \<rightharpoonup> Document"
    and invar :: "'s \<Rightarrow> bool"
  assumes get_law: "invar s \<Longrightarrow> si_GetDocument ops org i s = Inr d \<Longrightarrow> view s i = Some d \<and> owned_by org d"
    and status_law: "invar s \<Longrightarrow> si_GetDocumentStatus ops org i s = Inr d \<Longrightarrow> view s i = Some d \<and> owned_by org d"
    and create_law: "invar s \<Longrightarrow> d_Uploads doc = [] \<Longrightarrow> si_CreateDocument ops doc s = (r, t) \<Longrightarrow>
      invar t \<and> tenant_step view (d_OrganizationID doc) s t"
    and upload_law: "invar s \<Longrightarrow> u_DocumentID up = i \<Longrightarrow> u_OrganizationID up = org \<Longrightarrow>
      si_UploadDocument ops now org i up s = (r, t) \<Longrightarrow> invar t \<and> tenant_step view org s t"
    and create_queue_law: "invar s \<Longrightarrow> si_CreateDocumentAndQueue ops = Some f \<Longrightarrow> d_Uploads doc = [] \<Longrightarrow>
      u_DocumentID up = d_ID doc \<Longrightarrow> u_OrganizationID up = d_OrganizationID doc \<Longrightarrow>
      f now doc up ev s = (r, t) \<Longrightarrow> invar t \<and> tenant_step view (d_OrganizationID doc) s t"
    and upload_queue_law: "invar s \<Longrightarrow> si_UploadDocumentAndQueue ops = Some g \<Longrightarrow>
      u_DocumentID up = i \<Longrightarrow> u_OrganizationID up = org \<Longrightarrow>
      g now org i up ev s = (r, t) \<Longrightarrow> invar t \<and> tenant_step view org s t"
    and intent_law: "invar s \<Longrightarrow> si_intents ops = Some ii \<Longrightarrow> u_DocumentID up = i \<Longrightarrow> u_OrganizationID up = org \<Longrightarrow>
      ii_CreateUploadIntent ii now org i up s = (r', t) \<Longrightarrow> invar t \<and> tenant_step view org s t"
    and confirm_law: "invar s \<Longrightarrow> si_intents ops = Some ii \<Longrightarrow>
      ii_ConfirmUpload ii now org i uid sz ck ev s = (r', t) \<Longrightarrow> invar t \<and> tenant_step view org s t"

end
