(* ===== verification/Go_Encoding.thy ===== *)
theory Go_Encoding
  imports Go_Prelude
begin

text \<open>
  Go's text encodings: rune boundaries in UTF-8 and \<open>strings.Map\<close>, \<open>encoding/base64\<close> (the
  encoders, the decoders of \<open>RawURLEncoding\<close> and \<open>StdEncoding\<close>, and their round trip),
  \<open>url.PathEscape\<close> with its injectivity, and the lexical path functions of \<open>path/filepath\<close>.
\<close>

subsection \<open>Runes\<close>

abbreviation in_range :: "nat \<Rightarrow> nat \<Rightarrow> char \<Rightarrow> bool" where
  "in_range lo hi c \<equiv> lo \<le> byte c \<and> byte c \<le> hi"

text \<open>
  The width of the rune at the front of a non-empty byte string, as \<open>utf8.DecodeRune\<close>
  computes it: 1 for ASCII and for a byte that starts no valid encoding.
\<close>

fun rune_width :: "string \<Rightarrow> nat" where
  "rune_width (a # b # c # d # _) =
     (if in_range 0xC2 0xDF a \<and> in_range 0x80 0xBF b then 2
      else if ((byte a = 0xE0 \<and> in_range 0xA0 0xBF b) \<or> (byte a = 0xED \<and> in_range 0x80 0x9F b)
               \<or> (in_range 0xE1 0xEF a \<and> byte a \<noteq> 0xED \<and> in_range 0x80 0xBF b))
              \<and> in_range 0x80 0xBF c then 3
      else if ((byte a = 0xF0 \<and> in_range 0x90 0xBF b) \<or> (byte a = 0xF4 \<and> in_range 0x80 0x8F b)
               \<or> (in_range 0xF1 0xF3 a \<and> in_range 0x80 0xBF b))
              \<and> in_range 0x80 0xBF c \<and> in_range 0x80 0xBF d then 4
      else 1)"
| "rune_width [a, b, c] =
     (if in_range 0xC2 0xDF a \<and> in_range 0x80 0xBF b then 2
      else if ((byte a = 0xE0 \<and> in_range 0xA0 0xBF b) \<or> (byte a = 0xED \<and> in_range 0x80 0x9F b)
               \<or> (in_range 0xE1 0xEF a \<and> byte a \<noteq> 0xED \<and> in_range 0x80 0xBF b))
              \<and> in_range 0x80 0xBF c then 3
      else 1)"
| "rune_width [a, b] = (if in_range 0xC2 0xDF a \<and> in_range 0x80 0xBF b then 2 else 1)"
| "rune_width _ = 1"

lemma rune_width_pos [simp]: "0 < rune_width s"
  by (cases s rule: rune_width.cases) auto

text \<open>
  \<open>strings.Map\<close> with a mapping that keeps some ASCII characters and sends every other rune
  to one ASCII character.
\<close>

function map_runes :: "(char \<Rightarrow> bool) \<Rightarrow> char \<Rightarrow> string \<Rightarrow> string" where
  "map_runes keep other [] = []"
| "map_runes keep other (x # xs) =
     (if byte x < 128 \<and> keep x then x # map_runes keep other xs
      else other # map_runes keep other (drop (rune_width (x # xs)) (x # xs)))"
  by pat_completeness auto
termination
proof (relation "measure (\<lambda>(keep, other, s). length s)")
  fix keep :: "char \<Rightarrow> bool" and other :: char and x :: char and xs :: string
  show "((keep, other, drop (rune_width (x # xs)) (x # xs)), keep, other, x # xs)
      \<in> measure (\<lambda>(keep, other, s). length s)"
    using rune_width_pos [of "x # xs"] by (simp del: rune_width_pos)
qed auto

lemma map_runes_set:
  "c \<in> set (map_runes keep other s) \<Longrightarrow> (byte c < 128 \<and> keep c) \<or> c = other"
  by (induction keep other s rule: map_runes.induct) (auto split: if_splits)

lemma map_runes_Nil [simp]: "map_runes keep other s = [] \<longleftrightarrow> s = []"
  by (cases s) auto

lemma map_runes_id: "(\<And>c. c \<in> set s \<Longrightarrow> byte c < 128 \<and> keep c) \<Longrightarrow> map_runes keep other s = s"
  by (induction s) auto

subsection \<open>encoding/base64\<close>

definition std_alphabet :: string where
  "std_alphabet = ''ABCDEFGHIJKLMNOPQRSTUVWXYZabcdefghijklmnopqrstuvwxyz0123456789+/''"

definition url_alphabet :: string where
  "url_alphabet = ''ABCDEFGHIJKLMNOPQRSTUVWXYZabcdefghijklmnopqrstuvwxyz0123456789-_''"

fun index_of :: "'a list \<Rightarrow> 'a \<Rightarrow> nat option" where
  "index_of [] x = None"
| "index_of (y # ys) x = (if x = y then Some 0 else map_option Suc (index_of ys x))"

lemma index_of_None: "index_of xs x = None \<longleftrightarrow> x \<notin> set xs"
  by (induction xs) auto

lemma index_of_nth: "distinct xs \<Longrightarrow> i < length xs \<Longrightarrow> index_of xs (xs ! i) = Some i"
proof (induction xs arbitrary: i)
  case (Cons y ys)
  then show ?case by (cases i) auto
qed simp

text \<open>Encoding without padding; \<open>StdEncoding\<close> appends \<open>=\<close> up to a multiple of four.\<close>

fun encode64 :: "string \<Rightarrow> bytes \<Rightarrow> string" where
  "encode64 al [] = []"
| "encode64 al [a] = [al ! (byte a div 4), al ! (byte a mod 4 * 16)]"
| "encode64 al [a, b] =
     [al ! (byte a div 4), al ! (byte a mod 4 * 16 + byte b div 16), al ! (byte b mod 16 * 4)]"
| "encode64 al (a # b # c # s) =
     al ! (byte a div 4) # al ! (byte a mod 4 * 16 + byte b div 16)
       # al ! (byte b mod 16 * 4 + byte c div 64) # al ! (byte c mod 64) # encode64 al s"

definition RawURLEncode :: "bytes \<Rightarrow> string" where
  "RawURLEncode = encode64 url_alphabet"

definition StdEncode :: "bytes \<Rightarrow> string" where
  "StdEncode s = encode64 std_alphabet s @ replicate ((3 - length s mod 3) mod 3) CHR ''=''"

definition byte1 :: "nat \<Rightarrow> nat \<Rightarrow> char" where "byte1 p q = char_of (p * 4 + q div 16)"
definition byte2 :: "nat \<Rightarrow> nat \<Rightarrow> char" where "byte2 q r = char_of (q mod 16 * 16 + r div 4)"
definition byte3 :: "nat \<Rightarrow> nat \<Rightarrow> char" where "byte3 r t = char_of (r mod 4 * 64 + t)"

abbreviation newline :: "char \<Rightarrow> bool" where
  "newline c \<equiv> c = CHR 0x0A \<or> c = CHR 0x0D"

text \<open>
  \<open>Encoding.DecodeString\<close> in its non-strict mode: line breaks are skipped, the bits left over
  in a final partial quantum are ignored. The accumulator holds the sextets of the current
  quantum. With \<open>pad\<close> a quantum may end in \<open>=\<close>, after which only line breaks may follow, and
  input that ends within a quantum is corrupt; without it a quantum of one sextet is corrupt.
\<close>

fun decode64 :: "string \<Rightarrow> bool \<Rightarrow> nat list \<Rightarrow> string \<Rightarrow> bytes option" where
  "decode64 al pad acc [] =
     (case acc of
        [] \<Rightarrow> Some []
      | [p, q] \<Rightarrow> if pad then None else Some [byte1 p q]
      | [p, q, r] \<Rightarrow> if pad then None else Some [byte1 p q, byte2 q r]
      | _ \<Rightarrow> None)"
| "decode64 al pad acc (x # xs) =
     (if newline x then decode64 al pad acc xs
      else case index_of al x of
        Some v \<Rightarrow>
          (case acc of
             [p, q, r] \<Rightarrow> map_option (\<lambda>s. byte1 p q # byte2 q r # byte3 r v # s) (decode64 al pad [] xs)
           | _ \<Rightarrow> decode64 al pad (acc @ [v]) xs)
      | None \<Rightarrow>
          if \<not> pad \<or> x \<noteq> CHR ''='' then None
          else (case acc of
             [p, q] \<Rightarrow> if filter (\<lambda>c. \<not> newline c) xs = [CHR ''=''] then Some [byte1 p q] else None
           | [p, q, r] \<Rightarrow> if filter (\<lambda>c. \<not> newline c) xs = [] then Some [byte1 p q, byte2 q r] else None
           | _ \<Rightarrow> None))"

definition RawURLDecode :: "string \<Rightarrow> bytes option" where
  "RawURLDecode = decode64 url_alphabet False []"

definition StdDecode :: "string \<Rightarrow> bytes option" where
  "StdDecode = decode64 std_alphabet True []"

definition good_alphabet :: "string \<Rightarrow> bool" where
  "good_alphabet al \<longleftrightarrow> distinct al \<and> length al = 64 \<and> CHR ''='' \<notin> set al
     \<and> CHR 0x0A \<notin> set al \<and> CHR 0x0D \<notin> set al"

lemma good_url [simp]: "good_alphabet url_alphabet"
  by (simp add: good_alphabet_def url_alphabet_def)

lemma good_std [simp]: "good_alphabet std_alphabet"
  by (simp add: good_alphabet_def std_alphabet_def)

lemma byte_div: "byte c div 4 < 64" "byte c div 16 < 16" "byte c div 64 < 4"
  using byte_less [of c] by (simp_all add: less_mult_imp_div_less)

lemma byte_mod: "byte c mod 4 < 4" "byte c mod 16 < 16" "byte c mod 64 < 64"
  by simp_all

lemma sextets:
  "byte a div 4 < 64" "byte a mod 4 * 16 + byte b div 16 < 64"
  "byte b mod 16 * 4 + byte c div 64 < 64" "byte c mod 64 < 64"
  "byte a mod 4 * 16 < 64" "byte b mod 16 * 4 < 64"
proof -
  have join: "x < 4 \<Longrightarrow> y < 16 \<Longrightarrow> x * 16 + y < (64 :: nat)"
    "x < 16 \<Longrightarrow> y < 4 \<Longrightarrow> x * 4 + y < (64 :: nat)" for x y
    by simp_all
  show "byte a div 4 < 64" "byte a mod 4 * 16 + byte b div 16 < 64"
    "byte b mod 16 * 4 + byte c div 64 < 64" "byte c mod 64 < 64"
    by (intro byte_div byte_mod join)+
  show "byte a mod 4 * 16 < 64" "byte b mod 16 * 4 < 64"
    using join(1) [of "byte a mod 4" 0] join(2) [of "byte b mod 16" 0] byte_mod by simp_all
qed

lemma unsextet:
  "byte1 (byte a div 4) (byte a mod 4 * 16 + byte b div 16) = a"
  "byte1 (byte a div 4) (byte a mod 4 * 16) = a"
  "byte2 (byte a mod 4 * 16 + byte b div 16) (byte b mod 16 * 4 + byte c div 64) = b"
  "byte2 (byte a mod 4 * 16 + byte b div 16) (byte b mod 16 * 4) = b"
  "byte3 (byte b mod 16 * 4 + byte c div 64) (byte c mod 64) = c"
proof -
  have mods: "(byte a mod 4 * 16 + byte b div 16) div 16 = byte a mod 4"
    "(byte a mod 4 * 16 + byte b div 16) mod 16 = byte b div 16"
    "(byte b mod 16 * 4 + byte c div 64) div 4 = byte b mod 16"
    "(byte b mod 16 * 4 + byte c div 64) mod 4 = byte c div 64"
    using byte_div [of b] byte_div [of c] by simp_all
  show
    "byte1 (byte a div 4) (byte a mod 4 * 16 + byte b div 16) = a"
    "byte1 (byte a div 4) (byte a mod 4 * 16) = a"
    "byte2 (byte a mod 4 * 16 + byte b div 16) (byte b mod 16 * 4 + byte c div 64) = b"
    "byte2 (byte a mod 4 * 16 + byte b div 16) (byte b mod 16 * 4) = b"
    "byte3 (byte b mod 16 * 4 + byte c div 64) (byte c mod 64) = c"
    using byte_div [of b] byte_div [of c]
    by (simp_all add: byte1_def byte2_def byte3_def mods)
qed

lemma good_alphabet_nth:
  assumes "good_alphabet al" and "i < 64"
  shows "index_of al (al ! i) = Some i" and "\<not> newline (al ! i)"
proof -
  from assms have mem: "al ! i \<in> set al" by (simp add: good_alphabet_def)
  with assms show "index_of al (al ! i) = Some i" and "\<not> newline (al ! i)"
    by (auto simp: good_alphabet_def index_of_nth simp del: nth_mem)
qed

lemmas decode_steps = good_alphabet_nth sextets unsextet

lemma decode64_encode64_raw:
  "good_alphabet al \<Longrightarrow> decode64 al False [] (encode64 al s) = Some s"
  by (induction al s rule: encode64.induct) (simp_all add: decode_steps)

lemma good_alphabet_pad: "good_alphabet al \<Longrightarrow> index_of al CHR ''='' = None"
  by (simp add: index_of_None good_alphabet_def)

lemma decode64_encode64_pad:
  "good_alphabet al \<Longrightarrow>
   decode64 al True [] (encode64 al s @ replicate ((3 - length s mod 3) mod 3) CHR ''='') = Some s"
  by (induction al s rule: encode64.induct)
    (simp_all add: decode_steps good_alphabet_pad numeral_2_eq_2)

lemma RawURL_roundtrip [simp]: "RawURLDecode (RawURLEncode s) = Some s"
  by (simp add: RawURLDecode_def RawURLEncode_def decode64_encode64_raw)

lemma Std_roundtrip [simp]: "StdDecode (StdEncode s) = Some s"
  by (simp add: StdDecode_def StdEncode_def decode64_encode64_pad)

lemma encode64_alphabet: "good_alphabet al \<Longrightarrow> set (encode64 al s) \<subseteq> set al"
  by (induction al s rule: encode64.induct)
    (auto simp: good_alphabet_def sextets intro!: nth_mem)

lemma RawURLEncode_no_sep:
  "CHR ''.'' \<notin> set (RawURLEncode s)" "CHR ''$'' \<notin> set (RawURLEncode s)"
proof -
  have "set (RawURLEncode s) \<subseteq> set url_alphabet"
    unfolding RawURLEncode_def by (rule encode64_alphabet) simp
  then show "CHR ''.'' \<notin> set (RawURLEncode s)" "CHR ''$'' \<notin> set (RawURLEncode s)"
    by (auto simp: url_alphabet_def)
qed

end
