(* ===== verification/Go_Path.thy ===== *)
theory Go_Path
  imports Go_Encoding
begin

text \<open>
  \<open>url.PathEscape\<close> and the lexical functions \<open>Base\<close>, \<open>Clean\<close> and \<open>Join\<close> of \<open>path/filepath\<close> on
  Unix. A path is read as its list of components, which is what \<open>Clean\<close> normalises: the facts
  below reduce statements about where a joined path points to statements about components.
\<close>

subsection \<open>url.PathEscape\<close>

definition upper_hex :: string where
  "upper_hex = ''0123456789ABCDEF''"

definition path_safe :: "char \<Rightarrow> bool" where
  "path_safe c \<longleftrightarrow> in_range 97 122 c \<or> in_range 65 90 c \<or> in_range 48 57 c \<or> c \<in> set ''-_.~$&+=:@''"

definition escape_char :: "char \<Rightarrow> string" where
  "escape_char c =
     (if path_safe c then [c]
      else [CHR ''%'', upper_hex ! (byte c div 16), upper_hex ! (byte c mod 16)])"

definition PathEscape :: "string \<Rightarrow> string" where
  "PathEscape s = concat (map escape_char s)"

lemma upper_hex_inj: "i < 16 \<Longrightarrow> j < 16 \<Longrightarrow> upper_hex ! i = upper_hex ! j \<longleftrightarrow> i = j"
  by (rule nth_eq_iff_index_eq) (simp_all add: upper_hex_def)

lemma byte_hex: "byte c div 16 < 16" "byte c mod 16 < 16"
  by (simp_all add: byte_div)

lemma upper_hex_safe: "i < 16 \<Longrightarrow> path_safe (upper_hex ! i)"
proof -
  assume "i < 16"
  moreover have "length upper_hex = 16" by (simp add: upper_hex_def)
  ultimately have "upper_hex ! i \<in> set upper_hex" by simp
  then show ?thesis by (auto simp: upper_hex_def path_safe_def byte_def)
qed

lemma percent_unsafe: "\<not> path_safe CHR ''%''"
  by (simp add: path_safe_def byte_def)

lemma escape_char_prefix_inj: "escape_char c @ s = escape_char d @ t \<Longrightarrow> c = d \<and> s = t"
proof -
  assume eq: "escape_char c @ s = escape_char d @ t"
  have "path_safe c = path_safe d"
    using eq percent_unsafe by (auto simp: escape_char_def split: if_splits)
  moreover have "c = d" if "\<not> path_safe c" "\<not> path_safe d"
  proof -
    from eq that have "byte c div 16 = byte d div 16" "byte c mod 16 = byte d mod 16"
      by (auto simp: escape_char_def upper_hex_inj byte_hex)
    then have "byte c = byte d" by (metis div_mult_mod_eq)
    then show ?thesis by simp
  qed
  ultimately show ?thesis
    using eq by (cases "path_safe c") (auto simp: escape_char_def)
qed

lemma PathEscape_inj: "PathEscape s = PathEscape t \<longleftrightarrow> s = t"
proof (induction s arbitrary: t)
  case Nil
  then show ?case by (cases t) (auto simp: PathEscape_def escape_char_def)
next
  case (Cons c s)
  show ?case
  proof (cases t)
    case Nil
    then show ?thesis by (auto simp: PathEscape_def escape_char_def)
  next
    case t: (Cons d u)
    have "PathEscape (c # s) = PathEscape t \<Longrightarrow> c = d \<and> PathEscape s = PathEscape u"
      unfolding t PathEscape_def using escape_char_prefix_inj by fastforce
    with Cons.IH t show ?thesis by auto
  qed
qed

lemma PathEscape_safe: "c \<in> set (PathEscape s) \<Longrightarrow> path_safe c \<or> c = CHR ''%''"
  by (auto simp: PathEscape_def escape_char_def upper_hex_safe byte_hex split: if_splits)

lemma PathEscape_no_slash: "CHR ''/'' \<notin> set (PathEscape s)"
  using PathEscape_safe [of "CHR ''/''" s] by (auto simp: path_safe_def byte_def)

subsection \<open>filepath.Base, filepath.Clean, filepath.Join\<close>

definition filepath_Base :: "string \<Rightarrow> string" where
  "filepath_Base path =
     (if path = [] then ''.''
      else let p = rev (dropWhile (\<lambda>c. c = CHR ''/'') (rev path));
               b = rev (takeWhile (\<lambda>c. c \<noteq> CHR ''/'') (rev p))
           in if b = [] then ''/'' else b)"

definition rooted :: "string \<Rightarrow> bool" where
  "rooted p \<longleftrightarrow> HasPrefix p ''/''"

text \<open>
  The loop of \<open>Clean\<close> over the elements of a path: empty elements and \<open>.\<close> are dropped, \<open>..\<close>
  removes the element before it; at the start of a rooted path \<open>..\<close> is dropped, at the start
  of a relative one it stays. The accumulator is the output so far, last element first.
\<close>

fun clean_elems :: "bool \<Rightarrow> string list \<Rightarrow> string list \<Rightarrow> string list" where
  "clean_elems r acc [] = rev acc"
| "clean_elems r acc (e # es) =
     (if e = [] \<or> e = ''.'' then clean_elems r acc es
      else if e = ''..'' then
        (case acc of
           [] \<Rightarrow> if r then clean_elems r [] es else clean_elems r [e] es
         | x # xs \<Rightarrow> if x = ''..'' then clean_elems r (e # acc) es else clean_elems r xs es)
      else clean_elems r (e # acc) es)"

definition path_elems :: "string \<Rightarrow> string list" where
  "path_elems p = clean_elems (rooted p) [] (Split p CHR ''/'')"

definition filepath_Clean :: "string \<Rightarrow> string" where
  "filepath_Clean p =
     (let body = Join (path_elems p) ''/''
      in if rooted p then ''/'' @ body else if body = [] then ''.'' else body)"

definition filepath_Join :: "string \<Rightarrow> string \<Rightarrow> string" where
  "filepath_Join a b =
     (if a \<noteq> [] then filepath_Clean (a @ ''/'' @ b)
      else if b \<noteq> [] then filepath_Clean b else [])"

text \<open>An element that \<open>Clean\<close> keeps as it is wherever it stands.\<close>

definition plain_elem :: "string \<Rightarrow> bool" where
  "plain_elem e \<longleftrightarrow> e \<noteq> [] \<and> e \<noteq> ''.'' \<and> e \<noteq> ''..'' \<and> CHR ''/'' \<notin> set e"

lemma clean_elems_snoc: "plain_elem e \<Longrightarrow> clean_elems r acc (es @ [e]) = clean_elems r acc es @ [e]"
  by (induction r acc es rule: clean_elems.induct) (auto simp: plain_elem_def split: list.split)

lemma Split_sep_append:
  "Split (p @ c # q) c = Split p c @ Split q c"
proof (induction p)
  case (Cons x p)
  then show ?case by (cases "Split p c") auto
qed simp

lemma rooted_append: "p \<noteq> [] \<Longrightarrow> rooted (p @ q) = rooted p"
  by (cases p) (auto simp: rooted_def HasPrefix_def)

lemma path_elems_append:
  assumes "p \<noteq> []" and "plain_elem e"
  shows "path_elems (p @ ''/'' @ e) = path_elems p @ [e]"
proof -
  have "Split (p @ ''/'' @ e) CHR ''/'' = Split p CHR ''/'' @ [e]"
    using assms(2) Split_sep_append [of p "CHR ''/''" e] by (simp add: plain_elem_def Split_single)
  then show ?thesis
    using assms by (simp add: path_elems_def rooted_append clean_elems_snoc)
qed

text \<open>
  What the loop keeps in its accumulator: \<open>..\<close> elements at the bottom only, none in a rooted
  path, and elements with another name above them. The loop leaves such a list as it is.
\<close>

fun clean_shape :: "bool \<Rightarrow> string list \<Rightarrow> bool" where
  "clean_shape r [] = True"
| "clean_shape r (x # xs) =
     (if x = ''..'' then \<not> r \<and> set xs \<subseteq> {''..''} else x \<noteq> [] \<and> x \<noteq> ''.'' \<and> clean_shape r xs)"

lemma clean_elems_shape: "clean_shape r acc \<Longrightarrow> clean_shape r (rev (clean_elems r acc es))"
  by (induction r acc es rule: clean_elems.induct) (auto split: list.split)

lemma clean_elems_keep:
  "e \<noteq> [] \<Longrightarrow> e \<noteq> ''.'' \<Longrightarrow> e \<noteq> ''..'' \<Longrightarrow> clean_elems r acc (es @ [e]) = clean_elems r acc es @ [e]"
  by (induction r acc es rule: clean_elems.induct) (auto split: list.split)

lemma clean_elems_ups:
  "set es \<subseteq> {''..''} \<Longrightarrow> set acc \<subseteq> {''..''} \<Longrightarrow> clean_elems False acc es = rev acc @ es"
  by (induction es arbitrary: acc) (auto split: list.split)

lemma clean_elems_clean: "clean_shape r (rev es) \<Longrightarrow> clean_elems r [] es = es"
proof (induction es rule: rev_induct)
  case (snoc e es)
  then show ?case
    by (cases "e = ''..''") (auto simp: clean_elems_keep clean_elems_ups)
qed simp

lemma clean_elems_set: "set (clean_elems r acc es) \<subseteq> set acc \<union> set es"
  by (induction r acc es rule: clean_elems.induct) (auto split: list.splits)

lemma path_elems_no_slash: "e \<in> set (path_elems p) \<Longrightarrow> CHR ''/'' \<notin> set e"
  using clean_elems_set [of "rooted p" "[]" "Split p CHR ''/''"] Split_no_sep
  unfolding path_elems_def by fastforce

lemma path_elems_shape: "clean_shape (rooted p) (rev (path_elems p))"
  unfolding path_elems_def by (rule clean_elems_shape) simp

lemma rooted_Cons: "rooted (x # p) \<longleftrightarrow> x = CHR ''/''"
  by (auto simp: rooted_def HasPrefix_def)

lemma not_rooted_Nil [simp]: "\<not> rooted []"
  by (simp add: rooted_def HasPrefix_def)

lemma Join_not_rooted:
  assumes "clean_shape r (rev es)" and "\<And>e. e \<in> set es \<Longrightarrow> CHR ''/'' \<notin> set e" and "es \<noteq> []"
  shows "Join es ''/'' \<noteq> [] \<and> \<not> rooted (Join es ''/'')"
proof -
  have ne: "e \<noteq> []" if "clean_shape r es'" "e \<in> set es'" for e es'
    using that by (induction es') (auto split: if_splits)
  obtain e es' where es: "es = e # es'" using assms(3) by (cases es) auto
  with ne [OF assms(1), of e] obtain c s where "e = c # s" by (cases e) auto
  with assms(2) [of e] es show ?thesis by (cases es') (auto simp: rooted_Cons)
qed

lemma Clean_normal:
  assumes "clean_shape (rooted p) (rev es)" and "\<And>e. e \<in> set es \<Longrightarrow> CHR ''/'' \<notin> set e"
    and "es = path_elems p"
  shows "rooted (filepath_Clean p) = rooted p \<and> path_elems (filepath_Clean p) = es"
proof (cases "es = []")
  case True
  have "path_elems ''/'' = []" "path_elems ''.'' = []" "rooted ''/''" "\<not> rooted ''.''"
    by (simp_all add: path_elems_def rooted_def HasPrefix_def)
  with True assms(3) show ?thesis by (simp add: filepath_Clean_def Let_def)
next
  case False
  note nr = Join_not_rooted [OF assms(1,2) False]
  have sp: "Split (Join es ''/'') CHR ''/'' = es"
    using Split_Join [OF False assms(2)] by simp
  show ?thesis
  proof (cases "rooted p")
    case True
    have "path_elems (''/'' @ Join es ''/'') = clean_elems True [] es"
      by (simp add: path_elems_def rooted_Cons sp)
    also have "\<dots> = es" using assms(1) True by (simp add: clean_elems_clean)
    finally have "path_elems (''/'' @ Join es ''/'') = es" .
    with True assms(3) show ?thesis
      by (simp add: filepath_Clean_def Let_def rooted_Cons)
  next
    case nrp: False
    with nr have "path_elems (Join es ''/'') = clean_elems False [] es"
      by (simp add: path_elems_def sp)
    also have "\<dots> = es" using assms(1) nrp by (simp add: clean_elems_clean)
    finally have "path_elems (Join es ''/'') = es" .
    with nrp nr assms(3) show ?thesis
      by (simp add: filepath_Clean_def Let_def)
  qed
qed

text \<open>\<open>Clean\<close> changes neither the elements nor whether the path is rooted.\<close>

lemma rooted_Clean [simp]: "rooted (filepath_Clean p) = rooted p"
  and path_elems_Clean [simp]: "path_elems (filepath_Clean p) = path_elems p"
  using Clean_normal [OF path_elems_shape path_elems_no_slash refl, of p] by simp_all

lemma filepath_Clean_not_Nil [simp]: "filepath_Clean p \<noteq> []"
  by (simp add: filepath_Clean_def Let_def)

lemma path_elems_Join:
  "p \<noteq> [] \<Longrightarrow> plain_elem e \<Longrightarrow> path_elems (filepath_Join p e) = path_elems p @ [e]"
  and rooted_Join: "p \<noteq> [] \<Longrightarrow> rooted (filepath_Join p e) = rooted p"
  by (simp_all add: filepath_Join_def path_elems_append [simplified] rooted_append)

lemma filepath_Join_not_Nil: "p \<noteq> [] \<Longrightarrow> filepath_Join p e \<noteq> []"
  by (simp add: filepath_Join_def)

text \<open>\<open>Base\<close> leaves no separator except in the base of the root itself.\<close>

lemma filepath_Base_no_slash: "CHR ''/'' \<in> set (filepath_Base p) \<Longrightarrow> filepath_Base p = ''/''"
  by (auto simp: filepath_Base_def Let_def dest: set_takeWhileD split: if_splits)

end
