(* ===== verification/Object_Storage.thy ===== *)
theory Object_Storage
  imports Go_Path
begin

text \<open>
  Object storage of the Document Intake service: the interfaces \<open>ObjectStorage\<close> and
  \<open>DirectUploadStorage\<close> and the local implementation (\<open>store/store.go\<close>), and the
  Cloudflare R2 implementation (\<open>store/r2.go\<close>) over an S3 client, which is a parameter.
\<close>

record ObjectHead =
  oh_SizeBytes :: int
  oh_Checksum :: string

text \<open>
  An operation returns \<open>Inl\<close> the error's text or \<open>Inr\<close> its result, with the new state of the
  storage. \<open>PresignPut\<close> returns the URL, the storage reference and the expiry.
\<close>

record 'o direct_iface =
  di_PresignPut :: "time \<Rightarrow> string \<Rightarrow> string \<Rightarrow> string \<Rightarrow> string \<Rightarrow> string \<Rightarrow> duration \<Rightarrow>
    'o \<Rightarrow> (string + string \<times> string \<times> time) \<times> 'o"
  di_Head :: "string \<Rightarrow> 'o \<Rightarrow> string + ObjectHead"

record 'o obj_iface =
  oi_Put :: "string \<Rightarrow> string \<Rightarrow> string \<Rightarrow> string \<Rightarrow> bytes \<Rightarrow> 'o \<Rightarrow> (string + string) \<times> 'o"
  oi_direct :: "'o direct_iface option"

text \<open>The contract of \<open>Put\<close>: a reference it returns holds the content it was given.\<close>

locale object_store =
  fixes obj :: "'o obj_iface" and blob :: "'o \<Rightarrow> string \<rightharpoonup> bytes"
  assumes put_law: "oi_Put obj org doc fname ct content s = (Inr ref, t) \<Longrightarrow> blob t ref = Some content"

subsection \<open>File names and directory segments\<close>

definition file_char :: "char \<Rightarrow> bool" where
  "file_char c \<longleftrightarrow> in_range 97 122 c \<or> in_range 65 90 c \<or> in_range 48 57 c \<or> c \<in> set ''-_. ''"

definition Trim_dots :: "string \<Rightarrow> string" where
  "Trim_dots s =
     rev (dropWhile (\<lambda>c. c = CHR ''.'') (rev (dropWhile (\<lambda>c. c = CHR ''.'') s)))"

definition sanitizeFilename :: "string \<Rightarrow> string" where
  "sanitizeFilename value =
     (let trimmed = TrimSpace value
      in if trimmed = [] then []
         else let base = Trim_dots (filepath_Base trimmed)
              in if base = [] then ''upload.bin''
                 else let base' = map_runes file_char CHR ''_'' base
                      in if base' = [] then ''upload.bin'' else base')"

definition sanitizeSegment :: "'z runtime_scheme \<Rightarrow> string \<Rightarrow> string" where
  "sanitizeSegment rt value =
     (let clean = TrimSpace value
      in if clean = [] then ''unknown'' else hex_encode (take 8 (sha256 rt clean)))"

subsection \<open>Local storage\<close>

text \<open>
  The file system: the files by path, and what the operating system answers. \<open>MkdirAll\<close> on a
  path and \<open>WriteFile\<close> on a path fail with the text given there; a failed \<open>WriteFile\<close> may
  leave the file as it was (\<open>None\<close>) or with part of the content.
\<close>

record local_fs =
  fs_files :: "string \<rightharpoonup> bytes"
  fs_mkdir_err :: "string \<Rightarrow> string option"
  fs_write_err :: "string \<Rightarrow> (string \<times> bytes option) option"
  fs_stat_err :: "string \<Rightarrow> string"

definition os_WriteFile :: "string \<Rightarrow> bytes \<Rightarrow> local_fs \<Rightarrow> string option \<times> local_fs" where
  "os_WriteFile path content fs =
     (case fs_write_err fs path of
        None \<Rightarrow> (None, fs\<lparr>fs_files := (fs_files fs)(path \<mapsto> content)\<rparr>)
      | Some (err, None) \<Rightarrow> (Some err, fs)
      | Some (err, Some part) \<Rightarrow> (Some err, fs\<lparr>fs_files := (fs_files fs)(path \<mapsto> part)\<rparr>))"

definition NewLocalObjectStorage :: "string \<Rightarrow> local_fs \<Rightarrow> string + string" where
  "NewLocalObjectStorage root0 fs =
     (let root = (if TrimSpace root0 = [] then ''./data/documents'' else root0)
      in case fs_mkdir_err fs root of
           Some err \<Rightarrow> Inl err
         | None \<Rightarrow> Inr (filepath_Clean root))"

definition local_Put ::
  "'z runtime_scheme \<Rightarrow> string \<Rightarrow> string \<Rightarrow> string \<Rightarrow> string \<Rightarrow> string \<Rightarrow> bytes \<Rightarrow> local_fs \<Rightarrow> (string + string) \<times> local_fs" where
  "local_Put rt root organizationID documentID filename contentType content fs =
     (let orgDir = filepath_Join root (sanitizeSegment rt organizationID)
      in case fs_mkdir_err fs orgDir of
           Some err \<Rightarrow> (Inl err, fs)
         | None \<Rightarrow>
             let safe = sanitizeFilename filename;
                 safeName = (if safe = [] then ''upload.bin'' else safe);
                 storageRef = filepath_Join orgDir (sanitizeSegment rt documentID @ ''_'' @ safeName)
             in case os_WriteFile storageRef content fs of
                  (Some err, fs') \<Rightarrow> (Inl err, fs')
                | (None, fs') \<Rightarrow> (Inr storageRef, fs'))"

definition local_PresignPut ::
  "'z runtime_scheme \<Rightarrow> string \<Rightarrow> time \<Rightarrow> string \<Rightarrow> string \<Rightarrow> string \<Rightarrow> string \<Rightarrow> string \<Rightarrow> duration \<Rightarrow>
   local_fs \<Rightarrow> (string + string \<times> string \<times> time) \<times> local_fs" where
  "local_PresignPut rt root now organizationID documentID uploadID filename contentType expires fs =
     (let safe = sanitizeFilename filename;
          safeName = (if safe = [] then ''upload.bin'' else safe);
          orgDir = filepath_Join root (sanitizeSegment rt organizationID)
      in case fs_mkdir_err fs orgDir of
           Some err \<Rightarrow> (Inl err, fs)
         | None \<Rightarrow>
             let ref = filepath_Join orgDir
                         (sanitizeSegment rt documentID @ ''_'' @ sanitizeSegment rt uploadID @ ''_'' @ safeName);
                 expiresAt = now + expires
             in (Inr (''file://'' @ ref, ref, expiresAt), fs))"

definition local_Head :: "string \<Rightarrow> local_fs \<Rightarrow> string + ObjectHead" where
  "local_Head storageRef fs =
     (case fs_files fs storageRef of
        None \<Rightarrow> Inl (fs_stat_err fs storageRef)
      | Some content \<Rightarrow> Inr \<lparr>oh_SizeBytes = int (length content), oh_Checksum = []\<rparr>)"

definition local_ops :: "'z runtime_scheme \<Rightarrow> string \<Rightarrow> local_fs obj_iface" where
  "local_ops rt root =
     \<lparr>oi_Put = local_Put rt root,
      oi_direct = Some \<lparr>di_PresignPut = local_PresignPut rt root, di_Head = local_Head\<rparr>\<rparr>"

subsection \<open>Cloudflare R2\<close>

text \<open>
  The S3 client: \<open>PutObject\<close> on a bucket and key, \<open>PresignPutObject\<close>, and \<open>HeadObject\<close> with
  the optional \<open>ContentLength\<close> and \<open>ChecksumSHA256\<close> of its answer.
\<close>

record 'o s3_client =
  s3_PutObject :: "string \<Rightarrow> string \<Rightarrow> bytes \<Rightarrow> string \<Rightarrow> 'o \<Rightarrow> string option \<times> 'o"
  s3_PresignPutObject :: "string \<Rightarrow> string \<Rightarrow> string \<Rightarrow> duration \<Rightarrow> 'o \<Rightarrow> string + string"
  s3_HeadObject :: "string \<Rightarrow> string \<Rightarrow> 'o \<Rightarrow> string + int option \<times> string option"

definition NewR2ObjectStorage :: "'o s3_client option \<Rightarrow> string \<Rightarrow> string + 'o s3_client \<times> string" where
  "NewR2ObjectStorage client bucket =
     (case client of
        None \<Rightarrow> Inl ''r2 client is required''
      | Some c \<Rightarrow> if TrimSpace bucket = [] then Inl ''r2 bucket is required'' else Inr (c, bucket))"

definition r2_put_key :: "'z runtime_scheme \<Rightarrow> string \<Rightarrow> string \<Rightarrow> string \<Rightarrow> bytes \<Rightarrow> string" where
  "r2_put_key rt organizationID documentID filename content =
     ''organizations/'' @ PathEscape organizationID @ ''/documents/'' @ PathEscape documentID @ ''/uploads/''
       @ hex_encode (take 8 (sha256 rt content)) @ ''-'' @ PathEscape (sanitizeFilename filename)"

definition objectKey :: "string \<Rightarrow> string \<Rightarrow> string \<Rightarrow> string \<Rightarrow> string" where
  "objectKey organizationID documentID uploadID filename =
     ''organizations/'' @ PathEscape organizationID @ ''/documents/'' @ PathEscape documentID @ ''/uploads/''
       @ PathEscape uploadID @ ''-'' @ PathEscape (sanitizeFilename filename)"

definition r2_Put ::
  "'z runtime_scheme \<Rightarrow> 'o s3_client \<Rightarrow> string \<Rightarrow> string \<Rightarrow> string \<Rightarrow> string \<Rightarrow> string \<Rightarrow> bytes \<Rightarrow> 'o \<Rightarrow> (string + string) \<times> 'o" where
  "r2_Put rt client bucket organizationID documentID filename contentType content s =
     (let key = r2_put_key rt organizationID documentID filename content
      in case s3_PutObject client bucket key content contentType s of
           (Some err, s') \<Rightarrow> (Inl (''put object: '' @ err), s')
         | (None, s') \<Rightarrow> (Inr key, s'))"

definition r2_PresignPut ::
  "'o s3_client \<Rightarrow> string \<Rightarrow> time \<Rightarrow> string \<Rightarrow> string \<Rightarrow> string \<Rightarrow> string \<Rightarrow> string \<Rightarrow> duration \<Rightarrow>
   'o \<Rightarrow> (string + string \<times> string \<times> time) \<times> 'o" where
  "r2_PresignPut client bucket now organizationID documentID uploadID filename contentType expires s =
     (let key = objectKey organizationID documentID uploadID filename
      in case s3_PresignPutObject client bucket key contentType expires s of
           Inl err \<Rightarrow> (Inl (''presign upload: '' @ err), s)
         | Inr url \<Rightarrow> (Inr (url, key, now + expires), s))"

definition r2_Head :: "'o s3_client \<Rightarrow> string \<Rightarrow> string \<Rightarrow> 'o \<Rightarrow> string + ObjectHead" where
  "r2_Head client bucket storageRef s =
     (case s3_HeadObject client bucket storageRef s of
        Inl err \<Rightarrow> Inl (''head object: '' @ err)
      | Inr (len, chk) \<Rightarrow>
          Inr \<lparr>oh_SizeBytes = (case len of None \<Rightarrow> 0 | Some n \<Rightarrow> n),
               oh_Checksum = (case chk of None \<Rightarrow> [] | Some c \<Rightarrow> c)\<rparr>)"

definition r2_ops :: "'z runtime_scheme \<Rightarrow> 'o s3_client \<Rightarrow> string \<Rightarrow> 'o obj_iface" where
  "r2_ops rt client bucket =
     \<lparr>oi_Put = r2_Put rt client bucket,
      oi_direct = Some \<lparr>di_PresignPut = r2_PresignPut client bucket, di_Head = r2_Head client bucket\<rparr>\<rparr>"

subsection \<open>Names are safe\<close>

lemma file_char_names: "list_all file_char ''upload.bin''" "file_char CHR ''_''"
  by (simp_all add: file_char_def byte_def)

lemma sanitizeFilename_chars: "list_all file_char (sanitizeFilename f)"
proof -
  have "list_all file_char (map_runes file_char CHR ''_'' s)" for s
    using map_runes_set [of _ file_char "CHR ''_''" s] file_char_names(2) unfolding list_all_iff by blast
  then show ?thesis
    using file_char_names(1) unfolding sanitizeFilename_def Let_def by simp
qed

lemma file_char_no_slash: "file_char c \<Longrightarrow> c \<noteq> CHR ''/''"
  by (auto simp: file_char_def byte_def)

lemma sanitizeFilename_Nil: "sanitizeFilename f = [] \<longleftrightarrow> TrimSpace f = []"
  by (auto simp: sanitizeFilename_def Let_def)

definition sha256_length :: "'z runtime_scheme \<Rightarrow> bool" where
  "sha256_length rt \<longleftrightarrow> (\<forall>x. length (sha256 rt x) = 32)"

lemma hex_digit_plain: "c \<in> set hex_digits \<Longrightarrow> c \<noteq> CHR ''/'' \<and> c \<noteq> CHR ''.''"
  by (auto simp: hex_digits_def)

lemma sanitizeSegment_chars: "c \<in> set (sanitizeSegment rt v) \<Longrightarrow> c \<noteq> CHR ''/'' \<and> c \<noteq> CHR ''.''"
  using hex_encode_digits [THEN hex_digit_plain]
  by (auto simp: sanitizeSegment_def Let_def split: if_splits)

lemma plain_elemI: "x \<in> set e \<Longrightarrow> x \<noteq> CHR ''.'' \<Longrightarrow> CHR ''/'' \<notin> set e \<Longrightarrow> plain_elem e"
  by (auto simp: plain_elem_def)

lemma sanitizeSegment_length: "sha256_length rt \<Longrightarrow> sanitizeSegment rt v \<noteq> []"
proof
  assume "sha256_length rt" "sanitizeSegment rt v = []"
  then have "hex_encode (take 8 (sha256 rt (TrimSpace v))) = []"
    by (simp add: sanitizeSegment_def Let_def split: if_splits)
  then have "length (hex_encode (take 8 (sha256 rt (TrimSpace v)))) = 0" by (simp only: list.size)
  then show False using \<open>sha256_length rt\<close> by (simp add: sha256_length_def hex_encode_length)
qed

lemma sanitizeSegment_plain:
  assumes "sha256_length rt" shows "plain_elem (sanitizeSegment rt v)"
proof -
  obtain x where x: "x \<in> set (sanitizeSegment rt v)"
    using sanitizeSegment_length [OF assms, of v] by (meson last_in_set)
  show ?thesis
    using sanitizeSegment_chars [OF x] sanitizeSegment_chars [of "CHR ''/''" rt v]
    by (intro plain_elemI [OF x]) blast+
qed

lemma local_file_plain:
  assumes "CHR ''/'' \<notin> set name" shows "plain_elem (sanitizeSegment rt doc @ ''_'' @ name)"
proof (rule plain_elemI [of "CHR ''_''"])
  show "CHR ''/'' \<notin> set (sanitizeSegment rt doc @ ''_'' @ name)"
    using assms sanitizeSegment_chars [of "CHR ''/''" rt doc] by simp blast
qed simp_all

abbreviation safe_name :: "string \<Rightarrow> string" where
  "safe_name f \<equiv> (if sanitizeFilename f = [] then ''upload.bin'' else sanitizeFilename f)"

lemma safe_name_no_slash: "CHR ''/'' \<notin> set (safe_name f)"
proof (cases "sanitizeFilename f = []")
  case False
  then show ?thesis using sanitizeFilename_chars [of f] file_char_no_slash unfolding list_all_iff by auto
qed simp

lemma local_ref_elems:
  assumes "sha256_length rt" and "root \<noteq> []" and "CHR ''/'' \<notin> set name"
  shows "path_elems (filepath_Join (filepath_Join root (sanitizeSegment rt org)) (sanitizeSegment rt doc @ ''_'' @ name))
      = path_elems root @ [sanitizeSegment rt org, sanitizeSegment rt doc @ ''_'' @ name]" (is ?elems)
    and "rooted (filepath_Join (filepath_Join root (sanitizeSegment rt org)) (sanitizeSegment rt doc @ ''_'' @ name))
      = rooted root" (is ?rooted)
proof -
  have dir: "filepath_Join root (sanitizeSegment rt org) \<noteq> []"
    by (rule filepath_Join_not_Nil [OF assms(2)])
  show ?elems
    unfolding path_elems_Join [OF dir local_file_plain [OF assms(3)]]
      path_elems_Join [OF assms(2) sanitizeSegment_plain [OF assms(1)]] by (simp only: append_assoc append.simps)
  show ?rooted unfolding rooted_Join [OF dir] rooted_Join [OF assms(2)] by (rule refl)
qed

text \<open>
  Property C36. Whatever the organization, the document and the file name of a request are, a
  successful \<open>Put\<close> of the local storage writes exactly one file, whose path is the storage
  root followed by two path elements, the second of which contains no path separator: no
  file name escapes the root directory.
\<close>

theorem local_Put_contained:
  assumes "sha256_length rt" and "NewLocalObjectStorage root0 fs0 = Inr root"
    and "local_Put rt root org doc fname ct content fs = (Inr ref, fs')"
  shows "path_elems ref = path_elems root @ [sanitizeSegment rt org, sanitizeSegment rt doc @ ''_'' @ safe_name fname]
    \<and> rooted ref = rooted root \<and> CHR ''/'' \<notin> set (safe_name fname)
    \<and> fs_files fs' = (fs_files fs)(ref \<mapsto> content)"
proof -
  have root: "root \<noteq> []"
    using assms(2) by (auto simp: NewLocalObjectStorage_def Let_def split: option.splits)
  have ref: "ref = filepath_Join (filepath_Join root (sanitizeSegment rt org))
      (sanitizeSegment rt doc @ ''_'' @ safe_name fname)"
    and fs: "fs_files fs' = (fs_files fs)(ref \<mapsto> content)"
    using assms(3) by (auto simp: local_Put_def os_WriteFile_def Let_def split: option.splits prod.splits)
  show ?thesis
    using local_ref_elems [OF assms(1) root safe_name_no_slash] safe_name_no_slash fs
    unfolding ref by (intro conjI)
qed

interpretation local: object_store "local_ops rt root" fs_files
  by unfold_locales
    (auto simp: local_ops_def local_Put_def os_WriteFile_def Let_def split: option.splits prod.splits if_splits)

subsection \<open>Object keys keep tenants apart\<close>

lemma split_at_sep:
  "c \<notin> set a \<Longrightarrow> c \<notin> set b \<Longrightarrow> a @ c # x = b @ c # y \<Longrightarrow> a = b \<and> x = y"
  by (induction a arbitrary: b) (case_tac b; auto)+

text \<open>
  Two presigned uploads share an object key only when they are of the same
  organization and the same document; and when their upload IDs have the same escaped length,
  as the IDs the service generates do, also of the same upload.
\<close>

theorem objectKey_separates:
  assumes "objectKey org doc up f = objectKey org' doc' up' f'"
  shows "org = org' \<and> doc = doc' \<and> (length (PathEscape up) \<noteq> length (PathEscape up') \<or> up = up')"
proof -
  have eq: "PathEscape org @ CHR ''/'' # ''documents/'' @ PathEscape doc @ CHR ''/'' # ''uploads/'' @ PathEscape up @ ''-'' @ PathEscape (sanitizeFilename f)
      = PathEscape org' @ CHR ''/'' # ''documents/'' @ PathEscape doc' @ CHR ''/'' # ''uploads/'' @ PathEscape up' @ ''-'' @ PathEscape (sanitizeFilename f')"
    using assms by (simp add: objectKey_def)
  note org = split_at_sep [OF PathEscape_no_slash PathEscape_no_slash eq]
  then have eq2: "PathEscape doc @ CHR ''/'' # ''uploads/'' @ PathEscape up @ ''-'' @ PathEscape (sanitizeFilename f)
      = PathEscape doc' @ CHR ''/'' # ''uploads/'' @ PathEscape up' @ ''-'' @ PathEscape (sanitizeFilename f')"
    by simp
  note doc = split_at_sep [OF PathEscape_no_slash PathEscape_no_slash eq2]
  have up: "PathEscape up = PathEscape up'" if "length (PathEscape up) = length (PathEscape up')"
    using doc that by simp
  from org doc up show ?thesis
    using PathEscape_inj by blast
qed

theorem objectKey_separates_witness:
  "objectKey ''a/b'' ''d1'' ''u1'' ''x/f.pdf'' = objectKey ''a/b'' ''d1'' ''u1'' ''f.pdf''
   \<and> ''d1'' = ''d1''"
  using objectKey_separates [of "''a/b''" "''d1''" "''u1''" "''x/f.pdf''" "''a/b''" "''d1''" "''u1''" "''f.pdf''"]
  by code_simp

end
