(* ===== verification/Go_Numeric.thy ===== *)
theory Go_Numeric
  imports Go_Prelude Complex_Main "HOL-Library.Signed_Division" "HOL-Library.Word"
begin

text \<open>
  Go's \<open>float64\<close>, the duration arithmetic of package \<open>time\<close>, and the 64-bit counters of
  \<open>sync/atomic\<close>.

  A \<open>float64\<close> is a NaN, an infinity or a finite rational (the sign of zero plays no part in
  the code). Every arithmetic operation on finite values is the exact operation followed by
  the rounding \<open>round64\<close>, a field of the runtime: IEEE 754 arithmetic is correctly rounded, and
  \<open>correct_rounding\<close> lists what the theorems use of the rounding function.
\<close>

datatype float64 = NaN | PosInf | NegInf | Fin rat

record float_runtime = runtime +
  round64 :: "rat \<Rightarrow> float64"

fun fadd :: "(rat \<Rightarrow> float64) \<Rightarrow> float64 \<Rightarrow> float64 \<Rightarrow> float64" where
  "fadd rnd NaN y = NaN"
| "fadd rnd x NaN = NaN"
| "fadd rnd PosInf NegInf = NaN"
| "fadd rnd NegInf PosInf = NaN"
| "fadd rnd PosInf y = PosInf"
| "fadd rnd x PosInf = PosInf"
| "fadd rnd NegInf y = NegInf"
| "fadd rnd x NegInf = NegInf"
| "fadd rnd (Fin a) (Fin b) = rnd (a + b)"

definition inf_of_sign :: "rat \<Rightarrow> float64" where
  "inf_of_sign a = (if 0 < a then PosInf else if a < 0 then NegInf else NaN)"

fun fmul :: "(rat \<Rightarrow> float64) \<Rightarrow> float64 \<Rightarrow> float64 \<Rightarrow> float64" where
  "fmul rnd NaN y = NaN"
| "fmul rnd x NaN = NaN"
| "fmul rnd PosInf PosInf = PosInf"
| "fmul rnd PosInf NegInf = NegInf"
| "fmul rnd NegInf PosInf = NegInf"
| "fmul rnd NegInf NegInf = PosInf"
| "fmul rnd PosInf (Fin b) = inf_of_sign b"
| "fmul rnd NegInf (Fin b) = inf_of_sign (- b)"
| "fmul rnd (Fin a) PosInf = inf_of_sign a"
| "fmul rnd (Fin a) NegInf = inf_of_sign (- a)"
| "fmul rnd (Fin a) (Fin b) = rnd (a * b)"

fun fneg :: "float64 \<Rightarrow> float64" where
  "fneg NaN = NaN"
| "fneg PosInf = NegInf"
| "fneg NegInf = PosInf"
| "fneg (Fin a) = Fin (- a)"

definition fsub :: "(rat \<Rightarrow> float64) \<Rightarrow> float64 \<Rightarrow> float64 \<Rightarrow> float64" where
  "fsub rnd x y = fadd rnd x (fneg y)"

fun fless :: "float64 \<Rightarrow> float64 \<Rightarrow> bool" where
  "fless NaN y = False"
| "fless x NaN = False"
| "fless (Fin a) (Fin b) = (a < b)"
| "fless NegInf y = (y \<noteq> NegInf)"
| "fless x NegInf = False"
| "fless PosInf y = False"
| "fless x PosInf = True"

definition fle :: "float64 \<Rightarrow> float64 \<Rightarrow> bool" where
  "fle x y \<longleftrightarrow> x \<noteq> NaN \<and> y \<noteq> NaN \<and> (x = y \<or> fless x y)"

text \<open>The built-in \<open>min\<close> on floats: NaN if an argument is NaN.\<close>

definition fmin :: "float64 \<Rightarrow> float64 \<Rightarrow> float64" where
  "fmin x y = (if x = NaN \<or> y = NaN then NaN else if fless y x then y else x)"

definition float_of_int :: "(rat \<Rightarrow> float64) \<Rightarrow> int \<Rightarrow> float64" where
  "float_of_int rnd i = rnd (of_int i)"

subsection \<open>Rounding\<close>

text \<open>
  A correctly rounding \<open>float64\<close>: monotone, exact on the integers up to \<open>2 ^ 53\<close> and on every
  value it returns, and finite on every value of the range of \<open>uint64\<close>; being monotone it is
  never NaN.
\<close>

definition correct_rounding :: "(rat \<Rightarrow> float64) \<Rightarrow> bool" where
  "correct_rounding rnd \<longleftrightarrow>
     (\<forall>a b. a \<le> b \<longrightarrow> fle (rnd a) (rnd b))
     \<and> (\<forall>i. \<bar>i\<bar> \<le> 2 ^ 53 \<longrightarrow> rnd (of_int i) = Fin (of_int i))
     \<and> (\<forall>a x. rnd a = Fin x \<longrightarrow> rnd x = Fin x)
     \<and> (\<forall>a. \<bar>a\<bar> \<le> 2 ^ 64 \<longrightarrow> (\<exists>x. rnd a = Fin x))"

lemma correct_rounding_Fin: "correct_rounding Fin"
  by (auto simp: correct_rounding_def fle_def)

lemma correct_rounding_mono: "correct_rounding rnd \<Longrightarrow> a \<le> b \<Longrightarrow> fle (rnd a) (rnd b)"
  by (simp add: correct_rounding_def)

lemma correct_rounding_int: "correct_rounding rnd \<Longrightarrow> \<bar>i\<bar> \<le> 2 ^ 53 \<Longrightarrow> rnd (of_int i) = Fin (of_int i)"
  by (simp add: correct_rounding_def)

lemma correct_rounding_0: "correct_rounding rnd \<Longrightarrow> rnd 0 = Fin 0"
  using correct_rounding_int [of rnd 0] by simp

lemma correct_rounding_1: "correct_rounding rnd \<Longrightarrow> rnd 1 = Fin 1"
  using correct_rounding_int [of rnd 1] by simp

lemma correct_rounding_fix: "correct_rounding rnd \<Longrightarrow> rnd a = Fin x \<Longrightarrow> rnd x = Fin x"
  by (simp add: correct_rounding_def)

lemma correct_rounding_finite: "correct_rounding rnd \<Longrightarrow> \<bar>a\<bar> \<le> 2 ^ 64 \<Longrightarrow> \<exists>x. rnd a = Fin x"
  by (simp add: correct_rounding_def)

lemma fle_refl [simp]: "x \<noteq> NaN \<Longrightarrow> fle x x"
  by (simp add: fle_def)

lemma fle_Fin [simp]: "fle (Fin a) (Fin b) \<longleftrightarrow> a \<le> b"
  by (auto simp: fle_def)

lemma fle_Fin_inf [simp]:
  "fle (Fin a) PosInf" "\<not> fle (Fin a) NegInf" "\<not> fle (Fin a) NaN" "fle NegInf (Fin a)"
  "\<not> fle PosInf (Fin a)" "\<not> fle NaN x"
  by (simp_all add: fle_def)

lemma fle_trans: "fle x y \<Longrightarrow> fle y z \<Longrightarrow> fle x z"
  by (cases x; cases y; cases z) (auto simp: fle_def)

lemma fle_not_NaN: "fle x y \<Longrightarrow> x \<noteq> NaN \<and> y \<noteq> NaN"
  by (simp add: fle_def)

lemma not_fless_fle: "x \<noteq> NaN \<Longrightarrow> y \<noteq> NaN \<Longrightarrow> \<not> fless x y \<Longrightarrow> fle y x"
  by (cases x; cases y) (auto simp: fle_def)

lemma fle_not_fless: "fle y x \<Longrightarrow> \<not> fless x y"
  by (cases x; cases y) (auto simp: fle_def)

lemma fle_between: "fle (Fin a) x \<Longrightarrow> fle x (Fin b) \<Longrightarrow> \<exists>c. x = Fin c \<and> a \<le> c \<and> c \<le> b"
  by (cases x) (auto simp: fle_def)

lemma fmin_le: "x \<noteq> NaN \<Longrightarrow> y \<noteq> NaN \<Longrightarrow> fle (fmin x y) x \<and> fle (fmin x y) y"
  by (cases x; cases y) (auto simp: fmin_def fle_def)

subsection \<open>Durations\<close>

definition max_int64 :: int where "max_int64 = 2 ^ 63 - 1"
definition min_int64 :: int where "min_int64 = - (2 ^ 63)"

text \<open>\<open>Time.Sub\<close> saturates at the ends of \<open>int64\<close>.\<close>

definition time_Sub :: "time \<Rightarrow> time \<Rightarrow> duration" where
  "time_Sub t u = max min_int64 (min max_int64 (t - u))"

text \<open>\<open>Duration.Seconds\<close>: whole seconds plus the rest over \<open>1e9\<close>.\<close>

definition duration_Seconds :: "(rat \<Rightarrow> float64) \<Rightarrow> duration \<Rightarrow> float64" where
  "duration_Seconds rnd d =
     fadd rnd (float_of_int rnd (d sdiv second)) (rnd (of_int (d smod second) / 1000000000))"

lemma time_Sub_nonneg: "u \<le> t \<Longrightarrow> 0 \<le> time_Sub t u"
  by (simp add: time_Sub_def max_int64_def min_int64_def)

lemma time_Sub_self [simp]: "time_Sub t t = 0"
  by (simp add: time_Sub_def max_int64_def min_int64_def)

lemma duration_Seconds_0: "correct_rounding rnd \<Longrightarrow> duration_Seconds rnd 0 = Fin 0"
  by (simp add: duration_Seconds_def float_of_int_def correct_rounding_0 signed_divide_int_def signed_modulo_int_def)

lemma fadd_nonneg:
  "correct_rounding rnd \<Longrightarrow> fle (Fin 0) x \<Longrightarrow> fle (Fin 0) y \<Longrightarrow> fle (Fin 0) (fadd rnd x y)"
  using correct_rounding_mono [of rnd 0] correct_rounding_0 [of rnd]
  by (cases x; cases y) auto

lemma fmul_nonneg:
  "correct_rounding rnd \<Longrightarrow> fle (Fin 0) x \<Longrightarrow> 0 < r \<Longrightarrow> fle (Fin 0) (fmul rnd x (Fin r))"
  using correct_rounding_mono [of rnd 0] correct_rounding_0 [of rnd]
  by (cases x) (auto simp: inf_of_sign_def)

text \<open>
  With exact arithmetic (the rounding is the identity) a duration below the saturation of
  \<open>time_Sub\<close> has its exact number of seconds.
\<close>

lemma duration_Seconds_exact: "duration_Seconds Fin d = Fin (of_int d / 1000000000)"
proof -
  have "(of_int d :: rat) = of_int (d sdiv second) * 1000000000 + of_int (d smod second)"
    using sdiv_mult_smod_eq [of d second] by (metis of_int_add of_int_mult of_int_numeral)
  then show ?thesis by (simp add: duration_Seconds_def float_of_int_def add_divide_distrib)
qed

lemma time_Sub_le: "u \<le> t \<Longrightarrow> time_Sub t u \<le> t - u"
  by (simp add: time_Sub_def max_int64_def min_int64_def)

lemma duration_Seconds_nonneg:
  assumes "correct_rounding rnd" and "0 \<le> d"
  shows "fle (Fin 0) (duration_Seconds rnd d)"
proof -
  have "0 \<le> d sdiv second" and "0 \<le> d smod second"
    using assms(2) by (simp_all add: signed_divide_int_def signed_modulo_int_def sgn_if
        pos_imp_zdiv_nonneg_iff minus_div_mult_eq_mod)
  then have "fle (Fin 0) (rnd (of_int (d sdiv second)))"
    and "fle (Fin 0) (rnd (of_int (d smod second) / 1000000000))"
    using correct_rounding_mono [OF assms(1), of 0] correct_rounding_0 [OF assms(1)] by auto
  then show ?thesis
    unfolding duration_Seconds_def float_of_int_def by (rule fadd_nonneg [OF assms(1)])
qed

subsection \<open>A concrete runtime\<close>

text \<open>
  One instance of the runtime's parameters, for evaluating the definitions on concrete inputs:
  exact arithmetic, a constant digest of the right length, and no non-ASCII letters.
\<close>

definition sample_runtime :: float_runtime where
  "sample_runtime =
     \<lparr>lower_uni = (\<lambda>s. s), sha256 = (\<lambda>_. replicate 32 CHR 0x00), detect_content_type = (\<lambda>_. ''application/pdf''),
      rfc3339 = (\<lambda>t. show_int t), quote = (\<lambda>s. s), round64 = Fin\<rparr>"

lemma sample_runtime_rounding [simp]: "correct_rounding (round64 sample_runtime)" "round64 sample_runtime = Fin"
  by (simp_all add: sample_runtime_def correct_rounding_Fin)

end
