(* ===== verification/Token_Bucket.thy ===== *)
theory Token_Bucket
  imports Go_Numeric
begin

text \<open>
  The contract of a token bucket, which the upload pool of the Document Intake service
  (per organization) and the rate limiter of the API gateway (per client) both implement:
  an operation that admits a request spends one token of the budget, and the budget grows by at
  most \<open>rate\<close> tokens per second. The number of admitted requests of a run is bounded once, from
  the contract.
\<close>

text \<open>
  A run of timed operations: the number of requests it admits, and the state it ends in.
  \<open>step op t s\<close> says whether the operation admitted a request.
\<close>

fun run_ops :: "('op \<Rightarrow> time \<Rightarrow> 's \<Rightarrow> bool \<times> 's) \<Rightarrow> (time \<times> 'op) list \<Rightarrow> 's \<Rightarrow> nat \<times> 's" where
  "run_ops step [] s = (0, s)"
| "run_ops step ((t, op) # xs) s =
     (let (ok, s') = step op t s; (n, s'') = run_ops step xs s'
      in (of_bool ok + n, s''))"

text \<open>The clock does not run backwards during the run, from \<open>t0\<close> to \<open>t1\<close>.\<close>

fun timed :: "time \<Rightarrow> (time \<times> 'op) list \<Rightarrow> time \<Rightarrow> bool" where
  "timed t0 [] t1 \<longleftrightarrow> t0 \<le> t1"
| "timed t0 ((t, op) # xs) t1 \<longleftrightarrow> t0 \<le> t \<and> timed t xs t1"

lemma timed_le: "timed t0 xs t1 \<Longrightarrow> t0 \<le> t1"
  by (induction xs arbitrary: t0) force+

definition accrued :: "rat \<Rightarrow> time \<Rightarrow> time \<Rightarrow> rat" where
  "accrued rate t t' = rate * of_int (t' - t) / 1000000000"

lemma accrued_add: "accrued rate t u + accrued rate u v = accrued rate t v"
  by (simp add: accrued_def field_simps)

lemma accrued_nonneg: "0 \<le> rate \<Longrightarrow> t \<le> t' \<Longrightarrow> 0 \<le> accrued rate t t'"
  by (simp add: accrued_def)

lemma accrued_mono: "0 \<le> rate \<Longrightarrow> t' \<le> t'' \<Longrightarrow> accrued rate t t' \<le> accrued rate t t''"
  by (simp add: accrued_def divide_right_mono mult_left_mono)

locale token_bucket =
  fixes step :: "'op \<Rightarrow> time \<Rightarrow> 's \<Rightarrow> bool \<times> 's"
    and budget :: "time \<Rightarrow> 's \<Rightarrow> rat"
    and invar :: "time \<Rightarrow> 's \<Rightarrow> bool"
    and rate :: rat
  assumes spend: "invar t s \<Longrightarrow> step op t s = (ok, s') \<Longrightarrow>
      invar t s' \<and> budget t s' + of_bool ok \<le> budget t s"
    and wait: "invar t s \<Longrightarrow> t \<le> t' \<Longrightarrow> invar t' s \<and> budget t' s \<le> budget t s + accrued rate t t'"
    and budget_nonneg: "invar t s \<Longrightarrow> 0 \<le> budget t s"
begin

lemma run_admits:
  "invar t0 s \<Longrightarrow> timed t0 xs t1 \<Longrightarrow> run_ops step xs s = (n, s') \<Longrightarrow>
   of_nat n + budget t1 s' \<le> budget t0 s + accrued rate t0 t1 \<and> invar t1 s'"
proof (induction xs arbitrary: t0 s n)
  case Nil
  then show ?case using wait [of t0 s t1] by simp
next
  case (Cons x xs)
  obtain t op where x: "x = (t, op)" by fastforce
  obtain ok s1 where st: "step op t s = (ok, s1)" by fastforce
  obtain m where m: "run_ops step xs s1 = (m, s')" and n: "n = of_bool ok + m"
    using Cons.prems(3) st x by (auto split: prod.splits)
  have le: "t0 \<le> t" "timed t xs t1" using Cons.prems(2) x by simp_all
  note w = wait [OF Cons.prems(1) le(1)]
  with spend [OF _ st] have sp: "invar t s1" "budget t s1 + of_bool ok \<le> budget t s" by auto
  from Cons.IH [OF sp(1) le(2) m] show ?case
    using w sp(2) accrued_add [of rate t0 t t1] unfolding n by simp
qed

lemma run_bounded:
  assumes "invar t0 s" and "timed t0 xs t1" and "run_ops step xs s = (n, s')"
  shows "of_nat n \<le> budget t0 s + accrued rate t0 t1"
  using run_admits [OF assms] budget_nonneg [of t1 s'] by simp

end

end
