(* ===== verification/Upload_Pool.thy ===== *)
theory Upload_Pool
  imports Token_Bucket
begin

text \<open>
  The upload pool of the Document Intake service (\<open>service/upload_pool.go\<close>): a semaphore of
  \<open>Workers\<close> slots, a token bucket per organization, and a circuit breaker on the object
  storage. \<open>acquire\<close>, \<open>success\<close> and \<open>failure\<close> run under the pool's mutex and \<open>release\<close> is a single
  receive from the channel, so each is one step of the interleaving \<open>pool_step\<close>. An operation that reads
  the clock takes the reading as an argument.
\<close>

record UploadPoolConfig =
  pc_Workers :: int
  pc_TenantRate :: float64
  pc_TenantBurst :: int
  pc_FailureThreshold :: int
  pc_OpenDuration :: duration

record tenantBucket =
  tb_tokens :: float64
  tb_last :: time

text \<open>The channel \<open>sem\<close> is the number of elements it holds; its capacity is \<open>config.Workers\<close>.\<close>

record uploadPool =
  up_sem :: nat
  up_config :: UploadPoolConfig
  up_tenants :: "string \<rightharpoonup> tenantBucket"
  up_failures :: int
  up_openUntil :: time

definition newUploadPool :: "UploadPoolConfig \<Rightarrow> string + uploadPool" where
  "newUploadPool config =
     (if pc_Workers config \<le> 0 \<or> fle (pc_TenantRate config) (Fin 0) \<or> pc_TenantBurst config \<le> 0
         \<or> pc_FailureThreshold config \<le> 0 \<or> pc_OpenDuration config \<le> 0
      then Inl ''upload pool configuration values must be positive''
      else Inr \<lparr>up_sem = 0, up_config = config, up_tenants = Map.empty, up_failures = 0,
                up_openUntil = zero_time\<rparr>)"

definition minFloat :: "float64 \<Rightarrow> float64 \<Rightarrow> float64" where
  "minFloat a b = (if fless a b then a else b)"

text \<open>
  The bucket of an organization in \<open>acquire\<close>: the stored one or a full one, which is then refilled.
\<close>

definition start_bucket :: "'z float_runtime_scheme \<Rightarrow> UploadPoolConfig \<Rightarrow> time \<Rightarrow> tenantBucket option \<Rightarrow> tenantBucket" where
  "start_bucket rt config now b =
     (case b of
        None \<Rightarrow> \<lparr>tb_tokens = float_of_int (round64 rt) (pc_TenantBurst config), tb_last = now\<rparr>
      | Some bk \<Rightarrow> bk)"

definition refilled :: "'z float_runtime_scheme \<Rightarrow> UploadPoolConfig \<Rightarrow> time \<Rightarrow> tenantBucket option \<Rightarrow> tenantBucket" where
  "refilled rt config now b =
     (let bucket = start_bucket rt config now b
      in \<lparr>tb_tokens = minFloat (float_of_int (round64 rt) (pc_TenantBurst config))
            (fadd (round64 rt) (tb_tokens bucket)
              (fmul (round64 rt) (duration_Seconds (round64 rt) (time_Sub now (tb_last bucket))) (pc_TenantRate config))),
          tb_last = now\<rparr>)"

text \<open>\<open>None\<close> is success.\<close>

definition acquire ::
  "'z float_runtime_scheme \<Rightarrow> time \<Rightarrow> string \<Rightarrow> uploadPool \<Rightarrow> string option \<times> uploadPool" where
  "acquire rt now organizationID p =
     (if now < up_openUntil p then (Some ''object storage circuit is open'', p)
      else
        let bucket = refilled rt (up_config p) now (up_tenants p organizationID);
            p' = p\<lparr>up_tenants := (up_tenants p)(organizationID \<mapsto> bucket)\<rparr>
        in if fless (tb_tokens bucket) (Fin 1) then (Some ''organization upload rate limit exceeded'', p')
           else if int (up_sem p) < pc_Workers (up_config p) then
             (None,
              p\<lparr>up_sem := Suc (up_sem p),
                up_tenants := (up_tenants p)(organizationID \<mapsto>
                  bucket\<lparr>tb_tokens := fsub (round64 rt) (tb_tokens bucket) (Fin 1)\<rparr>)\<rparr>)
           else (Some ''upload pool is saturated'', p'))"

text \<open>A receive from an empty channel blocks: \<open>None\<close>.\<close>

definition release :: "uploadPool \<Rightarrow> uploadPool option" where
  "release p = (case up_sem p of 0 \<Rightarrow> None | Suc n \<Rightarrow> Some (p\<lparr>up_sem := n\<rparr>))"

definition pool_success :: "uploadPool \<Rightarrow> uploadPool" where
  "pool_success p = p\<lparr>up_failures := 0\<rparr>"

definition pool_failure :: "time \<Rightarrow> uploadPool \<Rightarrow> uploadPool" where
  "pool_failure now p =
     (if up_failures p + 1 \<ge> pc_FailureThreshold (up_config p)
      then p\<lparr>up_openUntil := now + pc_OpenDuration (up_config p), up_failures := 0\<rparr>
      else p\<lparr>up_failures := up_failures p + 1\<rparr>)"

subsection \<open>Interleaved uploads\<close>

text \<open>
  The uploads in flight: each holds a slot from its successful \<open>acquire\<close> to its \<open>release\<close>
  (a \<open>defer\<close> of \<open>UploadDocument\<close>), and reports \<open>success\<close> or \<open>failure\<close> while it holds it. The state
  is the clock, the pool and the organizations of the uploads in flight.
\<close>

inductive pool_step ::
  "'z float_runtime_scheme \<Rightarrow> time \<times> uploadPool \<times> string list \<Rightarrow> time \<times> uploadPool \<times> string list \<Rightarrow> bool"
  for rt :: "'z float_runtime_scheme" where
  step_acquired: "t \<le> t' \<Longrightarrow> acquire rt t' org p = (None, p') \<Longrightarrow> pool_step rt (t, p, act) (t', p', org # act)"
| step_refused: "t \<le> t' \<Longrightarrow> acquire rt t' org p = (Some e, p') \<Longrightarrow> pool_step rt (t, p, act) (t', p', act)"
| step_success: "org \<in> set act \<Longrightarrow> pool_step rt (t, p, act) (t, pool_success p, act)"
| step_failure: "org \<in> set act \<Longrightarrow> t \<le> t' \<Longrightarrow> pool_step rt (t, p, act) (t', pool_failure t' p, act)"
| step_release: "org \<in> set act \<Longrightarrow> release p = Some p' \<Longrightarrow> pool_step rt (t, p, act) (t, p', remove1 org act)"

abbreviation pool_reachable ::
  "'z float_runtime_scheme \<Rightarrow> time \<times> uploadPool \<times> string list \<Rightarrow> time \<times> uploadPool \<times> string list \<Rightarrow> bool" where
  "pool_reachable rt \<equiv> (pool_step rt)\<^sup>*\<^sup>*"

lemma acquire_cases:
  obtains (circuit) "acquire rt now org p = (Some ''object storage circuit is open'', p)" "now < up_openUntil p"
  | (limited) bk where "bk = refilled rt (up_config p) now (up_tenants p org)" "\<not> now < up_openUntil p"
      "acquire rt now org p = (Some ''organization upload rate limit exceeded'',
         p\<lparr>up_tenants := (up_tenants p)(org \<mapsto> bk)\<rparr>)" "fless (tb_tokens bk) (Fin 1)"
  | (saturated) bk where "bk = refilled rt (up_config p) now (up_tenants p org)" "\<not> now < up_openUntil p"
      "acquire rt now org p = (Some ''upload pool is saturated'', p\<lparr>up_tenants := (up_tenants p)(org \<mapsto> bk)\<rparr>)"
      "\<not> fless (tb_tokens bk) (Fin 1)" "pc_Workers (up_config p) \<le> int (up_sem p)"
  | (acquired) bk where "bk = refilled rt (up_config p) now (up_tenants p org)" "\<not> now < up_openUntil p"
      "acquire rt now org p = (None, p\<lparr>up_sem := Suc (up_sem p), up_tenants := (up_tenants p)(org \<mapsto>
         bk\<lparr>tb_tokens := fsub (round64 rt) (tb_tokens bk) (Fin 1)\<rparr>)\<rparr>)"
      "\<not> fless (tb_tokens bk) (Fin 1)" "int (up_sem p) < pc_Workers (up_config p)"
  unfolding acquire_def Let_def by (metis (full_types) linorder_not_less)

subsection \<open>Buckets stay between zero and the burst\<close>

definition bucket_ok :: "'z float_runtime_scheme \<Rightarrow> UploadPoolConfig \<Rightarrow> time \<Rightarrow> tenantBucket \<Rightarrow> bool" where
  "bucket_ok rt config now b \<longleftrightarrow>
     (case tb_tokens b of
        Fin x \<Rightarrow> 0 \<le> x \<and> round64 rt x = Fin x \<and> fle (Fin x) (float_of_int (round64 rt) (pc_TenantBurst config))
      | _ \<Rightarrow> False)
     \<and> tb_last b \<le> now"

definition config_ok :: "UploadPoolConfig \<Rightarrow> bool" where
  "config_ok c \<longleftrightarrow> 0 < pc_Workers c \<and> 0 < pc_TenantBurst c \<and> pc_TenantBurst c \<le> max_int64
     \<and> 0 < pc_FailureThreshold c \<and> 0 < pc_OpenDuration c
     \<and> (\<exists>r. pc_TenantRate c = Fin r \<and> 0 < r)"

definition pool_ok :: "'z float_runtime_scheme \<Rightarrow> time \<Rightarrow> uploadPool \<Rightarrow> bool" where
  "pool_ok rt now p \<longleftrightarrow>
     config_ok (up_config p) \<and> int (up_sem p) \<le> pc_Workers (up_config p)
     \<and> 0 \<le> up_failures p \<and> up_failures p < pc_FailureThreshold (up_config p)
     \<and> (\<forall>org b. up_tenants p org = Some b \<longrightarrow> bucket_ok rt (up_config p) now b)"

lemma burst_float:
  assumes "correct_rounding (round64 rt)" and "config_ok c"
  obtains B where "float_of_int (round64 rt) (pc_TenantBurst c) = Fin B" "1 \<le> B" "round64 rt B = Fin B"
proof -
  have "\<bar>of_int (pc_TenantBurst c)\<bar> \<le> (2 ^ 64 :: rat)"
  proof -
    have "pc_TenantBurst c \<le> 2 ^ 64" and "0 < pc_TenantBurst c"
      using assms(2) by (auto simp: config_ok_def max_int64_def)
    then have "(of_int (pc_TenantBurst c) :: rat) \<le> of_int (2 ^ 64)" by (simp only: of_int_le_iff)
    with \<open>0 < pc_TenantBurst c\<close> show ?thesis by simp
  qed
  then obtain B where B: "round64 rt (of_int (pc_TenantBurst c)) = Fin B"
    using correct_rounding_finite [OF assms(1)] by blast
  moreover have "1 \<le> (of_int (pc_TenantBurst c) :: rat)"
    using assms(2) by (simp add: config_ok_def)
  with correct_rounding_mono [OF assms(1)] correct_rounding_1 [OF assms(1)] B have "1 \<le> B" by (metis fle_Fin)
  ultimately show thesis
    using that correct_rounding_fix [OF assms(1) B] by (simp add: float_of_int_def)
qed

lemma fadd_representable:
  "correct_rounding rnd \<Longrightarrow> fadd rnd (Fin a) x = Fin y \<Longrightarrow> rnd y = Fin y"
  by (cases x) (auto dest: correct_rounding_fix)

lemma bucket_okI:
  "tb_tokens b = Fin x \<Longrightarrow> 0 \<le> x \<Longrightarrow> round64 rt x = Fin x \<Longrightarrow>
   fle (Fin x) (float_of_int (round64 rt) (pc_TenantBurst c)) \<Longrightarrow> tb_last b \<le> now \<Longrightarrow> bucket_ok rt c now b"
  by (simp add: bucket_ok_def)

lemma bucket_okE:
  assumes "bucket_ok rt c now b"
  obtains x where "tb_tokens b = Fin x" "0 \<le> x" "round64 rt x = Fin x"
    "fle (Fin x) (float_of_int (round64 rt) (pc_TenantBurst c))" "tb_last b \<le> now"
  using assms by (auto simp: bucket_ok_def split: float64.splits)

lemma bucket_ok_later: "bucket_ok rt c now b \<Longrightarrow> now \<le> now' \<Longrightarrow> bucket_ok rt c now' b"
  by (auto simp: bucket_ok_def)

lemma refill_nonneg:
  assumes "correct_rounding (round64 rt)" and "config_ok c" and "seen \<le> now"
  shows "fle (Fin 0) (fmul (round64 rt) (duration_Seconds (round64 rt) (time_Sub now seen)) (pc_TenantRate c))"
  using fmul_nonneg [OF assms(1) duration_Seconds_nonneg [OF assms(1) time_Sub_nonneg [OF assms(3)]]] assms(2)
  by (auto simp: config_ok_def)

lemma start_bucket_ok:
  assumes "correct_rounding (round64 rt)" and "config_ok c" and "\<And>bk. b = Some bk \<Longrightarrow> bucket_ok rt c now bk"
  shows "bucket_ok rt c now (start_bucket rt c now b)"
proof (cases b)
  case None
  obtain B where "float_of_int (round64 rt) (pc_TenantBurst c) = Fin B" "1 \<le> B" "round64 rt B = Fin B"
    by (rule burst_float [OF assms(1,2)])
  then show ?thesis by (intro bucket_okI [of _ B]) (simp_all add: start_bucket_def None)
qed (use assms(3) in \<open>simp add: start_bucket_def\<close>)

lemma refilled_ok:
  assumes "correct_rounding (round64 rt)" and "config_ok c" and "\<And>bk. b = Some bk \<Longrightarrow> bucket_ok rt c now bk"
  shows "bucket_ok rt c now (refilled rt c now b)"
proof -
  let ?b = "start_bucket rt c now b"
  let ?add = "fmul (round64 rt) (duration_Seconds (round64 rt) (time_Sub now (tb_last ?b))) (pc_TenantRate c)"
  obtain B where B: "float_of_int (round64 rt) (pc_TenantBurst c) = Fin B" "1 \<le> B" "round64 rt B = Fin B"
    by (rule burst_float [OF assms(1,2)])
  obtain x where x: "tb_tokens ?b = Fin x" "0 \<le> x" "tb_last ?b \<le> now"
    by (rule bucket_okE [OF start_bucket_ok [of rt c b now, OF assms]])
  have sum: "fle (Fin 0) (fadd (round64 rt) (Fin x) ?add)"
    by (rule fadd_nonneg [OF assms(1) _ refill_nonneg [OF assms(1,2) x(3)]]) (simp add: x(2))
  obtain y where y: "minFloat (Fin B) (fadd (round64 rt) (Fin x) ?add) = Fin y" "0 \<le> y" "y \<le> B" "round64 rt y = Fin y"
  proof (cases "fless (Fin B) (fadd (round64 rt) (Fin x) ?add)")
    case True
    then show thesis using that [of B] B by (simp add: minFloat_def)
  next
    case False
    then have "fle (fadd (round64 rt) (Fin x) ?add) (Fin B)"
      using fle_not_NaN [OF sum] by (intro not_fless_fle) auto
    then obtain z where "fadd (round64 rt) (Fin x) ?add = Fin z" "0 \<le> z" "z \<le> B"
      using fle_between [OF sum] by blast
    then show thesis
      using that [of z] False fadd_representable [OF assms(1)] by (simp add: minFloat_def)
  qed
  have "refilled rt c now b = \<lparr>tb_tokens = Fin y, tb_last = now\<rparr>"
    using y(1) B(1) x(1) by (simp add: refilled_def Let_def)
  then show ?thesis using y B(1) by (intro bucket_okI [of _ y]) simp_all
qed

lemma spend_ok:
  assumes "correct_rounding (round64 rt)" and "bucket_ok rt c now b" and "\<not> fless (tb_tokens b) (Fin 1)"
  shows "bucket_ok rt c now (b\<lparr>tb_tokens := fsub (round64 rt) (tb_tokens b) (Fin 1)\<rparr>)"
proof -
  obtain x where x: "tb_tokens b = Fin x" "round64 rt x = Fin x"
      "fle (Fin x) (float_of_int (round64 rt) (pc_TenantBurst c))" "tb_last b \<le> now"
    by (rule bucket_okE [OF assms(2)])
  have ge: "1 \<le> x" using assms(3) x(1) by simp
  have "fle (Fin 0) (round64 rt (x - 1))" "fle (round64 rt (x - 1)) (Fin x)"
    using correct_rounding_mono [OF assms(1), of 0 "x - 1"] correct_rounding_mono [OF assms(1), of "x - 1" x]
      correct_rounding_0 [OF assms(1)] x(2) ge by auto
  then obtain y where y: "round64 rt (x - 1) = Fin y" "0 \<le> y" "y \<le> x"
    using fle_between by blast
  have "fle (Fin y) (float_of_int (round64 rt) (pc_TenantBurst c))"
    using fle_trans [OF _ x(3)] y(3) by simp
  then show ?thesis
    using y x correct_rounding_fix [OF assms(1) y(1)]
    by (intro bucket_okI [of _ y]) (simp_all add: fsub_def)
qed

lemma pool_ok_tenant:
  "pool_ok rt now p \<Longrightarrow> bucket_ok rt (up_config p) now b \<Longrightarrow>
   pool_ok rt now (p\<lparr>up_tenants := (up_tenants p)(org \<mapsto> b)\<rparr>)"
  by (simp add: pool_ok_def)

lemma acquire_config: "up_config (snd (acquire rt now org p)) = up_config p"
  by (cases rule: acquire_cases [where rt = rt and now = now and org = org and p = p]) simp_all

lemma acquire_ok:
  assumes "correct_rounding (round64 rt)" and "pool_ok rt now p" and "acquire rt now org p = (r, p')"
  shows "pool_ok rt now p' \<and> up_sem p' = up_sem p + of_bool (r = None)"
proof -
  have c: "config_ok (up_config p)" using assms(2) by (simp add: pool_ok_def)
  have bk: "bucket_ok rt (up_config p) now (refilled rt (up_config p) now (up_tenants p org))"
    using assms(2) by (intro refilled_ok [OF assms(1) c]) (simp add: pool_ok_def)
  show ?thesis
  proof (cases rule: acquire_cases [where rt = rt and now = now and org = org and p = p])
    case (acquired b)
    then show ?thesis
      using assms(2,3) spend_ok [OF assms(1) bk] by (auto simp: pool_ok_def)
  qed (use assms(2,3) bk in \<open>auto intro: pool_ok_tenant\<close>)
qed

lemma pool_ok_later: "pool_ok rt now p \<Longrightarrow> now \<le> now' \<Longrightarrow> pool_ok rt now' p"
  by (auto simp: pool_ok_def intro: bucket_ok_later)

lemma success_ok: "pool_ok rt now p \<Longrightarrow> pool_ok rt now (pool_success p)"
  by (simp add: pool_ok_def pool_success_def config_ok_def)

lemma failure_ok: "pool_ok rt now p \<Longrightarrow> pool_ok rt now (pool_failure now' p)"
  by (auto simp: pool_ok_def pool_failure_def config_ok_def)

lemma release_ok: "pool_ok rt now p \<Longrightarrow> release p = Some p' \<Longrightarrow> pool_ok rt now p' \<and> up_sem p = Suc (up_sem p')
    \<and> up_config p' = up_config p \<and> up_tenants p' = up_tenants p"
  by (auto simp: pool_ok_def release_def split: nat.splits)

lemma new_pool_ok:
  assumes "newUploadPool cfg = Inr p" and "pc_TenantRate cfg = Fin r" and "pc_TenantBurst cfg \<le> max_int64"
  shows "pool_ok rt now p \<and> up_config p = cfg \<and> up_sem p = 0 \<and> up_tenants p = Map.empty"
  using assms by (auto simp: newUploadPool_def pool_ok_def config_ok_def split: if_splits)

lemma pool_step_ok:
  assumes "correct_rounding (round64 rt)" and "pool_step rt (t, p, act) (t', p', act')"
    and "pool_ok rt t p" and "up_sem p = length act"
  shows "pool_ok rt t' p' \<and> up_sem p' = length act' \<and> up_config p' = up_config p"
  using assms(2)
proof (cases rule: pool_step.cases)
  case (step_acquired org)
  then show ?thesis
    using acquire_ok [OF assms(1) pool_ok_later [OF assms(3)], of t' org] acquire_config [of rt t' org p] assms(4) by auto
next
  case (step_refused org e)
  then show ?thesis
    using acquire_ok [OF assms(1) pool_ok_later [OF assms(3)], of t' org] acquire_config [of rt t' org p] assms(4) by auto
next
  case step_success
  then show ?thesis using success_ok [OF assms(3)] assms(4) by (simp add: pool_success_def)
next
  case step_failure
  then show ?thesis
    using failure_ok [OF pool_ok_later [OF assms(3)]] assms(4) by (simp add: pool_failure_def)
next
  case (step_release org)
  then show ?thesis using release_ok [OF assms(3)] assms(4)
    by (simp add: length_remove1)
qed

lemma pool_reachable_ok:
  assumes "pool_reachable rt x y" and "correct_rounding (round64 rt)"
    and "pool_ok rt (fst x) (fst (snd x))" and "up_sem (fst (snd x)) = length (snd (snd x))"
  shows "pool_ok rt (fst y) (fst (snd y)) \<and> up_sem (fst (snd y)) = length (snd (snd y))
    \<and> up_config (fst (snd y)) = up_config (fst (snd x))"
  using assms(1)
proof (induction rule: rtranclp_induct)
  case (step y z)
  then show ?case
    using pool_step_ok [OF assms(2), of "fst y" "fst (snd y)" "snd (snd y)" "fst z" "fst (snd z)" "snd (snd z)"] by simp
qed (use assms in simp)

text \<open>
  Property C8. In every interleaving of uploads that starts from a new pool with a finite rate,
  the semaphore counts exactly the uploads in flight, there are never more of them than
  \<open>Workers\<close>, the bucket of every organization stays between zero and the burst, the failure counter
  stays below the threshold, and the deferred \<open>release\<close> of an upload in flight never blocks.
\<close>

theorem pool_interleaving_safe:
  assumes "correct_rounding (round64 rt)" and "newUploadPool cfg = Inr p0"
    and "pc_TenantRate cfg = Fin r" and "pc_TenantBurst cfg \<le> max_int64"
    and "pool_reachable rt (t0, p0, []) (t, p, act)"
  shows "up_sem p = length act \<and> int (length act) \<le> pc_Workers cfg
    \<and> (\<forall>org b. up_tenants p org = Some b \<longrightarrow>
          (\<exists>x. tb_tokens b = Fin x \<and> 0 \<le> x \<and> fle (Fin x) (float_of_int (round64 rt) (pc_TenantBurst cfg))))
    \<and> 0 \<le> up_failures p \<and> up_failures p < pc_FailureThreshold cfg
    \<and> (act \<noteq> [] \<longrightarrow> release p \<noteq> None)"
proof -
  note new = new_pool_ok [OF assms(2-4), of rt t0]
  have ok: "pool_ok rt t p" "up_sem p = length act" "up_config p = cfg"
    using pool_reachable_ok [OF assms(5,1)] new by auto
  have "\<exists>x. tb_tokens b = Fin x \<and> 0 \<le> x \<and> fle (Fin x) (float_of_int (round64 rt) (pc_TenantBurst cfg))"
    if "up_tenants p org = Some b" for org b
  proof -
    have "bucket_ok rt cfg t b" using ok that by (auto simp: pool_ok_def)
    then show ?thesis by (auto elim: bucket_okE)
  qed
  with ok show ?thesis
    by (auto simp: pool_ok_def release_def split: nat.splits)
qed

subsection \<open>The rate of an organization\<close>

datatype pool_op = OpAcquire string | OpRelease | OpSuccess | OpFailure

text \<open>An operation at a time, and whether it admitted an upload of the organization \<open>org\<close>.\<close>

fun pool_do :: "'z float_runtime_scheme \<Rightarrow> string \<Rightarrow> pool_op \<Rightarrow> time \<Rightarrow> uploadPool \<Rightarrow> bool \<times> uploadPool" where
  "pool_do rt org (OpAcquire o') t p = (let (r, p') = acquire rt t o' p in (r = None \<and> o' = org, p'))"
| "pool_do rt org OpRelease t p = (False, case release p of None \<Rightarrow> p | Some p' \<Rightarrow> p')"
| "pool_do rt org OpSuccess t p = (False, pool_success p)"
| "pool_do rt org OpFailure t p = (False, pool_failure t p)"

fun fin_part :: "float64 \<Rightarrow> rat" where
  "fin_part (Fin x) = x"
| "fin_part _ = 0"

fun bucket_budget :: "UploadPoolConfig \<Rightarrow> time \<Rightarrow> tenantBucket option \<Rightarrow> rat" where
  "bucket_budget c t None = of_int (pc_TenantBurst c)"
| "bucket_budget c t (Some b) =
     min (of_int (pc_TenantBurst c)) (fin_part (tb_tokens b) + accrued (fin_part (pc_TenantRate c)) (tb_last b) t)"

definition pool_budget :: "string \<Rightarrow> time \<Rightarrow> uploadPool \<Rightarrow> rat" where
  "pool_budget org t p = bucket_budget (up_config p) t (up_tenants p org)"

definition exact_pool :: "'z float_runtime_scheme \<Rightarrow> rat \<Rightarrow> time \<Rightarrow> uploadPool \<Rightarrow> bool" where
  "exact_pool rt r t p \<longleftrightarrow> round64 rt = Fin \<and> pool_ok rt t p \<and> pc_TenantRate (up_config p) = Fin r"

lemma refilled_exact:
  assumes "round64 rt = Fin" and "config_ok c" and "pc_TenantRate c = Fin r"
    and "\<And>bk. b = Some bk \<Longrightarrow> bucket_ok rt c t bk"
  obtains y where "tb_tokens (refilled rt c t b) = Fin y" "tb_last (refilled rt c t b) = t"
    "y \<le> bucket_budget c t b"
proof -
  have r: "0 < r" using assms(2,3) by (auto simp: config_ok_def)
  let ?b = "start_bucket rt c t b"
  obtain x where x: "tb_tokens ?b = Fin x" "tb_last ?b \<le> t"
    using start_bucket_ok [of rt c b t] assms correct_rounding_Fin by (metis bucket_okE)
  let ?y = "min (of_int (pc_TenantBurst c)) (x + of_int (time_Sub t (tb_last ?b)) / 1000000000 * r)"
  have y: "tb_tokens (refilled rt c t b) = Fin ?y"
    using x by (auto simp: refilled_def Let_def assms(1,3) duration_Seconds_exact float_of_int_def minFloat_def)
  have "of_int (time_Sub t (tb_last ?b)) / 1000000000 * r \<le> accrued r (tb_last ?b) t"
  proof -
    have "(of_int (time_Sub t (tb_last ?b)) :: rat) \<le> of_int (t - tb_last ?b)"
      using time_Sub_le [OF x(2)] by (simp only: of_int_le_iff)
    then show ?thesis using r by (simp add: accrued_def mult.commute divide_right_mono)
  qed
  then show thesis
    using x by (intro that [OF y]) (auto simp: refilled_def Let_def start_bucket_def assms(3) split: option.splits)
qed

lemma acquire_spends:
  assumes "exact_pool rt r t p" and "acquire rt t o' p = (res, p')"
  shows "exact_pool rt r t p' \<and> pool_budget org t p' + of_bool (res = None \<and> o' = org) \<le> pool_budget org t p"
proof -
  have ex: "round64 rt = Fin" "pool_ok rt t p" "config_ok (up_config p)" "pc_TenantRate (up_config p) = Fin r"
    using assms(1) by (auto simp: exact_pool_def pool_ok_def)
  have ex': "exact_pool rt r t p'"
    using acquire_ok [OF _ ex(2) assms(2)] correct_rounding_Fin acquire_config [of rt t o' p] ex assms(2)
    by (simp add: exact_pool_def)
  have ok: "\<And>bk. up_tenants p o' = Some bk \<Longrightarrow> bucket_ok rt (up_config p) t bk"
    using ex(2) by (simp add: pool_ok_def)
  obtain y where y: "tb_tokens (refilled rt (up_config p) t (up_tenants p o')) = Fin y"
      "tb_last (refilled rt (up_config p) t (up_tenants p o')) = t" "y \<le> pool_budget o' t p"
    using refilled_exact [OF ex(1,3,4) ok] unfolding pool_budget_def by metis
  have "pool_budget org t p' + of_bool (res = None \<and> o' = org) \<le> pool_budget org t p"
  proof (cases "o' = org")
    case True
    with y assms(2) show ?thesis
      by (cases rule: acquire_cases [where rt = rt and now = t and org = o' and p = p])
        (auto simp: pool_budget_def accrued_def fsub_def ex(1))
  next
    case False
    with assms(2) show ?thesis
      by (cases rule: acquire_cases [where rt = rt and now = t and org = o' and p = p])
        (auto simp: pool_budget_def)
  qed
  with ex' show ?thesis by simp
qed

lemma pool_spends:
  assumes "exact_pool rt r t p" and "pool_do rt org op t p = (ok, p')"
  shows "exact_pool rt r t p' \<and> pool_budget org t p' + of_bool ok \<le> pool_budget org t p"
proof (cases op)
  case (OpAcquire o')
  then show ?thesis
    using assms acquire_spends [OF assms(1), of o' _ _ org] by (auto split: prod.splits)
next
  case OpRelease
  then show ?thesis
    using assms release_ok [of rt t p p'] by (auto simp: exact_pool_def pool_budget_def split: option.splits)
next
  case OpSuccess
  then show ?thesis
    using assms success_ok [of rt t p] by (auto simp: exact_pool_def pool_budget_def pool_success_def)
next
  case OpFailure
  then show ?thesis
    using assms failure_ok [of rt t p t] by (auto simp: exact_pool_def pool_budget_def pool_failure_def split: if_splits)
qed

lemma pool_waits:
  assumes "exact_pool rt r t p" and "t \<le> t'"
  shows "exact_pool rt r t' p \<and> pool_budget org t' p \<le> pool_budget org t p + accrued r t t'"
proof -
  have ex': "exact_pool rt r t' p"
    using assms pool_ok_later by (auto simp: exact_pool_def)
  have "0 < r" using assms(1) by (auto simp: exact_pool_def pool_ok_def config_ok_def)
  then have "0 \<le> accrued r t t'" using assms(2) by (simp add: accrued_nonneg)
  moreover have "fin_part (pc_TenantRate (up_config p)) = r" using assms(1) by (simp add: exact_pool_def)
  ultimately show ?thesis
    using ex' accrued_add [of r "tb_last (the (up_tenants p org))" t t'] unfolding pool_budget_def
    by (cases "up_tenants p org") (auto simp: min_def)
qed

lemma pool_budget_nonneg:
  assumes "exact_pool rt r t p" shows "0 \<le> pool_budget org t p"
proof (cases "up_tenants p org")
  case None
  then show ?thesis using assms by (simp add: pool_budget_def exact_pool_def pool_ok_def config_ok_def)
next
  case (Some b)
  then have "bucket_ok rt (up_config p) t b" "0 < fin_part (pc_TenantRate (up_config p))" "0 < pc_TenantBurst (up_config p)"
    using assms by (auto simp: exact_pool_def pool_ok_def config_ok_def)
  then show ?thesis
    using Some by (auto simp: pool_budget_def elim!: bucket_okE intro!: add_nonneg_nonneg accrued_nonneg)
qed

interpretation pool: token_bucket "pool_do rt org" "pool_budget org" "exact_pool rt r" r
  by unfold_locales (use pool_spends pool_waits pool_budget_nonneg in blast)+


definition sample_pool_config :: UploadPoolConfig where
  "sample_pool_config = \<lparr>pc_Workers = 2, pc_TenantRate = Fin 5, pc_TenantBurst = 1,
     pc_FailureThreshold = 2, pc_OpenDuration = 30 * second\<rparr>"

definition sample_pool :: uploadPool where
  "sample_pool = \<lparr>up_sem = 0, up_config = sample_pool_config, up_tenants = Map.empty, up_failures = 0,
     up_openUntil = zero_time\<rparr>"

lemma sample_pool_new: "newUploadPool sample_pool_config = Inr sample_pool"
  by (simp add: newUploadPool_def sample_pool_def sample_pool_config_def)

lemma sample_acquired:
  "acquire sample_runtime 0 ''acme'' sample_pool =
     (None, sample_pool\<lparr>up_sem := 1, up_tenants := [''acme'' \<mapsto> \<lparr>tb_tokens = Fin 0, tb_last = 0\<rparr>]\<rparr>)"
  by (simp add: acquire_def Let_def sample_pool_def sample_pool_config_def refilled_def start_bucket_def
      float_of_int_def minFloat_def fsub_def duration_Seconds_exact zero_time_def)

theorem pool_interleaving_safe_witness:
  "pool_reachable sample_runtime (0, sample_pool, [])
     (0, snd (acquire sample_runtime 0 ''acme'' sample_pool), [''acme''])
   \<and> release (snd (acquire sample_runtime 0 ''acme'' sample_pool)) \<noteq> None"
proof -
  have r: "pool_reachable sample_runtime (0, sample_pool, [])
      (0, snd (acquire sample_runtime 0 ''acme'' sample_pool), [''acme''])"
    using step_acquired [of 0 0 sample_runtime "''acme''" sample_pool _ "[]"] sample_acquired by auto
  show ?thesis
    using pool_interleaving_safe [OF _ sample_pool_new, of sample_runtime 5, OF _ _ _ r] r correct_rounding_Fin
    by (simp add: sample_pool_config_def max_int64_def)
qed


subsection \<open>The circuit breaker\<close>

lemma failures_below:
  "up_failures p + int (length ts) < pc_FailureThreshold (up_config p) \<Longrightarrow>
   fold pool_failure ts p = p\<lparr>up_failures := up_failures p + int (length ts)\<rparr>"
  by (induction ts arbitrary: p) (simp_all add: pool_failure_def)

text \<open>
  Uploads that fail one after another, with no success between them, open the
  circuit exactly at the threshold: one failure fewer changes only the counter, and from the last
  failure, at time \<open>t\<close>, every \<open>acquire\<close> of every organization before \<open>t\<close> plus
  \<open>OpenDuration\<close> is refused without touching a bucket or a slot, and none is from then on.
\<close>

theorem circuit_breaker_opens:
  assumes "up_failures p = 0" and "int (length ts) + 1 = pc_FailureThreshold (up_config p)"
    and "q = fold pool_failure (ts @ [t]) p"
  shows "up_openUntil (fold pool_failure ts p) = up_openUntil p
    \<and> up_failures q = 0 \<and> up_sem q = up_sem p \<and> up_tenants q = up_tenants p
    \<and> (if now < t + pc_OpenDuration (up_config p)
       then acquire rt now org q = (Some ''object storage circuit is open'', q)
       else fst (acquire rt now org q) \<noteq> Some ''object storage circuit is open'')"
proof -
  have below: "fold pool_failure ts p = p\<lparr>up_failures := int (length ts)\<rparr>"
    using failures_below [of p ts] assms(1,2) by simp
  then have q: "q = p\<lparr>up_openUntil := t + pc_OpenDuration (up_config p), up_failures := 0\<rparr>"
    using assms(2,3) by (simp add: pool_failure_def)
  show ?thesis unfolding below q by (simp add: acquire_def Let_def)
qed

theorem circuit_breaker_opens_witness:
  "fst (acquire sample_runtime 5 ''acme'' (fold pool_failure [1, 2] sample_pool)) = Some ''object storage circuit is open''"
  using circuit_breaker_opens [of sample_pool "[1]" "fold pool_failure ([1] @ [2]) sample_pool" 2 5 sample_runtime "''acme''"]
  by (simp add: sample_pool_def sample_pool_config_def)

text \<open>
  A rate that is not a number passes the check of \<open>newUploadPool\<close>, because every
  comparison with NaN is false, and switches the rate limit off: from then on no \<open>acquire\<close> is ever refused
  for the organization's rate.
\<close>

theorem nan_rate_unlimited:
  assumes "0 < pc_Workers cfg" and "0 < pc_TenantBurst cfg" and "0 < pc_FailureThreshold cfg"
    and "0 < pc_OpenDuration cfg" and "pc_TenantRate cfg = NaN"
  shows "(\<exists>p. newUploadPool cfg = Inr p \<and> up_config p = cfg)
    \<and> (\<forall>p. up_config p = cfg \<longrightarrow>
          fst (acquire rt now org p) \<noteq> Some ''organization upload rate limit exceeded''
          \<and> up_config (snd (acquire rt now org p)) = cfg)"
proof -
  have nan: "fmul rnd x NaN = NaN" "fadd rnd x NaN = NaN" for rnd x by (cases x; simp)+
  have "tb_tokens (refilled rt cfg now b) = NaN" for b
    using assms(5) nan by (cases "float_of_int (round64 rt) (pc_TenantBurst cfg)")
      (simp_all add: refilled_def Let_def minFloat_def)
  then show ?thesis
    using assms by (auto simp: acquire_def Let_def newUploadPool_def)
qed

theorem nan_rate_unlimited_witness:
  "\<exists>p. newUploadPool (sample_pool_config\<lparr>pc_TenantRate := NaN\<rparr>) = Inr p
     \<and> fst (acquire sample_runtime 0 ''acme'' p) \<noteq> Some ''organization upload rate limit exceeded''"
  using nan_rate_unlimited [of "sample_pool_config\<lparr>pc_TenantRate := NaN\<rparr>" sample_runtime 0 "''acme''"]
  by (auto simp: sample_pool_config_def)

end
