(* ===== verification/Intake_Metrics.thy ===== *)
theory Intake_Metrics
  imports Go_Numeric
begin

text \<open>
  The counters of the Document Intake service (\<open>observability/metrics.go\<close>): 64-bit atomics,
  whose addition wraps, and the text the metrics handler renders from them.
\<close>

record IntakeMetrics =
  activeWorkers :: "64 word"
  queueDepth :: "64 word"
  rejectedTotal :: "64 word"
  bytesStreamedTotal :: "64 word"
  presignedURLIssued :: "64 word"
  confirmLatencyNanos :: "64 word"
  confirmations :: "64 word"

definition NewIntakeMetrics :: IntakeMetrics where
  "NewIntakeMetrics =
     \<lparr>activeWorkers = 0, queueDepth = 0, rejectedTotal = 0, bytesStreamedTotal = 0, presignedURLIssued = 0,
      confirmLatencyNanos = 0, confirmations = 0\<rparr>"

definition WorkerStarted :: "IntakeMetrics \<Rightarrow> IntakeMetrics" where
  "WorkerStarted m = m\<lparr>activeWorkers := activeWorkers m + 1\<rparr>"

definition WorkerFinished :: "IntakeMetrics \<Rightarrow> IntakeMetrics" where
  "WorkerFinished m = m\<lparr>activeWorkers := activeWorkers m + (-1)\<rparr>"

definition SetQueueDepth :: "64 word \<Rightarrow> IntakeMetrics \<Rightarrow> IntakeMetrics" where
  "SetQueueDepth depth m = m\<lparr>queueDepth := depth\<rparr>"

definition UploadRejected :: "IntakeMetrics \<Rightarrow> IntakeMetrics" where
  "UploadRejected m = m\<lparr>rejectedTotal := rejectedTotal m + 1\<rparr>"

text \<open>The argument is an \<open>int64\<close>; only a positive one is added, as a \<open>uint64\<close>.\<close>

definition AddStreamedBytes :: "int \<Rightarrow> IntakeMetrics \<Rightarrow> IntakeMetrics" where
  "AddStreamedBytes n m =
     (if 0 < n then m\<lparr>bytesStreamedTotal := bytesStreamedTotal m + word_of_int n\<rparr> else m)"

definition PresignedURLIssued :: "IntakeMetrics \<Rightarrow> IntakeMetrics" where
  "PresignedURLIssued m = m\<lparr>presignedURLIssued := presignedURLIssued m + 1\<rparr>"

definition ObserveConfirmation :: "duration \<Rightarrow> IntakeMetrics \<Rightarrow> IntakeMetrics" where
  "ObserveConfirmation d m =
     m\<lparr>confirmLatencyNanos := confirmLatencyNanos m + word_of_int d,
       confirmations := confirmations m + 1\<rparr>"

text \<open>The mean latency the handler reports: two unsigned divisions, none when nothing was confirmed.\<close>

definition latencyMS :: "IntakeMetrics \<Rightarrow> 64 word" where
  "latencyMS m =
     (if confirmations m > 0 then confirmLatencyNanos m div confirmations m div 1000000 else 0)"

definition newline :: string where "newline = [CHR 0x0A]"

definition metrics_Handler :: "IntakeMetrics \<Rightarrow> string" where
  "metrics_Handler m =
     ''intake_pool_active_workers '' @ show_int (sint (activeWorkers m)) @ newline
     @ ''intake_pool_queue_depth '' @ show_int (sint (queueDepth m)) @ newline
     @ ''intake_pool_rejected_total '' @ show_nat (unat (rejectedTotal m)) @ newline
     @ ''intake_upload_bytes_streamed_total '' @ show_nat (unat (bytesStreamedTotal m)) @ newline
     @ ''intake_presigned_url_issued_total '' @ show_nat (unat (presignedURLIssued m)) @ newline
     @ ''intake_upload_confirm_latency_ms '' @ show_nat (unat (latencyMS m)) @ newline"

lemma worker_balance [simp]: "activeWorkers (WorkerFinished (WorkerStarted m)) = activeWorkers m"
  by (simp add: WorkerStarted_def WorkerFinished_def)

text \<open>
  The workers of \<open>n\<close> uploads that have started and \<open>k\<close> that have finished, in any order, read
  back as \<open>n - k\<close> when at most \<open>2 ^ 63 - 1\<close> are in flight.
\<close>

lemma active_workers_count:
  "activeWorkers ((WorkerFinished ^^ k) ((WorkerStarted ^^ n) m)) = activeWorkers m + of_nat n - of_nat k"
proof -
  have "activeWorkers ((WorkerStarted ^^ n) m) = activeWorkers m + of_nat n"
    by (induction n) (simp_all add: WorkerStarted_def)
  moreover have "activeWorkers ((WorkerFinished ^^ k) p) = activeWorkers p - of_nat k" for p
    by (induction k) (simp_all add: WorkerFinished_def)
  ultimately show ?thesis by simp
qed

lemma observations_sum:
  assumes "\<forall>d\<in>set ds. 0 \<le> d"
  shows "confirmLatencyNanos (fold ObserveConfirmation ds m) = confirmLatencyNanos m + word_of_int (sum_list ds)
    \<and> confirmations (fold ObserveConfirmation ds m) = confirmations m + of_nat (length ds)"
  using assms by (induction ds arbitrary: m) (simp_all add: ObserveConfirmation_def)

text \<open>
  As long as the sum of the observed confirmation latencies fits in 64 bits, the
  reported latency of a service is the floor of their mean in milliseconds: no observation is lost
  and the two roundings of the code's divisions do not add up.
\<close>

theorem latency_is_mean:
  assumes "\<forall>d\<in>set ds. 0 \<le> d" and "sum_list ds < 2 ^ 64" and "length ds < 2 ^ 64" and "ds \<noteq> []"
  shows "uint (latencyMS (fold ObserveConfirmation ds NewIntakeMetrics))
    = sum_list ds div (int (length ds) * 1000000)"
proof -
  let ?m = "fold ObserveConfirmation ds NewIntakeMetrics"
  have nn: "0 \<le> sum_list ds" using assms(1) by (simp add: sum_list_nonneg)
  have c: "uint (confirmations ?m) = int (length ds)"
    using observations_sum [OF assms(1), of NewIntakeMetrics] assms(3)
    by (simp add: NewIntakeMetrics_def uint_nat unat_of_nat)
  have s: "uint (confirmLatencyNanos ?m) = sum_list ds"
    using observations_sum [OF assms(1), of NewIntakeMetrics] assms(2) nn
    by (simp add: NewIntakeMetrics_def uint_word_of_int)
  have "0 < confirmations ?m"
    using c assms(4) by (simp add: word_less_def)
  then have "uint (latencyMS ?m) = sum_list ds div int (length ds) div 1000000"
    using c s by (simp add: latencyMS_def uint_div_distrib)
  then show ?thesis by (simp add: zdiv_zmult2_eq)
qed

theorem latency_is_mean_witness:
  "uint (latencyMS (fold ObserveConfirmation [3000000, 5000000] NewIntakeMetrics)) = 4"
  using latency_is_mean [of "[3000000, 5000000]"] by simp

end
