(* ===== verification/Go_Json.thy ===== *)
theory Go_Json
  imports Go_Encoding
begin

text \<open>
  Go's \<open>encoding/json\<close>, as far as the services use it: \<open>Marshal\<close> with its escaping of
  strings, the scanner with its stack of open arrays and objects and its nesting limit, the decoding of string
  literals, and the assignment of an object's members to the fields of a struct. \<open>Unmarshal\<close> reads a whole text,
  \<open>Decoder.Decode\<close> the first value of a stream. The round trip of a marshalled value is proved for all values.
\<close>

datatype json = JNull | JBool bool | JNum string | JStr string | JArr "json list" | JObj "(string \<times> json) list"

subsection \<open>Strings\<close>

text \<open>\<open>utf8.AppendRune\<close> on a code point that is no surrogate, and the replacement character.\<close>

definition utf8_encode :: "nat \<Rightarrow> string" where
  "utf8_encode r =
     (if r < 0x80 then [char_of r]
      else if r < 0x800 then [char_of (0xC0 + r div 64), char_of (0x80 + r mod 64)]
      else if r < 0x10000 then [char_of (0xE0 + r div 4096), char_of (0x80 + r div 64 mod 64), char_of (0x80 + r mod 64)]
      else [char_of (0xF0 + r div 262144), char_of (0x80 + r div 4096 mod 64), char_of (0x80 + r div 64 mod 64), char_of (0x80 + r mod 64)])"

abbreviation replacement :: string where
  "replacement \<equiv> [CHR 0xEF, CHR 0xBF, CHR 0xBD]"

text \<open>A byte that \<open>Marshal\<close> copies, and the escape of one it does not.\<close>

definition html_safe :: "char \<Rightarrow> bool" where
  "html_safe c \<longleftrightarrow> 32 \<le> byte c \<and> byte c < 128 \<and> c \<notin> {CHR 0x22, CHR 0x5C, CHR ''<'', CHR ''>'', CHR ''&''}"

definition escape_byte :: "char \<Rightarrow> string" where
  "escape_byte c =
     (if c = CHR 0x5C \<or> c = CHR 0x22 then [CHR 0x5C, c]
      else if byte c = 8 then [CHR 0x5C, CHR ''b'']
      else if byte c = 12 then [CHR 0x5C, CHR ''f'']
      else if byte c = 10 then [CHR 0x5C, CHR ''n'']
      else if byte c = 13 then [CHR 0x5C, CHR ''r'']
      else if byte c = 9 then [CHR 0x5C, CHR ''t'']
      else [CHR 0x5C, CHR ''u'', CHR ''0'', CHR ''0''] @ hex_byte c)"

function enc_chars :: "string \<Rightarrow> string" where
  "enc_chars [] = []"
| "enc_chars (x # xs) =
     (if byte x < 128 then (if html_safe x then [x] else escape_byte x) @ enc_chars xs
      else let w = rune_width (x # xs)
           in if w = 1 then [CHR 0x5C] @ ''ufffd'' @ enc_chars xs
              else if take w (x # xs) = [CHR 0xE2, CHR 0x80, CHR 0xA8] then [CHR 0x5C] @ ''u2028'' @ enc_chars (drop w (x # xs))
              else if take w (x # xs) = [CHR 0xE2, CHR 0x80, CHR 0xA9] then [CHR 0x5C] @ ''u2029'' @ enc_chars (drop w (x # xs))
              else take w (x # xs) @ enc_chars (drop w (x # xs)))"
  by pat_completeness auto
termination
  by (relation "measure length") (auto simp: Let_def intro!: diff_less)

definition enc_string :: "string \<Rightarrow> string" where
  "enc_string s = [CHR 0x22] @ enc_chars s @ [CHR 0x22]"

text \<open>What a decoder makes of a byte string: every byte outside a rune becomes the replacement character.\<close>

function to_valid :: "string \<Rightarrow> string" where
  "to_valid [] = []"
| "to_valid (x # xs) =
     (if byte x < 128 then x # to_valid xs
      else let w = rune_width (x # xs)
           in if w = 1 then replacement @ to_valid xs else take w (x # xs) @ to_valid (drop w (x # xs)))"
  by pat_completeness auto
termination
  by (relation "measure length") (auto simp: Let_def intro!: diff_less)

definition hex_value :: "char \<Rightarrow> nat option" where
  "hex_value c =
     (if in_range 48 57 c then Some (byte c - 48)
      else if in_range 97 102 c then Some (byte c - 87)
      else if in_range 65 70 c then Some (byte c - 55)
      else None)"

text \<open>\<open>getu4\<close> after the \<open>\u\<close>: four hexadecimal digits.\<close>

fun getu4 :: "string \<Rightarrow> (nat \<times> string) option" where
  "getu4 (a # b # c # d # s) =
     (case (hex_value a, hex_value b, hex_value c, hex_value d) of
        (Some i, Some j, Some k, Some l) \<Rightarrow> Some (((i * 16 + j) * 16 + k) * 16 + l, s)
      | _ \<Rightarrow> None)"
| "getu4 _ = None"

lemma getu4_length: "getu4 s = Some (r, t) \<Longrightarrow> length t < length s"
  by (cases s rule: getu4.cases) (auto split: option.splits)

text \<open>
  The rune of a \<open>\u\<close> escape and what is left: a surrogate followed by the escape of its other half is one
  rune, any other surrogate the replacement character.
\<close>

definition surrogate :: "nat \<Rightarrow> bool" where
  "surrogate r \<longleftrightarrow> 0xD800 \<le> r \<and> r < 0xE000"

definition low_half :: "string \<Rightarrow> (nat \<times> string) option" where
  "low_half s = (case s of a # b # t \<Rightarrow> if a = CHR 0x5C \<and> b = CHR ''u'' then getu4 t else None | _ \<Rightarrow> None)"

definition unicode_escape :: "string \<Rightarrow> (string \<times> string) option" where
  "unicode_escape s =
     (case getu4 s of
        None \<Rightarrow> None
      | Some (r, t) \<Rightarrow>
          if \<not> surrogate r then Some (utf8_encode r, t)
          else (case low_half t of
                  Some (r', t') \<Rightarrow>
                    if r < 0xDC00 \<and> 0xDC00 \<le> r' \<and> r' < 0xE000
                    then Some (utf8_encode ((r - 0xD800) * 1024 + (r' - 0xDC00) + 0x10000), t')
                    else Some (replacement, t)
                | None \<Rightarrow> Some (replacement, t)))"

lemma low_half_length: "low_half s = Some (r, t) \<Longrightarrow> length t < length s"
  by (auto simp: low_half_def split: list.splits if_splits dest: getu4_length)

lemma unicode_escape_length: "unicode_escape s = Some (u, t) \<Longrightarrow> length t < length s"
  by (auto simp: unicode_escape_def split: option.splits if_splits dest!: getu4_length low_half_length)

definition simple_escape :: "char \<Rightarrow> char option" where
  "simple_escape c =
     (if c \<in> {CHR 0x22, CHR 0x5C, CHR ''/''} then Some c
      else if c = CHR ''b'' then Some (CHR 0x08)
      else if c = CHR ''f'' then Some (CHR 0x0C)
      else if c = CHR ''n'' then Some (CHR 0x0A)
      else if c = CHR ''r'' then Some (CHR 0x0D)
      else if c = CHR ''t'' then Some (CHR 0x09)
      else None)"

definition prepend :: "string \<Rightarrow> (string \<times> string) option \<Rightarrow> (string \<times> string) option" where
  "prepend u r = map_option (\<lambda>(s, t). (u @ s, t)) r"

text \<open>A string literal after its opening quote: its value and the text after the closing quote.\<close>

function lex_string :: "string \<Rightarrow> (string \<times> string) option" where
  "lex_string [] = None"
| "lex_string (x # xs) =
     (if x = CHR 0x22 then Some ([], xs)
      else if x = CHR 0x5C then
        (case xs of
           [] \<Rightarrow> None
         | e # ys \<Rightarrow>
             if e = CHR ''u'' then
               (case unicode_escape ys of None \<Rightarrow> None | Some (u, zs) \<Rightarrow> prepend u (lex_string zs))
             else (case simple_escape e of None \<Rightarrow> None | Some c \<Rightarrow> prepend [c] (lex_string ys)))
      else if byte x < 32 then None
      else if byte x < 128 then prepend [x] (lex_string xs)
      else let w = rune_width (x # xs)
           in if w = 1 then prepend replacement (lex_string xs)
              else prepend (take w (x # xs)) (lex_string (drop w (x # xs))))"
  by pat_completeness auto
termination
  by (relation "measure length") (auto simp: Let_def intro!: diff_less dest: unicode_escape_length)

declare enc_chars.simps(2) [simp del] to_valid.simps(2) [simp del] lex_string.simps(2) [simp del]

lemma prepend_Some: "prepend u r = Some (v, t) \<longleftrightarrow> (\<exists>s. r = Some (s, t) \<and> v = u @ s)"
  by (auto simp: prepend_def)

lemma lex_string_length: "lex_string s = Some (u, t) \<Longrightarrow> length t < length s"
proof (induction s arbitrary: u rule: length_induct)
  case (1 s)
  have IH: "length t < length s" if "lex_string s' = Some (u', t)" "length s' < length s" for s' u'
    using "1.IH" that less_trans by blast
  show ?case
  proof (cases s)
    case (Cons x xs)
    have w: "0 < rune_width (x # xs)" by simp
    show ?thesis
      using "1.prems" IH [of xs] IH [of "tl xs"] IH [of "drop (rune_width s) s"] w
      by (auto simp: Cons lex_string.simps(2) [of x xs] prepend_Some Let_def split: if_splits list.splits option.splits
          dest!: unicode_escape_length) (use IH in \<open>force simp: Cons\<close>)
  qed (use "1.prems" in simp)
qed

lemma rune_width_le: "s \<noteq> [] \<Longrightarrow> rune_width s \<le> length s"
  by (cases s rule: rune_width.cases) auto

text \<open>The shapes of a rune of more than one byte.\<close>

definition rune2 :: "char \<Rightarrow> char \<Rightarrow> bool" where
  "rune2 a b \<longleftrightarrow> in_range 0xC2 0xDF a \<and> in_range 0x80 0xBF b"

definition rune3 :: "char \<Rightarrow> char \<Rightarrow> char \<Rightarrow> bool" where
  "rune3 a b c \<longleftrightarrow> ((byte a = 0xE0 \<and> in_range 0xA0 0xBF b) \<or> (byte a = 0xED \<and> in_range 0x80 0x9F b)
     \<or> (in_range 0xE1 0xEF a \<and> byte a \<noteq> 0xED \<and> in_range 0x80 0xBF b)) \<and> in_range 0x80 0xBF c"

definition rune4 :: "char \<Rightarrow> char \<Rightarrow> char \<Rightarrow> char \<Rightarrow> bool" where
  "rune4 a b c d \<longleftrightarrow> ((byte a = 0xF0 \<and> in_range 0x90 0xBF b) \<or> (byte a = 0xF4 \<and> in_range 0x80 0x8F b)
     \<or> (in_range 0xF1 0xF3 a \<and> in_range 0x80 0xBF b)) \<and> in_range 0x80 0xBF c \<and> in_range 0x80 0xBF d"

lemmas rune_defs = rune2_def rune3_def rune4_def

lemma rune_width_4: "rune_width (a # b # c # d # t) = (if rune2 a b then 2 else if rune3 a b c then 3 else if rune4 a b c d then 4 else 1)"
  unfolding rune_width.simps rune_defs by (rule refl)

lemma rune_width_3: "rune_width [a, b, c] = (if rune2 a b then 2 else if rune3 a b c then 3 else 1)"
  unfolding rune_width.simps rune_defs by (rule refl)

lemma rune_width_2: "rune_width [a, b] = (if rune2 a b then 2 else 1)"
  by (simp add: rune_defs)

lemma rune_excl: "rune3 a b c \<Longrightarrow> \<not> rune2 a b'" "rune4 a b c d \<Longrightarrow> \<not> rune2 a b'" "rune4 a b c d \<Longrightarrow> \<not> rune3 a b' c'"
  by (auto simp: rune_defs)

lemma rune_width_rune:
  "rune2 a b \<Longrightarrow> rune_width (a # b # t) = 2"
  "rune3 a b c \<Longrightarrow> rune_width (a # b # c # t) = 3"
  "rune4 a b c d \<Longrightarrow> rune_width (a # b # c # d # t) = 4"
proof -
  show "rune2 a b \<Longrightarrow> rune_width (a # b # t) = 2"
    by (cases t; cases "tl t") (simp_all add: rune_width_4 rune_width_3 rune_width_2 del: rune_width.simps)
  show "rune3 a b c \<Longrightarrow> rune_width (a # b # c # t) = 3"
    by (cases t) (simp_all add: rune_width_4 rune_width_3 rune_excl del: rune_width.simps)
  show "rune4 a b c d \<Longrightarrow> rune_width (a # b # c # d # t) = 4"
    by (simp add: rune_width_4 rune_excl del: rune_width.simps)
qed

lemma rune_width_cases:
  assumes "rune_width s \<noteq> 1"
  obtains (two) a b t where "s = a # b # t" "rune2 a b"
    | (three) a b c t where "s = a # b # c # t" "rune3 a b c"
    | (four) a b c d t where "s = a # b # c # d # t" "rune4 a b c d"
  using assms by (cases s rule: rune_width.cases)
    (auto simp: rune_width_4 rune_width_3 rune_width_2 simp del: rune_width.simps(1-3) split: if_splits)

lemma rune_width_append:
  assumes "rune_width s \<noteq> 1" shows "rune_width (take (rune_width s) s @ t) = rune_width s"
  using assms by (cases rule: rune_width_cases) (simp_all add: rune_width_rune del: rune_width.simps)

lemma rune_bytes: "rune_width (x # xs) \<noteq> 1 \<Longrightarrow> 128 \<le> byte x"
  by (erule rune_width_cases) (auto simp: rune_defs)

lemma hex_value_all: "list_all (\<lambda>i. hex_value (hex_digits ! i) = Some i) [0..<16]"
  by code_simp

lemma hex_value_digit: "i < 16 \<Longrightarrow> hex_value (hex_digits ! i) = Some i"
  using hex_value_all by (simp add: list_all_iff)

lemma lex_unicode:
  "lex_string (CHR 0x5C # CHR ''u'' # s) = (case unicode_escape s of None \<Rightarrow> None | Some (u, t) \<Rightarrow> prepend u (lex_string t))"
  by (simp add: lex_string.simps(2))

lemma lex_simple:
  "e \<noteq> CHR ''u'' \<Longrightarrow> lex_string (CHR 0x5C # e # s) = (case simple_escape e of None \<Rightarrow> None | Some c \<Rightarrow> prepend [c] (lex_string s))"
  by (simp add: lex_string.simps(2))

lemma unicode_escape_byte:
  "byte x < 128 \<Longrightarrow> unicode_escape (CHR ''0'' # CHR ''0'' # hex_byte x @ s) = Some ([x], s)"
proof -
  assume "byte x < 128"
  moreover have "hex_value CHR ''0'' = Some 0" by (simp add: hex_value_def byte_def)
  moreover have "byte x div 16 * 16 + byte x mod 16 = byte x" by simp
  ultimately show ?thesis
    by (simp add: unicode_escape_def hex_byte_def hex_value_digit byte_less utf8_encode_def surrogate_def)
qed

lemma lex_escape_byte:
  assumes "byte x < 128" and "\<not> html_safe x"
  shows "lex_string (escape_byte x @ s) = prepend [x] (lex_string s)"
proof -
  have short: "byte x = 8 \<longleftrightarrow> x = CHR 0x08" "byte x = 9 \<longleftrightarrow> x = CHR 0x09" "byte x = 10 \<longleftrightarrow> x = CHR 0x0A"
    "byte x = 12 \<longleftrightarrow> x = CHR 0x0C" "byte x = 13 \<longleftrightarrow> x = CHR 0x0D"
    using byte_inject [of x "CHR 0x08"] byte_inject [of x "CHR 0x09"] byte_inject [of x "CHR 0x0A"]
      byte_inject [of x "CHR 0x0C"] byte_inject [of x "CHR 0x0D"] by (simp_all add: byte_def)
  show ?thesis
    using unicode_escape_byte [OF assms(1), of s]
    by (auto simp: escape_byte_def short lex_unicode lex_simple simple_escape_def)
qed

text \<open>Decoding a marshalled string gives the string back, with its stray bytes replaced.\<close>

lemma lex_rune_bytes:
  assumes "rune_width (x # ys @ s) = Suc (length ys)" and "ys \<noteq> []" and "128 \<le> byte x"
  shows "lex_string ((x # ys) @ s) = prepend (x # ys) (lex_string s)"
proof -
  have "x \<noteq> CHR 0x22" "x \<noteq> CHR 0x5C" using assms(3) by (auto simp: byte_def)
  moreover have "\<not> byte x < 32" "\<not> byte x < 128" using assms(3) by simp_all
  moreover have "rune_width (x # ys @ s) \<noteq> 1" using assms(1,2) by simp
  ultimately have "lex_string (x # ys @ s)
      = prepend (take (rune_width (x # ys @ s)) (x # ys @ s)) (lex_string (drop (rune_width (x # ys @ s)) (x # ys @ s)))"
    unfolding lex_string.simps(2) [of x "ys @ s"] Let_def by (simp only: if_False)
  then show ?thesis unfolding assms(1) by simp
qed

lemma lex_rune:
  assumes "rune_width (x # xs) \<noteq> 1"
  shows "lex_string (take (rune_width (x # xs)) (x # xs) @ s) = prepend (take (rune_width (x # xs)) (x # xs)) (lex_string s)"
proof -
  define w where "w = rune_width (x # xs)"
  have "0 < w" "w \<le> length (x # xs)" unfolding w_def using rune_width_le [of "x # xs"] rune_width_pos by blast+
  then obtain n where n: "w = Suc n" "n \<le> length xs" by (cases w) auto
  have "rune_width (x # take n xs @ s) = Suc n"
    using rune_width_append [OF assms, of s] n(1) unfolding w_def [symmetric] by simp
  moreover have "length (take n xs) = n" using n(2) by simp
  moreover have "n \<noteq> 0" using assms n(1) unfolding w_def [symmetric] by simp
  moreover have "take n xs \<noteq> []" using calculation(2,3) by (metis list.size(3))
  ultimately have "lex_string ((x # take n xs) @ s) = prepend (x # take n xs) (lex_string s)"
    using rune_bytes [OF assms] by (intro lex_rune_bytes) (simp_all only: not_False_eq_True)
  then show ?thesis unfolding w_def [symmetric] n(1) by simp
qed

lemma utf8_escapes:
  "utf8_encode 65533 = replacement" "utf8_encode 8232 = [CHR 0xE2, CHR 0x80, CHR 0xA8]" "utf8_encode 8233 = [CHR 0xE2, CHR 0x80, CHR 0xA9]"
  using char_of_byte [of "CHR 0xEF"] char_of_byte [of "CHR 0xBF"] char_of_byte [of "CHR 0xBD"] char_of_byte [of "CHR 0xE2"]
    char_of_byte [of "CHR 0x80"] char_of_byte [of "CHR 0xA8"] char_of_byte [of "CHR 0xA9"]
  by (simp_all add: utf8_encode_def byte_def del: char_of_byte)

lemma enc_chars_roundtrip: "lex_string (enc_chars s @ CHR 0x22 # t) = Some (to_valid s, t)"
proof (induction s rule: enc_chars.induct)
  case 1
  show ?case by (simp add: lex_string.simps(2))
next
  case (2 x xs)
  let ?w = "rune_width (x # xs)"
  have lit: "lex_string (CHR 0x5C # ''ufffd'' @ u) = prepend replacement (lex_string u)"
    "lex_string (CHR 0x5C # ''u2028'' @ u) = prepend [CHR 0xE2, CHR 0x80, CHR 0xA8] (lex_string u)"
    "lex_string (CHR 0x5C # ''u2029'' @ u) = prepend [CHR 0xE2, CHR 0x80, CHR 0xA9] (lex_string u)" for u
    by (simp_all add: lex_unicode unicode_escape_def hex_value_def byte_def surrogate_def utf8_escapes)
  have plain: "lex_string (x # u) = prepend [x] (lex_string u)" if "html_safe x" for u
    using that by (auto simp: lex_string.simps(2) [of x u] html_safe_def)
  consider "byte x < 128" | "\<not> byte x < 128" "?w = 1" | "\<not> byte x < 128" "?w \<noteq> 1" by blast
  then show ?case
  proof cases
    case 1
    with "2.IH"(1) plain lex_escape_byte [of x] show ?thesis
      by (simp add: enc_chars.simps(2) [of x xs] to_valid.simps(2) [of x xs] prepend_def)
  next
    case 2
    with "2.IH"(2) [OF _ refl] lit(1) show ?thesis
      by (simp add: enc_chars.simps(2) [of x xs] to_valid.simps(2) [of x xs] prepend_def)
  next
    case 3
    note IH = "2.IH"(3-5) [OF 3(1) refl 3(2)]
    from 3 lit(2,3) lex_rune [OF 3(2)] show ?thesis
      using IH
      by (simp add: enc_chars.simps(2) [of x xs] to_valid.simps(2) [of x xs] prepend_def Let_def)
  qed
qed

subsection \<open>Tokens\<close>

datatype token = TLBrace | TRBrace | TLBrack | TRBrack | TColon | TComma | TStr string | TNum string | TBool bool | TNull

definition is_space :: "char \<Rightarrow> bool" where
  "is_space c \<longleftrightarrow> c \<in> {CHR '' '', CHR 0x09, CHR 0x0D, CHR 0x0A}"

definition skip_space :: "string \<Rightarrow> string" where
  "skip_space s = dropWhile is_space s"

definition num_char :: "char \<Rightarrow> bool" where
  "num_char c \<longleftrightarrow> is_digit c \<or> c \<in> {CHR ''+'', CHR ''-'', CHR ''.'', CHR ''e'', CHR ''E''}"

text \<open>A number: sign, integer part without leading zeros, fraction, exponent.\<close>

definition valid_exp :: "string \<Rightarrow> bool" where
  "valid_exp s =
     (s = [] \<or>
      (hd s = CHR ''e'' \<or> hd s = CHR ''E'') \<and>
      (let ds = (case tl s of c # cs \<Rightarrow> if c = CHR ''+'' \<or> c = CHR ''-'' then cs else c # cs | [] \<Rightarrow> [])
       in ds \<noteq> [] \<and> list_all is_digit ds))"

definition valid_frac :: "string \<Rightarrow> bool" where
  "valid_frac s =
     (case s of
        c # cs \<Rightarrow>
          if c = CHR ''.'' then takeWhile is_digit cs \<noteq> [] \<and> valid_exp (dropWhile is_digit cs) else valid_exp (c # cs)
      | [] \<Rightarrow> True)"

definition valid_number :: "string \<Rightarrow> bool" where
  "valid_number s =
     (let ds = (case s of c # cs \<Rightarrow> if c = CHR ''-'' then cs else c # cs | [] \<Rightarrow> [])
      in case ds of
           [] \<Rightarrow> False
         | d # r \<Rightarrow>
             if d = CHR ''0'' then valid_frac r
             else is_digit d \<and> valid_frac (dropWhile is_digit r))"

definition lex_word :: "string \<Rightarrow> token \<Rightarrow> string \<Rightarrow> (token \<times> string) option" where
  "lex_word word tok s = (if prefix word s then Some (tok, drop (length word) s) else None)"

definition next_token :: "string \<Rightarrow> (token \<times> string) option" where
  "next_token s =
     (case skip_space s of
        [] \<Rightarrow> None
      | c # cs \<Rightarrow>
          if c = CHR 0x7B then Some (TLBrace, cs)
          else if c = CHR 0x7D then Some (TRBrace, cs)
          else if c = CHR 0x5B then Some (TLBrack, cs)
          else if c = CHR 0x5D then Some (TRBrack, cs)
          else if c = CHR '':'' then Some (TColon, cs)
          else if c = CHR '','' then Some (TComma, cs)
          else if c = CHR 0x22 then map_option (\<lambda>(v, t). (TStr v, t)) (lex_string cs)
          else if c = CHR ''t'' then lex_word ''rue'' (TBool True) cs
          else if c = CHR ''f'' then lex_word ''alse'' (TBool False) cs
          else if c = CHR ''n'' then lex_word ''ull'' TNull cs
          else let lit = takeWhile num_char (c # cs)
               in if valid_number lit then Some (TNum lit, dropWhile num_char (c # cs)) else None)"

lemma length_skip_space: "length (skip_space s) \<le> length s"
  by (simp add: skip_space_def length_dropWhile_le)

lemma next_token_length: "next_token s = Some (tok, t) \<Longrightarrow> length t < length s"
proof -
  assume a: "next_token s = Some (tok, t)"
  then obtain c cs where c: "skip_space s = c # cs" by (auto simp: next_token_def split: list.splits)
  have "valid_number (takeWhile num_char (c # cs)) \<Longrightarrow> num_char c" by (cases "num_char c") (auto simp: valid_number_def)
  then have "length t < length (c # cs)"
    using a c length_dropWhile_le [of num_char cs]
    by (auto simp: next_token_def lex_word_def Let_def split: if_splits dest!: lex_string_length)
  then show ?thesis using length_skip_space [of s] c by simp
qed

subsection \<open>The scanner\<close>

text \<open>
  The open arrays and objects, innermost first, with the elements and members read so far; an object also has
  the key whose value is being read. \<open>phase\<close> is what may come next.
\<close>

datatype frame = ArrF "json list" | ObjF "(string \<times> json) list" string
datatype phase = PValue | PElem | PAfterElem | PKey | PNextKey | PColon | PAfterMember

abbreviation max_depth :: nat where "max_depth \<equiv> 10000"

fun deliver :: "json \<Rightarrow> frame list \<Rightarrow> (phase \<times> frame list) + json" where
  "deliver v [] = Inr v"
| "deliver v (ArrF vs # st) = Inl (PAfterElem, ArrF (vs @ [v]) # st)"
| "deliver v (ObjF ms k # st) = Inl (PAfterMember, ObjF (ms @ [(k, v)]) [] # st)"

definition open_frame :: "phase \<Rightarrow> frame \<Rightarrow> frame list \<Rightarrow> ((phase \<times> frame list) + json) option" where
  "open_frame p f st = (if length st < max_depth then Some (Inl (p, f # st)) else None)"

definition value_step :: "frame list \<Rightarrow> token \<Rightarrow> ((phase \<times> frame list) + json) option" where
  "value_step st tok =
     (case tok of
        TLBrace \<Rightarrow> open_frame PKey (ObjF [] []) st
      | TLBrack \<Rightarrow> open_frame PElem (ArrF []) st
      | TStr s \<Rightarrow> Some (deliver (JStr s) st)
      | TNum s \<Rightarrow> Some (deliver (JNum s) st)
      | TBool b \<Rightarrow> Some (deliver (JBool b) st)
      | TNull \<Rightarrow> Some (deliver JNull st)
      | _ \<Rightarrow> None)"

fun close_array :: "frame list \<Rightarrow> ((phase \<times> frame list) + json) option" where
  "close_array (ArrF vs # st) = Some (deliver (JArr vs) st)"
| "close_array _ = None"

fun close_object :: "frame list \<Rightarrow> ((phase \<times> frame list) + json) option" where
  "close_object (ObjF ms k # st) = Some (deliver (JObj ms) st)"
| "close_object _ = None"

fun read_key :: "string \<Rightarrow> frame list \<Rightarrow> ((phase \<times> frame list) + json) option" where
  "read_key s (ObjF ms k # st) = Some (Inl (PColon, ObjF ms s # st))"
| "read_key s _ = None"

definition json_step :: "phase \<Rightarrow> frame list \<Rightarrow> token \<Rightarrow> ((phase \<times> frame list) + json) option" where
  "json_step p st tok =
     (case p of
        PValue \<Rightarrow> value_step st tok
      | PElem \<Rightarrow> if tok = TRBrack then close_array st else value_step st tok
      | PAfterElem \<Rightarrow> (case tok of TRBrack \<Rightarrow> close_array st | TComma \<Rightarrow> Some (Inl (PValue, st)) | _ \<Rightarrow> None)
      | PKey \<Rightarrow> (case tok of TRBrace \<Rightarrow> close_object st | TStr s \<Rightarrow> read_key s st | _ \<Rightarrow> None)
      | PNextKey \<Rightarrow> (case tok of TStr s \<Rightarrow> read_key s st | _ \<Rightarrow> None)
      | PColon \<Rightarrow> (case tok of TColon \<Rightarrow> Some (Inl (PValue, st)) | _ \<Rightarrow> None)
      | PAfterMember \<Rightarrow> (case tok of TRBrace \<Rightarrow> close_object st | TComma \<Rightarrow> Some (Inl (PNextKey, st)) | _ \<Rightarrow> None))"

function parse_json :: "phase \<Rightarrow> frame list \<Rightarrow> string \<Rightarrow> (json \<times> string) option" where
  "parse_json p st s =
     (case next_token s of
        None \<Rightarrow> None
      | Some (tok, t) \<Rightarrow>
          (case json_step p st tok of
             None \<Rightarrow> None
           | Some (Inr v) \<Rightarrow> Some (v, t)
           | Some (Inl (p', st')) \<Rightarrow> parse_json p' st' t))"
  by pat_completeness auto
termination
  by (relation "measure (\<lambda>(p, st, s). length s)") (auto dest: next_token_length)

declare parse_json.simps [simp del]

text \<open>\<open>Decoder.Decode\<close> reads one value; \<open>Unmarshal\<close> wants nothing but white space after it.\<close>

definition json_Decode :: "string \<Rightarrow> json option" where
  "json_Decode s = map_option fst (parse_json PValue [] s)"

definition json_Unmarshal :: "string \<Rightarrow> json option" where
  "json_Unmarshal s =
     (case parse_json PValue [] s of
        Some (v, t) \<Rightarrow> if skip_space t = [] then Some v else None
      | None \<Rightarrow> None)"

subsection \<open>Marshal and its round trip\<close>

fun enc_json :: "json \<Rightarrow> string" where
  "enc_json JNull = ''null''"
| "enc_json (JBool b) = (if b then ''true'' else ''false'')"
| "enc_json (JNum n) = n"
| "enc_json (JStr s) = enc_string s"
| "enc_json (JArr vs) = [CHR 0x5B] @ Join (map enc_json vs) '','' @ [CHR 0x5D]"
| "enc_json (JObj ms) = [CHR 0x7B] @ Join (map (\<lambda>(k, v). enc_string k @ '':'' @ enc_json v) ms) '','' @ [CHR 0x7D]"

fun valid_json :: "json \<Rightarrow> json" where
  "valid_json (JStr s) = JStr (to_valid s)"
| "valid_json (JArr vs) = JArr (map valid_json vs)"
| "valid_json (JObj ms) = JObj (map (\<lambda>(k, v). (to_valid k, valid_json v)) ms)"
| "valid_json v = v"

text \<open>The numbers are literals \<open>Marshal\<close> writes, and the value fits in \<open>d\<close> levels of nesting.\<close>

fun writable :: "nat \<Rightarrow> json \<Rightarrow> bool" where
  "writable d (JNum n) = (valid_number n \<and> list_all num_char n)"
| "writable d (JArr vs) = (0 < d \<and> list_all (writable (d - 1)) vs)"
| "writable d (JObj ms) = (0 < d \<and> list_all (\<lambda>(k, v). writable (d - 1) v) ms)"
| "writable d v = True"

definition continue_json :: "(phase \<times> frame list) + json \<Rightarrow> string \<Rightarrow> (json \<times> string) option" where
  "continue_json r s = (case r of Inl (p, st) \<Rightarrow> parse_json p st s | Inr v \<Rightarrow> Some (v, s))"

definition at_end :: "string \<Rightarrow> bool" where
  "at_end s \<longleftrightarrow> s = [] \<or> \<not> num_char (hd s)"

lemma parse_json_step:
  "next_token s = Some (tok, t) \<Longrightarrow> json_step p st tok = Some r \<Longrightarrow> parse_json p st s = continue_json r t"
  by (simp add: parse_json.simps [of p st s] continue_json_def split: sum.splits)

lemma punctuation [simp]:
  "next_token (CHR 0x7B # s) = Some (TLBrace, s)" "next_token (CHR 0x7D # s) = Some (TRBrace, s)"
  "next_token (CHR 0x5B # s) = Some (TLBrack, s)" "next_token (CHR 0x5D # s) = Some (TRBrack, s)"
  "next_token (CHR '':'' # s) = Some (TColon, s)" "next_token (CHR '','' # s) = Some (TComma, s)"
  "next_token (CHR 0x22 # s) = map_option (\<lambda>(v, t). (TStr v, t)) (lex_string s)"
  by (simp_all add: next_token_def skip_space_def is_space_def)

lemma next_token_string [simp]: "next_token (enc_string s @ t) = Some (TStr (to_valid s), t)"
  by (simp add: enc_string_def enc_chars_roundtrip)

lemma next_token_number:
  assumes "valid_number n" and "list_all num_char n" and "at_end t"
  shows "next_token (n @ t) = Some (TNum n, t)"
proof -
  obtain c cs where n: "n = c # cs" using assms(1) by (cases n) (auto simp: valid_number_def)
  have t: "takeWhile num_char (n @ t) = n" "dropWhile num_char (n @ t) = t"
    using assms(2,3) by (auto simp: at_end_def list_all_iff takeWhile_eq_all_conv dropWhile_eq_self_iff takeWhile_eq_Nil_iff)
  have "num_char c" using assms(2) n by simp
  then have "\<not> is_space c" "c \<notin> {CHR 0x7B, CHR 0x7D, CHR 0x5B, CHR 0x5D, CHR '':'', CHR '','', CHR 0x22, CHR ''t'', CHR ''f'', CHR ''n''}"
    by (auto simp: num_char_def is_space_def is_digit_def byte_def)
  then show ?thesis
    using assms(1) t unfolding n by (simp add: next_token_def skip_space_def del: takeWhile.simps dropWhile.simps)
      (simp add: skip_space_def)
qed

lemma next_token_word:
  "next_token (CHR ''n'' # CHR ''u'' # CHR ''l'' # CHR ''l'' # t) = Some (TNull, t)"
  "next_token (CHR ''t'' # CHR ''r'' # CHR ''u'' # CHR ''e'' # t) = Some (TBool True, t)"
  "next_token (CHR ''f'' # CHR ''a'' # CHR ''l'' # CHR ''s'' # CHR ''e'' # t) = Some (TBool False, t)"
  by (simp_all add: next_token_def skip_space_def is_space_def lex_word_def)

definition parses :: "json \<Rightarrow> bool" where
  "parses v \<longleftrightarrow> (\<forall>d st t p. writable d v \<longrightarrow> d + length st \<le> max_depth \<longrightarrow> at_end t \<longrightarrow> p = PValue \<or> p = PElem \<longrightarrow>
     parse_json p st (enc_json v @ t) = continue_json (deliver (valid_json v) st) t)"

lemma parsesD:
  "parses v \<Longrightarrow> writable d v \<Longrightarrow> d + length st \<le> max_depth \<Longrightarrow> at_end t \<Longrightarrow> p = PValue \<or> p = PElem \<Longrightarrow>
   parse_json p st (enc_json v @ t) = continue_json (deliver (valid_json v) st) t"
  unfolding parses_def by blast

lemma value_steps:
  "p = PValue \<or> p = PElem \<Longrightarrow> tok \<noteq> TRBrack \<Longrightarrow> json_step p st tok = value_step st tok"
  by (auto simp: json_step_def)

lemma at_end_punct: "at_end (CHR '','' # t)" "at_end (CHR 0x5D # t)" "at_end (CHR 0x7D # t)"
  by (simp_all add: at_end_def num_char_def is_digit_def byte_def)

lemma parse_elems:
  assumes "\<And>v. v \<in> set vs \<Longrightarrow> parses v" and "list_all (writable d) vs" and "Suc d + length st \<le> max_depth"
    and "vs \<noteq> []" and "p = PValue \<or> p = PElem"
  shows "parse_json p (ArrF acc # st) (Join (map enc_json vs) '','' @ CHR 0x5D # t)
    = continue_json (deliver (JArr (acc @ map valid_json vs)) st) t"
  using assms
proof (induction vs arbitrary: acc p)
  case (Cons v vs)
  have one: "parse_json p (ArrF acc # st) (enc_json v @ u) = parse_json PAfterElem (ArrF (acc @ [valid_json v]) # st) u"
    if "at_end u" for u
    using parsesD [OF Cons.prems(1) _ _ that, of v d "ArrF acc # st" p] Cons.prems
    by (simp add: continue_json_def)
  show ?case
  proof (cases vs)
    case Nil
    then show ?thesis
      using one [of "CHR 0x5D # t"]
      by (simp add: at_end_punct parse_json_step json_step_def)
  next
    case (Cons w ws)
    then show ?thesis
      using one [of "CHR '','' # Join (map enc_json vs) '','' @ CHR 0x5D # t"]
        Cons.IH [of PValue "acc @ [valid_json v]"] Cons.prems
      by (simp add: at_end_punct parse_json_step json_step_def continue_json_def)
  qed
qed simp

lemma parse_members:
  assumes "\<And>k v. (k, v) \<in> set ms \<Longrightarrow> parses v" and "list_all (\<lambda>(k, v). writable d v) ms" and "Suc d + length st \<le> max_depth"
    and "ms \<noteq> []" and "p = PKey \<or> p = PNextKey"
  shows "parse_json p (ObjF acc k0 # st) (Join (map (\<lambda>(k, v). enc_string k @ '':'' @ enc_json v) ms) '','' @ CHR 0x7D # t)
    = continue_json (deliver (JObj (acc @ map (\<lambda>(k, v). (to_valid k, valid_json v)) ms)) st) t"
  using assms
proof (induction ms arbitrary: acc p k0)
  case (Cons m ms)
  obtain k v where m: "m = (k, v)" by fastforce
  have prem: "\<And>k v. (k, v) \<in> set ms \<Longrightarrow> parses v" using Cons.prems(1) by auto
  have "parse_json p (ObjF acc k0 # st) (enc_string k @ '':'' @ enc_json v @ u)
      = parse_json PValue (ObjF acc (to_valid k) # st) (enc_json v @ u)" for u
    using Cons.prems(5) by (auto simp: parse_json_step json_step_def continue_json_def)
  moreover have "parse_json PValue (ObjF acc (to_valid k) # st) (enc_json v @ u)
      = parse_json PAfterMember (ObjF (acc @ [(to_valid k, valid_json v)]) [] # st) u" if "at_end u" for u
    using parsesD [OF Cons.prems(1) _ _ that, of k v d "ObjF acc (to_valid k) # st" PValue] Cons.prems m
    by (simp add: continue_json_def)
  ultimately have one: "parse_json p (ObjF acc k0 # st) (enc_string k @ '':'' @ enc_json v @ u)
      = parse_json PAfterMember (ObjF (acc @ [(to_valid k, valid_json v)]) [] # st) u" if "at_end u" for u
    using that by simp
  show ?case
  proof (cases ms)
    case Nil
    then show ?thesis
      using one [of "CHR 0x7D # t"] by (simp add: m at_end_punct parse_json_step json_step_def)
  next
    case (Cons w ws)
    then show ?thesis
      using one [of "CHR '','' # Join (map (\<lambda>(k, v). enc_string k @ '':'' @ enc_json v) ms) '','' @ CHR 0x7D # t"]
        Cons.IH [where p = PNextKey and acc = "acc @ [(to_valid k, valid_json v)]" and ?k0.0 = "[]", OF prem] Cons.prems(2,3)
      by (simp add: m at_end_punct parse_json_step json_step_def continue_json_def)
  qed
qed simp

lemma parses_all: "parses v"
proof (induction v)
  case (JArr vs)
  show ?case
    unfolding parses_def
  proof (intro allI impI)
    fix d :: nat and st :: "frame list" and t p
    assume w: "writable d (JArr vs)" and d: "d + length st \<le> max_depth" and e: "at_end t" and p: "p = PValue \<or> p = PElem"
    from w obtain e where e: "d = Suc e" "list_all (writable e) vs" by (cases d) auto
    have open_it: "parse_json p st (enc_json (JArr vs) @ t) = parse_json PElem (ArrF [] # st) (Join (map enc_json vs) '','' @ CHR 0x5D # t)"
      using p d e(1) by (simp add: parse_json_step value_steps value_step_def open_frame_def continue_json_def)
    show "parse_json p st (enc_json (JArr vs) @ t) = continue_json (deliver (valid_json (JArr vs)) st) t"
    proof (cases "vs = []")
      case True
      then show ?thesis using open_it by (simp add: parse_json_step json_step_def)
    next
      case False
      then show ?thesis
        using parse_elems [OF JArr e(2) _ False, of st PElem "[]" t] d e(1) open_it by simp
    qed
  qed
next
  case (JObj ms)
  have IH: "(k, v) \<in> set ms \<Longrightarrow> parses v" for k v using JObj by fastforce
  show ?case
    unfolding parses_def
  proof (intro allI impI)
    fix d :: nat and st :: "frame list" and t p
    assume w: "writable d (JObj ms)" and d: "d + length st \<le> max_depth" and e: "at_end t" and p: "p = PValue \<or> p = PElem"
    from w obtain e where e: "d = Suc e" "list_all (\<lambda>(k, v). writable e v) ms" by (cases d) auto
    let ?s = "Join (map (\<lambda>(k, v). enc_string k @ '':'' @ enc_json v) ms) '','' @ CHR 0x7D # t"
    have open_it: "parse_json p st (enc_json (JObj ms) @ t) = parse_json PKey (ObjF [] [] # st) ?s"
      using p d e(1) by (simp add: parse_json_step value_steps value_step_def open_frame_def continue_json_def)
    show "parse_json p st (enc_json (JObj ms) @ t) = continue_json (deliver (valid_json (JObj ms)) st) t"
    proof (cases "ms = []")
      case True
      then show ?thesis using open_it by (simp add: parse_json_step json_step_def)
    next
      case False
      then show ?thesis
        using parse_members [where p = PKey and acc = "[]" and ?k0.0 = "[]" and st = st and t = t, OF IH e(2) _ False] d e(1) open_it by simp
    qed
  qed
qed (auto simp: parses_def parse_json_step value_steps value_step_def next_token_word next_token_number)

text \<open>
  Marshalling and unmarshalling gives back every value of at most 10000 levels, with the
  bytes outside runes replaced.
\<close>

lemma Unmarshal_enc_json: "writable max_depth v \<Longrightarrow> json_Unmarshal (enc_json v) = Some (valid_json v)"
  using parsesD [OF parses_all, of max_depth v "[]" "[]" PValue]
  by (simp add: json_Unmarshal_def at_end_def continue_json_def skip_space_def)

lemma Decode_enc_json: "writable max_depth v \<Longrightarrow> at_end t \<Longrightarrow> json_Decode (enc_json v @ t) = Some (valid_json v)"
  using parsesD [OF parses_all, of max_depth v "[]" t PValue]
  by (simp add: json_Decode_def continue_json_def)

lemma to_valid_ascii: "is_ascii s \<Longrightarrow> to_valid s = s"
  by (induction s) (auto simp: is_ascii_def to_valid.simps(2))

lemma valid_number_show_int: "valid_number (show_int i) \<and> list_all num_char (show_int i)"
proof -
  have lead: "show_nat n = d # r \<Longrightarrow> d = CHR ''0'' \<Longrightarrow> r = []" for n d r
  proof (induction n arbitrary: d r rule: show_nat.induct)
    case (1 n)
    show ?case
    proof (cases "n < 10")
      case True
      with "1.prems" show ?thesis by (simp add: show_nat.simps)
    next
      case False
      obtain e q where e: "show_nat (n div 10) = e # q" using show_nat_digits [of "n div 10"] by (cases "show_nat (n div 10)") auto
      have "e = CHR ''0''" using "1.prems" False e by (simp add: show_nat.simps [of n])
      with "1.IH" [OF False e] have "show_nat (n div 10) = ''0''" using e by simp
      then have "n div 10 = 0" using digits_value_show_nat [of "n div 10"] by (simp add: digits_value_def byte_def)
      with False show ?thesis by simp
    qed
  qed
  have nat: "valid_number (show_nat n) \<and> list_all num_char (show_nat n)" for n
  proof -
    obtain d r where d: "show_nat n = d # r" using show_nat_digits [of n] by (cases "show_nat n") auto
    have dig: "is_digit d" "list_all is_digit r" using show_nat_digits [of n] d by auto
    then have "dropWhile is_digit r = []" by (simp add: list_all_iff dropWhile_eq_Nil_conv)
    then have "valid_frac (dropWhile is_digit r)" "valid_frac []" by (simp_all only: valid_frac_def list.case)
    moreover have "d \<noteq> CHR ''-''" using show_nat_hd [of n] d by simp
    ultimately show ?thesis
      using dig lead [OF d] d by (auto simp: valid_number_def num_char_def list_all_iff)
  qed
  show ?thesis
  proof (cases "i < 0")
    case True
    obtain d r where d: "show_nat (nat (- i)) = d # r" using show_nat_digits [of "nat (- i)"] by (cases "show_nat (nat (- i))") auto
    with nat [of "nat (- i)"] show_nat_hd [of "nat (- i)"] True show ?thesis
      by (auto simp: show_int_def valid_number_def num_char_def Let_def)
  qed (use nat in \<open>simp add: show_int_def\<close>)
qed

subsection \<open>Structs\<close>

text \<open>
  A struct's fields by JSON name, each with how it takes a value (\<open>None\<close> is a type error). A member goes to the field of
  exactly its name, else to one of the same folded name: besides ASCII case, the long s folds to \<open>s\<close> and the Kelvin
  sign to \<open>k\<close>. A member with no field is skipped, or refused after \<open>DisallowUnknownFields\<close>. An error makes
  every caller drop the struct, so it is the whole result. Of a slice that an earlier member of the same name has filled,
  a null element keeps what is there; what lies beyond the slice's length is not modelled.
\<close>

type_synonym 's field = "string \<times> (json \<Rightarrow> 's \<Rightarrow> 's option)"

fun fold_name :: "string \<Rightarrow> string" where
  "fold_name (a # b # c # s) =
     (if byte a = 0xC5 \<and> byte b = 0xBF then CHR ''s'' # fold_name (c # s)
      else if byte a = 0xE2 \<and> byte b = 0x84 \<and> byte c = 0xAA then CHR ''k'' # fold_name s
      else lower_char a # fold_name (b # c # s))"
| "fold_name [a, b] = (if byte a = 0xC5 \<and> byte b = 0xBF then [CHR ''s''] else [lower_char a, lower_char b])"
| "fold_name [a] = [lower_char a]"
| "fold_name [] = []"

definition find_field :: "'s field list \<Rightarrow> string \<Rightarrow> 's field option" where
  "find_field fs key =
     (case find (\<lambda>f. fst f = key) fs of
        Some f \<Rightarrow> Some f
      | None \<Rightarrow> find (\<lambda>f. fold_name (fst f) = fold_name key) fs)"

fun set_members :: "bool \<Rightarrow> 's field list \<Rightarrow> (string \<times> json) list \<Rightarrow> 's \<Rightarrow> 's option" where
  "set_members strict fs [] r = Some r"
| "set_members strict fs ((k, v) # ms) r =
     (case find_field fs k of
        None \<Rightarrow> if strict then None else set_members strict fs ms r
      | Some f \<Rightarrow> (case snd f v r of None \<Rightarrow> None | Some r' \<Rightarrow> set_members strict fs ms r'))"

definition set_struct :: "bool \<Rightarrow> 's field list \<Rightarrow> 's \<Rightarrow> json \<Rightarrow> 's option" where
  "set_struct strict fs r v = (case v of JNull \<Rightarrow> Some r | JObj ms \<Rightarrow> set_members strict fs ms r | _ \<Rightarrow> None)"

definition set_string :: "(string \<Rightarrow> 's \<Rightarrow> 's) \<Rightarrow> json \<Rightarrow> 's \<Rightarrow> 's option" where
  "set_string upd v r = (case v of JNull \<Rightarrow> Some r | JStr s \<Rightarrow> Some (upd s r) | _ \<Rightarrow> None)"

definition set_int64 :: "(int \<Rightarrow> 's \<Rightarrow> 's) \<Rightarrow> json \<Rightarrow> 's \<Rightarrow> 's option" where
  "set_int64 upd v r = (case v of JNull \<Rightarrow> Some r | JNum n \<Rightarrow> map_option (\<lambda>i. upd i r) (ParseInt n) | _ \<Rightarrow> None)"

fun get_strings :: "string list \<Rightarrow> json list \<Rightarrow> string list option" where
  "get_strings old [] = Some []"
| "get_strings old (JStr s # vs) = map_option (\<lambda>ss. s # ss) (get_strings (tl old) vs)"
| "get_strings old (JNull # vs) = map_option (\<lambda>ss. (if old = [] then [] else hd old) # ss) (get_strings (tl old) vs)"
| "get_strings old (_ # vs) = None"

definition set_strings :: "('s \<Rightarrow> string list) \<Rightarrow> (string list \<Rightarrow> 's \<Rightarrow> 's) \<Rightarrow> json \<Rightarrow> 's \<Rightarrow> 's option" where
  "set_strings get upd v r =
     (case v of JNull \<Rightarrow> Some (upd [] r) | JArr vs \<Rightarrow> map_option (\<lambda>ss. upd ss r) (get_strings (get r) vs) | _ \<Rightarrow> None)"

lemma get_strings_JStr [simp]: "get_strings old (map JStr ss) = Some ss"
  by (induction ss arbitrary: old) auto

end
