(* ===== verification/Go_Time.thy ===== *)
theory Go_Time
  imports Go_Json Go_Numeric
begin

text \<open>
  \<open>time.Time\<close> in UTC: the civil date of an instant in nanoseconds since 1970, and the text that \<open>encoding/json\<close> gives it
  (\<open>RFC3339Nano\<close>), which is refused for a year outside of 0 to 9999.
\<close>

text \<open>
  The proleptic Gregorian calendar in eras of 400 years of 146097 days, with years that start in March: a year, a month and a day from the
  days since 1970-01-01.
\<close>

definition civil_date :: "int \<Rightarrow> int \<times> int \<times> int" where
  "civil_date days =
     (let z = days + 719468;
          era = z div 146097;
          doe = z mod 146097;
          yoe = (doe - doe div 1460 + doe div 36524 - doe div 146096) div 365;
          doy = doe - (365 * yoe + yoe div 4 - yoe div 100);
          mp = (5 * doy + 2) div 153;
          day = doy - (153 * mp + 2) div 5 + 1;
          month = (if mp < 10 then mp + 3 else mp - 9)
      in (yoe + era * 400 + (if month \<le> 2 then 1 else 0), month, day))"

definition time_Year :: "time \<Rightarrow> int" where
  "time_Year t = fst (civil_date (t div (86400 * second)))"

text \<open>\<open>k\<close> decimal digits of a number.\<close>

fun digits :: "nat \<Rightarrow> int \<Rightarrow> string" where
  "digits 0 n = []"
| "digits (Suc k) n = digits k (n div 10) @ [char_of (48 + nat (n mod 10))]"

definition trim_zeros :: "string \<Rightarrow> string" where
  "trim_zeros s = rev (dropWhile (\<lambda>c. c = CHR ''0'') (rev s))"

text \<open>The layout \<open>2006-01-02T15:04:05.999999999Z\<close>.\<close>

definition format_RFC3339Nano :: "time \<Rightarrow> string" where
  "format_RFC3339Nano t =
     (let (year, month, day) = civil_date (t div (86400 * second));
          s = t mod (86400 * second) div second;
          fraction = trim_zeros (digits 9 (t mod second))
      in digits 4 year @ ''-'' @ digits 2 month @ ''-'' @ digits 2 day @ ''T''
         @ digits 2 (s div 3600) @ '':'' @ digits 2 (s mod 3600 div 60) @ '':'' @ digits 2 (s mod 60)
         @ (if fraction = [] then [] else ''.'' @ fraction) @ ''Z'')"

definition time_MarshalJSON :: "time \<Rightarrow> string + json" where
  "time_MarshalJSON t =
     (if time_Year t < 0 \<or> 10000 \<le> time_Year t then
        Inl ''json: error calling MarshalJSON for type time.Time: Time.MarshalJSON: year outside of range [0,9999]''
      else Inr (JStr (format_RFC3339Nano t)))"

lemma calendar_examples:
  "civil_date 0 = (1970, 1, 1)" "civil_date 11016 = (2000, 2, 29)" "civil_date (- 1) = (1969, 12, 31)" "civil_date 19723 = (2024, 1, 1)"
  "civil_date 47540 = (2100, 2, 28)" "civil_date 47541 = (2100, 3, 1)"
  "format_RFC3339Nano 1700000000120000000 = ''2023-11-14T22:13:20.12Z''"
  "time_Year zero_time = 1"
  by code_simp+

lemma digits_ascii: "is_ascii (digits k n)"
  by (induction k arbitrary: n) (auto simp: is_ascii_def byte_def of_char_of nat_less_iff)

text \<open>The marshalled time is plain text.\<close>

lemma format_ascii: "is_ascii (format_RFC3339Nano t)"
proof -
  have "is_ascii (trim_zeros s)" if "is_ascii s" for s
    using that by (auto simp: is_ascii_def trim_zeros_def list_all_iff dest!: set_dropWhileD)
  then show ?thesis
    using digits_ascii by (auto simp: format_RFC3339Nano_def Let_def is_ascii_def byte_def split: prod.split)
qed

end
