(* ===== verification/Doc_Events.thy ===== *)
theory Doc_Events
  imports Store_Interface Go_Time
begin

text \<open>
  Package \<open>events\<close> of the Document Intake service, the part that builds an event (\<open>events/events.go\<close>), with the JSON that the
  tags of its structs give.
\<close>

definition DocumentUploadedRoutingKey :: string where
  "DocumentUploadedRoutingKey = ''document.uploaded''"

record UploadedFile =
  uf_ID :: string
  uf_Filename :: string
  uf_ContentType :: string
  uf_SizeBytes :: int
  uf_Checksum :: string
  uf_StorageRef :: string

record DocumentUploaded =
  du_Type :: string
  du_UploadIDs :: "string list"
  du_Uploads :: "UploadedFile list"

record Envelope =
  en_EventID :: string
  en_EventType :: string
  en_EventVersion :: int
  en_OccurredAt :: time
  en_OrganizationID :: string
  en_DocumentID :: string
  en_Payload :: DocumentUploaded

subsection \<open>Its JSON\<close>

definition file_json :: "UploadedFile \<Rightarrow> json" where
  "file_json f =
     JObj [(''id'', JStr (uf_ID f)), (''filename'', JStr (uf_Filename f)), (''content_type'', JStr (uf_ContentType f)),
           (''size_bytes'', JNum (show_int (uf_SizeBytes f))), (''checksum'', JStr (uf_Checksum f)), (''storage_ref'', JStr (uf_StorageRef f))]"

definition payload_json :: "DocumentUploaded \<Rightarrow> json" where
  "payload_json p =
     JObj [(''type'', JStr (du_Type p)), (''upload_ids'', JArr (map JStr (du_UploadIDs p))), (''uploads'', JArr (map file_json (du_Uploads p)))]"

text \<open>The value of the time is given; it is all that can fail.\<close>

definition envelope_json :: "json \<Rightarrow> Envelope \<Rightarrow> json" where
  "envelope_json occurred e =
     JObj [(''event_id'', JStr (en_EventID e)), (''event_type'', JStr (en_EventType e)), (''event_version'', JNum (show_int (en_EventVersion e))),
           (''occurred_at'', occurred), (''organization_id'', JStr (en_OrganizationID e)), (''document_id'', JStr (en_DocumentID e)),
           (''payload'', payload_json (en_Payload e))]"

definition json_Marshal :: "Envelope \<Rightarrow> string + bytes" where
  "json_Marshal e = map_sum id (\<lambda>t. enc_json (envelope_json t e)) (time_MarshalJSON (en_OccurredAt e))"

text \<open>\<open>json.Valid\<close>.\<close>

definition json_Valid :: "bytes \<Rightarrow> bool" where
  "json_Valid bs \<longleftrightarrow> json_Unmarshal bs \<noteq> None"

definition uploaded_envelope :: "string \<Rightarrow> Document \<Rightarrow> UploadRecord \<Rightarrow> Envelope" where
  "uploaded_envelope eventID doc upload =
     \<lparr>en_EventID = eventID, en_EventType = ''DocumentUploaded'', en_EventVersion = 1,
      en_OccurredAt = u_CreatedAt upload, en_OrganizationID = d_OrganizationID doc, en_DocumentID = d_ID doc,
      en_Payload = \<lparr>du_Type = d_Type doc, du_UploadIDs = [u_ID upload],
        du_Uploads = [\<lparr>uf_ID = u_ID upload, uf_Filename = u_Filename upload,
          uf_ContentType = u_ContentType upload, uf_SizeBytes = u_SizeBytes upload,
          uf_Checksum = u_Checksum upload, uf_StorageRef = u_StorageRef upload\<rparr>]\<rparr>\<rparr>"

definition NewDocumentUploaded :: "string \<Rightarrow> Document \<Rightarrow> UploadRecord \<Rightarrow> string + OutboxEvent" where
  "NewDocumentUploaded eventID doc upload =
     (let envelope = uploaded_envelope eventID doc upload
      in case json_Marshal envelope of
           Inl err \<Rightarrow> Inl (''marshal document uploaded event: '' @ err)
         | Inr payload \<Rightarrow>
             Inr \<lparr>ev_ID = eventID, ev_EventType = en_EventType envelope, ev_EventVersion = en_EventVersion envelope,
                  ev_RoutingKey = DocumentUploadedRoutingKey, ev_OrganizationID = d_OrganizationID doc,
                  ev_DocumentID = d_ID doc, ev_Payload = payload, ev_CreatedAt = u_CreatedAt upload\<rparr>)"

lemma NewDocumentUploaded_fields:
  assumes "NewDocumentUploaded eid doc up = Inr ev"
  shows "ev_ID ev = eid \<and> ev_RoutingKey ev = ''document.uploaded'' \<and> ev_OrganizationID ev = d_OrganizationID doc
    \<and> ev_DocumentID ev = d_ID doc \<and> json_Marshal (uploaded_envelope eid doc up) = Inr (ev_Payload ev)"
  using assms by (auto simp: NewDocumentUploaded_def DocumentUploadedRoutingKey_def Let_def split: sum.splits)

text \<open>Every envelope nests three levels deep, and can be written.\<close>

lemma envelope_writable: "writable max_depth (envelope_json (JStr s) e)"
  using valid_number_show_int [of "en_EventVersion e"] valid_number_show_int [of "uf_SizeBytes f" for f]
  by (auto simp: envelope_json_def payload_json_def file_json_def list_all_iff)

lemma NewDocumentUploaded_year:
  "NewDocumentUploaded eid doc up = Inr ev \<Longrightarrow> 0 \<le> time_Year (u_CreatedAt up) \<and> time_Year (u_CreatedAt up) < 10000"
  by (auto simp: NewDocumentUploaded_def json_Marshal_def time_MarshalJSON_def uploaded_envelope_def Let_def split: sum.splits if_splits)

text \<open>A decoder reads the envelope back from the payload, with stray bytes of its texts replaced.\<close>

lemma NewDocumentUploaded_payload:
  assumes "NewDocumentUploaded eid doc up = Inr ev"
  shows "json_Unmarshal (ev_Payload ev)
    = Some (valid_json (envelope_json (JStr (format_RFC3339Nano (u_CreatedAt up))) (uploaded_envelope eid doc up)))"
proof -
  have "ev_Payload ev = enc_json (envelope_json (JStr (format_RFC3339Nano (u_CreatedAt up))) (uploaded_envelope eid doc up))"
    using NewDocumentUploaded_fields [OF assms] NewDocumentUploaded_year [OF assms]
    by (auto simp: json_Marshal_def time_MarshalJSON_def uploaded_envelope_def)
  then show ?thesis using Unmarshal_enc_json [OF envelope_writable] by simp
qed

lemma NewDocumentUploaded_valid: "NewDocumentUploaded eid doc up = Inr ev \<Longrightarrow> json_Valid (ev_Payload ev)"
  by (simp add: json_Valid_def NewDocumentUploaded_payload)

definition sample_intake_runtime :: float_runtime where
  "sample_intake_runtime = sample_runtime"

lemma sample_intake_runtime_simps [simp]:
  "round64 sample_intake_runtime = Fin" "sha256 sample_intake_runtime x = replicate 32 CHR 0x00" "rfc3339 sample_intake_runtime t = show_int t"
  by (simp_all add: sample_intake_runtime_def sample_runtime_def)

end
