(* ===== verification/Intake_Service.thy ===== *)
theory Intake_Service
  imports Authz Store_Interface Object_Storage Upload_Pool Intake_Metrics Doc_Events
begin

text \<open>
  The Document Intake service (\<open>service/document.go\<close>): the request and response messages of
  \<open>documents.proto\<close>, the \<open>Service\<close> and its handlers.

  A handler takes the runtime, the readings of the clock and of the random source during the
  call (\<open>call_env\<close>), the incoming metadata, the request (\<open>None\<close> for \<open>nil\<close>) and the service, and
  returns the response or a status error with the new state of the service. The metadata store and the object storage
  are the interfaces of \<open>Store_Interface\<close> and \<open>Object_Storage\<close>, with their states as fields of the
  service, so that every handler is defined, and its isolation of tenants proved, once for all stores.
\<close>

subsection \<open>Messages\<close>

record CreateDocumentRequest =
  cd_OrganizationId :: string
  cd_Type :: string
  cd_Filename :: string
  cd_ContentType :: string
  cd_Content :: bytes

record GetDocumentRequest =
  gd_OrganizationId :: string
  gd_Id :: string

record UploadDocumentRequest =
  ud_OrganizationId :: string
  ud_DocumentId :: string
  ud_Filename :: string
  ud_ContentType :: string
  ud_Content :: bytes
  ud_IdempotencyKey :: string

record UploadDocumentResponse =
  ur_UploadId :: string
  ur_DocumentId :: string
  ur_StorageRef :: string
  ur_Checksum :: string

record CreateUploadIntentRequest =
  ci_OrganizationId :: string
  ci_DocumentId :: string
  ci_Filename :: string
  ci_ContentType :: string
  ci_SizeBytes :: int
  ci_Checksum :: string
  ci_IdempotencyKey :: string

record CreateUploadIntentResponse =
  ir_UploadId :: string
  ir_DocumentId :: string
  ir_UploadUrl :: string
  ir_StorageRef :: string
  ir_ExpiresAt :: string

record CompleteUploadRequest =
  cu_OrganizationId :: string
  cu_DocumentId :: string
  cu_UploadId :: string
  cu_SizeBytes :: int
  cu_Checksum :: string

record GetDocumentStatusRequest =
  gs_OrganizationId :: string
  gs_DocumentId :: string

record DocumentStatus =
  ds_DocumentId :: string
  ds_Status :: string
  ds_ProcessingJobStatus :: string
  ds_UpdatedAt :: string

record ProtoUpload =
  pu_Id :: string
  pu_Filename :: string
  pu_ContentType :: string
  pu_SizeBytes :: int
  pu_Checksum :: string
  pu_StorageRef :: string
  pu_CreatedAt :: string
  pu_Status :: string
  pu_UploadMethod :: string
  pu_ConfirmedAt :: string

record ProtoDocument =
  pd_Id :: string
  pd_OrganizationId :: string
  pd_Type :: string
  pd_Filename :: string
  pd_ContentType :: string
  pd_Status :: string
  pd_CreatedAt :: string
  pd_Uploads :: "ProtoUpload list"

subsection \<open>The service\<close>

text \<open>
  A publisher's answer to a call may depend on the calls it has received before, which the
  service record keeps in \<open>sv_published\<close>. \<open>sv_headers\<close> are the response headers set by
  \<open>grpc.SetHeader\<close>. A nil upload pool, object storage or metrics pointer is \<open>None\<close>.
\<close>

type_synonym publication = "string \<times> string \<times> UploadRecord"

record ('s, 'o) Service =
  sv_store :: "'s store_iface"
  sv_objectStorage :: "'o obj_iface option"
  sv_publisher :: "publication list \<Rightarrow> string \<Rightarrow> string \<Rightarrow> UploadRecord \<Rightarrow> string option"
  sv_maxUploadBytes :: int
  sv_allowedTypes :: "string list"
  sv_uploadPool :: "uploadPool option"
  sv_metrics :: "IntakeMetrics option"
  sv_db :: 's
  sv_objects :: 'o
  sv_published :: "publication list"
  sv_headers :: "(string \<times> string) list"

text \<open>
  The \<open>n\<close>-th reading of the clock and of the random source in a call; the source may fail, and
  \<open>newID\<close> then reads the clock once more.
\<close>

record call_env =
  ce_now :: "nat \<Rightarrow> time"
  ce_rand :: "nat \<Rightarrow> bytes option"
  ce_nanos :: "nat \<Rightarrow> int"

definition NoopEventPublisher :: "publication list \<Rightarrow> string \<Rightarrow> string \<Rightarrow> UploadRecord \<Rightarrow> string option" where
  "NoopEventPublisher history org doc upload = None"

definition NewService ::
  "'z runtime_scheme \<Rightarrow> 's store_iface \<Rightarrow> 's \<Rightarrow> 'o obj_iface option \<Rightarrow> 'o \<Rightarrow> int \<Rightarrow> string list \<Rightarrow> ('s, 'o) Service" where
  "NewService rt st db objectStorage objects maxUploadBytes allowedTypes =
     \<lparr>sv_store = st, sv_objectStorage = objectStorage, sv_publisher = NoopEventPublisher,
      sv_maxUploadBytes = maxUploadBytes,
      sv_allowedTypes = filter (\<lambda>t. t \<noteq> []) (map (\<lambda>t. ToLower rt (TrimSpace t)) allowedTypes),
      sv_uploadPool = None, sv_metrics = None, sv_db = db, sv_objects = objects, sv_published = [], sv_headers = []\<rparr>"

definition WithPublisher ::
  "(publication list \<Rightarrow> string \<Rightarrow> string \<Rightarrow> UploadRecord \<Rightarrow> string option) option \<Rightarrow> ('s, 'o) Service \<Rightarrow> ('s, 'o) Service" where
  "WithPublisher publisher s = (case publisher of None \<Rightarrow> s | Some p \<Rightarrow> s\<lparr>sv_publisher := p\<rparr>)"

definition WithUploadPool :: "UploadPoolConfig \<Rightarrow> ('s, 'o) Service \<Rightarrow> string + ('s, 'o) Service" where
  "WithUploadPool config s =
     (case newUploadPool config of Inl err \<Rightarrow> Inl err | Inr pool \<Rightarrow> Inr (s\<lparr>sv_uploadPool := Some pool\<rparr>))"

definition WithMetrics :: "IntakeMetrics option \<Rightarrow> ('s, 'o) Service \<Rightarrow> ('s, 'o) Service" where
  "WithMetrics metrics s = s\<lparr>sv_metrics := metrics\<rparr>"

definition isAllowedType :: "'z runtime_scheme \<Rightarrow> ('s, 'o) Service \<Rightarrow> string \<Rightarrow> bool" where
  "isAllowedType rt s contentType \<longleftrightarrow>
     sv_allowedTypes s = [] \<or> ToLower rt (TrimSpace contentType) \<in> set (sv_allowedTypes s)"

definition newID :: "call_env \<Rightarrow> nat \<Rightarrow> string \<Rightarrow> string" where
  "newID env n pre =
     (case ce_rand env n of
        None \<Rightarrow> pre @ ''_'' @ show_int (ce_nanos env n)
      | Some random \<Rightarrow> pre @ ''_'' @ hex_encode random)"

definition toProtoDocument :: "'z runtime_scheme \<Rightarrow> Document \<Rightarrow> ProtoDocument" where
  "toProtoDocument rt doc =
     \<lparr>pd_Id = d_ID doc, pd_OrganizationId = d_OrganizationID doc, pd_Type = d_Type doc,
      pd_Filename = d_Filename doc, pd_ContentType = d_ContentType doc, pd_Status = d_Status doc,
      pd_CreatedAt = rfc3339 rt (d_CreatedAt doc),
      pd_Uploads = map (\<lambda>upload.
        \<lparr>pu_Id = u_ID upload, pu_Filename = u_Filename upload, pu_ContentType = u_ContentType upload,
         pu_SizeBytes = u_SizeBytes upload, pu_Checksum = u_Checksum upload, pu_StorageRef = u_StorageRef upload,
         pu_CreatedAt = rfc3339 rt (u_CreatedAt upload), pu_Status = u_Status upload,
         pu_UploadMethod = u_UploadMethod upload, pu_ConfirmedAt = []\<rparr>) (d_Uploads doc)\<rparr>"

definition findUpload :: "Document \<Rightarrow> string \<Rightarrow> UploadRecord option" where
  "findUpload doc uploadID = find (\<lambda>upload. u_ID upload = uploadID) (d_Uploads doc)"

text \<open>\<open>PublishDocumentUploaded\<close> of the configured publisher.\<close>

definition publish_uploaded :: "string \<Rightarrow> string \<Rightarrow> UploadRecord \<Rightarrow> ('s, 'o) Service \<Rightarrow> string option \<times> ('s, 'o) Service" where
  "publish_uploaded org doc upload s =
     (sv_publisher s (sv_published s) org doc upload,
      s\<lparr>sv_published := sv_published s @ [(org, doc, upload)]\<rparr>)"

text \<open>The metadata errors a handler reports as \<open>NotFound\<close>: a foreign document is indistinguishable from none.\<close>

definition is_missing :: "store_error \<Rightarrow> bool" where
  "is_missing e \<longleftrightarrow> e = ErrDocumentNotFound \<or> e = ErrOrganizationMismatch"

definition load_error :: "string \<Rightarrow> store_error \<Rightarrow> status_error" where
  "load_error what e =
     (if is_missing e then Status NotFound ''document not found''
      else Status Internal (what @ '': '' @ store_error_text e))"

definition request_required :: status_error where
  "request_required = Status InvalidArgument ''request is required''"

definition oversized :: "('s, 'o) Service \<Rightarrow> bytes \<Rightarrow> bool" where
  "oversized s content \<longleftrightarrow> 0 < sv_maxUploadBytes s \<and> sv_maxUploadBytes s < int (length content)"

definition oversized_error :: "('s, 'o) Service \<Rightarrow> status_error" where
  "oversized_error s =
     Status InvalidArgument (''document exceeds max upload size of '' @ show_int (sv_maxUploadBytes s) @ '' bytes'')"

definition type_error :: "'z runtime_scheme \<Rightarrow> string \<Rightarrow> status_error" where
  "type_error rt contentType =
     Status InvalidArgument (''content type '' @ quote rt contentType @ '' is not allowed'')"

definition content_type_of :: "'z runtime_scheme \<Rightarrow> string \<Rightarrow> bytes \<Rightarrow> string" where
  "content_type_of rt declared content =
     (if TrimSpace declared = [] then detect_content_type rt content else TrimSpace declared)"

subsection \<open>Handlers\<close>

text \<open>The records \<open>CreateDocument\<close> builds: the document, the document with its content stored, the upload.\<close>

definition new_document :: "call_env \<Rightarrow> CreateDocumentRequest \<Rightarrow> Document" where
  "new_document env req =
     \<lparr>d_ID = newID env 0 ''doc'', d_OrganizationID = TrimSpace (cd_OrganizationId req),
      d_Type = TrimSpace (cd_Type req), d_Filename = TrimSpace (cd_Filename req),
      d_ContentType = TrimSpace (cd_ContentType req), d_Status = ''created'',
      d_ProcessingJobStatus = ''pending'', d_StorageRef = [], d_SizeBytes = 0,
      d_CreatedAt = ce_now env 0, d_UpdatedAt = ce_now env 0, d_Uploads = []\<rparr>"

definition content_document :: "call_env \<Rightarrow> string \<Rightarrow> string \<Rightarrow> bytes \<Rightarrow> Document \<Rightarrow> Document" where
  "content_document env contentType storageRef content doc =
     doc\<lparr>d_ContentType := contentType, d_Status := ''processing'', d_ProcessingJobStatus := ''queued'',
         d_StorageRef := storageRef, d_SizeBytes := int (length content), d_UpdatedAt := ce_now env 1\<rparr>"

definition content_upload ::
  "'z float_runtime_scheme \<Rightarrow> call_env \<Rightarrow> string \<Rightarrow> Document \<Rightarrow> string \<Rightarrow> string \<Rightarrow> bytes \<Rightarrow> UploadRecord" where
  "content_upload rt env organizationID doc contentType storageRef content =
     \<lparr>u_ID = newID env 1 ''upl'', u_DocumentID = d_ID doc, u_OrganizationID = organizationID,
      u_Filename = d_Filename doc, u_ContentType = contentType,
      u_SizeBytes = int (length content), u_Checksum = hex_encode (sha256 rt content),
      u_StorageRef = storageRef, u_IdempotencyKey = [], u_Status = [], u_UploadMethod = [],
      u_ExpectedSize = 0, u_ConfirmedAt = None, u_CreatedAt = ce_now env 2\<rparr>"

text \<open>The part of \<open>CreateDocument\<close> that stores the content of the request.\<close>

definition create_with_content ::
  "'z float_runtime_scheme \<Rightarrow> call_env \<Rightarrow> string \<Rightarrow> string \<Rightarrow> Document \<Rightarrow> bytes \<Rightarrow> ('s, 'o) Service \<Rightarrow>
   ProtoDocument rpc_result \<times> ('s, 'o) Service" where
  "create_with_content rt env organizationID declared doc0 content s =
     (if oversized s content then (Inl (oversized_error s), s)
      else
        let contentType = content_type_of rt declared content
        in if \<not> isAllowedType rt s contentType then (Inl (type_error rt contentType), s)
        else case sv_objectStorage s of
          None \<Rightarrow> (Inl (Status Internal ''object storage is not configured''), s)
        | Some obj \<Rightarrow>
          (case oi_Put obj organizationID (d_ID doc0) (d_Filename doc0) contentType content (sv_objects s) of
             (Inl err, o1) \<Rightarrow> (Inl (Status Internal (''store document content: '' @ err)), s\<lparr>sv_objects := o1\<rparr>)
           | (Inr storageRef, o1) \<Rightarrow>
               let s1 = s\<lparr>sv_objects := o1\<rparr>;
                   doc = content_document env contentType storageRef content doc0;
                   upload = content_upload rt env organizationID doc contentType storageRef content
               in case NewDocumentUploaded (newID env 2 ''evt'') doc upload of
                    Inl err \<Rightarrow> (Inl (Status Internal (''build document uploaded event: '' @ err)), s1)
                  | Inr event \<Rightarrow>
                    (case si_CreateDocumentAndQueue (sv_store s) of
                       Some create_and_queue \<Rightarrow>
                         (case create_and_queue (ce_now env 3) doc upload event (sv_db s1) of
                            (Inl e, db) \<Rightarrow>
                              (Inl (Status Internal (''persist document and event: '' @ store_error_text e)), s1\<lparr>sv_db := db\<rparr>)
                          | (Inr stored, db) \<Rightarrow> (Inr (toProtoDocument rt stored), s1\<lparr>sv_db := db\<rparr>))
                     | None \<Rightarrow>
                         (case si_CreateDocument (sv_store s) doc (sv_db s1) of
                            (Inl e, db) \<Rightarrow>
                              (Inl (Status Internal (''persist document metadata: '' @ store_error_text e)), s1\<lparr>sv_db := db\<rparr>)
                          | (Inr _, db) \<Rightarrow>
                              (case si_UploadDocument (sv_store s) (ce_now env 3) organizationID (d_ID doc) upload db of
                                 (Inl e, db') \<Rightarrow>
                                   (Inl (Status Internal (''persist document upload: '' @ store_error_text e)), s1\<lparr>sv_db := db'\<rparr>)
                               | (Inr stored, db') \<Rightarrow>
                                   (case publish_uploaded organizationID (d_ID doc) upload (s1\<lparr>sv_db := db'\<rparr>) of
                                      (Some err, s2) \<Rightarrow>
                                        (Inl (Status Internal (''publish document uploaded event: '' @ err)), s2)
                                    | (None, s2) \<Rightarrow> (Inr (toProtoDocument rt stored), s2)))))))"

definition CreateDocument ::
  "'z float_runtime_scheme \<Rightarrow> call_env \<Rightarrow> metadata option \<Rightarrow> CreateDocumentRequest option \<Rightarrow> ('s, 'o) Service \<Rightarrow>
   ProtoDocument rpc_result \<times> ('s, 'o) Service" where
  "CreateDocument rt env ctx request s =
     (case request of
        None \<Rightarrow> (Inl request_required, s)
      | Some req \<Rightarrow>
          let organizationID = TrimSpace (cd_OrganizationId req)
          in case Require rt ctx organizationID PermissionCreate of
               Some err \<Rightarrow> (Inl err, s)
             | None \<Rightarrow>
               if organizationID = [] then (Inl (Status InvalidArgument ''organization_id is required''), s)
               else if TrimSpace (cd_Type req) = [] then (Inl (Status InvalidArgument ''type is required''), s)
               else
                 let doc = new_document env req
                 in if cd_Content req \<noteq> [] then
                      create_with_content rt env organizationID (cd_ContentType req) doc (cd_Content req) s
                    else case si_CreateDocument (sv_store s) doc (sv_db s) of
                      (Inl e, db) \<Rightarrow>
                        (Inl (Status Internal (''persist document metadata: '' @ store_error_text e)), s\<lparr>sv_db := db\<rparr>)
                    | (Inr stored, db) \<Rightarrow> (Inr (toProtoDocument rt stored), s\<lparr>sv_db := db\<rparr>))"

definition GetDocument ::
  "'z runtime_scheme \<Rightarrow> metadata option \<Rightarrow> GetDocumentRequest option \<Rightarrow> ('s, 'o) Service \<Rightarrow> ProtoDocument rpc_result" where
  "GetDocument rt ctx request s =
     (case request of
        None \<Rightarrow> Inl request_required
      | Some req \<Rightarrow>
          let organizationID = TrimSpace (gd_OrganizationId req)
          in case Require rt ctx organizationID PermissionRead of
               Some err \<Rightarrow> Inl err
             | None \<Rightarrow>
               if organizationID = [] then Inl (Status InvalidArgument ''organization_id is required'')
               else if TrimSpace (gd_Id req) = [] then Inl (Status InvalidArgument ''id is required'')
               else case si_GetDocument (sv_store s) organizationID (gd_Id req) (sv_db s) of
                      Inl e \<Rightarrow> Inl (load_error ''load document'' e)
                    | Inr doc \<Rightarrow> Inr (toProtoDocument rt doc))"

definition GetDocumentStatus ::
  "'z runtime_scheme \<Rightarrow> metadata option \<Rightarrow> GetDocumentStatusRequest option \<Rightarrow> ('s, 'o) Service \<Rightarrow> DocumentStatus rpc_result" where
  "GetDocumentStatus rt ctx request s =
     (case request of
        None \<Rightarrow> Inl request_required
      | Some req \<Rightarrow>
          let organizationID = TrimSpace (gs_OrganizationId req)
          in case Require rt ctx organizationID PermissionRead of
               Some err \<Rightarrow> Inl err
             | None \<Rightarrow>
               if organizationID = [] then Inl (Status InvalidArgument ''organization_id is required'')
               else if TrimSpace (gs_DocumentId req) = [] then Inl (Status InvalidArgument ''document_id is required'')
               else case si_GetDocumentStatus (sv_store s) organizationID (TrimSpace (gs_DocumentId req)) (sv_db s) of
                      Inl e \<Rightarrow> Inl (load_error ''load document status'' e)
                    | Inr doc \<Rightarrow>
                        Inr \<lparr>ds_DocumentId = d_ID doc, ds_Status = d_Status doc,
                             ds_ProcessingJobStatus = d_ProcessingJobStatus doc,
                             ds_UpdatedAt = rfc3339 rt (d_UpdatedAt doc)\<rparr>)"

text \<open>
  \<open>UploadDocument\<close> from the point where it holds a slot of the pool to its return, before the
  deferred calls run. \<open>pool_update\<close> and \<open>metrics_update\<close> are the calls on a pool or metrics that may
  be nil.
\<close>

definition pool_update :: "(uploadPool \<Rightarrow> uploadPool) \<Rightarrow> ('s, 'o) Service \<Rightarrow> ('s, 'o) Service" where
  "pool_update f s = s\<lparr>sv_uploadPool := map_option f (sv_uploadPool s)\<rparr>"

definition metrics_update :: "(IntakeMetrics \<Rightarrow> IntakeMetrics) \<Rightarrow> ('s, 'o) Service \<Rightarrow> ('s, 'o) Service" where
  "metrics_update f s = s\<lparr>sv_metrics := map_option f (sv_metrics s)\<rparr>"

definition upload_response :: "UploadRecord \<Rightarrow> UploadDocumentResponse" where
  "upload_response u =
     \<lparr>ur_UploadId = u_ID u, ur_DocumentId = u_DocumentID u, ur_StorageRef = u_StorageRef u, ur_Checksum = u_Checksum u\<rparr>"

definition store_upload ::
  "call_env \<Rightarrow> string \<Rightarrow> string \<Rightarrow> UploadRecord \<Rightarrow> OutboxEvent \<Rightarrow> ('s, 'o) Service \<Rightarrow> (string + Document) \<times> ('s, 'o) Service" where
  "store_upload env organizationID documentID upload event s =
     (case si_UploadDocumentAndQueue (sv_store s) of
        Some upload_and_queue \<Rightarrow>
          (case upload_and_queue (ce_now env 3) organizationID documentID upload event (sv_db s) of
             (Inl e, db) \<Rightarrow> (Inl (store_error_text e), s\<lparr>sv_db := db\<rparr>)
           | (Inr d, db) \<Rightarrow> (Inr d, s\<lparr>sv_db := db\<rparr>))
      | None \<Rightarrow>
          (case si_UploadDocument (sv_store s) (ce_now env 3) organizationID documentID upload (sv_db s) of
             (Inl e, db) \<Rightarrow> (Inl (store_error_text e), s\<lparr>sv_db := db\<rparr>)
           | (Inr d, db) \<Rightarrow>
               (case publish_uploaded organizationID (d_ID d) upload (s\<lparr>sv_db := db\<rparr>) of
                  (Some err, s2) \<Rightarrow> (Inl err, s2)
                | (None, s2) \<Rightarrow> (Inr d, s2))))"

definition persist_upload ::
  "'z float_runtime_scheme \<Rightarrow> call_env \<Rightarrow> string \<Rightarrow> string \<Rightarrow> Document \<Rightarrow> UploadRecord \<Rightarrow> ('s, 'o) Service \<Rightarrow>
   UploadDocumentResponse rpc_result \<times> ('s, 'o) Service" where
  "persist_upload rt env organizationID documentID doc upload s =
     (case NewDocumentUploaded (newID env 1 ''evt'') doc upload of
        Inl err \<Rightarrow> (Inl (Status Internal (''build document uploaded event: '' @ err)), s)
      | Inr event \<Rightarrow>
          (case store_upload env organizationID documentID upload event s of
             (Inl err, s') \<Rightarrow> (Inl (Status Internal (''persist upload and event: '' @ err)), s')
           | (Inr updatedDoc, s') \<Rightarrow>
               (Inr \<lparr>ur_UploadId = u_ID upload, ur_DocumentId = d_ID updatedDoc,
                     ur_StorageRef = u_StorageRef upload, ur_Checksum = u_Checksum upload\<rparr>, s')))"

definition proxied_upload ::
  "'z float_runtime_scheme \<Rightarrow> call_env \<Rightarrow> string \<Rightarrow> string \<Rightarrow> string \<Rightarrow> string \<Rightarrow> UploadDocumentRequest \<Rightarrow> UploadRecord" where
  "proxied_upload rt env organizationID documentID contentType storageRef req =
     \<lparr>u_ID = newID env 0 ''upl'', u_DocumentID = documentID, u_OrganizationID = organizationID,
      u_Filename = TrimSpace (ud_Filename req), u_ContentType = contentType,
      u_SizeBytes = int (length (ud_Content req)),
      u_Checksum = hex_encode (sha256 rt (ud_Content req)), u_StorageRef = storageRef,
      u_IdempotencyKey = ud_IdempotencyKey req, u_Status = [], u_UploadMethod = [],
      u_ExpectedSize = 0, u_ConfirmedAt = None, u_CreatedAt = ce_now env 2\<rparr>"

definition upload_body ::
  "'z float_runtime_scheme \<Rightarrow> call_env \<Rightarrow> string \<Rightarrow> string \<Rightarrow> string \<Rightarrow> 'o obj_iface \<Rightarrow> UploadDocumentRequest \<Rightarrow>
   ('s, 'o) Service \<Rightarrow> UploadDocumentResponse rpc_result \<times> ('s, 'o) Service" where
  "upload_body rt env organizationID documentID contentType obj req s =
     (case si_GetDocument (sv_store s) organizationID documentID (sv_db s) of
        Inl e \<Rightarrow> (Inl (load_error ''load document'' e), s)
      | Inr doc \<Rightarrow>
          case find (\<lambda>existing. ud_IdempotencyKey req \<noteq> [] \<and> u_IdempotencyKey existing = ud_IdempotencyKey req)
                 (d_Uploads doc) of
            Some existing \<Rightarrow> (Inr (upload_response existing), s)
          | None \<Rightarrow>
              (case oi_Put obj organizationID documentID (ud_Filename req) contentType (ud_Content req) (sv_objects s) of
                 (Inl err, o1) \<Rightarrow>
                   (Inl (Status Internal (''store document content: '' @ err)),
                    pool_update (pool_failure (ce_now env 1)) (s\<lparr>sv_objects := o1\<rparr>))
               | (Inr storageRef, o1) \<Rightarrow>
                   let s1 = metrics_update (AddStreamedBytes (int (length (ud_Content req))))
                              (pool_update pool_success (s\<lparr>sv_objects := o1\<rparr>));
                       upload = proxied_upload rt env organizationID documentID contentType storageRef req
                   in persist_upload rt env organizationID documentID doc upload s1))"

text \<open>
  The whole handler. The deferred calls run in reverse order: \<open>release\<close>, then
  \<open>WorkerFinished\<close>. The result is \<open>None\<close> when \<open>release\<close> blocks.
\<close>

definition UploadDocument ::
  "'z float_runtime_scheme \<Rightarrow> call_env \<Rightarrow> metadata option \<Rightarrow> UploadDocumentRequest option \<Rightarrow> ('s, 'o) Service \<Rightarrow>
   (UploadDocumentResponse rpc_result \<times> ('s, 'o) Service) option" where
  "UploadDocument rt env ctx request s =
     (case request of
        None \<Rightarrow> Some (Inl request_required, s)
      | Some req \<Rightarrow>
          let organizationID = TrimSpace (ud_OrganizationId req);
              documentID = TrimSpace (ud_DocumentId req);
              contentType = content_type_of rt (ud_ContentType req) (ud_Content req)
          in case Require rt ctx organizationID PermissionUpload of
               Some err \<Rightarrow> Some (Inl err, s)
             | None \<Rightarrow>
               if organizationID = [] then Some (Inl (Status InvalidArgument ''organization_id is required''), s)
               else if documentID = [] then Some (Inl (Status InvalidArgument ''document_id is required''), s)
               else if TrimSpace (ud_Filename req) = [] then Some (Inl (Status InvalidArgument ''filename is required''), s)
               else if ud_Content req = [] then Some (Inl (Status InvalidArgument ''document content is required''), s)
               else if oversized s (ud_Content req) then Some (Inl (oversized_error s), s)
               else if \<not> isAllowedType rt s contentType then Some (Inl (type_error rt contentType), s)
               else case sv_objectStorage s of
                 None \<Rightarrow> Some (Inl (Status Internal ''object storage is not configured''), s)
               | Some obj \<Rightarrow>
                 (case sv_uploadPool s of
                    None \<Rightarrow> Some (upload_body rt env organizationID documentID contentType obj req s)
                  | Some pool \<Rightarrow>
                      (case acquire rt (ce_now env 0) organizationID pool of
                         (Some err, pool') \<Rightarrow>
                           Some (Inl (Status ResourceExhausted err),
                             metrics_update UploadRejected
                               (s\<lparr>sv_uploadPool := Some pool', sv_headers := sv_headers s @ [(''retry-after'', ''1'')]\<rparr>))
                       | (None, pool') \<Rightarrow>
                           let (result, s2) = upload_body rt env organizationID documentID contentType obj req
                                                (metrics_update WorkerStarted (s\<lparr>sv_uploadPool := Some pool'\<rparr>))
                           in case sv_uploadPool s2 of
                                None \<Rightarrow> None
                              | Some p \<Rightarrow>
                                  (case release p of
                                     None \<Rightarrow> None
                                   | Some p' \<Rightarrow>
                                       Some (result, metrics_update WorkerFinished (s2\<lparr>sv_uploadPool := Some p'\<rparr>))))))"

text \<open>The type assertion \<open>s.objectStorage.(store.DirectUploadStorage)\<close>; it fails on a nil storage too.\<close>

definition direct_storage :: "('s, 'o) Service \<Rightarrow> 'o direct_iface option" where
  "direct_storage s = (case sv_objectStorage s of None \<Rightarrow> None | Some obj \<Rightarrow> oi_direct obj)"

definition no_direct_upload :: status_error where
  "no_direct_upload = Status Unimplemented ''direct upload is not supported by the configured object storage''"

definition intent_upload :: "call_env \<Rightarrow> string \<Rightarrow> string \<Rightarrow> Document \<Rightarrow> CreateUploadIntentRequest \<Rightarrow> UploadRecord" where
  "intent_upload env organizationID contentType doc req =
     \<lparr>u_ID = newID env 0 ''upl'', u_DocumentID = d_ID doc, u_OrganizationID = organizationID,
      u_Filename = TrimSpace (ci_Filename req), u_ContentType = contentType, u_SizeBytes = 0,
      u_Checksum = TrimSpace (ci_Checksum req), u_StorageRef = [],
      u_IdempotencyKey = TrimSpace (ci_IdempotencyKey req), u_Status = [], u_UploadMethod = [],
      u_ExpectedSize = ci_SizeBytes req, u_ConfirmedAt = None, u_CreatedAt = ce_now env 0\<rparr>"

definition CreateUploadIntent ::
  "'z float_runtime_scheme \<Rightarrow> call_env \<Rightarrow> metadata option \<Rightarrow> CreateUploadIntentRequest option \<Rightarrow> ('s, 'o) Service \<Rightarrow>
   CreateUploadIntentResponse rpc_result \<times> ('s, 'o) Service" where
  "CreateUploadIntent rt env ctx request s =
     (case request of
        None \<Rightarrow> (Inl request_required, s)
      | Some req \<Rightarrow>
          let organizationID = TrimSpace (ci_OrganizationId req);
              contentType = ToLower rt (TrimSpace (ci_ContentType req))
          in case Require rt ctx organizationID PermissionUpload of
            Some err \<Rightarrow> (Inl err, s)
          | None \<Rightarrow>
            if organizationID = [] \<or> TrimSpace (ci_DocumentId req) = [] \<or> TrimSpace (ci_Filename req) = [] then
              (Inl (Status InvalidArgument ''organization_id, document_id, and filename are required''), s)
            else if ci_SizeBytes req \<le> 0 \<or> (0 < sv_maxUploadBytes s \<and> sv_maxUploadBytes s < ci_SizeBytes req) then
              (Inl (Status InvalidArgument ''invalid upload size''), s)
            else if \<not> isAllowedType rt s contentType then (Inl (type_error rt contentType), s)
            else case direct_storage s of
              None \<Rightarrow> (Inl no_direct_upload, s)
            | Some storage \<Rightarrow>
            (case si_GetDocument (sv_store s) organizationID (TrimSpace (ci_DocumentId req)) (sv_db s) of
               Inl e \<Rightarrow> (Inl (load_error ''load document'' e), s)
             | Inr doc \<Rightarrow>
               let upload = intent_upload env organizationID contentType doc req;
                   expires = 15 * minute
               in case di_PresignPut storage (ce_now env 1) organizationID (d_ID doc) (u_ID upload) (u_Filename upload)
                         (u_ContentType upload) expires (sv_objects s) of
                 (Inl err, o1) \<Rightarrow> (Inl (Status Internal (''create upload URL: '' @ err)), s\<lparr>sv_objects := o1\<rparr>)
               | (Inr (uploadURL, storageRef, expiresAt), o1) \<Rightarrow>
                 let s1 = s\<lparr>sv_objects := o1\<rparr>
                 in case si_intents (sv_store s) of
                   None \<Rightarrow> (Inl (Status Unimplemented ''upload intents are not supported by the configured metadata store''), s1)
                 | Some uploadStore \<Rightarrow>
                   (case ii_CreateUploadIntent uploadStore (ce_now env 2) organizationID (d_ID doc)
                           (upload\<lparr>u_StorageRef := storageRef\<rparr>) (sv_db s1) of
                      (Inl e, db) \<Rightarrow> (Inl (load_error ''persist upload intent'' e), s1\<lparr>sv_db := db\<rparr>)
                    | (Inr stored, db) \<Rightarrow>
                      let s2 = metrics_update PresignedURLIssued (s1\<lparr>sv_db := db\<rparr>);
                          answer = (\<lambda>url expiry. \<lparr>ir_UploadId = u_ID stored, ir_DocumentId = d_ID doc, ir_UploadUrl = url,
                                     ir_StorageRef = u_StorageRef stored, ir_ExpiresAt = rfc3339 rt expiry\<rparr>)
                      in if u_ID stored = u_ID upload then (Inr (answer uploadURL expiresAt), s2)
                         else case di_PresignPut storage (ce_now env 3) organizationID (d_ID doc) (u_ID stored)
                                     (u_Filename stored) (u_ContentType stored) expires (sv_objects s2) of
                           (Inl err, o2) \<Rightarrow> (Inl (Status Internal (''refresh upload URL: '' @ err)), s2\<lparr>sv_objects := o2\<rparr>)
                         | (Inr (url, _, expiry), o2) \<Rightarrow> (Inr (answer url expiry), s2\<lparr>sv_objects := o2\<rparr>))))"

text \<open>
  The three stages of \<open>CompleteUpload\<close> after it has found the upload intent: the comparison of the
  stored object with the request and the intent, which gives the size and the checksum to record; the
  confirmation in the metadata store; and the dispatch on the status of the intent.
\<close>

definition check_object :: "CompleteUploadRequest \<Rightarrow> UploadRecord \<Rightarrow> ObjectHead \<Rightarrow> status_error + int \<times> string" where
  "check_object req pending head =
     (let size = (if cu_SizeBytes req = 0 then oh_SizeBytes head else cu_SizeBytes req)
      in if oh_SizeBytes head \<noteq> size then
           Inl (Status InvalidArgument ''uploaded object size does not match declared size'')
         else
           let checksum = (if TrimSpace (cu_Checksum req) = [] then u_Checksum pending else TrimSpace (cu_Checksum req))
           in if checksum \<noteq> [] \<and> oh_Checksum head \<noteq> [] \<and> checksum \<noteq> oh_Checksum head then
                Inl (Status InvalidArgument ''upload checksum does not match object'')
              else Inr (size, checksum))"

definition confirm_error :: "store_error \<Rightarrow> status_error" where
  "confirm_error e =
     (if e = ErrUploadNotFound then Status NotFound ''upload intent not found''
      else if e = ErrUploadMismatch then Status InvalidArgument ''upload does not match intent''
      else Status Internal (''confirm upload: '' @ store_error_text e))"

definition confirm_stored ::
  "'z float_runtime_scheme \<Rightarrow> call_env \<Rightarrow> string \<Rightarrow> string \<Rightarrow> Document \<Rightarrow> UploadRecord \<Rightarrow> int \<Rightarrow> string \<Rightarrow>
   ('s, 'o) Service \<Rightarrow> UploadDocumentResponse rpc_result \<times> ('s, 'o) Service" where
  "confirm_stored rt env organizationID uploadID doc pending sizeBytes checksum s =
     (case si_intents (sv_store s) of
        None \<Rightarrow> (Inl (Status Unimplemented ''upload confirmation is not supported by the configured metadata store''), s)
      | Some uploadStore \<Rightarrow>
        (case NewDocumentUploaded (newID env 0 ''evt'') doc (pending\<lparr>u_SizeBytes := sizeBytes, u_Checksum := checksum\<rparr>) of
           Inl err \<Rightarrow> (Inl (Status Internal (''build document uploaded event: '' @ err)), s)
         | Inr event \<Rightarrow>
           (case ii_ConfirmUpload uploadStore (ce_now env 1) organizationID (d_ID doc) uploadID sizeBytes checksum event (sv_db s) of
              (Inl e, db) \<Rightarrow> (Inl (confirm_error e), s\<lparr>sv_db := db\<rparr>)
            | (Inr confirmed, db) \<Rightarrow>
                (Inr (upload_response confirmed),
                 metrics_update (ObserveConfirmation (time_Sub (ce_now env 2) (ce_now env 0))) (s\<lparr>sv_db := db\<rparr>)))))"

definition confirm_pending ::
  "'z float_runtime_scheme \<Rightarrow> call_env \<Rightarrow> string \<Rightarrow> CompleteUploadRequest \<Rightarrow> 'o direct_iface \<Rightarrow> Document \<Rightarrow> UploadRecord \<Rightarrow>
   ('s, 'o) Service \<Rightarrow> UploadDocumentResponse rpc_result \<times> ('s, 'o) Service" where
  "confirm_pending rt env organizationID req storage doc pending s =
     (if u_Status pending = ''confirmed'' then (Inr (upload_response pending), s)
      else if u_Status pending \<noteq> ''pending'' then (Inl (Status FailedPrecondition ''upload is not pending''), s)
      else case di_Head storage (u_StorageRef pending) (sv_objects s) of
        Inl err \<Rightarrow> (Inl (Status FailedPrecondition (''uploaded object is not available: '' @ err)), s)
      | Inr head \<Rightarrow>
        (case check_object req pending head of
           Inl err \<Rightarrow> (Inl err, s)
         | Inr (sizeBytes, checksum) \<Rightarrow>
             confirm_stored rt env organizationID (cu_UploadId req) doc pending sizeBytes checksum s))"

definition CompleteUpload ::
  "'z float_runtime_scheme \<Rightarrow> call_env \<Rightarrow> metadata option \<Rightarrow> CompleteUploadRequest option \<Rightarrow> ('s, 'o) Service \<Rightarrow>
   UploadDocumentResponse rpc_result \<times> ('s, 'o) Service" where
  "CompleteUpload rt env ctx request s =
     (case request of
        None \<Rightarrow> (Inl request_required, s)
      | Some req \<Rightarrow>
          let organizationID = TrimSpace (cu_OrganizationId req)
          in case Require rt ctx organizationID PermissionUpload of
            Some err \<Rightarrow> (Inl err, s)
          | None \<Rightarrow>
            if TrimSpace (cu_DocumentId req) = [] \<or> TrimSpace (cu_UploadId req) = [] then
              (Inl (Status InvalidArgument ''document_id and upload_id are required''), s)
            else case direct_storage s of
              None \<Rightarrow> (Inl no_direct_upload, s)
            | Some storage \<Rightarrow>
              (case si_GetDocument (sv_store s) organizationID (cu_DocumentId req) (sv_db s) of
                 Inl e \<Rightarrow> (Inl (load_error ''load document'' e), s)
               | Inr doc \<Rightarrow>
                 (case findUpload doc (cu_UploadId req) of
                    None \<Rightarrow> (Inl (Status NotFound ''upload intent not found''), s)
                  | Some pending \<Rightarrow> confirm_pending rt env organizationID req storage doc pending s)))"

record ObjectStorageNotification =
  on_OrganizationID :: string
  on_DocumentID :: string
  on_UploadID :: string
  on_SizeBytes :: int
  on_Checksum :: string

definition ConfirmUploadNotification ::
  "'z float_runtime_scheme \<Rightarrow> call_env \<Rightarrow> ObjectStorageNotification \<Rightarrow> ('s, 'o) Service \<Rightarrow>
   UploadDocumentResponse rpc_result \<times> ('s, 'o) Service" where
  "ConfirmUploadNotification rt env n s =
     (if TrimSpace (on_OrganizationID n) = [] \<or> TrimSpace (on_DocumentID n) = [] \<or> TrimSpace (on_UploadID n) = [] then
        (Inl (Status InvalidArgument ''notification organization, document, and upload IDs are required''), s)
      else
        CompleteUpload rt env
          (Some (md_Pairs [(''x-organization-id'', on_OrganizationID n), (''x-roles'', ''platform_admin'')]))
          (Some \<lparr>cu_OrganizationId = on_OrganizationID n, cu_DocumentId = on_DocumentID n, cu_UploadId = on_UploadID n,
                 cu_SizeBytes = on_SizeBytes n, cu_Checksum = on_Checksum n\<rparr>) s)"

lemma upload_record_ids [simp]:
  "u_DocumentID (content_upload rt env org doc ct ref content) = d_ID doc"
  "u_OrganizationID (content_upload rt env org doc ct ref content) = org"
  "u_DocumentID (proxied_upload rt env org i ct ref req) = i"
  "u_OrganizationID (proxied_upload rt env org i ct ref req) = org"
  "u_DocumentID (intent_upload env org ct doc ireq) = d_ID doc"
  "u_OrganizationID (intent_upload env org ct doc ireq) = org"
  by (simp_all add: content_upload_def proxied_upload_def intent_upload_def)

lemma proxied_upload_simps [simp]:
  "u_ID (proxied_upload rt env org i ct ref req) = newID env 0 ''upl''"
  "u_StorageRef (proxied_upload rt env org i ct ref req) = ref"
  "u_IdempotencyKey (proxied_upload rt env org i ct ref req) = ud_IdempotencyKey req"
  "u_Checksum (proxied_upload rt env org i ct ref req) = hex_encode (sha256 rt (ud_Content req))"
  "u_SizeBytes (proxied_upload rt env org i ct ref req) = int (length (ud_Content req))"
  by (simp_all add: proxied_upload_def)

lemma document_ids [simp]:
  "d_Uploads (new_document env req) = []" "d_OrganizationID (new_document env req) = TrimSpace (cd_OrganizationId req)"
  "d_ID (content_document env ct ref content doc) = d_ID doc"
  "d_Uploads (content_document env ct ref content doc) = d_Uploads doc"
  "d_OrganizationID (content_document env ct ref content doc) = d_OrganizationID doc"
  "d_Filename (content_document env ct ref content doc) = d_Filename doc"
  by (simp_all add: new_document_def content_document_def)

lemma newID_trim: "list_all graphic pre \<Longrightarrow> pre \<noteq> [] \<Longrightarrow> TrimSpace (newID env n pre) = newID env n pre"
  by (rule TrimSpace_all_graphic)
    (auto simp: newID_def hex_encode_graphic show_int_graphic graphic_def byte_def split: option.split)

lemma newID_not_Nil: "newID env n pre \<noteq> []"
  by (auto simp: newID_def split: option.split)

end
