(* ===== verification/Memory_Store.thy ===== *)
theory Memory_Store
  imports Store_Interface
begin

text \<open>
  \<open>MemoryStore\<close> of \<open>store/store.go\<close>: documents by identifier behind one mutex. A method
  holds the mutex from its first to its last statement and is one atomic step;
  \<open>CreateDocumentAndQueue\<close> is two of them, \<open>CreateDocument\<close> and \<open>UploadDocument\<close>, in this order.
\<close>

record MemoryStore =
  ms_docs :: "string \<rightharpoonup> Document"

definition NewMemoryStore :: MemoryStore where
  "NewMemoryStore = \<lparr>ms_docs = Map.empty\<rparr>"

definition mem_CreateDocument :: "Document \<Rightarrow> (MemoryStore, Document) store_op" where
  "mem_CreateDocument doc m =
     (case ms_docs m (d_ID doc) of
        Some _ \<Rightarrow> (Inl (ErrOther ''document already exists''), m)
      | None \<Rightarrow> (Inr doc, m\<lparr>ms_docs := (ms_docs m)(d_ID doc \<mapsto> doc)\<rparr>))"

definition mem_GetDocument :: "string \<Rightarrow> string \<Rightarrow> MemoryStore \<Rightarrow> store_error + Document" where
  "mem_GetDocument organizationID i m =
     (case ms_docs m i of
        None \<Rightarrow> Inl ErrDocumentNotFound
      | Some doc \<Rightarrow>
          if TrimSpace (d_OrganizationID doc) \<noteq> TrimSpace organizationID then Inl ErrOrganizationMismatch
          else Inr doc)"

definition mem_UploadDocument ::
  "time \<Rightarrow> string \<Rightarrow> string \<Rightarrow> UploadRecord \<Rightarrow> (MemoryStore, Document) store_op" where
  "mem_UploadDocument now organizationID documentID upload0 m =
     (let upload1 = (if u_Status upload0 = [] then upload0\<lparr>u_Status := ''confirmed''\<rparr> else upload0);
          upload = (if u_UploadMethod upload1 = [] then upload1\<lparr>u_UploadMethod := ''proxied''\<rparr> else upload1)
      in case ms_docs m documentID of
           None \<Rightarrow> (Inl ErrDocumentNotFound, m)
         | Some doc \<Rightarrow>
             if TrimSpace (d_OrganizationID doc) \<noteq> TrimSpace organizationID then
               (Inl ErrOrganizationMismatch, m)
             else if list_ex (\<lambda>existing. u_IdempotencyKey upload \<noteq> []
                       \<and> u_IdempotencyKey existing = u_IdempotencyKey upload) (d_Uploads doc) then
               (Inr doc, m)
             else
               let doc1 = doc\<lparr>d_Uploads := d_Uploads doc @ [upload], d_Status := ''processing'',
                              d_ProcessingJobStatus := ''queued'', d_UpdatedAt := now\<rparr>;
                   doc2 = (if u_StorageRef upload \<noteq> [] then
                             doc1\<lparr>d_StorageRef := u_StorageRef upload, d_SizeBytes := u_SizeBytes upload\<rparr>
                           else doc1)
               in (Inr doc2, m\<lparr>ms_docs := (ms_docs m)(documentID \<mapsto> doc2)\<rparr>))"

definition mem_CreateDocumentAndQueue ::
  "time \<Rightarrow> Document \<Rightarrow> UploadRecord \<Rightarrow> OutboxEvent \<Rightarrow> (MemoryStore, Document) store_op" where
  "mem_CreateDocumentAndQueue now doc upload ev m =
     (case mem_CreateDocument doc m of
        (Inl e, m') \<Rightarrow> (Inl e, m')
      | (Inr _, m') \<Rightarrow> mem_UploadDocument now (d_OrganizationID doc) (d_ID doc) upload m')"

definition mem_UploadDocumentAndQueue ::
  "time \<Rightarrow> string \<Rightarrow> string \<Rightarrow> UploadRecord \<Rightarrow> OutboxEvent \<Rightarrow> (MemoryStore, Document) store_op" where
  "mem_UploadDocumentAndQueue now organizationID documentID upload ev m =
     mem_UploadDocument now organizationID documentID upload m"

definition mem_GetDocumentStatus :: "string \<Rightarrow> string \<Rightarrow> MemoryStore \<Rightarrow> store_error + Document" where
  "mem_GetDocumentStatus organizationID documentID m = mem_GetDocument organizationID documentID m"

definition mem_CreateUploadIntent ::
  "time \<Rightarrow> string \<Rightarrow> string \<Rightarrow> UploadRecord \<Rightarrow> (MemoryStore, UploadRecord) store_op" where
  "mem_CreateUploadIntent now organizationID documentID upload m =
     (case ms_docs m documentID of
        None \<Rightarrow> (Inl ErrDocumentNotFound, m)
      | Some doc \<Rightarrow>
          if d_OrganizationID doc \<noteq> organizationID then (Inl ErrOrganizationMismatch, m)
          else
            case find (\<lambda>existing. u_IdempotencyKey upload \<noteq> []
                   \<and> u_IdempotencyKey existing = u_IdempotencyKey upload) (d_Uploads doc) of
              Some existing \<Rightarrow> (Inr existing, m)
            | None \<Rightarrow>
                let up = upload\<lparr>u_Status := ''pending'', u_UploadMethod := ''presigned_direct''\<rparr>;
                    doc' = doc\<lparr>d_Uploads := d_Uploads doc @ [up], d_UpdatedAt := now\<rparr>
                in (Inr up, m\<lparr>ms_docs := (ms_docs m)(documentID \<mapsto> doc')\<rparr>))"

text \<open>
  What \<open>ConfirmUpload\<close> does to the upload it finds: an error, or the upload as it is returned
  and whether it was written (an upload confirmed earlier is returned as it stands).
\<close>

definition confirm_upload ::
  "time \<Rightarrow> int \<Rightarrow> string \<Rightarrow> UploadRecord \<Rightarrow> store_error + (UploadRecord \<times> bool)" where
  "confirm_upload now sizeBytes checksum upload =
     (if u_Status upload = ''confirmed'' then Inr (upload, False)
      else if u_Status upload \<noteq> ''pending'' then Inl ErrUploadNotPending
      else if 0 < u_ExpectedSize upload \<and> u_ExpectedSize upload \<noteq> sizeBytes then Inl ErrUploadMismatch
      else if u_Checksum upload \<noteq> [] \<and> checksum \<noteq> [] \<and> u_Checksum upload \<noteq> checksum then Inl ErrUploadMismatch
      else Inr (upload\<lparr>u_Status := ''confirmed'', u_ConfirmedAt := Some now,
                       u_SizeBytes := sizeBytes, u_Checksum := checksum\<rparr>, True))"

text \<open>The loop over \<open>doc.Uploads\<close>, which writes through a pointer into the slice.\<close>

fun confirm_loop ::
  "time \<Rightarrow> string \<Rightarrow> int \<Rightarrow> string \<Rightarrow> UploadRecord list \<Rightarrow> store_error + (UploadRecord \<times> bool \<times> UploadRecord list)" where
  "confirm_loop now uploadID sizeBytes checksum [] = Inl ErrUploadNotFound"
| "confirm_loop now uploadID sizeBytes checksum (upload # rest) =
     (if u_ID upload \<noteq> uploadID then
        (case confirm_loop now uploadID sizeBytes checksum rest of
           Inl e \<Rightarrow> Inl e
         | Inr (up, written, rest') \<Rightarrow> Inr (up, written, upload # rest'))
      else
        (case confirm_upload now sizeBytes checksum upload of
           Inl e \<Rightarrow> Inl e
         | Inr (up, written) \<Rightarrow> Inr (up, written, up # rest)))"

definition mem_ConfirmUpload ::
  "time \<Rightarrow> string \<Rightarrow> string \<Rightarrow> string \<Rightarrow> int \<Rightarrow> string \<Rightarrow> OutboxEvent \<Rightarrow> (MemoryStore, UploadRecord) store_op" where
  "mem_ConfirmUpload now organizationID documentID uploadID sizeBytes checksum ev m =
     (case ms_docs m documentID of
        None \<Rightarrow> (Inl ErrDocumentNotFound, m)
      | Some doc \<Rightarrow>
          if d_OrganizationID doc \<noteq> organizationID then (Inl ErrOrganizationMismatch, m)
          else case confirm_loop now uploadID sizeBytes checksum (d_Uploads doc) of
              Inl e \<Rightarrow> (Inl e, m)
            | Inr (upload, written, uploads) \<Rightarrow>
                if \<not> written then (Inr upload, m)
                else
                  let doc' = doc\<lparr>d_Uploads := uploads, d_Status := ''processing'',
                                 d_ProcessingJobStatus := ''queued'', d_UpdatedAt := now\<rparr>
                  in (Inr upload, m\<lparr>ms_docs := (ms_docs m)(documentID \<mapsto> doc')\<rparr>))"

definition memory_intents :: "MemoryStore intent_iface" where
  "memory_intents = \<lparr>ii_CreateUploadIntent = mem_CreateUploadIntent, ii_ConfirmUpload = mem_ConfirmUpload\<rparr>"

definition memory_ops :: "MemoryStore store_iface" where
  "memory_ops =
     \<lparr>si_CreateDocument = mem_CreateDocument, si_GetDocument = mem_GetDocument,
      si_UploadDocument = mem_UploadDocument, si_GetDocumentStatus = mem_GetDocumentStatus,
      si_CreateDocumentAndQueue = Some mem_CreateDocumentAndQueue,
      si_UploadDocumentAndQueue = Some mem_UploadDocumentAndQueue,
      si_intents = Some memory_intents\<rparr>"

lemmas mem_op_defs = mem_CreateDocument_def mem_GetDocument_def mem_UploadDocument_def
  mem_CreateDocumentAndQueue_def mem_UploadDocumentAndQueue_def mem_GetDocumentStatus_def
  mem_CreateUploadIntent_def mem_ConfirmUpload_def

subsection \<open>The invariant of the store\<close>

text \<open>
  Every document is stored under its own identifier, its uploads name it, and no two of its
  uploads carry the same non-empty idempotency key.
\<close>

definition upload_keys :: "UploadRecord list \<Rightarrow> string list" where
  "upload_keys us = filter (\<lambda>k. k \<noteq> []) (map u_IdempotencyKey us)"

definition doc_wf :: "Document \<Rightarrow> bool" where
  "doc_wf d \<longleftrightarrow> (\<forall>u \<in> set (d_Uploads d). u_DocumentID u = d_ID d) \<and> distinct (upload_keys (d_Uploads d))"

definition mem_invar :: "MemoryStore \<Rightarrow> bool" where
  "mem_invar m \<longleftrightarrow> (\<forall>i d. ms_docs m i = Some d \<longrightarrow> d_ID d = i \<and> doc_wf d)"

lemma mem_invarD: "mem_invar m \<Longrightarrow> ms_docs m i = Some d \<Longrightarrow> d_ID d = i \<and> doc_wf d"
  by (simp add: mem_invar_def)

lemma mem_invar_upd:
  "mem_invar m \<Longrightarrow> d_ID d = i \<Longrightarrow> doc_wf d \<Longrightarrow> mem_invar (m\<lparr>ms_docs := (ms_docs m)(i \<mapsto> d)\<rparr>)"
  by (auto simp: mem_invar_def)

lemma mem_invar_New: "mem_invar NewMemoryStore"
  by (simp add: mem_invar_def NewMemoryStore_def)

lemma upload_keys_append: "upload_keys (us @ [u]) = upload_keys us @ (if u_IdempotencyKey u = [] then [] else [u_IdempotencyKey u])"
  by (simp add: upload_keys_def)

lemma doc_wf_append:
  assumes "doc_wf d" and "u_DocumentID u = d_ID d"
    and "\<not> list_ex (\<lambda>e. u_IdempotencyKey u \<noteq> [] \<and> u_IdempotencyKey e = u_IdempotencyKey u) (d_Uploads d)"
    and "d_ID e = d_ID d" and "d_Uploads e = d_Uploads d @ [u]"
  shows "doc_wf e"
  using assms by (auto simp: doc_wf_def upload_keys_append list_ex_iff) (auto simp: upload_keys_def)

text \<open>\<open>ConfirmUpload\<close> leaves identifiers, owners, references and keys of all uploads as they were.\<close>

lemma confirm_upload_keeps:
  "confirm_upload now sz ck u = Inr (v, w) \<Longrightarrow>
     u_ID v = u_ID u \<and> u_DocumentID v = u_DocumentID u \<and> u_OrganizationID v = u_OrganizationID u
     \<and> u_StorageRef v = u_StorageRef u \<and> u_IdempotencyKey v = u_IdempotencyKey u
     \<and> u_Filename v = u_Filename u \<and> u_ContentType v = u_ContentType u
     \<and> u_Status v = ''confirmed''"
  by (auto simp: confirm_upload_def split: if_splits)

lemma confirm_loop_keeps:
  "confirm_loop now uid sz ck us = Inr (v, w, us') \<Longrightarrow>
     map u_ID us' = map u_ID us \<and> map u_DocumentID us' = map u_DocumentID us
     \<and> map u_IdempotencyKey us' = map u_IdempotencyKey us"
  by (induction now uid sz ck us arbitrary: us' rule: confirm_loop.induct)
    (auto split: if_splits sum.splits prod.splits dest: confirm_upload_keeps)

lemma doc_wf_confirm:
  assumes "doc_wf d" and "confirm_loop now uid sz ck (d_Uploads d) = Inr (v, w, us)"
    and "d_ID e = d_ID d" and "d_Uploads e = us"
  shows "doc_wf e"
proof -
  from confirm_loop_keeps [OF assms(2)]
  have ids: "map u_DocumentID us = map u_DocumentID (d_Uploads d)"
    and keys: "upload_keys us = upload_keys (d_Uploads d)"
    by (auto simp: upload_keys_def)
  have "(\<forall>u \<in> set us. u_DocumentID u = i) = (\<forall>x \<in> set (map u_DocumentID us). x = i)" for i
    by simp
  then show ?thesis
    using assms ids keys by (auto simp: doc_wf_def)
qed

subsection \<open>The memory store implements the tenant contract\<close>

lemma mem_Create_law:
  assumes "mem_invar m" and "d_Uploads doc = []" and "mem_CreateDocument doc m = (r, t)"
  shows "mem_invar t \<and> tenant_step ms_docs (d_OrganizationID doc) m t"
proof (cases "ms_docs m (d_ID doc)")
  case None
  with assms(3) have t: "t = m\<lparr>ms_docs := (ms_docs m)(d_ID doc \<mapsto> doc)\<rparr>"
    by (simp add: mem_CreateDocument_def)
  have "doc_wf doc" using assms(2) by (simp add: doc_wf_def upload_keys_def)
  then have "mem_invar t" unfolding t by (intro mem_invar_upd assms(1)) simp
  moreover have "tenant_step ms_docs (d_OrganizationID doc) m t"
    by (rule tenant_step_upd [of _ _ _ "d_ID doc" doc]) (simp_all add: t None owned_by_def)
  ultimately show ?thesis by simp
next
  case Some
  with assms show ?thesis by (simp add: mem_CreateDocument_def)
qed

text \<open>The three ways \<open>UploadDocument\<close> ends.\<close>

definition stored_upload :: "UploadRecord \<Rightarrow> UploadRecord" where
  "stored_upload u = u\<lparr>u_Status := (if u_Status u = [] then ''confirmed'' else u_Status u),
                       u_UploadMethod := (if u_UploadMethod u = [] then ''proxied'' else u_UploadMethod u)\<rparr>"

definition has_key :: "Document \<Rightarrow> string \<Rightarrow> bool" where
  "has_key d k \<longleftrightarrow> k \<noteq> [] \<and> k \<in> u_IdempotencyKey ` set (d_Uploads d)"

lemma stored_upload_eq:
  "(if u_UploadMethod (if u_Status u = [] then u\<lparr>u_Status := ''confirmed''\<rparr> else u) = []
    then (if u_Status u = [] then u\<lparr>u_Status := ''confirmed''\<rparr> else u)\<lparr>u_UploadMethod := ''proxied''\<rparr>
    else (if u_Status u = [] then u\<lparr>u_Status := ''confirmed''\<rparr> else u)) = stored_upload u"
  by (cases "u_Status u = []"; cases "u_UploadMethod u = []") (simp_all add: stored_upload_def)

lemma stored_upload_simps [simp]:
  "u_IdempotencyKey (stored_upload u) = u_IdempotencyKey u" "u_StorageRef (stored_upload u) = u_StorageRef u"
  "u_SizeBytes (stored_upload u) = u_SizeBytes u" "u_ID (stored_upload u) = u_ID u"
  "u_DocumentID (stored_upload u) = u_DocumentID u" "u_Checksum (stored_upload u) = u_Checksum u"
  by (simp_all add: stored_upload_def)

lemma has_key_iff:
  "list_ex (\<lambda>e. k \<noteq> [] \<and> u_IdempotencyKey e = k) (d_Uploads d) \<longleftrightarrow> has_key d k"
  by (auto simp: has_key_def list_ex_iff)

definition uploaded_doc :: "time \<Rightarrow> UploadRecord \<Rightarrow> Document \<Rightarrow> Document" where
  "uploaded_doc now up d =
     d\<lparr>d_Uploads := d_Uploads d @ [stored_upload up], d_Status := ''processing'',
       d_ProcessingJobStatus := ''queued'', d_UpdatedAt := now,
       d_StorageRef := (if u_StorageRef up = [] then d_StorageRef d else u_StorageRef up),
       d_SizeBytes := (if u_StorageRef up = [] then d_SizeBytes d else u_SizeBytes up)\<rparr>"

lemma mem_UploadDocument_eq:
  "mem_UploadDocument now org i up m =
     (case ms_docs m i of
        None \<Rightarrow> (Inl ErrDocumentNotFound, m)
      | Some d \<Rightarrow>
          if \<not> owned_by org d then (Inl ErrOrganizationMismatch, m)
          else if has_key d (u_IdempotencyKey up) then (Inr d, m)
          else (Inr (uploaded_doc now up d), m\<lparr>ms_docs := (ms_docs m)(i \<mapsto> uploaded_doc now up d)\<rparr>))"
  unfolding mem_UploadDocument_def Let_def stored_upload_eq
  by (simp add: has_key_iff owned_by_def uploaded_doc_def split: option.split)

lemma mem_Upload_cases:
  assumes "mem_UploadDocument now org i up m = (r, t)"
  obtains (fail) e where "r = Inl e" "t = m" "mem_GetDocument org i m = Inl e"
  | (dup) d where "ms_docs m i = Some d" "owned_by org d" "has_key d (u_IdempotencyKey up)" "r = Inr d" "t = m"
  | (stored) d where "ms_docs m i = Some d" "owned_by org d" "\<not> has_key d (u_IdempotencyKey up)"
      "r = Inr (uploaded_doc now up d)" "t = m\<lparr>ms_docs := (ms_docs m)(i \<mapsto> uploaded_doc now up d)\<rparr>"
  using assms
  by (auto simp: mem_UploadDocument_eq mem_GetDocument_def owned_by_def split: option.splits if_splits)

lemma doc_wf_add:
  "doc_wf d \<Longrightarrow> u_DocumentID u = d_ID d \<Longrightarrow> \<not> has_key d (u_IdempotencyKey u) \<Longrightarrow>
   d_ID e = d_ID d \<Longrightarrow> d_Uploads e = d_Uploads d @ [u] \<Longrightarrow> doc_wf e"
  by (rule doc_wf_append) (auto simp: has_key_iff)

lemma mem_Upload_law:
  assumes "mem_invar m" and "u_DocumentID up = i" and "mem_UploadDocument now org i up m = (r, t)"
  shows "mem_invar t \<and> tenant_step ms_docs org m t"
  using assms(3)
proof (cases rule: mem_Upload_cases)
  case (stored d)
  from mem_invarD [OF assms(1) stored(1)] have d: "d_ID d = i" "doc_wf d" by simp_all
  have "doc_wf (uploaded_doc now up d)"
    by (rule doc_wf_add [OF d(2), of "stored_upload up"])
      (use stored(3) d(1) assms(2) in \<open>simp_all add: uploaded_doc_def\<close>)
  then have "mem_invar t"
    unfolding stored(5) by (intro mem_invar_upd assms(1)) (simp_all add: uploaded_doc_def d)
  moreover have "tenant_step ms_docs org m t"
    by (rule tenant_step_upd [of _ _ _ i "uploaded_doc now up d"])
      (use stored in \<open>auto simp: owned_by_def uploaded_doc_def\<close>)
  ultimately show ?thesis by simp
qed (use assms in auto)

lemma mem_Intent_law:
  assumes "mem_invar m" and "u_DocumentID up = i" and "mem_CreateUploadIntent now org i up m = (r, t)"
  shows "mem_invar t \<and> tenant_step ms_docs org m t"
proof (cases "t = m")
  case False
  let ?up = "up\<lparr>u_Status := ''pending'', u_UploadMethod := ''presigned_direct''\<rparr>"
  from False assms(3) obtain d where d: "ms_docs m i = Some d" "d_OrganizationID d = org"
    and nokey: "\<not> list_ex (\<lambda>e. u_IdempotencyKey up \<noteq> [] \<and> u_IdempotencyKey e = u_IdempotencyKey up) (d_Uploads d)"
    and t: "t = m\<lparr>ms_docs := (ms_docs m)(i \<mapsto> d\<lparr>d_Uploads := d_Uploads d @ [?up], d_UpdatedAt := now\<rparr>)\<rparr>"
    by (auto simp: mem_CreateUploadIntent_def Let_def list_ex_iff find_None_iff
        split: option.splits if_splits)
  from mem_invarD [OF assms(1) d(1)] have wf: "d_ID d = i" "doc_wf d" by simp_all
  have "doc_wf (d\<lparr>d_Uploads := d_Uploads d @ [?up], d_UpdatedAt := now\<rparr>)"
    by (rule doc_wf_append [OF wf(2), of ?up]) (use assms(2) wf(1) nokey in simp_all)
  then have "mem_invar t" unfolding t by (intro mem_invar_upd assms(1)) (simp_all add: wf)
  moreover have "tenant_step ms_docs org m t"
    by (rule tenant_step_upd [where e = "d\<lparr>d_Uploads := d_Uploads d @ [?up], d_UpdatedAt := now\<rparr>" and i = i])
      (use t d in \<open>auto simp: owned_by_def\<close>)
  ultimately show ?thesis by simp
qed (use assms in simp)

lemma mem_Confirm_cases:
  assumes "mem_ConfirmUpload now org i uid sz ck ev m = (r, t)"
  obtains (same) "t = m"
  | (written) d u us where "ms_docs m i = Some d" "d_OrganizationID d = org" "r = Inr u"
      "confirm_loop now uid sz ck (d_Uploads d) = Inr (u, True, us)"
      "t = m\<lparr>ms_docs := (ms_docs m)(i \<mapsto> d\<lparr>d_Uploads := us, d_Status := ''processing'',
              d_ProcessingJobStatus := ''queued'', d_UpdatedAt := now\<rparr>)\<rparr>"
  using assms
  by (auto simp: mem_ConfirmUpload_def Let_def split: option.splits if_splits sum.splits prod.splits)

lemma mem_Confirm_law:
  assumes "mem_invar m" and "mem_ConfirmUpload now org i uid sz ck ev m = (r, t)"
  shows "mem_invar t \<and> tenant_step ms_docs org m t"
  using assms(2)
proof (cases rule: mem_Confirm_cases)
  case (written d u us)
  let ?d = "d\<lparr>d_Uploads := us, d_Status := ''processing'', d_ProcessingJobStatus := ''queued'', d_UpdatedAt := now\<rparr>"
  from mem_invarD [OF assms(1) written(1)] have wf: "d_ID d = i" "doc_wf d" by simp_all
  have "doc_wf ?d" by (rule doc_wf_confirm [OF wf(2) written(4)]) simp_all
  then have "mem_invar t" unfolding written(5) by (intro mem_invar_upd assms(1)) (simp_all add: wf)
  moreover have "tenant_step ms_docs org m t"
    by (rule tenant_step_upd [where e = ?d and i = i]) (use written in \<open>auto simp: owned_by_def\<close>)
  ultimately show ?thesis by simp
qed (use assms in auto)

lemma mem_CreateQueue_law:
  assumes "mem_invar m" and "d_Uploads doc = []" and "u_DocumentID up = d_ID doc"
    and "mem_CreateDocumentAndQueue now doc up ev m = (r, t)"
  shows "mem_invar t \<and> tenant_step ms_docs (d_OrganizationID doc) m t"
proof -
  obtain r1 m1 where c: "mem_CreateDocument doc m = (r1, m1)" by fastforce
  note l = mem_Create_law [OF assms(1,2) c]
  show ?thesis
  proof (cases r1)
    case Inl
    with assms(4) c l show ?thesis by (auto simp: mem_CreateDocumentAndQueue_def)
  next
    case Inr
    with assms(4) c have "mem_UploadDocument now (d_OrganizationID doc) (d_ID doc) up m1 = (r, t)"
      by (simp add: mem_CreateDocumentAndQueue_def)
    from mem_Upload_law [OF conjunct1 [OF l] assms(3) this]
    show ?thesis by (auto intro: tenant_step_trans [OF conjunct2 [OF l]])
  qed
qed

interpretation mem: tenant_store memory_ops ms_docs mem_invar
proof (unfold_locales, goal_cases)
  case (1 s org i d)
  then show ?case by (auto simp: memory_ops_def mem_GetDocument_def owned_by_def split: option.splits if_splits)
next
  case (2 s org i d)
  then show ?case
    by (auto simp: memory_ops_def mem_GetDocumentStatus_def mem_GetDocument_def owned_by_def split: option.splits if_splits)
next
  case (3 s doc r t)
  then show ?case using mem_Create_law by (simp add: memory_ops_def)
next
  case (4 s up i org now r t)
  then show ?case using mem_Upload_law by (simp add: memory_ops_def)
next
  case (5 s f doc up now ev r t)
  then show ?case using mem_CreateQueue_law by (auto simp: memory_ops_def)
next
  case (6 s g up i org now ev r t)
  then show ?case using mem_Upload_law by (auto simp: memory_ops_def mem_UploadDocumentAndQueue_def)
next
  case (7 s ii up i org now r' t)
  then show ?case using mem_Intent_law by (auto simp: memory_ops_def memory_intents_def)
next
  case (8 s ii now org i uid sz ck ev r' t)
  then show ?case using mem_Confirm_law by (auto simp: memory_ops_def memory_intents_def)
qed

end
