(* ===== verification/Postgres_Store.thy ===== *)
theory Postgres_Store
  imports Store_Interface Doc_Events
begin

text \<open>
  \<open>PostgresStore\<close> of \<open>store/postgres.go\<close> over the tables of \<open>migrations/001_initial.sql\<close>.

  A statement is a function on the tables that fails when it violates a constraint of the
  schema. The server and the connection may fail any statement besides: \<open>ps_fault\<close> gives, for a call of the
  store and a statement of that call, the error, and whether the statement took effect on the
  server although the client saw an error. A transaction runs its statements on a copy of the tables and
  \<open>Commit\<close> replaces them; every other way out of it (\<open>defer tx.Rollback\<close>) leaves them. Row locks make a
  transaction one atomic step.

  A row of \<open>documents\<close> is a \<open>Document\<close> without uploads, a row of \<open>uploads\<close> an \<open>UploadRecord\<close>. Timestamps
  are kept in microseconds.
\<close>

record ProcessingJob =
  pj_ID :: string
  pj_DocumentID :: string
  pj_OrganizationID :: string
  pj_Status :: string
  pj_AttemptCount :: int
  pj_LastError :: string
  pj_CreatedAt :: time
  pj_UpdatedAt :: time

record OutboxRow =
  or_ID :: string
  or_EventType :: string
  or_EventVersion :: int
  or_RoutingKey :: string
  or_OrganizationID :: string
  or_DocumentID :: string
  or_Payload :: bytes
  or_Status :: string
  or_AttemptCount :: int
  or_NextAttemptAt :: time
  or_LastError :: string
  or_CreatedAt :: time
  or_PublishedAt :: "time option"

record pg_tables =
  t_documents :: "string \<rightharpoonup> Document"
  t_jobs :: "string \<rightharpoonup> ProcessingJob"
  t_uploads :: "UploadRecord list"
  t_outbox :: "OutboxRow list"

record PostgresStore =
  ps_tables :: pg_tables
  ps_calls :: nat
  ps_fault :: "nat \<Rightarrow> nat \<Rightarrow> (string \<times> bool) option"

subsection \<open>Statements\<close>

text \<open>The foreign key of \<open>processing_jobs\<close> and \<open>uploads\<close>.\<close>

definition doc_exists :: "pg_tables \<Rightarrow> string \<Rightarrow> string \<Rightarrow> bool" where
  "doc_exists t org i \<longleftrightarrow> map_option d_OrganizationID (t_documents t i) = Some org"

definition insert_document :: "Document \<Rightarrow> pg_tables \<Rightarrow> string + pg_tables" where
  "insert_document doc t =
     (if t_documents t (d_ID doc) \<noteq> None then Inl ''duplicate key value violates unique constraint documents_pkey''
      else if d_Status doc \<notin> set [''created'', ''processing'', ''processed'', ''completed'', ''failed'', ''error'']
      then Inl ''new row violates check constraint documents_status_check''
      else if d_SizeBytes doc < 0 then Inl ''new row violates check constraint documents_size_bytes_check''
      else Inr (t\<lparr>t_documents := (t_documents t)(d_ID doc \<mapsto>
             doc\<lparr>d_CreatedAt := timestamptz (d_CreatedAt doc), d_UpdatedAt := timestamptz (d_UpdatedAt doc), d_Uploads := []\<rparr>)\<rparr>))"

definition job_status_ok :: "string \<Rightarrow> bool" where
  "job_status_ok st \<longleftrightarrow> st \<in> set [''pending'', ''queued'', ''processing'', ''processed'', ''failed'']"

definition insert_job :: "string \<Rightarrow> string \<Rightarrow> string \<Rightarrow> time \<Rightarrow> time \<Rightarrow> pg_tables \<Rightarrow> string + pg_tables" where
  "insert_job documentID org status createdAt updatedAt t =
     (if t_jobs t (''job_'' @ documentID) \<noteq> None then Inl ''duplicate key value violates unique constraint processing_jobs_pkey''
      else if \<not> job_status_ok status then Inl ''new row violates check constraint processing_jobs_status_check''
      else if \<not> doc_exists t org documentID then Inl ''insert violates foreign key constraint processing_jobs_fkey''
      else Inr (t\<lparr>t_jobs := (t_jobs t)(''job_'' @ documentID \<mapsto>
             \<lparr>pj_ID = ''job_'' @ documentID, pj_DocumentID = documentID, pj_OrganizationID = org, pj_Status = status,
              pj_AttemptCount = 0, pj_LastError = [], pj_CreatedAt = timestamptz createdAt, pj_UpdatedAt = timestamptz updatedAt\<rparr>)\<rparr>))"

text \<open>\<open>INSERT ... ON CONFLICT (id) DO UPDATE SET status = 'queued', updated_at = EXCLUDED.updated_at\<close>.\<close>

definition upsert_job :: "string \<Rightarrow> string \<Rightarrow> time \<Rightarrow> pg_tables \<Rightarrow> string + pg_tables" where
  "upsert_job documentID org now t =
     (case t_jobs t (''job_'' @ documentID) of
        Some job \<Rightarrow> Inr (t\<lparr>t_jobs := (t_jobs t)(''job_'' @ documentID \<mapsto>
                      job\<lparr>pj_Status := ''queued'', pj_UpdatedAt := timestamptz now\<rparr>)\<rparr>)
      | None \<Rightarrow> insert_job documentID org ''queued'' now now t)"

definition insert_upload :: "UploadRecord \<Rightarrow> pg_tables \<Rightarrow> string + pg_tables" where
  "insert_upload up t =
     (if list_ex (\<lambda>u. u_ID u = u_ID up) (t_uploads t) then Inl ''duplicate key value violates unique constraint uploads_pkey''
      else if u_SizeBytes up \<le> 0 then Inl ''new row violates check constraint uploads_size_bytes_check''
      else if u_Status up \<notin> set [''pending'', ''uploaded'', ''confirmed'', ''failed'']
      then Inl ''new row violates check constraint uploads_status_check''
      else if u_UploadMethod up \<notin> set [''presigned_direct'', ''proxied'']
      then Inl ''new row violates check constraint uploads_upload_method_check''
      else if u_ExpectedSize up < 0 then Inl ''new row violates check constraint uploads_expected_size_bytes_check''
      else if u_IdempotencyKey up \<noteq> [] \<and> list_ex (\<lambda>u. u_OrganizationID u = u_OrganizationID up
                \<and> u_IdempotencyKey u = u_IdempotencyKey up) (t_uploads t)
      then Inl ''duplicate key value violates unique constraint uploads_idempotency_key_idx''
      else if \<not> doc_exists t (u_OrganizationID up) (u_DocumentID up) then Inl ''insert violates foreign key constraint uploads_fkey''
      else Inr (t\<lparr>t_uploads := t_uploads t @ [up\<lparr>u_CreatedAt := timestamptz (u_CreatedAt up)\<rparr>]\<rparr>))"

text \<open>The columns the two ten-column inserts leave to their defaults.\<close>

definition with_defaults :: "UploadRecord \<Rightarrow> UploadRecord" where
  "with_defaults up = up\<lparr>u_Status := ''confirmed'', u_UploadMethod := ''proxied'', u_ExpectedSize := 0, u_ConfirmedAt := None\<rparr>"

definition insert_outbox :: "OutboxEvent \<Rightarrow> time \<Rightarrow> pg_tables \<Rightarrow> string + pg_tables" where
  "insert_outbox ev createdAt t =
     (if list_ex (\<lambda>r. or_ID r = ev_ID ev) (t_outbox t) then Inl ''duplicate key value violates unique constraint event_outbox_pkey''
      else Inr (t\<lparr>t_outbox := t_outbox t @
             [\<lparr>or_ID = ev_ID ev, or_EventType = ev_EventType ev, or_EventVersion = ev_EventVersion ev, or_RoutingKey = ev_RoutingKey ev,
               or_OrganizationID = ev_OrganizationID ev, or_DocumentID = ev_DocumentID ev, or_Payload = ev_Payload ev,
               or_Status = ''pending'', or_AttemptCount = 0, or_NextAttemptAt = timestamptz createdAt, or_LastError = [],
               or_CreatedAt = timestamptz createdAt, or_PublishedAt = None\<rparr>]\<rparr>))"

text \<open>\<open>... ON CONFLICT (id) DO NOTHING\<close>.\<close>

definition insert_outbox_once :: "OutboxEvent \<Rightarrow> time \<Rightarrow> pg_tables \<Rightarrow> string + pg_tables" where
  "insert_outbox_once ev createdAt t =
     (if list_ex (\<lambda>r. or_ID r = ev_ID ev) (t_outbox t) then Inr t else insert_outbox ev createdAt t)"

definition update_document :: "string \<Rightarrow> string \<Rightarrow> string \<Rightarrow> int \<Rightarrow> time \<Rightarrow> pg_tables \<Rightarrow> string + pg_tables" where
  "update_document org i storageRef sizeBytes now t =
     (case t_documents t i of
        None \<Rightarrow> Inr t
      | Some d \<Rightarrow>
          if d_OrganizationID d \<noteq> org then Inr t
          else if sizeBytes < 0 then Inl ''new row violates check constraint documents_size_bytes_check''
          else Inr (t\<lparr>t_documents := (t_documents t)(i \<mapsto> d\<lparr>d_Status := ''processing'', d_ProcessingJobStatus := ''queued'',
                 d_StorageRef := storageRef, d_SizeBytes := sizeBytes, d_UpdatedAt := timestamptz now\<rparr>)\<rparr>))"

definition confirm_row :: "string \<Rightarrow> string \<Rightarrow> string \<Rightarrow> int \<Rightarrow> string \<Rightarrow> time \<Rightarrow> UploadRecord \<Rightarrow> UploadRecord" where
  "confirm_row org i uid sizeBytes checksum now u =
     (if u_OrganizationID u = org \<and> u_DocumentID u = i \<and> u_ID u = uid
      then u\<lparr>u_Status := ''confirmed'', u_SizeBytes := sizeBytes, u_Checksum := checksum, u_ConfirmedAt := Some (timestamptz now)\<rparr>
      else u)"

definition update_upload :: "string \<Rightarrow> string \<Rightarrow> string \<Rightarrow> int \<Rightarrow> string \<Rightarrow> time \<Rightarrow> pg_tables \<Rightarrow> string + pg_tables" where
  "update_upload org i uid sizeBytes checksum now t =
     (if sizeBytes \<le> 0 \<and> list_ex (\<lambda>u. u_OrganizationID u = org \<and> u_DocumentID u = i \<and> u_ID u = uid) (t_uploads t)
      then Inl ''new row violates check constraint uploads_size_bytes_check''
      else Inr (t\<lparr>t_uploads := map (confirm_row org i uid sizeBytes checksum now) (t_uploads t)\<rparr>))"

subsection \<open>Running statements\<close>

definition stmt_fault :: "PostgresStore \<Rightarrow> nat \<Rightarrow> (string \<times> bool) option" where
  "stmt_fault s k = ps_fault s (ps_calls s) k"

definition tick :: "pg_tables \<Rightarrow> PostgresStore \<Rightarrow> PostgresStore" where
  "tick t s = s\<lparr>ps_tables := t, ps_calls := Suc (ps_calls s)\<rparr>"

fun and_then :: "'e + 'a \<Rightarrow> ('a \<Rightarrow> 'e + 'b) \<Rightarrow> 'e + 'b" where
  "and_then (Inl e) f = Inl e"
| "and_then (Inr a) f = f a"

text \<open>\<open>fmt.Errorf("what: %w", err)\<close>.\<close>

definition wrap :: "string \<Rightarrow> string + 'a \<Rightarrow> store_error + 'a" where
  "wrap what r = map_sum (\<lambda>e. ErrOther (what @ '': '' @ e)) id r"

text \<open>A statement inside a transaction, or a query: the fault alone decides.\<close>

definition tx_exec :: "PostgresStore \<Rightarrow> nat \<Rightarrow> ('t \<Rightarrow> string + 'a) \<Rightarrow> 't \<Rightarrow> string + 'a" where
  "tx_exec s k stmt t = (case stmt_fault s k of Some (e, _) \<Rightarrow> Inl e | None \<Rightarrow> stmt t)"

text \<open>A statement outside a transaction commits by itself.\<close>

definition auto_exec :: "PostgresStore \<Rightarrow> nat \<Rightarrow> (pg_tables \<Rightarrow> string + pg_tables) \<Rightarrow> pg_tables \<Rightarrow> string option \<times> pg_tables" where
  "auto_exec s k stmt t =
     (case stmt_fault s k of
        None \<Rightarrow> (case stmt t of Inl e \<Rightarrow> (Some e, t) | Inr t' \<Rightarrow> (None, t'))
      | Some (e, applied) \<Rightarrow> (Some e, if applied then (case stmt t of Inl _ \<Rightarrow> t | Inr t' \<Rightarrow> t') else t))"

datatype 'r tx_end = Return 'r | Commit 'r pg_tables

text \<open>\<open>Begin\<close> is statement 0 and \<open>Commit\<close> statement 9 of a call.\<close>

definition run_tx ::
  "string \<Rightarrow> string \<Rightarrow> (pg_tables \<Rightarrow> store_error + 'r tx_end) \<Rightarrow> (PostgresStore, 'r) store_op" where
  "run_tx begin_msg commit_msg body s =
     (case stmt_fault s 0 of
        Some (e, _) \<Rightarrow> (Inl (ErrOther (begin_msg @ '': '' @ e)), tick (ps_tables s) s)
      | None \<Rightarrow>
          (case body (ps_tables s) of
             Inl e \<Rightarrow> (Inl e, tick (ps_tables s) s)
           | Inr (Return r) \<Rightarrow> (Inr r, tick (ps_tables s) s)
           | Inr (Commit r t) \<Rightarrow>
               (case stmt_fault s 9 of
                  None \<Rightarrow> (Inr r, tick t s)
                | Some (e, applied) \<Rightarrow>
                    (Inl (ErrOther (commit_msg @ '': '' @ e)), tick (if applied then t else ps_tables s) s))))"

subsection \<open>Queries\<close>

text \<open>\<open>None\<close> is \<open>pgx.ErrNoRows\<close>.\<close>

definition select_document :: "string \<Rightarrow> string \<Rightarrow> pg_tables \<Rightarrow> Document option" where
  "select_document org i t =
     (case t_documents t i of None \<Rightarrow> None | Some d \<Rightarrow> if d_OrganizationID d = org then Some d else None)"

definition select_owner :: "string \<Rightarrow> pg_tables \<Rightarrow> string option" where
  "select_owner i t = map_option d_OrganizationID (t_documents t i)"

text \<open>\<open>ORDER BY created_at\<close>; rows of the same time stay in the order of insertion.\<close>

definition select_uploads :: "string \<Rightarrow> string \<Rightarrow> pg_tables \<Rightarrow> UploadRecord list" where
  "select_uploads org i t =
     sort_key u_CreatedAt (filter (\<lambda>u. u_OrganizationID u = org \<and> u_DocumentID u = i) (t_uploads t))"

definition select_by_key :: "string \<Rightarrow> string \<Rightarrow> pg_tables \<Rightarrow> UploadRecord option" where
  "select_by_key org key t = find (\<lambda>u. u_OrganizationID u = org \<and> u_IdempotencyKey u = key) (t_uploads t)"

definition select_upload :: "string \<Rightarrow> string \<Rightarrow> string \<Rightarrow> pg_tables \<Rightarrow> UploadRecord option" where
  "select_upload org i uid t = find (\<lambda>u. u_OrganizationID u = org \<and> u_DocumentID u = i \<and> u_ID u = uid) (t_uploads t)"

subsection \<open>Operations of the store\<close>

definition pg_CreateDocument :: "Document \<Rightarrow> (PostgresStore, Document) store_op" where
  "pg_CreateDocument doc s =
     (case auto_exec s 0 (insert_document doc) (ps_tables s) of
        (Some e, t1) \<Rightarrow> (Inl (ErrOther (''insert document: '' @ e)), tick t1 s)
      | (None, t1) \<Rightarrow>
          (case auto_exec s 1 (insert_job (d_ID doc) (d_OrganizationID doc) (d_ProcessingJobStatus doc) (d_CreatedAt doc) (d_UpdatedAt doc)) t1 of
             (Some e, t2) \<Rightarrow> (Inl (ErrOther (''insert processing job: '' @ e)), tick t2 s)
           | (None, t2) \<Rightarrow> (Inr doc, tick t2 s)))"

definition queue_event :: "string \<Rightarrow> (OutboxEvent \<Rightarrow> time \<Rightarrow> pg_tables \<Rightarrow> string + pg_tables) \<Rightarrow>
  PostgresStore \<Rightarrow> nat \<Rightarrow> OutboxEvent \<Rightarrow> time \<Rightarrow> pg_tables \<Rightarrow> store_error + pg_tables" where
  "queue_event what ins s k ev createdAt t =
     (if \<not> json_Valid (ev_Payload ev) then Inl (ErrOther ''outbox payload is not valid json'')
      else wrap what (tx_exec s k (ins ev createdAt) t))"

definition pg_CreateDocumentAndQueue ::
  "time \<Rightarrow> Document \<Rightarrow> UploadRecord \<Rightarrow> OutboxEvent \<Rightarrow> (PostgresStore, Document) store_op" where
  "pg_CreateDocumentAndQueue now doc upload event s =
     run_tx ''begin document transaction'' ''commit document transaction''
       (\<lambda>t0. and_then (wrap ''insert document'' (tx_exec s 1 (insert_document doc) t0))
         (\<lambda>t1. and_then (wrap ''insert processing job''
                  (tx_exec s 2 (insert_job (d_ID doc) (d_OrganizationID doc) (d_ProcessingJobStatus doc) (d_CreatedAt doc) (d_UpdatedAt doc)) t1))
         (\<lambda>t2. and_then (wrap ''insert upload'' (tx_exec s 3 (insert_upload (with_defaults upload)) t2))
         (\<lambda>t3. and_then (queue_event ''insert event outbox record'' insert_outbox s 4 event (ev_CreatedAt event) t3)
         (\<lambda>t4. Inr (Commit (doc\<lparr>d_Uploads := d_Uploads doc @ [upload]\<rparr>) t4)))))) s"

definition pg_GetDocument :: "string \<Rightarrow> string \<Rightarrow> PostgresStore \<Rightarrow> store_error + Document" where
  "pg_GetDocument organizationID i s =
     and_then (wrap ''select document'' (tx_exec s 0 (\<lambda>t. Inr (select_document organizationID i t)) (ps_tables s)))
       (\<lambda>row. case row of
          None \<Rightarrow> Inl ErrDocumentNotFound
        | Some doc \<Rightarrow>
            and_then (wrap ''select uploads'' (tx_exec s 1 (\<lambda>t. Inr (select_uploads organizationID i t)) (ps_tables s)))
              (\<lambda>ups. and_then (wrap ''scan upload'' (tx_exec s 2 Inr ()))
              (\<lambda>_. and_then (wrap ''iterate uploads'' (tx_exec s 3 Inr ()))
              (\<lambda>_. Inr (doc\<lparr>d_Uploads := d_Uploads doc @ ups\<rparr>)))))"

definition pg_GetDocumentStatus :: "string \<Rightarrow> string \<Rightarrow> PostgresStore \<Rightarrow> store_error + Document" where
  "pg_GetDocumentStatus organizationID documentID s = pg_GetDocument organizationID documentID s"

text \<open>\<open>getDocumentTx\<close>, whose errors \<open>uploadDocument\<close> passes on as they are.\<close>

definition getDocumentTx :: "PostgresStore \<Rightarrow> nat \<Rightarrow> string \<Rightarrow> string \<Rightarrow> pg_tables \<Rightarrow> store_error + Document" where
  "getDocumentTx s k organizationID i t =
     (case tx_exec s k (\<lambda>t. Inr (select_document organizationID i t)) t of
        Inl e \<Rightarrow> Inl (ErrOther e)
      | Inr None \<Rightarrow> Inl (ErrOther ''no rows in result set'')
      | Inr (Some doc) \<Rightarrow> Inr doc)"

text \<open>The statements of \<open>uploadDocument\<close> after the check of the idempotency key.\<close>

definition upload_rows ::
  "time \<Rightarrow> string \<Rightarrow> string \<Rightarrow> UploadRecord \<Rightarrow> OutboxEvent option \<Rightarrow> PostgresStore \<Rightarrow>
   pg_tables \<Rightarrow> store_error + Document tx_end" where
  "upload_rows now organizationID documentID upload event s t0 =
     and_then (wrap ''insert upload'' (tx_exec s 3 (insert_upload (with_defaults upload)) t0))
       (\<lambda>t1. and_then (wrap ''update document status''
                (tx_exec s 4 (update_document organizationID documentID (u_StorageRef upload) (u_SizeBytes upload) now) t1))
       (\<lambda>t2. and_then (wrap ''update processing job'' (tx_exec s 5 (upsert_job documentID organizationID now) t2))
       (\<lambda>t3. and_then (case event of
                None \<Rightarrow> Inr t3
              | Some ev \<Rightarrow> queue_event ''insert event outbox record'' insert_outbox s 6 ev (ev_CreatedAt ev) t3)
       (\<lambda>t4. and_then (getDocumentTx s 7 organizationID documentID t4)
       (\<lambda>doc. Inr (Commit (doc\<lparr>d_Uploads := d_Uploads doc @ [upload], d_Status := ''processing'',
                           d_ProcessingJobStatus := ''queued'', d_UpdatedAt := now\<rparr>) t4))))))"

definition uploadDocument ::
  "time \<Rightarrow> string \<Rightarrow> string \<Rightarrow> UploadRecord \<Rightarrow> OutboxEvent option \<Rightarrow> (PostgresStore, Document) store_op" where
  "uploadDocument now organizationID documentID upload event s =
     run_tx ''begin upload transaction'' ''commit upload transaction''
       (\<lambda>t0. and_then (wrap ''lock document'' (tx_exec s 1 (\<lambda>t. Inr (select_owner documentID t)) t0))
         (\<lambda>owner. case owner of
            None \<Rightarrow> Inl ErrDocumentNotFound
          | Some storedOrganization \<Rightarrow>
              if storedOrganization \<noteq> organizationID then Inl ErrOrganizationMismatch
              else if u_IdempotencyKey upload \<noteq> [] then
                and_then (wrap ''check idempotency key'' (tx_exec s 2 (\<lambda>t. Inr (select_by_key organizationID (u_IdempotencyKey upload) t)) t0))
                  (\<lambda>hit. case hit of
                     Some existing \<Rightarrow>
                       and_then (getDocumentTx s 8 organizationID documentID t0)
                         (\<lambda>doc. Inr (Return (doc\<lparr>d_Uploads := d_Uploads doc @ [existing]\<rparr>)))
                   | None \<Rightarrow> upload_rows now organizationID documentID upload event s t0)
              else upload_rows now organizationID documentID upload event s t0)) s"

definition pg_UploadDocument ::
  "time \<Rightarrow> string \<Rightarrow> string \<Rightarrow> UploadRecord \<Rightarrow> (PostgresStore, Document) store_op" where
  "pg_UploadDocument now organizationID documentID upload s = uploadDocument now organizationID documentID upload None s"

definition pg_UploadDocumentAndQueue ::
  "time \<Rightarrow> string \<Rightarrow> string \<Rightarrow> UploadRecord \<Rightarrow> OutboxEvent \<Rightarrow> (PostgresStore, Document) store_op" where
  "pg_UploadDocumentAndQueue now organizationID documentID upload event s =
     uploadDocument now organizationID documentID upload (Some event) s"

text \<open>The row \<open>CreateUploadIntent\<close> inserts has the literal \<open>0\<close> for \<open>size_bytes\<close>.\<close>

definition intent_row :: "UploadRecord \<Rightarrow> UploadRecord" where
  "intent_row up = up\<lparr>u_SizeBytes := 0, u_Status := ''pending'', u_UploadMethod := ''presigned_direct'', u_ConfirmedAt := None\<rparr>"

definition insert_intent :: "UploadRecord \<Rightarrow> (PostgresStore, UploadRecord) store_op" where
  "insert_intent upload s =
     (case auto_exec s 2 (insert_upload (intent_row upload)) (ps_tables s) of
        (Some e, t1) \<Rightarrow> (Inl (ErrOther (''insert upload intent: '' @ e)), tick t1 s)
      | (None, t1) \<Rightarrow> (Inr (upload\<lparr>u_Status := ''pending'', u_UploadMethod := ''presigned_direct''\<rparr>), tick t1 s))"

definition pg_CreateUploadIntent :: "time \<Rightarrow> string \<Rightarrow> string \<Rightarrow> UploadRecord \<Rightarrow> (PostgresStore, UploadRecord) store_op" where
  "pg_CreateUploadIntent now organizationID documentID upload s =
     (case wrap ''load document for upload intent'' (tx_exec s 0 (\<lambda>t. Inr (select_owner documentID t)) (ps_tables s)) of
        Inl e \<Rightarrow> (Inl e, tick (ps_tables s) s)
      | Inr None \<Rightarrow> (Inl ErrDocumentNotFound, tick (ps_tables s) s)
      | Inr (Some owner) \<Rightarrow>
          if owner \<noteq> organizationID then (Inl ErrOrganizationMismatch, tick (ps_tables s) s)
          else if u_IdempotencyKey upload \<noteq> [] then
            (case wrap ''check upload intent idempotency''
                    (tx_exec s 1 (\<lambda>t. Inr (select_by_key organizationID (u_IdempotencyKey upload) t)) (ps_tables s)) of
               Inl e \<Rightarrow> (Inl e, tick (ps_tables s) s)
             | Inr (Some existing) \<Rightarrow> (Inr existing, tick (ps_tables s) s)
             | Inr None \<Rightarrow> insert_intent upload s)
          else insert_intent upload s)"

definition confirm_rows ::
  "time \<Rightarrow> string \<Rightarrow> string \<Rightarrow> string \<Rightarrow> int \<Rightarrow> string \<Rightarrow> OutboxEvent \<Rightarrow> PostgresStore \<Rightarrow>
   UploadRecord \<Rightarrow> pg_tables \<Rightarrow> store_error + UploadRecord tx_end" where
  "confirm_rows now organizationID documentID uploadID sizeBytes checksum event s upload t0 =
     and_then (wrap ''confirm upload'' (tx_exec s 2 (update_upload organizationID documentID uploadID sizeBytes checksum now) t0))
       (\<lambda>t1. and_then (wrap ''update confirmed document''
                (tx_exec s 3 (update_document organizationID documentID (u_StorageRef upload) sizeBytes now) t1))
       (\<lambda>t2. and_then (wrap ''update processing job'' (tx_exec s 4 (upsert_job documentID organizationID now) t2))
       (\<lambda>t3. and_then (queue_event ''queue confirmed upload event'' insert_outbox_once s 5 event now t3)
       (\<lambda>t4. Inr (Commit (upload\<lparr>u_Status := ''confirmed'', u_SizeBytes := sizeBytes, u_Checksum := checksum,
                           u_ConfirmedAt := Some now\<rparr>) t4)))))"

definition pg_ConfirmUpload ::
  "time \<Rightarrow> string \<Rightarrow> string \<Rightarrow> string \<Rightarrow> int \<Rightarrow> string \<Rightarrow> OutboxEvent \<Rightarrow> (PostgresStore, UploadRecord) store_op" where
  "pg_ConfirmUpload now organizationID documentID uploadID sizeBytes checksum event s =
     run_tx ''begin upload confirmation'' ''commit upload confirmation''
       (\<lambda>t0. and_then (wrap ''load upload intent'' (tx_exec s 1 (\<lambda>t. Inr (select_upload organizationID documentID uploadID t)) t0))
         (\<lambda>row. case row of
            None \<Rightarrow> Inl ErrUploadNotFound
          | Some upload \<Rightarrow>
              if u_Status upload = ''confirmed'' then Inr (Return upload)
              else if u_Status upload \<noteq> ''pending'' then Inl ErrUploadNotPending
              else if 0 < u_ExpectedSize upload \<and> u_ExpectedSize upload \<noteq> sizeBytes then Inl ErrUploadMismatch
              else if u_Checksum upload \<noteq> [] \<and> checksum \<noteq> [] \<and> u_Checksum upload \<noteq> checksum then Inl ErrUploadMismatch
              else confirm_rows now organizationID documentID uploadID sizeBytes checksum event s upload t0)) s"

definition postgres_intents :: "PostgresStore intent_iface" where
  "postgres_intents = \<lparr>ii_CreateUploadIntent = pg_CreateUploadIntent, ii_ConfirmUpload = pg_ConfirmUpload\<rparr>"

definition postgres_ops :: "PostgresStore store_iface" where
  "postgres_ops =
     \<lparr>si_CreateDocument = pg_CreateDocument, si_GetDocument = pg_GetDocument, si_UploadDocument = pg_UploadDocument,
      si_GetDocumentStatus = pg_GetDocumentStatus, si_CreateDocumentAndQueue = Some (pg_CreateDocumentAndQueue),
      si_UploadDocumentAndQueue = Some (pg_UploadDocumentAndQueue), si_intents = Some (postgres_intents)\<rparr>"

end
