(* ===== verification/Postgres_Tenancy.thy ===== *)
theory Postgres_Tenancy
  imports Postgres_Store
begin

text \<open>
  The PostgreSQL store keeps the constraints of its schema, changes documents only of the
  organization it is called for, and therefore implements the contract \<open>tenant_store\<close>; its transactions are
  atomic.
\<close>

lemma and_then_Inr [simp]: "and_then x f = Inr b \<longleftrightarrow> (\<exists>a. x = Inr a \<and> f a = Inr b)"
  by (cases x) auto

lemma and_then_Inl: "and_then x f = Inl e \<longleftrightarrow> x = Inl e \<or> (\<exists>a. x = Inr a \<and> f a = Inl e)"
  by (cases x) auto

lemma wrap_Inr [simp]: "wrap what r = Inr a \<longleftrightarrow> r = Inr a"
  by (cases r) (auto simp: wrap_def)

lemma tx_exec_Inr [simp]: "tx_exec s k f t = Inr a \<longleftrightarrow> stmt_fault s k = None \<and> f t = Inr a"
  by (auto simp: tx_exec_def split: option.splits)

lemma queue_event_Inr [simp]:
  "queue_event what ins s k ev c t = Inr t' \<longleftrightarrow>
     json_Valid (ev_Payload ev) \<and> stmt_fault s k = None \<and> ins ev c t = Inr t'"
  by (simp add: queue_event_def)

subsection \<open>The schema as an invariant\<close>

definition keyed :: "UploadRecord list \<Rightarrow> (string \<times> string) list" where
  "keyed us = map (\<lambda>u. (u_OrganizationID u, u_IdempotencyKey u)) (filter (\<lambda>u. u_IdempotencyKey u \<noteq> []) us)"

definition pg_wf :: "pg_tables \<Rightarrow> bool" where
  "pg_wf t \<longleftrightarrow>
     (\<forall>i d. t_documents t i = Some d \<longrightarrow> d_ID d = i \<and> d_Uploads d = [])
     \<and> (\<forall>u \<in> set (t_uploads t). doc_exists t (u_OrganizationID u) (u_DocumentID u) \<and> 0 < u_SizeBytes u)
     \<and> distinct (map u_ID (t_uploads t)) \<and> distinct (keyed (t_uploads t)) \<and> distinct (map or_ID (t_outbox t))"

definition view_tables :: "pg_tables \<Rightarrow> string \<rightharpoonup> Document" where
  "view_tables t i =
     map_option (\<lambda>d. d\<lparr>d_Uploads := select_uploads (d_OrganizationID d) i t\<rparr>) (t_documents t i)"

definition pg_view :: "PostgresStore \<Rightarrow> string \<rightharpoonup> Document" where
  "pg_view s = view_tables (ps_tables s)"

definition pg_invar :: "PostgresStore \<Rightarrow> bool" where
  "pg_invar s \<longleftrightarrow> pg_wf (ps_tables s)"

text \<open>What a statement that succeeds on behalf of an organization may do.\<close>

definition stmt_ok :: "string \<Rightarrow> pg_tables \<Rightarrow> pg_tables \<Rightarrow> bool" where
  "stmt_ok org t t' \<longleftrightarrow> (pg_wf t \<longrightarrow> pg_wf t' \<and> tenant_step view_tables org t t')"

lemma stmt_ok_refl [simp]: "stmt_ok org t t"
  by (simp add: stmt_ok_def)

lemma stmt_ok_trans: "stmt_ok org t u \<Longrightarrow> stmt_ok org u v \<Longrightarrow> stmt_ok org t v"
  unfolding stmt_ok_def using tenant_step_trans [of view_tables org t u v] by blast

lemma stmt_ok_outside:
  assumes "t_documents t' = t_documents t" and "t_uploads t' = t_uploads t"
    and "distinct (map or_ID (t_outbox t)) \<Longrightarrow> distinct (map or_ID (t_outbox t'))"
  shows "stmt_ok org t t'"
proof -
  have "view_tables t' = view_tables t"
    by (rule ext) (simp only: view_tables_def select_uploads_def assms(1,2))
  moreover have "doc_exists t' = doc_exists t"
    by (intro ext) (simp only: doc_exists_def assms(1))
  ultimately show ?thesis using assms by (simp add: stmt_ok_def pg_wf_def tenant_step_def)
qed

lemma tenant_step_uploads:
  assumes "t_documents t' = t_documents t"
    and "\<And>o' j. TrimSpace o' \<noteq> TrimSpace org \<Longrightarrow> select_uploads o' j t' = select_uploads o' j t"
  shows "tenant_step view_tables org t t'"
  unfolding tenant_step_def
proof
  fix j
  show "view_tables t' j = view_tables t j \<or> (\<forall>d. view_tables t j = Some d \<longrightarrow> owned_by org d)
      \<and> (\<forall>d. view_tables t' j = Some d \<longrightarrow> owned_by org d)"
  proof (cases "t_documents t j")
    case None
    then show ?thesis using assms(1) by (simp add: view_tables_def)
  next
    case (Some d)
    then show ?thesis
      using assms(1) assms(2) [of "d_OrganizationID d" j]
      by (cases "TrimSpace (d_OrganizationID d) = TrimSpace org") (auto simp: view_tables_def owned_by_def)
  qed
qed

lemma insert_job_ok: "insert_job i o' st c u t = Inr t' \<Longrightarrow> stmt_ok org t t'"
  by (rule stmt_ok_outside) (auto simp: insert_job_def split: if_splits)

lemma upsert_job_ok: "upsert_job i o' now t = Inr t' \<Longrightarrow> stmt_ok org t t'"
  by (rule stmt_ok_outside) (auto simp: upsert_job_def insert_job_def split: if_splits option.splits)

lemma insert_outbox_ok: "insert_outbox ev c t = Inr t' \<Longrightarrow> stmt_ok org t t'"
  by (rule stmt_ok_outside) (force simp: insert_outbox_def list_ex_iff split: if_splits)+

lemma insert_outbox_once_ok: "insert_outbox_once ev c t = Inr t' \<Longrightarrow> stmt_ok org t t'"
  using insert_outbox_ok by (auto simp: insert_outbox_once_def split: if_splits)

lemma insert_document_ok:
  assumes "insert_document doc t = Inr t'"
  shows "stmt_ok (d_OrganizationID doc) t t'"
  unfolding stmt_ok_def
proof
  assume wf: "pg_wf t"
  let ?row = "doc\<lparr>d_CreatedAt := timestamptz (d_CreatedAt doc), d_UpdatedAt := timestamptz (d_UpdatedAt doc), d_Uploads := []\<rparr>"
  have new: "t_documents t (d_ID doc) = None" and t': "t' = t\<lparr>t_documents := (t_documents t)(d_ID doc \<mapsto> ?row)\<rparr>"
    using assms by (auto simp: insert_document_def split: if_splits)
  have keep: "doc_exists t o' i \<Longrightarrow> doc_exists t' o' i" for o' i
    using new by (auto simp: doc_exists_def t' split: option.splits if_splits)
  have "pg_wf t'" using wf keep unfolding pg_wf_def by (auto simp: t')
  moreover have "tenant_step view_tables (d_OrganizationID doc) t t'"
    using new by (auto simp: tenant_step_def view_tables_def t' select_uploads_def owned_by_def)
  ultimately show "pg_wf t' \<and> tenant_step view_tables (d_OrganizationID doc) t t'" ..
qed

lemma insert_upload_ok:
  assumes "insert_upload up t = Inr t'" and "u_OrganizationID up = org"
  shows "stmt_ok org t t'"
  unfolding stmt_ok_def
proof
  assume wf: "pg_wf t"
  let ?up = "up\<lparr>u_CreatedAt := timestamptz (u_CreatedAt up)\<rparr>"
  have t': "t' = t\<lparr>t_uploads := t_uploads t @ [?up]\<rparr>" and fk: "doc_exists t org (u_DocumentID up)" and pos: "0 < u_SizeBytes up"
    and pk: "u_ID up \<notin> u_ID ` set (t_uploads t)"
    and key: "u_IdempotencyKey up \<noteq> [] \<Longrightarrow> (org, u_IdempotencyKey up) \<notin> set (keyed (t_uploads t))"
    using assms by (auto simp: insert_upload_def list_ex_iff keyed_def split: if_splits)
  have "distinct (keyed (t_uploads t @ [?up]))"
    using key wf assms(2) by (auto simp: keyed_def pg_wf_def)
  then have "pg_wf t'"
    using wf fk pos pk assms(2) unfolding pg_wf_def by (auto simp: t' doc_exists_def)
  moreover have "tenant_step view_tables org t t'"
    by (rule tenant_step_uploads) (use assms(2) in \<open>auto simp: t' select_uploads_def\<close>)
  ultimately show "pg_wf t' \<and> tenant_step view_tables org t t'" ..
qed

lemma update_document_ok:
  assumes "update_document org i ref sz now t = Inr t'"
  shows "stmt_ok org t t'"
  unfolding stmt_ok_def
proof
  assume wf: "pg_wf t"
  show "pg_wf t' \<and> tenant_step view_tables org t t'"
  proof (cases "t' = t")
    case False
    then obtain d where d: "t_documents t i = Some d" "d_OrganizationID d = org"
      and t': "t' = t\<lparr>t_documents := (t_documents t)(i \<mapsto> d\<lparr>d_Status := ''processing'', d_ProcessingJobStatus := ''queued'',
                 d_StorageRef := ref, d_SizeBytes := sz, d_UpdatedAt := timestamptz now\<rparr>)\<rparr>"
      using assms by (auto simp: update_document_def split: option.splits if_splits)
    have "doc_exists t' = doc_exists t" using d by (auto simp: doc_exists_def t' fun_eq_iff)
    then have "pg_wf t'" using wf d unfolding pg_wf_def by (auto simp: t')
    moreover have "tenant_step view_tables org t t'"
      using d by (auto simp: tenant_step_def view_tables_def t' select_uploads_def owned_by_def)
    ultimately show ?thesis ..
  qed (use wf in simp)
qed

lemma confirm_row_simps [simp]:
  "u_ID (confirm_row org i uid sz ck now u) = u_ID u" "u_OrganizationID (confirm_row org i uid sz ck now u) = u_OrganizationID u"
  "u_DocumentID (confirm_row org i uid sz ck now u) = u_DocumentID u"
  "u_IdempotencyKey (confirm_row org i uid sz ck now u) = u_IdempotencyKey u"
  by (simp_all add: confirm_row_def)

lemma confirm_row_other:
  "o' \<noteq> org \<Longrightarrow>
   filter (\<lambda>u. u_OrganizationID u = o' \<and> u_DocumentID u = j) (map (confirm_row org i uid sz ck now) us)
   = filter (\<lambda>u. u_OrganizationID u = o' \<and> u_DocumentID u = j) us"
  by (induction us) (auto simp: confirm_row_def)

lemma update_upload_ok:
  assumes "update_upload org i uid sz ck now t = Inr t'"
  shows "stmt_ok org t t'"
  unfolding stmt_ok_def
proof
  assume wf: "pg_wf t"
  let ?f = "confirm_row org i uid sz ck now"
  have t': "t' = t\<lparr>t_uploads := map ?f (t_uploads t)\<rparr>"
    and pos: "\<And>u. u \<in> set (t_uploads t) \<Longrightarrow> ?f u \<noteq> u \<Longrightarrow> 0 < sz"
    using assms by (auto simp: update_upload_def list_ex_iff confirm_row_def split: if_splits)
  have "keyed (map ?f us) = keyed us" for us by (induction us) (auto simp: keyed_def)
  moreover have "0 < u_SizeBytes (?f u)" if "u \<in> set (t_uploads t)" for u
    using that pos [OF that] wf by (cases "?f u = u") (auto simp: pg_wf_def confirm_row_def)
  ultimately have "pg_wf t'" using wf unfolding pg_wf_def by (auto simp: t' doc_exists_def comp_def)
  moreover have "tenant_step view_tables org t t'"
    by (rule tenant_step_uploads)
      (auto simp: t' select_uploads_def intro!: arg_cong [of _ _ "sort_key u_CreatedAt"] confirm_row_other)
  ultimately show "pg_wf t' \<and> tenant_step view_tables org t t'" ..
qed

subsection \<open>Transactions are atomic\<close>

lemma run_tx_cases:
  assumes "run_tx b c body s = (r, s')"
  obtains (unchanged) "ps_tables s' = ps_tables s"
    "\<And>x. r = Inr x \<Longrightarrow> body (ps_tables s) = Inr (Return x)"
  | (committed) x t where "body (ps_tables s) = Inr (Commit x t)" "ps_tables s' = t" "\<And>y. r = Inr y \<Longrightarrow> y = x"
  using assms by (auto simp: run_tx_def tick_def split: option.splits prod.splits sum.splits tx_end.splits if_splits)

lemma run_tx_ok:
  assumes "run_tx b c body s = (r, s')"
    and "\<And>x t. body (ps_tables s) = Inr (Commit x t) \<Longrightarrow> stmt_ok org (ps_tables s) t"
  shows "stmt_ok org (ps_tables s) (ps_tables s')"
  using assms(1) by (cases rule: run_tx_cases) (use assms(2) in auto)

lemma auto_exec_ok:
  assumes "auto_exec s k f t = (e, t')" and "\<And>u. f t = Inr u \<Longrightarrow> stmt_ok org t u"
  shows "stmt_ok org t t'"
  using assms by (auto simp: auto_exec_def split: option.splits sum.splits prod.splits if_splits)

lemma pg_Create_ok:
  assumes "pg_CreateDocument doc s = (r, s')"
  shows "stmt_ok (d_OrganizationID doc) (ps_tables s) (ps_tables s')"
proof -
  obtain e1 t1 where 1: "auto_exec s 0 (insert_document doc) (ps_tables s) = (e1, t1)" by fastforce
  let ?job = "insert_job (d_ID doc) (d_OrganizationID doc) (d_ProcessingJobStatus doc) (d_CreatedAt doc) (d_UpdatedAt doc)"
  obtain e2 t2 where 2: "auto_exec s 1 ?job t1 = (e2, t2)" by fastforce
  have ok: "stmt_ok (d_OrganizationID doc) (ps_tables s) t1" "stmt_ok (d_OrganizationID doc) t1 t2"
    using auto_exec_ok [OF 1 insert_document_ok] auto_exec_ok [OF 2 insert_job_ok] by auto
  have "ps_tables s' = t1 \<or> ps_tables s' = t2"
    using assms 1 2 by (auto simp: pg_CreateDocument_def tick_def split: option.splits)
  then show ?thesis using ok stmt_ok_trans by blast
qed

lemma with_defaults_simps [simp]:
  "u_OrganizationID (with_defaults up) = u_OrganizationID up" "u_DocumentID (with_defaults up) = u_DocumentID up"
  "u_ID (with_defaults up) = u_ID up" "u_SizeBytes (with_defaults up) = u_SizeBytes up"
  "u_IdempotencyKey (with_defaults up) = u_IdempotencyKey up" "u_Status (with_defaults up) = ''confirmed''"
  by (simp_all add: with_defaults_def)

lemma pg_CreateQueue_ok:
  assumes "pg_CreateDocumentAndQueue now doc up ev s = (r, s')" and "u_OrganizationID up = d_OrganizationID doc"
  shows "stmt_ok (d_OrganizationID doc) (ps_tables s) (ps_tables s')"
  using assms(1) unfolding pg_CreateDocumentAndQueue_def
proof (rule run_tx_ok, clarsimp)
  fix t1 t2 t3 t4
  assume 1: "insert_document doc (ps_tables s) = Inr t1"
    and 2: "insert_job (d_ID doc) (d_OrganizationID doc) (d_ProcessingJobStatus doc) (d_CreatedAt doc) (d_UpdatedAt doc) t1 = Inr t2"
    and 3: "insert_upload (with_defaults up) t2 = Inr t3" and 4: "insert_outbox ev (ev_CreatedAt ev) t3 = Inr t4"
  have "stmt_ok (d_OrganizationID doc) t2 t3" using insert_upload_ok [OF 3] assms(2) by simp
  then show "stmt_ok (d_OrganizationID doc) (ps_tables s) t4"
    by (rule stmt_ok_trans [OF stmt_ok_trans [OF insert_document_ok [OF 1] insert_job_ok [OF 2]]
          stmt_ok_trans [OF _ insert_outbox_ok [OF 4]]])
qed

lemma getDocumentTx_Inr [simp]:
  "getDocumentTx s k org i t = Inr d \<longleftrightarrow> stmt_fault s k = None \<and> select_document org i t = Some d"
  by (auto simp: getDocumentTx_def tx_exec_def split: option.splits)

text \<open>The tables of a committed upload, statement by statement.\<close>

lemma upload_rows_Commit:
  assumes "upload_rows now org i up event s t0 = Inr x"
  obtains t1 t2 t3 t4 doc where "insert_upload (with_defaults up) t0 = Inr t1"
    "update_document org i (u_StorageRef up) (u_SizeBytes up) now t1 = Inr t2" "upsert_job i org now t2 = Inr t3"
    "(case event of None \<Rightarrow> t4 = t3 | Some ev \<Rightarrow> json_Valid (ev_Payload ev) \<and> insert_outbox ev (ev_CreatedAt ev) t3 = Inr t4)"
    "select_document org i t4 = Some doc"
    "x = Commit (doc\<lparr>d_Uploads := d_Uploads doc @ [up], d_Status := ''processing'', d_ProcessingJobStatus := ''queued'',
           d_UpdatedAt := now\<rparr>) t4"
  using assms
  by (cases event) (auto simp: upload_rows_def)

lemma upload_rows_ok:
  assumes "upload_rows now org i up event s t0 = Inr (Commit x t)" and "u_OrganizationID up = org"
  shows "stmt_ok org t0 t"
  using assms(1)
proof (cases rule: upload_rows_Commit)
  case (1 t1 t2 t3 t4 doc)
  have a: "stmt_ok org t0 t1" using insert_upload_ok [OF 1(1)] assms(2) by simp
  have e: "stmt_ok org t3 t4" using 1(4) insert_outbox_ok by (cases event) auto
  have "t = t4" using 1(6) by simp
  with stmt_ok_trans [OF stmt_ok_trans [OF a update_document_ok [OF 1(2)]] stmt_ok_trans [OF upsert_job_ok [OF 1(3)] e]]
  show ?thesis by simp
qed

lemma pg_Upload_ok:
  assumes "uploadDocument now org i up event s = (r, s')" and "u_OrganizationID up = org"
  shows "stmt_ok org (ps_tables s) (ps_tables s')"
  using assms(1) unfolding uploadDocument_def
  by (rule run_tx_ok)
    (auto dest: upload_rows_ok [OF _ assms(2)] split: option.splits if_splits)

lemma insert_intent_fails: "is_ok (insert_upload (intent_row up) t) \<longleftrightarrow> False"
  by (auto simp: insert_upload_def intent_row_def)

lemma insert_intent_same:
  "insert_intent up s = (r, s') \<Longrightarrow> ps_tables s' = ps_tables s \<and> \<not> is_ok r"
  using insert_intent_fails [of up "ps_tables s"]
  by (auto simp: insert_intent_def auto_exec_def tick_def split: option.splits sum.splits prod.splits if_splits)

text \<open>
  Property C33. No upload intent can be created in PostgreSQL: the insert writes
  \<open>size_bytes = 0\<close>, which the table's check \<open>size_bytes > 0\<close> refuses. Whatever the server
  answers, \<open>CreateUploadIntent\<close> leaves the tables as they are, and succeeds only by returning
  an upload that is already there under the idempotency key.
\<close>

theorem pg_intent_never_created:
  assumes "pg_CreateUploadIntent now org i up s = (r, s')"
  shows "ps_tables s' = ps_tables s
    \<and> (\<forall>u. r = Inr u \<longrightarrow> u_IdempotencyKey up \<noteq> [] \<and> select_by_key org (u_IdempotencyKey up) (ps_tables s) = Some u)"
  using assms insert_intent_same [of up s r s']
  by (auto simp: pg_CreateUploadIntent_def tick_def split: sum.splits option.splits if_splits)

lemma confirm_rows_ok:
  assumes "confirm_rows now org i uid sz ck ev s up t0 = Inr (Commit x t)"
  shows "stmt_ok org t0 t"
proof -
  obtain t1 t2 t3 where 1: "update_upload org i uid sz ck now t0 = Inr t1"
    and 2: "update_document org i (u_StorageRef up) sz now t1 = Inr t2" and 3: "upsert_job i org now t2 = Inr t3"
    and 4: "insert_outbox_once ev now t3 = Inr t"
    using assms by (auto simp: confirm_rows_def)
  from stmt_ok_trans [OF stmt_ok_trans [OF update_upload_ok [OF 1] update_document_ok [OF 2]]
      stmt_ok_trans [OF upsert_job_ok [OF 3] insert_outbox_once_ok [OF 4]]]
  show ?thesis .
qed

lemma pg_Confirm_ok:
  assumes "pg_ConfirmUpload now org i uid sz ck ev s = (r, s')"
  shows "stmt_ok org (ps_tables s) (ps_tables s')"
  using assms unfolding pg_ConfirmUpload_def
  by (rule run_tx_ok) (auto dest: confirm_rows_ok split: option.splits if_splits)

lemma pg_Get_law:
  assumes "pg_invar s" and "pg_GetDocument org i s = Inr d"
  shows "pg_view s i = Some d \<and> owned_by org d"
  using assms
  by (auto simp: pg_GetDocument_def pg_view_def view_tables_def select_document_def owned_by_def pg_invar_def pg_wf_def
      split: option.splits if_splits)

lemma stmt_ok_step:
  "pg_invar s \<Longrightarrow> stmt_ok org (ps_tables s) (ps_tables s') \<Longrightarrow> pg_invar s' \<and> tenant_step pg_view org s s'"
  by (simp add: pg_invar_def stmt_ok_def tenant_step_def pg_view_def)

interpretation pg: tenant_store "postgres_ops" pg_view pg_invar
proof (unfold_locales, goal_cases)
  case (1 s org i d)
  then show ?case using pg_Get_law by (simp add: postgres_ops_def)
next
  case (2 s org i d)
  then show ?case using pg_Get_law by (simp add: postgres_ops_def pg_GetDocumentStatus_def)
next
  case (3 s doc r t)
  then show ?case using pg_Create_ok [THEN stmt_ok_step [rotated]] by (simp add: postgres_ops_def)
next
  case (4 s up i org now r t)
  then show ?case using pg_Upload_ok [THEN stmt_ok_step [rotated]] by (simp add: postgres_ops_def pg_UploadDocument_def)
next
  case (5 s f doc up now ev r t)
  then show ?case using pg_CreateQueue_ok [of now doc up ev s r t] stmt_ok_step [of s "d_OrganizationID doc" t] by (auto simp: postgres_ops_def)
next
  case (6 s g up i org now ev r t)
  then show ?case using pg_Upload_ok [of now org i up "Some ev" s r t] stmt_ok_step [of s org t]
    by (auto simp: postgres_ops_def pg_UploadDocumentAndQueue_def)
next
  case (7 s ii up i org now r' t)
  then show ?case
    using insert_intent_same [of up s r' t]
    by (auto simp: postgres_ops_def postgres_intents_def pg_CreateUploadIntent_def tick_def pg_invar_def tenant_step_def pg_view_def
        split: sum.splits option.splits if_splits)
next
  case (8 s ii now org i uid sz ck ev r' t)
  then show ?case using pg_Confirm_ok [of now org i uid sz ck ev s r' t] stmt_ok_step [of s org t]
    by (auto simp: postgres_ops_def postgres_intents_def)
qed

subsection \<open>The transactional outbox\<close>

lemma insert_upload_Inr:
  "insert_upload up t = Inr t' \<Longrightarrow> t' = t\<lparr>t_uploads := t_uploads t @ [up\<lparr>u_CreatedAt := timestamptz (u_CreatedAt up)\<rparr>]\<rparr>"
  by (auto simp: insert_upload_def split: if_splits)

lemma insert_upload_fk: "insert_upload up t = Inr t' \<Longrightarrow> doc_exists t (u_OrganizationID up) (u_DocumentID up)"
  by (auto simp: insert_upload_def split: if_splits)

text \<open>The document row an upload leaves.\<close>

definition queued_doc :: "string \<Rightarrow> int \<Rightarrow> time \<Rightarrow> Document \<Rightarrow> Document" where
  "queued_doc ref sz now d = d\<lparr>d_Status := ''processing'', d_ProcessingJobStatus := ''queued'',
     d_StorageRef := ref, d_SizeBytes := sz, d_UpdatedAt := timestamptz now\<rparr>"

lemma update_document_Inr:
  assumes "update_document org i ref sz now t = Inr t'" and "t_documents t i = Some d" and "d_OrganizationID d = org"
  shows "t' = t\<lparr>t_documents := (t_documents t)(i \<mapsto> queued_doc ref sz now d)\<rparr>"
  using assms by (auto simp: update_document_def queued_doc_def split: if_splits)

lemma upsert_job_Inr:
  assumes "upsert_job i org now t = Inr t'"
  shows "\<exists>job. t' = t\<lparr>t_jobs := (t_jobs t)(''job_'' @ i \<mapsto> job)\<rparr> \<and> pj_Status job = ''queued''"
  using assms by (auto simp: upsert_job_def insert_job_def split: option.splits if_splits)

lemma insert_outbox_Inr:
  assumes "insert_outbox ev c t = Inr t'"
  shows "\<exists>row. t' = t\<lparr>t_outbox := t_outbox t @ [row]\<rparr> \<and> or_ID row = ev_ID ev \<and> or_Status row = ''pending''
    \<and> or_Payload row = ev_Payload ev \<and> or_RoutingKey row = ev_RoutingKey ev"
  using assms by (auto simp: insert_outbox_def split: if_splits)

text \<open>What the tables hold when an upload with its event has been committed.\<close>

definition upload_committed :: "string \<Rightarrow> string \<Rightarrow> UploadRecord \<Rightarrow> OutboxEvent \<Rightarrow> pg_tables \<Rightarrow> pg_tables \<Rightarrow> bool" where
  "upload_committed org i up ev t t' \<longleftrightarrow>
     t_uploads t' = t_uploads t @ [(with_defaults up)\<lparr>u_CreatedAt := timestamptz (u_CreatedAt up)\<rparr>]
     \<and> (\<exists>row. t_outbox t' = t_outbox t @ [row] \<and> or_ID row = ev_ID ev \<and> or_Status row = ''pending'' \<and> or_Payload row = ev_Payload ev)
     \<and> (\<exists>d. t_documents t' i = Some d \<and> d_OrganizationID d = org \<and> d_Status d = ''processing''
          \<and> d_ProcessingJobStatus d = ''queued'' \<and> d_StorageRef d = u_StorageRef up)
     \<and> (\<exists>job. t_jobs t' (''job_'' @ i) = Some job \<and> pj_Status job = ''queued'')"

lemma upload_rows_committed:
  assumes "upload_rows now org i up (Some ev) s t0 = Inr (Commit x t)" and "u_OrganizationID up = org" and "u_DocumentID up = i"
  shows "upload_committed org i up ev t0 t"
  using assms(1)
proof (cases rule: upload_rows_Commit)
  case (1 t1 t2 t3 t4 doc)
  have t: "t = t4" using 1(6) by simp
  obtain d where d: "t_documents t0 i = Some d" "d_OrganizationID d = org"
    using insert_upload_fk [OF 1(1)] assms(2,3) by (auto simp: doc_exists_def)
  have t1: "t1 = t0\<lparr>t_uploads := t_uploads t0 @ [(with_defaults up)\<lparr>u_CreatedAt := timestamptz (u_CreatedAt up)\<rparr>]\<rparr>"
    using insert_upload_Inr [OF 1(1)] by (simp add: with_defaults_def)
  have t2: "t2 = t1\<lparr>t_documents := (t_documents t1)(i \<mapsto> queued_doc (u_StorageRef up) (u_SizeBytes up) now d)\<rparr>"
    using update_document_Inr [OF 1(2)] d t1 by simp
  obtain job where t3: "t3 = t2\<lparr>t_jobs := (t_jobs t2)(''job_'' @ i \<mapsto> job)\<rparr>" "pj_Status job = ''queued''"
    using upsert_job_Inr [OF 1(3)] by blast
  obtain row where t4: "t4 = t3\<lparr>t_outbox := t_outbox t3 @ [row]\<rparr>" "or_ID row = ev_ID ev" "or_Status row = ''pending''"
      "or_Payload row = ev_Payload ev"
    using insert_outbox_Inr 1(4) by fastforce
  show ?thesis unfolding upload_committed_def using t4 t3 t2 t1 t d by (auto simp: queued_doc_def)
qed

lemma upload_atomic:
  assumes "u_OrganizationID up = org" and "u_DocumentID up = i"
    and "pg_UploadDocumentAndQueue now org i up ev s = (r, s')"
  shows "(ps_tables s' = ps_tables s \<or> upload_committed org i up ev (ps_tables s) (ps_tables s'))
    \<and> (\<forall>d. r = Inr d \<longrightarrow>
         upload_committed org i up ev (ps_tables s) (ps_tables s')
         \<or> ps_tables s' = ps_tables s \<and> u_IdempotencyKey up \<noteq> []
           \<and> (\<exists>u. select_by_key org (u_IdempotencyKey up) (ps_tables s) = Some u))"
proof -
  note c = upload_rows_committed [OF _ assms(1,2), of now ev s "ps_tables s"]
  show ?thesis
    using assms(3) unfolding pg_UploadDocumentAndQueue_def uploadDocument_def
  proof (cases rule: run_tx_cases)
    case unchanged
    have "upload_rows now org i up (Some ev) s (ps_tables s) \<noteq> Inr (Return x)" for x
      by (auto elim: upload_rows_Commit)
    with unchanged show ?thesis by (fastforce split: option.splits if_splits)
  next
    case (committed x t)
    then have "upload_committed org i up ev (ps_tables s) t"
      using c by (auto split: option.splits if_splits)
    then show ?thesis using committed by simp
  qed
qed

text \<open>
  Property C10. The upload and its event are one transaction. Whatever statement fails, and
  even when the commit's answer is lost, \<open>UploadDocumentAndQueue\<close> either leaves the tables as they
  were or has added the upload row and a pending outbox row with the event's identifier and payload, and marked
  the document and its job queued. When it reports success, either all of this is in the tables, or the idempotency
  key was already used in the organization and nothing was written.
\<close>

theorem upload_and_event_atomic:
  assumes "u_OrganizationID up = org" and "u_DocumentID up = i"
    and "pg_UploadDocumentAndQueue now org i up ev s = (r, s')"
  shows "(ps_tables s' = ps_tables s \<or> upload_committed org i up ev (ps_tables s) (ps_tables s'))
    \<and> (\<forall>d. r = Inr d \<longrightarrow>
         upload_committed org i up ev (ps_tables s) (ps_tables s')
         \<or> ps_tables s' = ps_tables s \<and> u_IdempotencyKey up \<noteq> []
           \<and> (\<exists>u. select_by_key org (u_IdempotencyKey up) (ps_tables s) = Some u))"
  by (rule upload_atomic [OF assms])

subsection \<open>A database that answers\<close>

definition no_faults :: "PostgresStore \<Rightarrow> bool" where
  "no_faults s \<longleftrightarrow> (\<forall>c k. ps_fault s c k = None)"

lemma no_faults_stmt [simp]: "no_faults s \<Longrightarrow> stmt_fault s k = None"
  by (simp add: no_faults_def stmt_fault_def)

lemma no_faults_tick [simp]: "no_faults (tick t s) \<longleftrightarrow> no_faults s"
  by (simp add: no_faults_def tick_def)

lemma tick_tables [simp]: "ps_tables (tick t s) = t"
  by (simp add: tick_def)

end
