(* ===== verification/Intake_Isolation.thy ===== *)
theory Intake_Isolation
  imports Intake_Service Memory_Store Postgres_Tenancy
begin

text \<open>
  Tenant isolation of the Document Intake service: the server that dispatches a call through
  the interceptor to its handler, and the proof, in the context of the store contract
  \<open>tenant_store\<close>, that a call changes documents only of the organization its caller is
  authenticated for. Every store that satisfies the contract inherits it.
\<close>

subsection \<open>The server\<close>

datatype intake_call =
    CallCreateDocument "CreateDocumentRequest option"
  | CallGetDocument "GetDocumentRequest option"
  | CallUploadDocument "UploadDocumentRequest option"
  | CallCreateUploadIntent "CreateUploadIntentRequest option"
  | CallCompleteUpload "CompleteUploadRequest option"
  | CallGetDocumentStatus "GetDocumentStatusRequest option"

datatype intake_reply =
    ReplyDocument ProtoDocument
  | ReplyUpload UploadDocumentResponse
  | ReplyIntent CreateUploadIntentResponse
  | ReplyStatus DocumentStatus

fun method_name :: "intake_call \<Rightarrow> string" where
  "method_name (CallCreateDocument _) = ''/doclens.documents.v1.DocumentIntakeService/CreateDocument''"
| "method_name (CallGetDocument _) = ''/doclens.documents.v1.DocumentIntakeService/GetDocument''"
| "method_name (CallUploadDocument _) = ''/doclens.documents.v1.DocumentIntakeService/UploadDocument''"
| "method_name (CallCreateUploadIntent _) = ''/doclens.documents.v1.DocumentIntakeService/CreateUploadIntent''"
| "method_name (CallCompleteUpload _) = ''/doclens.documents.v1.DocumentIntakeService/CompleteUpload''"
| "method_name (CallGetDocumentStatus _) = ''/doclens.documents.v1.DocumentIntakeService/GetDocumentStatus''"

fun intake_handle ::
  "'z float_runtime_scheme \<Rightarrow> call_env \<Rightarrow> intake_call \<Rightarrow> ('s, 'o) Service \<Rightarrow> metadata option \<Rightarrow>
   (intake_reply rpc_result \<times> ('s, 'o) Service) option" where
  "intake_handle rt env (CallCreateDocument r) s ctx =
     Some (map_prod (map_sum id ReplyDocument) id (CreateDocument rt env ctx r s))"
| "intake_handle rt env (CallGetDocument r) s ctx = Some (map_sum id ReplyDocument (GetDocument rt ctx r s), s)"
| "intake_handle rt env (CallUploadDocument r) s ctx =
     map_option (map_prod (map_sum id ReplyUpload) id) (UploadDocument rt env ctx r s)"
| "intake_handle rt env (CallCreateUploadIntent r) s ctx =
     Some (map_prod (map_sum id ReplyIntent) id (CreateUploadIntent rt env ctx r s))"
| "intake_handle rt env (CallCompleteUpload r) s ctx =
     Some (map_prod (map_sum id ReplyUpload) id (CompleteUpload rt env ctx r s))"
| "intake_handle rt env (CallGetDocumentStatus r) s ctx = Some (map_sum id ReplyStatus (GetDocumentStatus rt ctx r s), s)"

text \<open>\<open>None\<close>: the handler does not return.\<close>

definition intake_serve ::
  "'z float_runtime_scheme \<Rightarrow> call_env \<Rightarrow> metadata option \<Rightarrow> intake_call \<Rightarrow> ('s, 'o) Service \<Rightarrow>
   (intake_reply rpc_result \<times> ('s, 'o) Service) option" where
  "intake_serve rt env ctx call s =
     (case UnaryServerInterceptor ctx (method_name call) (intake_handle rt env call s) of
        Inl err \<Rightarrow> Some (Inl err, s)
      | Inr result \<Rightarrow> result)"

text \<open>A sequence of served calls, each with its environment and its metadata.\<close>

fun run_calls ::
  "'z float_runtime_scheme \<Rightarrow> (call_env \<times> metadata option \<times> intake_call) list \<Rightarrow> ('s, 'o) Service \<Rightarrow> ('s, 'o) Service option" where
  "run_calls rt [] s = Some s"
| "run_calls rt ((env, ctx, call) # cs) s =
     (case intake_serve rt env ctx call s of None \<Rightarrow> None | Some (_, s') \<Rightarrow> run_calls rt cs s')"

subsection \<open>Uploads always return their slot\<close>

lemma store_upload_keeps:
  assumes "store_upload env org i up ev s = (r, s')"
  shows "sv_uploadPool s' = sv_uploadPool s \<and> sv_metrics s' = sv_metrics s \<and> sv_store s' = sv_store s
    \<and> sv_objects s' = sv_objects s"
  using assms
  by (auto simp: store_upload_def publish_uploaded_def split: option.splits prod.splits sum.splits)

lemma persist_upload_pool:
  assumes "persist_upload rt env org i doc up s = (r, s')"
  shows "sv_uploadPool s' = sv_uploadPool s \<and> sv_metrics s' = sv_metrics s \<and> sv_store s' = sv_store s
    \<and> sv_objects s' = sv_objects s"
  using assms store_upload_keeps [of env org i up]
  by (auto simp: persist_upload_def split: sum.splits prod.splits)

lemma pool_success_sem [simp]: "up_sem (pool_success p) = up_sem p"
  by (simp add: pool_success_def)

lemma pool_failure_sem [simp]: "up_sem (pool_failure t p) = up_sem p"
  by (simp add: pool_failure_def)

lemma AddStreamedBytes_workers [simp]: "activeWorkers (AddStreamedBytes n m) = activeWorkers m"
  by (simp add: AddStreamedBytes_def)

lemma upload_body_pool:
  assumes "upload_body rt env org i ct obj req s = (r, s')"
  shows "map_option up_sem (sv_uploadPool s') = map_option up_sem (sv_uploadPool s)
    \<and> map_option activeWorkers (sv_metrics s') = map_option activeWorkers (sv_metrics s) \<and> sv_store s' = sv_store s"
  using assms
  by (auto simp: upload_body_def Let_def pool_update_def metrics_update_def option.map_comp comp_def
      split: sum.splits option.splits prod.splits dest!: persist_upload_pool)

text \<open>
  The two ways \<open>UploadDocument\<close> ends once its guards have passed, and the guard failures; in all
  of them it returns.
\<close>

lemma UploadDocument_cases:
  obtains (refused) e where "UploadDocument rt env ctx request s = Some (Inl e, s)"
  | (unpooled) req obj where "request = Some req" "Require rt ctx (TrimSpace (ud_OrganizationId req)) PermissionUpload = None"
      "sv_objectStorage s = Some obj" "\<not> oversized s (ud_Content req)" "ud_Content req \<noteq> []"
      "isAllowedType rt s (content_type_of rt (ud_ContentType req) (ud_Content req))" "sv_uploadPool s = None"
      "UploadDocument rt env ctx request s =
         Some (upload_body rt env (TrimSpace (ud_OrganizationId req)) (TrimSpace (ud_DocumentId req))
           (content_type_of rt (ud_ContentType req) (ud_Content req)) obj req s)"
  | (rejected) req pool pool' e where "request = Some req" "sv_uploadPool s = Some pool"
      "acquire rt (ce_now env 0) (TrimSpace (ud_OrganizationId req)) pool = (Some e, pool')"
      "UploadDocument rt env ctx request s = Some (Inl (Status ResourceExhausted e),
         metrics_update UploadRejected (s\<lparr>sv_uploadPool := Some pool', sv_headers := sv_headers s @ [(''retry-after'', ''1'')]\<rparr>))"
  | (pooled) req obj pool pool' r s2 p p' where "request = Some req"
      "Require rt ctx (TrimSpace (ud_OrganizationId req)) PermissionUpload = None"
      "sv_objectStorage s = Some obj" "\<not> oversized s (ud_Content req)" "ud_Content req \<noteq> []"
      "isAllowedType rt s (content_type_of rt (ud_ContentType req) (ud_Content req))" "sv_uploadPool s = Some pool"
      "acquire rt (ce_now env 0) (TrimSpace (ud_OrganizationId req)) pool = (None, pool')"
      "upload_body rt env (TrimSpace (ud_OrganizationId req)) (TrimSpace (ud_DocumentId req))
         (content_type_of rt (ud_ContentType req) (ud_Content req)) obj req
         (metrics_update WorkerStarted (s\<lparr>sv_uploadPool := Some pool'\<rparr>)) = (r, s2)"
      "sv_uploadPool s2 = Some p" "up_sem p = Suc (up_sem pool)" "release p = Some p'" "up_sem p' = up_sem pool"
      "UploadDocument rt env ctx request s = Some (r, metrics_update WorkerFinished (s2\<lparr>sv_uploadPool := Some p'\<rparr>))"
proof (cases "\<exists>e. UploadDocument rt env ctx request s = Some (Inl e, s)")
  case True
  then show thesis using refused by blast
next
  case False
  then obtain req where req: "request = Some req" by (cases request) (auto simp: UploadDocument_def)
  let ?org = "TrimSpace (ud_OrganizationId req)" and ?ct = "content_type_of rt (ud_ContentType req) (ud_Content req)"
  have guards: "Require rt ctx ?org PermissionUpload = None" "?org \<noteq> []" "TrimSpace (ud_DocumentId req) \<noteq> []"
      "TrimSpace (ud_Filename req) \<noteq> []" "ud_Content req \<noteq> []" "\<not> oversized s (ud_Content req)" "isAllowedType rt s ?ct"
      "sv_objectStorage s \<noteq> None"
    using False unfolding req UploadDocument_def Let_def by (auto split: option.splits if_splits)
  then obtain obj where obj: "sv_objectStorage s = Some obj" by blast
  show thesis
  proof (cases "sv_uploadPool s")
    case None
    show thesis
      by (rule unpooled [OF req guards(1) obj guards(6,5,7) None])
        (simp add: UploadDocument_def Let_def req guards obj None)
  next
    case (Some pool)
    obtain a pool' where acq: "acquire rt (ce_now env 0) ?org pool = (a, pool')" by fastforce
    show thesis
    proof (cases a)
      case (Some e)
      show thesis
        by (rule rejected [OF req \<open>sv_uploadPool s = Some pool\<close>, of e pool'])
          (use acq Some \<open>sv_uploadPool s = Some pool\<close> in \<open>simp_all add: UploadDocument_def Let_def req guards obj\<close>)
    next
      case None
      obtain r s2 where body: "upload_body rt env ?org (TrimSpace (ud_DocumentId req)) ?ct obj req
          (metrics_update WorkerStarted (s\<lparr>sv_uploadPool := Some pool'\<rparr>)) = (r, s2)" by fastforce
      have "up_sem pool' = Suc (up_sem pool)"
        using acq None by (cases rule: acquire_cases [where rt = rt and now = "ce_now env 0" and org = ?org and p = pool]) auto
      with upload_body_pool [OF body] obtain p where p: "sv_uploadPool s2 = Some p" "up_sem p = Suc (up_sem pool)"
        by (auto simp: metrics_update_def)
      then have rel: "release p = Some (p\<lparr>up_sem := up_sem pool\<rparr>)" by (simp add: release_def)
      show thesis
        by (rule pooled [OF req guards(1) obj guards(6,5,7) \<open>sv_uploadPool s = Some pool\<close> _ body p rel])
          (use acq None body p rel \<open>sv_uploadPool s = Some pool\<close> in \<open>simp_all add: UploadDocument_def Let_def req guards obj\<close>)
    qed
  qed
qed

lemma upload_slot:
  "\<exists>r s'. UploadDocument rt env ctx request s = Some (r, s')
     \<and> map_option up_sem (sv_uploadPool s') = map_option up_sem (sv_uploadPool s)
     \<and> map_option activeWorkers (sv_metrics s') = map_option activeWorkers (sv_metrics s)"
proof (cases rule: UploadDocument_cases [of rt env ctx request s])
  case (refused e)
  then show ?thesis by simp
next
  case (unpooled req obj)
  obtain r s' where b: "upload_body rt env (TrimSpace (ud_OrganizationId req)) (TrimSpace (ud_DocumentId req))
      (content_type_of rt (ud_ContentType req) (ud_Content req)) obj req s = (r, s')" by fastforce
  with unpooled upload_body_pool [OF b] show ?thesis by auto
next
  case (rejected req pool pool' e)
  then have "up_sem pool' = up_sem pool"
    by (cases rule: acquire_cases [where rt = rt and now = "ce_now env 0" and org = "TrimSpace (ud_OrganizationId req)" and p = pool]) auto
  with rejected show ?thesis by (simp add: metrics_update_def UploadRejected_def option.map_comp comp_def)
next
  case (pooled req obj pool pool' r s2 p p')
  have "map_option activeWorkers (sv_metrics s2) = map_option (activeWorkers \<circ> WorkerStarted) (sv_metrics s)"
    using upload_body_pool [OF pooled(9)] by (simp add: metrics_update_def option.map_comp)
  then have "map_option (activeWorkers \<circ> WorkerFinished) (sv_metrics s2) = map_option activeWorkers (sv_metrics s)"
    by (cases "sv_metrics s2"; cases "sv_metrics s") (auto simp: WorkerStarted_def WorkerFinished_def)
  with pooled show ?thesis by (simp add: metrics_update_def option.map_comp)
qed

text \<open>
  Property C24. \<open>UploadDocument\<close> always returns, on every path and whatever the store and
  the object storage answer: the deferred \<open>release\<close> never blocks, the slot is given back (the semaphore
  is as before the call) and the gauge of active workers is restored.
\<close>

theorem UploadDocument_returns:
  "\<exists>r s'. UploadDocument rt env ctx request s = Some (r, s')
     \<and> map_option up_sem (sv_uploadPool s') = map_option up_sem (sv_uploadPool s)
     \<and> map_option activeWorkers (sv_metrics s') = map_option activeWorkers (sv_metrics s)"
  by (rule upload_slot)

text \<open>The server answers every call.\<close>

lemma intake_serve_returns: "intake_serve rt env ctx call s \<noteq> None"
proof -
  have "intake_handle rt env call s ctx' \<noteq> None" for ctx'
    using upload_slot [of rt env ctx' _ s] by (cases call) (fastforce simp: option.map_comp)+
  then show ?thesis by (auto simp: intake_serve_def UnaryServerInterceptor_def split: sum.splits if_splits option.splits)
qed

text \<open>
  The part of \<open>UploadDocument\<close> before and after its body does not touch the store and the
  objects, so a successful call is a successful body.
\<close>

lemma UploadDocument_body:
  assumes "UploadDocument rt env ctx (Some req) s = Some (Inr resp, s')"
  obtains obj s1 s2 where "Require rt ctx (TrimSpace (ud_OrganizationId req)) PermissionUpload = None"
    "sv_objectStorage s = Some obj" "\<not> oversized s (ud_Content req)" "ud_Content req \<noteq> []"
    "isAllowedType rt s (content_type_of rt (ud_ContentType req) (ud_Content req))"
    "upload_body rt env (TrimSpace (ud_OrganizationId req)) (TrimSpace (ud_DocumentId req))
       (content_type_of rt (ud_ContentType req) (ud_Content req)) obj req s1 = (Inr resp, s2)"
    "sv_db s1 = sv_db s" "sv_objects s1 = sv_objects s" "sv_store s1 = sv_store s"
    "sv_db s' = sv_db s2" "sv_objects s' = sv_objects s2"
proof (cases rule: UploadDocument_cases [of rt env ctx "Some req" s])
  case (refused e)
  then show thesis using assms by simp
next
  case (unpooled r obj)
  then show thesis using assms by (intro that [of obj s s']) auto
next
  case (rejected r pool pool' e)
  then show thesis using assms by simp
next
  case (pooled r obj pool pool' res s2 p p')
  then show thesis
    using assms by (intro that [of obj "metrics_update WorkerStarted (s\<lparr>sv_uploadPool := Some pool'\<rparr>)" s2])
      (auto simp: metrics_update_def)
qed

subsection \<open>A call touches only its caller's documents\<close>

text \<open>
  What a caller may do to the documents: nothing, or a step of the organization that its
  metadata claims.
\<close>

definition caller_step :: "('s \<Rightarrow> string \<rightharpoonup> Document) \<Rightarrow> metadata option \<Rightarrow> 's \<Rightarrow> 's \<Rightarrow> bool" where
  "caller_step view ctx s t \<longleftrightarrow>
     t = s \<or> (\<exists>md. ctx = Some md \<and> claimed_org md \<noteq> [] \<and> tenant_step view (claimed_org md) s t)"

lemma caller_step_refl [simp]: "caller_step view ctx s s"
  by (simp add: caller_step_def)

lemma caller_stepI:
  "Require rt ctx org perm = None \<Longrightarrow> tenant_step view org s t \<Longrightarrow> caller_step view ctx s t"
  unfolding Require_None_iff caller_step_def by (metis tenant_step_trim)

context tenant_store
begin

definition keeps :: "string \<Rightarrow> ('s, 'o) Service \<Rightarrow> ('s, 'o) Service \<Rightarrow> bool" where
  "keeps org s s' \<longleftrightarrow> sv_store s' = ops \<and> invar (sv_db s') \<and> tenant_step view org (sv_db s) (sv_db s')"

definition safe :: "('s, 'o) Service \<Rightarrow> bool" where
  "safe s \<longleftrightarrow> sv_store s = ops \<and> invar (sv_db s)"

lemma keeps_refl: "safe s \<Longrightarrow> sv_store s' = ops \<Longrightarrow> sv_db s' = sv_db s \<Longrightarrow> keeps org s s'"
  by (simp add: keeps_def safe_def)

lemma keepsI:
  "sv_store s' = ops \<Longrightarrow> invar (sv_db s') \<and> tenant_step view org (sv_db s) (sv_db s') \<Longrightarrow> keeps org s s'"
  by (simp add: keeps_def)

lemma store_upload_isolated:
  assumes "safe s" and "u_DocumentID up = i" and "u_OrganizationID up = org"
    and "store_upload env org i up ev s = (r, s')"
  shows "keeps org s s'"
proof (cases "si_UploadDocumentAndQueue ops")
  case None
  obtain x db where u: "si_UploadDocument ops (ce_now env 3) org i up (sv_db s) = (x, db)" by fastforce
  note law = upload_law [OF _ assms(2,3) u]
  have "sv_db s' = db \<and> sv_store s' = sv_store s"
    using assms(1,4) None u by (auto simp: store_upload_def safe_def publish_uploaded_def split: sum.splits option.splits)
  then show ?thesis using law assms(1) by (auto simp: keeps_def safe_def)
next
  case (Some g)
  obtain x db where u: "g (ce_now env 3) org i up ev (sv_db s) = (x, db)" by fastforce
  note law = upload_queue_law [OF _ Some assms(2,3) u]
  have "sv_db s' = db \<and> sv_store s' = sv_store s"
    using assms(1,4) Some u by (auto simp: store_upload_def safe_def split: sum.splits)
  then show ?thesis using law assms(1) by (auto simp: keeps_def safe_def)
qed

lemma persist_upload_isolated:
  assumes "safe s" and "u_DocumentID up = i" and "u_OrganizationID up = org"
    and "persist_upload rt env org i doc up s = (r, s')"
  shows "keeps org s s'"
  using assms store_upload_isolated [OF assms(1-3)] keeps_refl [OF assms(1)]
  by (auto simp: persist_upload_def safe_def split: sum.splits prod.splits)

lemma upload_body_isolated:
  assumes "safe s" and "upload_body rt env org i ct obj req s = (r, s')"
  shows "keeps org s s'"
proof -
  have st: "sv_store s' = ops" using upload_body_pool [OF assms(2)] assms(1) by (simp add: safe_def)
  consider "sv_db s' = sv_db s"
    | up s1 doc where "persist_upload rt env org i doc up s1 = (r, s')" "sv_db s1 = sv_db s" "sv_store s1 = sv_store s"
        "u_DocumentID up = i" "u_OrganizationID up = org"
    using assms(2)
    by (auto simp: upload_body_def Let_def pool_update_def metrics_update_def
        split: sum.splits option.splits prod.splits)
  then show ?thesis
  proof cases
    case 1
    then show ?thesis using keeps_refl [OF assms(1) st] by simp
  next
    case 2
    then have "safe s1" using assms(1) by (simp add: safe_def)
    from persist_upload_isolated [OF this 2(4,5,1)] show ?thesis using 2(2) by (simp add: keeps_def)
  qed
qed

lemma UploadDocument_isolated:
  assumes "safe s" and "UploadDocument rt env ctx request s = Some (r, s')"
  shows "safe s' \<and> caller_step view ctx (sv_db s) (sv_db s')"
proof (cases rule: UploadDocument_cases [of rt env ctx request s])
  case (refused e)
  then show ?thesis using assms by simp
next
  case (unpooled req obj)
  then have "keeps (TrimSpace (ud_OrganizationId req)) s s'"
    using assms upload_body_isolated [OF assms(1)] by simp
  then show ?thesis using caller_stepI [OF unpooled(2)] by (auto simp: keeps_def safe_def)
next
  case (rejected req pool pool' e)
  then show ?thesis using assms by (auto simp: metrics_update_def safe_def)
next
  case (pooled req obj pool pool' r' s2 p p')
  let ?s1 = "metrics_update WorkerStarted (s\<lparr>sv_uploadPool := Some pool'\<rparr>)"
  have s1: "safe ?s1" "sv_db ?s1 = sv_db s" using assms(1) by (simp_all add: safe_def metrics_update_def)
  have "keeps (TrimSpace (ud_OrganizationId req)) s s2"
    using upload_body_isolated [OF s1(1) pooled(9)] s1(2) by (simp add: keeps_def)
  then have "keeps (TrimSpace (ud_OrganizationId req)) s s'"
    using assms(2) pooled by (auto simp: keeps_def metrics_update_def)
  then show ?thesis using caller_stepI [OF pooled(2)] by (auto simp: keeps_def safe_def)
qed

lemma create_content_isolated:
  assumes "safe s" and "d_Uploads doc = []" and "d_OrganizationID doc = org"
  shows "keeps org s (snd (create_with_content rt env org declared doc content s))"
proof -
  let ?ct = "content_type_of rt declared content"
  let ?doc = "\<lambda>ref. content_document env ?ct ref content doc"
  let ?up = "\<lambda>ref. content_upload rt env org (?doc ref) ?ct ref content"
  have s: "sv_store s = ops" "invar (sv_db s)" using assms(1) by (simp_all add: safe_def)
  have queued: "invar db \<and> tenant_step view org (sv_db s) db"
    if "si_CreateDocumentAndQueue ops = Some f" "f (ce_now env 3) (?doc ref) (?up ref) ev (sv_db s) = (x, db)" for f x ref ev db
    using create_queue_law [OF s(2) that(1) _ _ _ that(2)] assms(2,3) by simp
  have created: "invar db \<and> tenant_step view org (sv_db s) db"
    if "si_CreateDocument ops (?doc ref) (sv_db s) = (x, db)" for x ref db
    using create_law [OF s(2) _ that] assms(2,3) by simp
  have uploaded: "invar db' \<and> tenant_step view org (sv_db s) db'"
    if "si_CreateDocument ops (?doc ref) (sv_db s) = (x, db)"
      "si_UploadDocument ops (ce_now env 3) org (d_ID doc) (?up ref) db = (y, db')" for x y ref db db'
    using upload_law [OF _ _ _ that(2)] created [OF that(1)] tenant_step_trans by auto
  show ?thesis
    unfolding create_with_content_def Let_def keeps_def publish_uploaded_def
    by (auto simp: s split: option.split sum.split prod.split dest: queued created uploaded)
qed

lemma CreateDocument_isolated:
  assumes "safe s"
  shows "safe (snd (CreateDocument rt env ctx request s))
    \<and> caller_step view ctx (sv_db s) (sv_db (snd (CreateDocument rt env ctx request s)))"
proof -
  have s: "sv_store s = ops" "invar (sv_db s)" using assms(1) by (simp_all add: safe_def)
  have content: "sv_store s' = ops \<and> invar (sv_db s') \<and> caller_step view ctx (sv_db s) (sv_db s')"
    if "Require rt ctx (TrimSpace (cd_OrganizationId req)) PermissionCreate = None"
      "s' = snd (create_with_content rt env (TrimSpace (cd_OrganizationId req)) declared (new_document env req) c s)" for req declared c s'
    unfolding that(2)
    using create_content_isolated [OF assms document_ids(1,2)] caller_stepI [OF that(1), of view]
    unfolding keeps_def by blast
  have plain: "invar db \<and> caller_step view ctx (sv_db s) db"
    if "Require rt ctx (TrimSpace (cd_OrganizationId req)) PermissionCreate = None"
      "si_CreateDocument ops (new_document env req) (sv_db s) = (x, db)" for req x db
    using create_law [OF s(2) _ that(2)] caller_stepI [OF that(1), of view] by auto
  show ?thesis
    unfolding CreateDocument_def Let_def safe_def
    by (auto simp: s split: option.split sum.split prod.split dest: plain content [OF _ refl])
qed

lemma CreateUploadIntent_isolated:
  assumes "safe s"
  shows "safe (snd (CreateUploadIntent rt env ctx request s))
    \<and> caller_step view ctx (sv_db s) (sv_db (snd (CreateUploadIntent rt env ctx request s)))"
proof -
  have s: "sv_store s = ops" "invar (sv_db s)" using assms(1) by (simp_all add: safe_def)
  have intent: "invar db \<and> caller_step view ctx (sv_db s) db"
    if "Require rt ctx org PermissionUpload = None" "si_intents ops = Some ii"
      "ii_CreateUploadIntent ii (ce_now env 2) org (d_ID doc) ((intent_upload env org ct doc req)\<lparr>u_StorageRef := ref\<rparr>) (sv_db s) = (x, db)"
    for org ii doc ct req ref x db
    using intent_law [OF s(2) that(2) _ _ that(3)] caller_stepI [OF that(1), of view] by auto
  show ?thesis
    unfolding CreateUploadIntent_def Let_def safe_def metrics_update_def
    by (auto simp: s split: option.split sum.split prod.split dest: intent)
qed

lemma CompleteUpload_isolated:
  assumes "safe s"
  shows "safe (snd (CompleteUpload rt env ctx request s))
    \<and> caller_step view ctx (sv_db s) (sv_db (snd (CompleteUpload rt env ctx request s)))"
proof -
  have s: "sv_store s = ops" "invar (sv_db s)" using assms(1) by (simp_all add: safe_def)
  have confirm: "invar db \<and> caller_step view ctx (sv_db s) db"
    if "Require rt ctx org PermissionUpload = None" "si_intents ops = Some ii"
      "ii_ConfirmUpload ii (ce_now env 1) org i uid sz ck ev (sv_db s) = (x, db)" for org ii i uid sz ck ev x db
    using confirm_law [OF s(2) that(2,3)] caller_stepI [OF that(1), of view] by blast
  have stored: "sv_store s' = ops \<and> invar (sv_db s') \<and> caller_step view ctx (sv_db s) (sv_db s')"
    if "Require rt ctx org PermissionUpload = None" "s' = snd (confirm_stored rt env org uid doc p sz ck s)" for org uid doc p sz ck s'
    unfolding that(2) confirm_stored_def metrics_update_def
    by (auto simp: s split: option.split sum.split prod.split dest: confirm [OF that(1)])
  have pending: "sv_store s' = ops \<and> invar (sv_db s') \<and> caller_step view ctx (sv_db s) (sv_db s')"
    if "Require rt ctx org PermissionUpload = None" "s' = snd (confirm_pending rt env org req storage doc p s)" for org req storage doc p s'
    unfolding that(2) confirm_pending_def
    by (auto simp: s stored [OF that(1) refl] split: sum.split prod.split)
  show ?thesis
    unfolding CompleteUpload_def Let_def safe_def
    by (auto simp: s split: option.split sum.split prod.split dest: pending [OF _ refl])
qed

lemma intake_serve_isolated:
  assumes "safe s" and "intake_serve rt env ctx call s = Some (r, s')"
  shows "safe s' \<and> caller_step view ctx (sv_db s) (sv_db s')"
proof (cases "UnaryServerInterceptor ctx (method_name call) (intake_handle rt env call s)")
  case (Inl e)
  with assms show ?thesis by (auto simp: intake_serve_def)
next
  case (Inr res)
  then have handled: "intake_handle rt env call s ctx = Some (r, s')"
    using assms(2) by (auto simp: intake_serve_def UnaryServerInterceptor_def split: if_splits option.splits)
  show ?thesis
  proof (cases call)
    case (CallCreateDocument req)
    then show ?thesis using handled CreateDocument_isolated [OF assms(1), of rt env ctx req]
      by (auto simp: map_prod_def split: prod.splits)
  next
    case (CallUploadDocument req)
    then show ?thesis using handled UploadDocument_isolated [OF assms(1), of rt env ctx req] by auto
  next
    case (CallCreateUploadIntent req)
    then show ?thesis using handled CreateUploadIntent_isolated [OF assms(1), of rt env ctx req]
      by (auto simp: map_prod_def split: prod.splits)
  next
    case (CallCompleteUpload req)
    then show ?thesis using handled CompleteUpload_isolated [OF assms(1), of rt env ctx req]
      by (auto simp: map_prod_def split: prod.splits)
  qed (use handled assms(1) in auto)
qed

lemma GetDocument_own:
  assumes "safe s" and "GetDocument rt ctx (Some req) s = Inr pd"
  shows "\<exists>md d. ctx = Some md \<and> view (sv_db s) (gd_Id req) = Some d \<and> owned_by (claimed_org md) d
    \<and> pd = toProtoDocument rt d"
proof -
  have s: "sv_store s = ops" "invar (sv_db s)" using assms(1) by (simp_all add: safe_def)
  obtain d where r: "Require rt ctx (TrimSpace (gd_OrganizationId req)) PermissionRead = None"
    and g: "si_GetDocument ops (TrimSpace (gd_OrganizationId req)) (gd_Id req) (sv_db s) = Inr d" "pd = toProtoDocument rt d"
    using assms(2) by (auto simp: GetDocument_def Let_def s split: option.splits if_splits sum.splits)
  then show ?thesis
    using get_law [OF s(2) g(1)] unfolding Require_None_iff by (metis owned_by_trim)
qed

lemma GetDocumentStatus_own:
  assumes "safe s" and "GetDocumentStatus rt ctx (Some req) s = Inr ds"
  shows "\<exists>md d. ctx = Some md \<and> view (sv_db s) (TrimSpace (gs_DocumentId req)) = Some d \<and> owned_by (claimed_org md) d
    \<and> ds_DocumentId ds = d_ID d \<and> ds_Status ds = d_Status d"
proof -
  have s: "sv_store s = ops" "invar (sv_db s)" using assms(1) by (simp_all add: safe_def)
  obtain d where r: "Require rt ctx (TrimSpace (gs_OrganizationId req)) PermissionRead = None"
    and g: "si_GetDocumentStatus ops (TrimSpace (gs_OrganizationId req)) (TrimSpace (gs_DocumentId req)) (sv_db s) = Inr d"
      "ds_DocumentId ds = d_ID d" "ds_Status ds = d_Status d"
    using assms(2) by (auto simp: GetDocumentStatus_def Let_def s split: option.splits if_splits sum.splits)
  then show ?thesis
    using status_law [OF s(2) g(1)] unfolding Require_None_iff by (metis owned_by_trim)
qed

lemma run_isolated:
  assumes "safe s" and "run_calls rt cs s = Some s'" and "view (sv_db s) i = Some d"
    and "\<forall>(env, ctx, call) \<in> set cs. \<forall>md. ctx = Some md \<longrightarrow> \<not> owned_by (claimed_org md) d"
  shows "safe s' \<and> view (sv_db s') i = Some d"
  using assms
proof (induction cs arbitrary: s)
  case (Cons c cs)
  obtain env ctx call where c: "c = (env, ctx, call)" by (cases c) auto
  obtain r s1 where sv: "intake_serve rt env ctx call s = Some (r, s1)" "run_calls rt cs s1 = Some s'"
    using Cons.prems(2) c by (auto split: option.splits)
  note iso = intake_serve_isolated [OF Cons.prems(1) sv(1)]
  have "view (sv_db s1) i = Some d"
    using iso Cons.prems(3,4) c tenant_step_other [of view] unfolding caller_step_def by fastforce
  then show ?case using Cons.IH [OF _ sv(2)] iso Cons.prems(4) by simp
qed simp

end

end
