(* ===== verification/Go_Sha256.thy ===== *)
theory Go_Sha256
  imports Go_Prelude "HOL-Library.Word"
begin

unbundle bit_operations_syntax

text \<open>
  Go's \<open>sha256.Sum256\<close> on words of 32 bits, with the padding, the message schedule and the compression of FIPS 180-4. The services take
  their hash function from the record \<open>runtime\<close>; this is the function that the code runs with.
\<close>

type_synonym word32 = "32 word"
type_synonym hash_state = "word32 list"

text \<open>Of the square roots of the first 8 primes and the cube roots of the first 64, the first 32 bits after the point.\<close>

definition initial_hash :: hash_state where
  "initial_hash =
    [1779033703, 3144134277, 1013904242, 2773480762, 1359893119, 2600822924, 528734635, 1541459225]"

definition round_constants :: "word32 list" where
  "round_constants =
    [1116352408, 1899447441, 3049323471, 3921009573, 961987163, 1508970993,
     2453635748, 2870763221, 3624381080, 310598401, 607225278, 1426881987,
     1925078388, 2162078206, 2614888103, 3248222580, 3835390401, 4022224774,
     264347078, 604807628, 770255983, 1249150122, 1555081692, 1996064986,
     2554220882, 2821834349, 2952996808, 3210313671, 3336571891, 3584528711,
     113926993, 338241895, 666307205, 773529912, 1294757372, 1396182291,
     1695183700, 1986661051, 2177026350, 2456956037, 2730485921, 2820302411,
     3259730800, 3345764771, 3516065817, 3600352804, 4094571909, 275423344,
     430227734, 506948616, 659060556, 883997877, 958139571, 1322822218,
     1537002063, 1747873779, 1955562222, 2024104815, 2227730452, 2361852424,
     2428436474, 2756734187, 3204031479, 3329325298]"

definition rotr :: "nat \<Rightarrow> word32 \<Rightarrow> word32" where
  "rotr n x = drop_bit n x OR push_bit (32 - n) x"

definition Ch :: "word32 \<Rightarrow> word32 \<Rightarrow> word32 \<Rightarrow> word32" where
  "Ch x y z = (x AND y) XOR (NOT x AND z)"

definition Maj :: "word32 \<Rightarrow> word32 \<Rightarrow> word32 \<Rightarrow> word32" where
  "Maj x y z = (x AND y) XOR (x AND z) XOR (y AND z)"

definition big_sigma0 :: "word32 \<Rightarrow> word32" where
  "big_sigma0 x = rotr 2 x XOR rotr 13 x XOR rotr 22 x"

definition big_sigma1 :: "word32 \<Rightarrow> word32" where
  "big_sigma1 x = rotr 6 x XOR rotr 11 x XOR rotr 25 x"

definition small_sigma0 :: "word32 \<Rightarrow> word32" where
  "small_sigma0 x = rotr 7 x XOR rotr 18 x XOR drop_bit 3 x"

definition small_sigma1 :: "word32 \<Rightarrow> word32" where
  "small_sigma1 x = rotr 17 x XOR rotr 19 x XOR drop_bit 10 x"

text \<open>The schedule is built from the words in reverse, the latest first.\<close>

fun extend_schedule :: "nat \<Rightarrow> word32 list \<Rightarrow> word32 list" where
  "extend_schedule 0 ws = ws"
| "extend_schedule (Suc n) ws =
     extend_schedule n ((small_sigma1 (ws ! 1) + ws ! 6 + small_sigma0 (ws ! 14) + ws ! 15) # ws)"

definition schedule :: "word32 list \<Rightarrow> word32 list" where
  "schedule block = rev (extend_schedule 48 (rev block))"

fun sha_round :: "hash_state \<Rightarrow> word32 \<times> word32 \<Rightarrow> hash_state" where
  "sha_round [a, b, c, d, e, f, g, h] (k, w) =
     (let t1 = h + big_sigma1 e + Ch e f g + k + w; t2 = big_sigma0 a + Maj a b c
      in [t1 + t2, a, b, c, d + t1, e, f, g])"
| "sha_round st _ = st"

definition compress :: "hash_state \<Rightarrow> word32 list \<Rightarrow> hash_state" where
  "compress st block = map2 (+) st (foldl sha_round st (zip round_constants (schedule block)))"

text \<open>A one bit, zeros to a whole number of blocks, and the length of the message in bits.\<close>

definition be_bytes :: "nat \<Rightarrow> int \<Rightarrow> bytes" where
  "be_bytes n v = map (\<lambda>i. char_of (v div 256 ^ i mod 256)) (rev [0..<n])"

definition sha_pad :: "bytes \<Rightarrow> bytes" where
  "sha_pad m = m @ char_of (128::nat) # replicate ((119 - length m mod 64) mod 64) (char_of (0::nat)) @ be_bytes 8 (8 * int (length m))"

definition be_word :: "bytes \<Rightarrow> word32" where
  "be_word bs = foldl (\<lambda>w c. push_bit 8 w OR of_char c) 0 bs"

fun groups :: "nat \<Rightarrow> nat \<Rightarrow> 'a list \<Rightarrow> 'a list list" where
  "groups n 0 xs = []"
| "groups n (Suc k) xs = take n xs # groups n k (drop n xs)"

definition sha_blocks :: "bytes \<Rightarrow> word32 list list" where
  "sha_blocks m = map (\<lambda>b. map be_word (groups 4 16 b)) (groups 64 (length m div 64) m)"

definition Sum256 :: "bytes \<Rightarrow> bytes" where
  "Sum256 m = concat (map (\<lambda>w. be_bytes 4 (uint w)) (foldl compress initial_hash (sha_blocks (sha_pad m))))"

text \<open>The padding gives whole blocks, with at least the nine bytes of the mark and the length.\<close>

lemma be_bytes_length [simp]: "length (be_bytes n v) = n"
  by (simp add: be_bytes_def)

lemma sha_pad_length: "64 dvd length (sha_pad m)"
proof -
  define r where "r = length m mod 64"
  have r: "r < 64" "length m = 64 * (length m div 64) + r" by (simp_all add: r_def)
  have "length (sha_pad m) = 64 * (length m div 64) + (r + 9 + (119 - r) mod 64)"
    using r(2) by (simp add: sha_pad_def r_def)
  moreover have "64 dvd r + 9 + (119 - r) mod 64"
  proof (cases "r \<le> 55")
    case True
    have "(119 - r) mod 64 = 55 - r" using True by (simp add: mod_if)
    then show ?thesis using True by simp
  next
    case False
    then have "(119 - r) mod 64 = 119 - r" by simp
    then show ?thesis using r(1) by simp
  qed
  ultimately show ?thesis by simp
qed

lemma sha_round_length: "length st = 8 \<Longrightarrow> length (sha_round st kw) = 8"
  by (cases "(st, kw)" rule: sha_round.cases) (simp_all add: Let_def)

lemma sha_rounds_length: "length st = 8 \<Longrightarrow> length (foldl sha_round st kws) = 8"
  by (induction kws arbitrary: st) (simp_all add: sha_round_length)

lemma compress_length: "length st = 8 \<Longrightarrow> length (compress st block) = 8"
  by (simp add: compress_def sha_rounds_length)

theorem Sum256_length: "length (Sum256 m) = 32"
proof -
  have "length st = 8 \<Longrightarrow> length (foldl compress st bs) = 8" for st bs
    by (induction bs arbitrary: st) (simp_all add: compress_length)
  then have "length (foldl compress initial_hash (sha_blocks (sha_pad m))) = 8" by (simp add: initial_hash_def)
  moreover have "length (concat (map (\<lambda>w. be_bytes 4 (uint w)) ws)) = 4 * length ws" for ws :: "word32 list"
    by (induction ws) simp_all
  ultimately show ?thesis by (simp add: Sum256_def)
qed

subsection \<open>Evaluation\<close>

text \<open>Equations that reduce the words, so that the simplifier computes with numerals of 32 bits.\<close>

definition norm32 :: "word32 \<Rightarrow> word32" where
  "norm32 w = w"

lemma norm32_code [code]: "norm32 w = word_of_int (uint w)"
  by (simp add: norm32_def)

lemma rotr_code [code]: "rotr n x = norm32 (drop_bit n x OR push_bit (32 - n) x)"
  by (simp add: norm32_def rotr_def)

lemma sha_round_code [code]:
  "sha_round [a, b, c, d, e, f, g, h] (k, w) =
     (let t1 = norm32 (h + big_sigma1 e + Ch e f g + k + w); t2 = big_sigma0 a + Maj a b c
      in [norm32 (t1 + t2), a, b, c, norm32 (d + t1), e, f, g])"
  by (simp add: norm32_def)

lemma extend_schedule_code [code]:
  "extend_schedule 0 ws = ws"
  "extend_schedule (Suc n) ws =
     extend_schedule n (norm32 (small_sigma1 (ws ! 1) + ws ! 6 + small_sigma0 (ws ! 14) + ws ! 15) # ws)"
  by (simp_all add: norm32_def)

text \<open>The test vector of the standard.\<close>

lemma Sum256_abc:
  "map (\<lambda>c. of_char c :: nat) (Sum256 ''abc'') =
     [186, 120, 22, 191, 143, 1, 207, 234, 65, 65, 64, 222, 93, 174, 34, 35,
      176, 3, 97, 163, 150, 23, 122, 156, 180, 16, 255, 97, 242, 0, 21, 173]"
  by code_simp

end
