(* ===== verification/Intake_Memory.thy ===== *)
theory Intake_Memory
  imports Intake_Isolation Go_Sha256
begin

text \<open>
  The Document Intake service on the in-memory store: the isolation theorems of
  \<open>Intake_Isolation\<close> at \<open>memory_ops\<close>, and the behaviour of uploads, of upload intents and of reads after writes.
\<close>

lemma memory_ops_simps [simp]:
  "si_CreateDocument memory_ops = mem_CreateDocument" "si_GetDocument memory_ops = mem_GetDocument"
  "si_UploadDocument memory_ops = mem_UploadDocument" "si_GetDocumentStatus memory_ops = mem_GetDocumentStatus"
  "si_CreateDocumentAndQueue memory_ops = Some mem_CreateDocumentAndQueue"
  "si_UploadDocumentAndQueue memory_ops = Some mem_UploadDocumentAndQueue" "si_intents memory_ops = Some memory_intents"
  "ii_CreateUploadIntent memory_intents = mem_CreateUploadIntent" "ii_ConfirmUpload memory_intents = mem_ConfirmUpload"
  by (simp_all add: memory_ops_def memory_intents_def)

text \<open>
  Tenant isolation. Whatever sequence of calls the service on the memory store
  serves, a document that belongs to none of the organizations the callers are authenticated
  for is, at the end, exactly what it was: not created, not overwritten, not given an upload, not
  confirmed. The invariant of the store holds at the end.
\<close>

theorem intake_tenant_isolation:
  assumes "sv_store s = memory_ops" and "mem_invar (sv_db s)" and "run_calls rt cs s = Some s'"
    and "ms_docs (sv_db s) i = Some d"
    and "\<forall>(env, ctx, call) \<in> set cs. \<forall>md. ctx = Some md \<longrightarrow> claimed_org md \<noteq> TrimSpace (d_OrganizationID d)"
  shows "ms_docs (sv_db s') i = Some d \<and> mem_invar (sv_db s')"
proof -
  have "\<forall>(env, ctx, call) \<in> set cs. \<forall>md. ctx = Some md \<longrightarrow> \<not> owned_by (claimed_org md) d"
    using assms(5) by (auto simp: owned_by_def claimed_org_def dest!: bspec)
  from mem.run_isolated [OF _ assms(3,4) this] show ?thesis
    using assms(1,2) by (simp add: mem.safe_def)
qed

text \<open>
  A read returns only documents of the caller's organization, and exactly as they
  are stored: a successful \<open>GetDocument\<close> is the rendering of the stored document of that
  identifier, whose owner is the organization in the caller's authenticated metadata; a successful
  \<open>GetDocumentStatus\<close> reports the status of such a document.
\<close>

theorem intake_reads_own:
  assumes "sv_store s = memory_ops" and "mem_invar (sv_db s)"
    and "GetDocument rt ctx (Some req) s = Inr pd" and "GetDocumentStatus rt ctx (Some sreq) s = Inr ds"
  shows "\<exists>md d e. ctx = Some md
    \<and> ms_docs (sv_db s) (gd_Id req) = Some d \<and> TrimSpace (d_OrganizationID d) = claimed_org md \<and> pd = toProtoDocument rt d
    \<and> ms_docs (sv_db s) (TrimSpace (gs_DocumentId sreq)) = Some e \<and> TrimSpace (d_OrganizationID e) = claimed_org md
    \<and> ds_DocumentId ds = d_ID e \<and> ds_Status ds = d_Status e"
proof -
  have safe: "mem.safe s" using assms(1,2) by (simp add: mem.safe_def)
  have trim: "owned_by (claimed_org md) x \<longleftrightarrow> TrimSpace (d_OrganizationID x) = claimed_org md" for md x
    by (simp add: owned_by_def claimed_org_def)
  from mem.GetDocument_own [OF safe assms(3)] mem.GetDocumentStatus_own [OF safe assms(4)]
  show ?thesis unfolding trim by auto
qed

subsection \<open>Uploads\<close>

lemma uploaded_doc_simps [simp]:
  "d_ID (uploaded_doc now up d) = d_ID d" "d_OrganizationID (uploaded_doc now up d) = d_OrganizationID d"
  "d_Uploads (uploaded_doc now up d) = d_Uploads d @ [stored_upload up]"
  "d_Status (uploaded_doc now up d) = ''processing''" "d_ProcessingJobStatus (uploaded_doc now up d) = ''queued''"
  by (simp_all add: uploaded_doc_def)

lemma proxied_confirmed [simp]: "u_Status (stored_upload (proxied_upload rt env org i ct ref req)) = ''confirmed''"
  by (simp add: stored_upload_def proxied_upload_def)

lemma persist_upload_memory:
  assumes "sv_store s = memory_ops" and "ms_docs (sv_db s) i = Some d" and "owned_by org d"
    and "\<not> has_key d (u_IdempotencyKey up)" and "persist_upload rt env org i doc up s = (Inr resp, s')"
  shows "sv_db s' = (sv_db s)\<lparr>ms_docs := (ms_docs (sv_db s))(i \<mapsto> uploaded_doc (ce_now env 3) up d)\<rparr>
    \<and> resp = \<lparr>ur_UploadId = u_ID up, ur_DocumentId = d_ID d, ur_StorageRef = u_StorageRef up, ur_Checksum = u_Checksum up\<rparr>"
  using assms
  by (auto simp: persist_upload_def store_upload_def mem_UploadDocumentAndQueue_def mem_UploadDocument_eq split: sum.splits)

text \<open>What a successful upload body does on the memory store.\<close>

lemma upload_body_memory:
  assumes "sv_store s = memory_ops" and "upload_body rt env org i ct obj req s = (Inr resp, s')"
  obtains (existing) d u where "ms_docs (sv_db s) i = Some d" "owned_by org d" "ud_IdempotencyKey req \<noteq> []"
      "find (\<lambda>e. ud_IdempotencyKey req \<noteq> [] \<and> u_IdempotencyKey e = ud_IdempotencyKey req) (d_Uploads d) = Some u"
      "resp = upload_response u" "s' = s"
  | (stored) d ref o1 where "ms_docs (sv_db s) i = Some d" "owned_by org d" "\<not> has_key d (ud_IdempotencyKey req)"
      "oi_Put obj org i (ud_Filename req) ct (ud_Content req) (sv_objects s) = (Inr ref, o1)" "sv_objects s' = o1"
      "sv_db s' = (sv_db s)\<lparr>ms_docs := (ms_docs (sv_db s))(i \<mapsto>
         uploaded_doc (ce_now env 3) (proxied_upload rt env org i ct ref req) d)\<rparr>"
      "resp = \<lparr>ur_UploadId = newID env 0 ''upl'', ur_DocumentId = d_ID d, ur_StorageRef = ref,
               ur_Checksum = hex_encode (sha256 rt (ud_Content req))\<rparr>"
proof -
  let ?P = "\<lambda>e. ud_IdempotencyKey req \<noteq> [] \<and> u_IdempotencyKey e = ud_IdempotencyKey req"
  obtain d where d: "mem_GetDocument org i (sv_db s) = Inr d"
    using assms by (auto simp: upload_body_def split: sum.splits)
  then have doc: "ms_docs (sv_db s) i = Some d" "owned_by org d"
    by (auto simp: mem_GetDocument_def owned_by_def split: option.splits if_splits)
  show thesis
  proof (cases "find ?P (d_Uploads d)")
    case (Some u)
    then have "ud_IdempotencyKey req \<noteq> []" by (auto simp: find_Some_iff)
    with Some show thesis
      using assms d doc by (intro existing) (auto simp: upload_body_def)
  next
    case None
    then have nokey: "\<not> has_key d (ud_IdempotencyKey req)" by (auto simp: find_None_iff has_key_def)
    obtain x o1 where put: "oi_Put obj org i (ud_Filename req) ct (ud_Content req) (sv_objects s) = (x, o1)" by fastforce
    obtain ref where ref: "x = Inr ref"
      using assms d None put by (cases x) (auto simp: upload_body_def)
    let ?up = "proxied_upload rt env org i ct ref req"
    let ?s1 = "metrics_update (AddStreamedBytes (int (length (ud_Content req)))) (pool_update pool_success (s\<lparr>sv_objects := o1\<rparr>))"
    have p: "persist_upload rt env org i d ?up ?s1 = (Inr resp, s')"
      using assms d None put ref by (simp add: upload_body_def Let_def)
    have s1: "sv_db ?s1 = sv_db s" "sv_store ?s1 = memory_ops" "sv_objects ?s1 = o1"
      using assms(1) by (simp_all add: metrics_update_def pool_update_def)
    from persist_upload_memory [OF s1(2) _ doc(2) _ p] show thesis
      using s1 doc(1) nokey persist_upload_pool [OF p]
      by (intro stored [OF doc nokey put [unfolded ref]]) simp_all
  qed
qed

lemma find_append_new:
  "\<forall>x \<in> set xs. \<not> P x \<Longrightarrow> P y \<Longrightarrow> find P (xs @ [y]) = Some y"
  by (induction xs) auto



subsection \<open>Reading what was created\<close>

lemma grants_create_read: "grants role PermissionCreate \<Longrightarrow> grants role PermissionRead"
  by (auto simp: grants_def PermissionCreate_def PermissionRead_def split: if_splits)

lemma Require_create_read: "Require rt ctx org PermissionCreate = None \<Longrightarrow> Require rt ctx org PermissionRead = None"
  unfolding Require_None_iff has_role_def using grants_create_read by blast

lemma create_content_memory:
  assumes "sv_store s = memory_ops" and "create_with_content rt env org declared doc content s = (Inr pd, s')"
  shows "\<exists>ref ev stored. let ct = content_type_of rt declared content; doc' = content_document env ct ref content doc in
    mem_CreateDocumentAndQueue (ce_now env 3) doc' (content_upload rt env org doc' ct ref content) ev (sv_db s) = (Inr stored, sv_db s')
    \<and> pd = toProtoDocument rt stored \<and> sv_store s' = memory_ops"
proof -
  let ?ct = "content_type_of rt declared content"
  obtain obj where obj: "sv_objectStorage s = Some obj" "\<not> oversized s content" "isAllowedType rt s ?ct"
    using assms by (auto simp: create_with_content_def Let_def split: if_splits option.splits)
  obtain x o1 where put: "oi_Put obj org (d_ID doc) (d_Filename doc) ?ct content (sv_objects s) = (x, o1)" by fastforce
  obtain ref where ref: "x = Inr ref" using assms obj put by (cases x) (auto simp: create_with_content_def Let_def)
  let ?doc = "content_document env ?ct ref content doc"
  let ?up = "content_upload rt env org ?doc ?ct ref content"
  obtain ev where ev: "NewDocumentUploaded (newID env 2 ''evt'') ?doc ?up = Inr ev"
    using assms obj put ref by (cases "NewDocumentUploaded (newID env 2 ''evt'') ?doc ?up") (auto simp: create_with_content_def Let_def)
  obtain y db where q: "mem_CreateDocumentAndQueue (ce_now env 3) ?doc ?up ev (sv_db s) = (y, db)" by fastforce
  have "create_with_content rt env org declared doc content s =
      (case y of Inl e \<Rightarrow> (Inl (Status Internal (''persist document and event: '' @ store_error_text e)), s\<lparr>sv_objects := o1, sv_db := db\<rparr>)
       | Inr stored \<Rightarrow> (Inr (toProtoDocument rt stored), s\<lparr>sv_objects := o1, sv_db := db\<rparr>))"
    using assms(1) obj put ref ev q by (simp add: create_with_content_def Let_def split: sum.split)
  then obtain stored where "y = Inr stored" "pd = toProtoDocument rt stored" "s' = s\<lparr>sv_objects := o1, sv_db := db\<rparr>"
    using assms(2) by (cases y) auto
  with q assms(1) have "mem_CreateDocumentAndQueue (ce_now env 3) ?doc ?up ev (sv_db s) = (Inr stored, sv_db s')
      \<and> pd = toProtoDocument rt stored \<and> sv_store s' = memory_ops" by simp
  then show ?thesis unfolding Let_def by blast
qed

lemma mem_Create_ok: "mem_CreateDocument doc m = (Inr x, m') \<Longrightarrow> x = doc \<and> ms_docs m' (d_ID doc) = Some doc"
  by (auto simp: mem_CreateDocument_def split: option.splits)

lemma CreateDocument_memory:
  assumes "sv_store s = memory_ops" and "CreateDocument rt env ctx (Some req) s = (Inr pd, s')"
  obtains d where "Require rt ctx (TrimSpace (cd_OrganizationId req)) PermissionCreate = None" "pd = toProtoDocument rt d"
    "ms_docs (sv_db s') (newID env 0 ''doc'') = Some d" "d_ID d = newID env 0 ''doc''" "sv_store s' = memory_ops"
    "d_OrganizationID d = TrimSpace (cd_OrganizationId req)"
proof -
  have req: "Require rt ctx (TrimSpace (cd_OrganizationId req)) PermissionCreate = None"
    using assms(2) by (auto simp: CreateDocument_def Let_def split: option.splits)
  have id: "d_ID (new_document env req) = newID env 0 ''doc''" by (simp add: new_document_def)
  have queue: "ms_docs m' (newID env 0 ''doc'') = Some x \<and> d_ID x = newID env 0 ''doc''
      \<and> d_OrganizationID x = TrimSpace (cd_OrganizationId req)"
    if "mem_CreateDocumentAndQueue t doc up ev m = (Inr x, m')" "d_ID doc = newID env 0 ''doc''"
      "d_OrganizationID doc = TrimSpace (cd_OrganizationId req)" "d_Uploads doc = []" for t doc up ev m x m'
    using that
    by (auto simp: mem_CreateDocumentAndQueue_def mem_CreateDocument_def mem_UploadDocument_eq owned_by_def has_key_def
        split: option.splits if_splits)
  show thesis
  proof (cases "cd_Content req = []")
    case True
    obtain x db where c: "mem_CreateDocument (new_document env req) (sv_db s) = (x, db)" by fastforce
    then obtain d where d: "x = Inr d" "pd = toProtoDocument rt d" "s' = s\<lparr>sv_db := db\<rparr>"
      using assms True by (cases x) (auto simp: CreateDocument_def Let_def split: option.splits if_splits)
    then show thesis
      using mem_Create_ok [OF c [unfolded d(1)]] req id assms(1) by (intro that [of d]) simp_all
  next
    case False
    then have "create_with_content rt env (TrimSpace (cd_OrganizationId req)) (cd_ContentType req) (new_document env req) (cd_Content req) s = (Inr pd, s')"
      using assms(2) by (auto simp: CreateDocument_def Let_def split: option.splits if_splits)
    from create_content_memory [OF assms(1) this] obtain doc up ev stored
      where "mem_CreateDocumentAndQueue (ce_now env 3) doc up ev (sv_db s) = (Inr stored, sv_db s')"
        "d_ID doc = newID env 0 ''doc''" "d_OrganizationID doc = TrimSpace (cd_OrganizationId req)" "d_Uploads doc = []"
        "pd = toProtoDocument rt stored" "sv_store s' = memory_ops"
      unfolding Let_def using id document_ids by metis
    then show thesis using queue req by (intro that [of stored]) blast+
  qed
qed

lemma get_after_create:
  assumes "sv_store s = memory_ops" and "CreateDocument rt env ctx (Some req) s = (Inr pd, s')"
  shows "GetDocument rt ctx (Some \<lparr>gd_OrganizationId = cd_OrganizationId req, gd_Id = pd_Id pd\<rparr>) s' = Inr pd"
proof -
  obtain d where d: "Require rt ctx (TrimSpace (cd_OrganizationId req)) PermissionCreate = None" "pd = toProtoDocument rt d"
    "ms_docs (sv_db s') (newID env 0 ''doc'') = Some d" "d_ID d = newID env 0 ''doc''" "sv_store s' = memory_ops"
    "d_OrganizationID d = TrimSpace (cd_OrganizationId req)"
    by (rule CreateDocument_memory [OF assms])
  have "TrimSpace (newID env 0 ''doc'') \<noteq> []"
    using newID_trim [of "''doc''" env 0] newID_not_Nil by (simp add: graphic_def byte_def)
  then show ?thesis
    using d Require_create_read [OF d(1)] Require_org_nonempty [OF d(1)]
    by (simp add: GetDocument_def mem_GetDocument_def toProtoDocument_def)
qed

text \<open>
  A caller that has created a document, with or without content, reads back
  exactly the document the creation returned, under its organization and identifier.
\<close>

theorem create_then_get:
  assumes "sv_store s = memory_ops" and "CreateDocument rt env ctx (Some req) s = (Inr pd, s')"
  shows "GetDocument rt ctx (Some \<lparr>gd_OrganizationId = cd_OrganizationId req, gd_Id = pd_Id pd\<rparr>) s' = Inr pd"
  by (rule get_after_create [OF assms])

subsection \<open>Direct uploads\<close>

lemma confirm_loop_found:
  assumes "confirm_loop now uid sz ck us = Inr (v, w, us')"
  shows "\<exists>u. find (\<lambda>u. u_ID u = uid) us = Some u \<and> confirm_upload now sz ck u = Inr (v, w)
    \<and> find (\<lambda>u. u_ID u = uid) us' = Some v"
  using assms
proof (induction us arbitrary: us')
  case (Cons u us)
  show ?case
  proof (cases "u_ID u = uid")
    case True
    then show ?thesis using Cons.prems confirm_upload_keeps by (fastforce split: sum.splits prod.splits)
  next
    case False
    then show ?thesis using Cons by (auto split: sum.splits prod.splits)
  qed
qed simp

text \<open>A successful \<open>ConfirmUpload\<close> of the memory store on an upload that is pending.\<close>

lemma mem_Confirm_pending:
  assumes "mem_ConfirmUpload now org i uid sz ck ev m = (Inr v, m')" and "ms_docs m i = Some d"
    and "findUpload d uid = Some u" and "u_Status u = ''pending''"
  shows "\<exists>d'. ms_docs m' i = Some d' \<and> findUpload d' uid = Some v \<and> u_Status v = ''confirmed'' \<and> u_SizeBytes v = sz
    \<and> u_Checksum v = ck \<and> u_StorageRef v = u_StorageRef u \<and> (0 < u_ExpectedSize u \<longrightarrow> sz = u_ExpectedSize u)
    \<and> d_Status d' = ''processing'' \<and> d_ProcessingJobStatus d' = ''queued'' \<and> d_OrganizationID d' = d_OrganizationID d
    \<and> d_ID d' = d_ID d \<and> d_OrganizationID d = org"
proof -
  obtain w us where l: "d_OrganizationID d = org" "confirm_loop now uid sz ck (d_Uploads d) = Inr (v, w, us)"
    and m': "m' = (if w then m\<lparr>ms_docs := (ms_docs m)(i \<mapsto> d\<lparr>d_Uploads := us, d_Status := ''processing'',
      d_ProcessingJobStatus := ''queued'', d_UpdatedAt := now\<rparr>)\<rparr> else m)"
    using assms(1,2) by (auto simp: mem_ConfirmUpload_def Let_def split: sum.splits if_splits prod.splits)
  from confirm_loop_found [OF l(2)] assms(3)
  have c: "confirm_upload now sz ck u = Inr (v, w)" "find (\<lambda>u. u_ID u = uid) us = Some v" by (auto simp: findUpload_def)
  then have "w \<and> u_Status v = ''confirmed'' \<and> u_SizeBytes v = sz \<and> u_Checksum v = ck \<and> u_StorageRef v = u_StorageRef u
      \<and> (0 < u_ExpectedSize u \<longrightarrow> sz = u_ExpectedSize u)"
    using assms(4) by (auto simp: confirm_upload_def split: if_splits)
  then show ?thesis using m' l c(2) by (simp add: findUpload_def)
qed

text \<open>The two ways \<open>CompleteUpload\<close> succeeds on the memory store.\<close>

lemma CompleteUpload_memory:
  assumes "sv_store s = memory_ops" and "CompleteUpload rt env ctx (Some req) s = (Inr resp, s')"
  obtains d u storage where "Require rt ctx (TrimSpace (cu_OrganizationId req)) PermissionUpload = None"
    "TrimSpace (cu_DocumentId req) \<noteq> []" "TrimSpace (cu_UploadId req) \<noteq> []" "direct_storage s = Some storage"
    "mem_GetDocument (TrimSpace (cu_OrganizationId req)) (cu_DocumentId req) (sv_db s) = Inr d"
    "findUpload d (cu_UploadId req) = Some u"
    "confirm_pending rt env (TrimSpace (cu_OrganizationId req)) req storage d u s = (Inr resp, s')"
  using assms by (auto simp: CompleteUpload_def Let_def split: option.splits if_splits sum.splits)

lemma confirm_pending_memory:
  assumes "sv_store s = memory_ops" and "confirm_pending rt env org req storage d u s = (Inr resp, s')"
    and "u_Status u \<noteq> ''confirmed''"
  obtains head ck ev v where "u_Status u = ''pending''" "di_Head storage (u_StorageRef u) (sv_objects s) = Inr head"
    "check_object req u head = Inr (oh_SizeBytes head, ck)"
    "mem_ConfirmUpload (ce_now env 1) org (d_ID d) (cu_UploadId req) (oh_SizeBytes head) ck ev (sv_db s) = (Inr v, sv_db s')"
    "resp = upload_response v" "sv_store s' = memory_ops" "sv_objectStorage s' = sv_objectStorage s"
proof -
  obtain head sz ck where h: "u_Status u = ''pending''" "di_Head storage (u_StorageRef u) (sv_objects s) = Inr head"
      "check_object req u head = Inr (sz, ck)"
      "confirm_stored rt env org (cu_UploadId req) d u sz ck s = (Inr resp, s')"
    using assms(2,3) by (auto simp: confirm_pending_def split: if_splits sum.splits)
  have sz: "sz = oh_SizeBytes head" using h(3) by (auto simp: check_object_def Let_def split: if_splits)
  obtain ev where ev: "NewDocumentUploaded (newID env 0 ''evt'') d (u\<lparr>u_SizeBytes := sz, u_Checksum := ck\<rparr>) = Inr ev"
    using h(4) assms(1) by (auto simp: confirm_stored_def split: sum.splits)
  obtain y db where q: "mem_ConfirmUpload (ce_now env 1) org (d_ID d) (cu_UploadId req) sz ck ev (sv_db s) = (y, db)" by fastforce
  obtain v where v: "y = Inr v" using h(4) assms(1) ev q by (cases y) (auto simp: confirm_stored_def)
  show thesis
    by (rule that [OF h(1,2) h(3) [unfolded sz], of ev v])
      (use h(4) assms(1) ev q v sz in \<open>auto simp: confirm_stored_def metrics_update_def\<close>)
qed


text \<open>
  Completing a direct upload is idempotent: once it has succeeded, completing
  the same upload again, with whatever size and checksum, gives the same response and changes nothing, so
  the document is not queued twice.
\<close>

theorem complete_upload_once:
  assumes "sv_store s = memory_ops" and "mem_invar (sv_db s)"
    and "CompleteUpload rt env ctx (Some req) s = (Inr resp, s')"
  shows "CompleteUpload rt env' ctx (Some (req\<lparr>cu_SizeBytes := n, cu_Checksum := ck\<rparr>)) s' = (Inr resp, s')"
proof -
  obtain d u storage where c: "Require rt ctx (TrimSpace (cu_OrganizationId req)) PermissionUpload = None"
    "TrimSpace (cu_DocumentId req) \<noteq> []" "TrimSpace (cu_UploadId req) \<noteq> []" "direct_storage s = Some storage"
    "mem_GetDocument (TrimSpace (cu_OrganizationId req)) (cu_DocumentId req) (sv_db s) = Inr d"
    "findUpload d (cu_UploadId req) = Some u"
    "confirm_pending rt env (TrimSpace (cu_OrganizationId req)) req storage d u s = (Inr resp, s')"
    by (rule CompleteUpload_memory [OF assms(1,3)])
  have d: "ms_docs (sv_db s) (cu_DocumentId req) = Some d" "owned_by (cu_OrganizationId req) d"
    using c(5) by (auto simp: mem_GetDocument_def owned_by_def split: option.splits if_splits)
  with mem_invarD [OF assms(2)] have id: "d_ID d = cu_DocumentId req" by blast
  have again: "CompleteUpload rt env' ctx (Some (req\<lparr>cu_SizeBytes := n, cu_Checksum := ck\<rparr>)) s' = (Inr (upload_response v), s')"
    if "sv_store s' = memory_ops" "direct_storage s' = Some storage" "ms_docs (sv_db s') (cu_DocumentId req) = Some d'"
      "owned_by (cu_OrganizationId req) d'" "findUpload d' (cu_UploadId req) = Some v" "u_Status v = ''confirmed''" for d' v
    using that c(1-3) by (simp add: CompleteUpload_def confirm_pending_def mem_GetDocument_def owned_by_def)
  show ?thesis
  proof (cases "u_Status u = ''confirmed''")
    case True
    then have "s' = s" "resp = upload_response u" using c(7) by (auto simp: confirm_pending_def)
    then show ?thesis using again [of d u] c(4,6) d True assms(1) by simp
  next
    case False
    obtain head k ev v where
      h: "u_Status u = ''pending''" "resp = upload_response v" "sv_store s' = memory_ops" "sv_objectStorage s' = sv_objectStorage s"
        "mem_ConfirmUpload (ce_now env 1) (TrimSpace (cu_OrganizationId req)) (d_ID d) (cu_UploadId req) (oh_SizeBytes head) k ev (sv_db s) = (Inr v, sv_db s')"
        "di_Head storage (u_StorageRef u) (sv_objects s) = Inr head"
      by (rule confirm_pending_memory [OF assms(1) c(7) False])
    from mem_Confirm_pending [OF h(5) [unfolded id] d(1) c(6) h(1)] obtain d' where
      "ms_docs (sv_db s') (cu_DocumentId req) = Some d'" "findUpload d' (cu_UploadId req) = Some v" "u_Status v = ''confirmed''"
      "d_OrganizationID d' = d_OrganizationID d" by blast
    then show ?thesis using again [of d' v] h c(4) d(2) by (simp add: direct_storage_def owned_by_def)
  qed
qed

subsection \<open>A concrete service\<close>

definition sample_md :: "string \<Rightarrow> metadata" where
  "sample_md org = md_Pairs [(''x-organization-id'', org), (''x-roles'', ''member'')]"

definition sample_env :: "nat \<Rightarrow> call_env" where
  "sample_env k = \<lparr>ce_now = (\<lambda>n. int n), ce_rand = (\<lambda>n. Some [char_of (16 * k + n)]), ce_nanos = (\<lambda>_. 0)\<rparr>"

definition sample_fs :: local_fs where
  "sample_fs = \<lparr>fs_files = Map.empty, fs_mkdir_err = (\<lambda>_. None), fs_write_err = (\<lambda>_. None), fs_stat_err = (\<lambda>_. ''no such file'')\<rparr>"

definition sample_service :: "(MemoryStore, local_fs) Service" where
  "sample_service =
     NewService sample_intake_runtime memory_ops NewMemoryStore (Some (local_ops sample_intake_runtime ''/data'')) sample_fs
       1000 [''application/pdf'']"

definition sample_create :: CreateDocumentRequest where
  "sample_create = \<lparr>cd_OrganizationId = ''acme'', cd_Type = ''invoice'', cd_Filename = ''a.pdf'',
     cd_ContentType = ''application/pdf'', cd_Content = ''data''\<rparr>"

definition sample_created :: "(MemoryStore, local_fs) Service" where
  "sample_created = snd (CreateDocument sample_intake_runtime (sample_env 0) (Some (sample_md ''acme'')) (Some sample_create) sample_service)"

definition sample_upload :: "string \<Rightarrow> string \<Rightarrow> string \<Rightarrow> UploadDocumentRequest" where
  "sample_upload org key content = \<lparr>ud_OrganizationId = org, ud_DocumentId = ''doc_00'', ud_Filename = ''b.pdf'',
     ud_ContentType = ''application/pdf'', ud_Content = content, ud_IdempotencyKey = key\<rparr>"

lemma sample_service_store [simp]: "sv_store sample_service = memory_ops" "mem_invar (sv_db sample_service)"
  by (simp_all add: sample_service_def NewService_def mem_invar_New)

lemma sample_created_store [simp]: "sv_store sample_created = memory_ops" "mem_invar (sv_db sample_created)"
  using mem.CreateDocument_isolated [of sample_service sample_intake_runtime "sample_env 0" "Some (sample_md ''acme'')" "Some sample_create"]
  by (simp_all add: mem.safe_def sample_created_def)

lemma CreateDocument_storage: "sv_objectStorage (snd (CreateDocument rt env ctx request s)) = sv_objectStorage s"
proof -
  have "sv_objectStorage (snd (create_with_content rt env org declared doc content s)) = sv_objectStorage s" for org declared doc content
    by (auto simp: create_with_content_def Let_def publish_uploaded_def split: option.split sum.split prod.split)
  then show ?thesis by (auto simp: CreateDocument_def Let_def split: option.split sum.split prod.split)
qed

lemma sample_created_storage: "sv_objectStorage sample_created = Some (local_ops sample_intake_runtime ''/data'')"
  by (simp add: sample_created_def CreateDocument_storage sample_service_def NewService_def)

lemma sample_created_doc:
  obtains d where "ms_docs (sv_db sample_created) ''doc_00'' = Some d" "d_OrganizationID d = ''acme''"
proof -
  have "map_option d_OrganizationID (ms_docs (sv_db sample_created) ''doc_00'') = Some ''acme''" by code_simp
  then show thesis using that by auto
qed

lemma result_ok:
  assumes "map_option (is_ok \<circ> fst) x = Some True"
  obtains r s where "x = Some (Inr r, s)"
  using assms by (auto simp: is_ok_iff)

theorem create_then_get_witness:
  "\<exists>pd. fst (CreateDocument sample_intake_runtime (sample_env 0) (Some (sample_md ''acme'')) (Some sample_create) sample_service) = Inr pd
     \<and> GetDocument sample_intake_runtime (Some (sample_md ''acme''))
         (Some \<lparr>gd_OrganizationId = ''acme'', gd_Id = pd_Id pd\<rparr>) sample_created = Inr pd"
proof -
  have "is_ok (fst (CreateDocument sample_intake_runtime (sample_env 0) (Some (sample_md ''acme'')) (Some sample_create) sample_service))"
    by code_simp
  then obtain pd where pd: "CreateDocument sample_intake_runtime (sample_env 0) (Some (sample_md ''acme'')) (Some sample_create) sample_service
      = (Inr pd, sample_created)"
    unfolding is_ok_iff sample_created_def by (metis prod.collapse)
  from create_then_get [OF sample_service_store(1) this] pd show ?thesis by (simp add: sample_create_def)
qed

theorem intake_tenant_isolation_witness:
  "\<exists>s'. run_calls sample_intake_runtime
       [(sample_env 1, Some (sample_md ''other''), CallUploadDocument (Some (sample_upload ''other'' [] ''xx''))),
        (sample_env 2, Some (sample_md ''other''), CallUploadDocument (Some (sample_upload ''acme'' [] ''xx'')))] sample_created = Some s'
     \<and> ms_docs (sv_db s') ''doc_00'' = ms_docs (sv_db sample_created) ''doc_00''"
proof -
  let ?cs = "[(sample_env 1, Some (sample_md ''other''), CallUploadDocument (Some (sample_upload ''other'' [] ''xx''))),
        (sample_env 2, Some (sample_md ''other''), CallUploadDocument (Some (sample_upload ''acme'' [] ''xx'')))]"
  obtain d where d: "ms_docs (sv_db sample_created) ''doc_00'' = Some d" "d_OrganizationID d = ''acme''"
    by (rule sample_created_doc)
  have "run_calls sample_intake_runtime ?cs sample_created \<noteq> None" by code_simp
  then obtain s' where s': "run_calls sample_intake_runtime ?cs sample_created = Some s'" by blast
  have "claimed_org (sample_md ''other'') \<noteq> TrimSpace ''acme''" by code_simp
  then have "\<forall>(env, ctx, call) \<in> set ?cs. \<forall>md. ctx = Some md \<longrightarrow> claimed_org md \<noteq> TrimSpace (d_OrganizationID d)"
    using d(2) by simp
  from intake_tenant_isolation [OF sample_created_store s' d(1) this] s' d(1) show ?thesis by simp
qed

theorem intake_reads_own_witness:
  "\<exists>pd ds d. GetDocument sample_intake_runtime (Some (sample_md ''acme''))
       (Some \<lparr>gd_OrganizationId = ''acme'', gd_Id = ''doc_00''\<rparr>) sample_created = Inr pd
     \<and> GetDocumentStatus sample_intake_runtime (Some (sample_md ''acme''))
       (Some \<lparr>gs_OrganizationId = ''acme'', gs_DocumentId = ''doc_00''\<rparr>) sample_created = Inr ds
     \<and> ms_docs (sv_db sample_created) ''doc_00'' = Some d \<and> pd = toProtoDocument sample_intake_runtime d"
proof -
  have "is_ok (GetDocument sample_intake_runtime (Some (sample_md ''acme''))
       (Some \<lparr>gd_OrganizationId = ''acme'', gd_Id = ''doc_00''\<rparr>) sample_created)"
    "is_ok (GetDocumentStatus sample_intake_runtime (Some (sample_md ''acme''))
       (Some \<lparr>gs_OrganizationId = ''acme'', gs_DocumentId = ''doc_00''\<rparr>) sample_created)" by code_simp+
  then obtain pd ds where r: "GetDocument sample_intake_runtime (Some (sample_md ''acme''))
       (Some \<lparr>gd_OrganizationId = ''acme'', gd_Id = ''doc_00''\<rparr>) sample_created = Inr pd"
    "GetDocumentStatus sample_intake_runtime (Some (sample_md ''acme''))
       (Some \<lparr>gs_OrganizationId = ''acme'', gs_DocumentId = ''doc_00''\<rparr>) sample_created = Inr ds"
    unfolding is_ok_iff by blast
  from intake_reads_own [OF sample_created_store r] r show ?thesis by auto
qed

lemma sample_upload_answered:
  obtains resp s' where "UploadDocument sample_intake_runtime (sample_env 1) (Some (sample_md ''acme''))
       (Some (sample_upload ''acme'' [] ''more'')) sample_created = Some (Inr resp, s')"
proof -
  have "map_option (is_ok \<circ> fst) (UploadDocument sample_intake_runtime (sample_env 1) (Some (sample_md ''acme''))
       (Some (sample_upload ''acme'' [] ''more'')) sample_created) = Some True" by code_simp
  then show thesis using that by (rule result_ok)
qed


definition sample_uploaded :: "(MemoryStore, local_fs) Service" where
  "sample_uploaded = snd (the (UploadDocument sample_intake_runtime (sample_env 1) (Some (sample_md ''acme''))
     (Some (sample_upload ''acme'' ''k1'' ''more'')) sample_created))"


text \<open>A document with a pending upload intent, when the client has put five bytes under the presigned reference.\<close>

definition sample_pending :: UploadRecord where
  "sample_pending = \<lparr>u_ID = ''upl_30'', u_DocumentID = ''doc_00'', u_OrganizationID = ''acme'', u_Filename = ''c.pdf'',
     u_ContentType = ''application/pdf'', u_SizeBytes = 0, u_Checksum = [], u_StorageRef = ''/data/c'', u_IdempotencyKey = [],
     u_Status = ''pending'', u_UploadMethod = ''presigned_direct'', u_ExpectedSize = 5, u_ConfirmedAt = None, u_CreatedAt = 0\<rparr>"

definition sample_doc :: Document where
  "sample_doc = \<lparr>d_ID = ''doc_00'', d_OrganizationID = ''acme'', d_Type = ''invoice'', d_Filename = ''c.pdf'',
     d_ContentType = ''application/pdf'', d_Status = ''created'', d_ProcessingJobStatus = ''pending'', d_StorageRef = [],
     d_SizeBytes = 0, d_CreatedAt = 0, d_UpdatedAt = 0, d_Uploads = [sample_pending]\<rparr>"

definition sample_direct :: "(MemoryStore, local_fs) Service" where
  "sample_direct = sample_service\<lparr>sv_db := \<lparr>ms_docs = [''doc_00'' \<mapsto> sample_doc]\<rparr>,
     sv_objects := sample_fs\<lparr>fs_files := [''/data/c'' \<mapsto> ''12345'']\<rparr>\<rparr>"

definition sample_complete :: CompleteUploadRequest where
  "sample_complete = \<lparr>cu_OrganizationId = ''acme'', cu_DocumentId = ''doc_00'', cu_UploadId = ''upl_30'',
     cu_SizeBytes = 5, cu_Checksum = []\<rparr>"

lemma sample_direct_store [simp]: "sv_store sample_direct = memory_ops" "mem_invar (sv_db sample_direct)"
  by (simp_all add: sample_direct_def mem_invar_def doc_wf_def upload_keys_def sample_doc_def sample_pending_def)

lemma sample_complete_ok:
  obtains resp s' where "CompleteUpload sample_intake_runtime (sample_env 4) (Some (sample_md ''acme'')) (Some sample_complete) sample_direct
    = (Inr resp, s')"
proof -
  have "is_ok (fst (CompleteUpload sample_intake_runtime (sample_env 4) (Some (sample_md ''acme'')) (Some sample_complete) sample_direct))"
    by code_simp
  then show thesis using that unfolding is_ok_iff by (metis prod.collapse)
qed


theorem complete_upload_once_witness:
  "\<exists>resp s'. CompleteUpload sample_intake_runtime (sample_env 4) (Some (sample_md ''acme'')) (Some sample_complete) sample_direct
       = (Inr resp, s')
     \<and> CompleteUpload sample_intake_runtime (sample_env 5) (Some (sample_md ''acme''))
         (Some (sample_complete\<lparr>cu_SizeBytes := 99, cu_Checksum := ''ff''\<rparr>)) s' = (Inr resp, s')"
proof -
  obtain resp s' where r: "CompleteUpload sample_intake_runtime (sample_env 4) (Some (sample_md ''acme'')) (Some sample_complete) sample_direct
    = (Inr resp, s')" by (rule sample_complete_ok)
  from complete_upload_once [OF sample_direct_store r] r show ?thesis by blast
qed

lemma sample_root: "NewLocalObjectStorage ''/data'' sample_fs = Inr ''/data''"
  by code_simp

text \<open>The runtime with Go's SHA-256.\<close>

definition sha_runtime :: float_runtime where
  "sha_runtime = sample_intake_runtime\<lparr>sha256 := Sum256\<rparr>"

lemma sha_runtime_length: "sha256_length sha_runtime"
  by (simp add: sha256_length_def sha_runtime_def Sum256_length)

theorem local_Put_contained_witness:
  "\<exists>ref fs'. local_Put sha_runtime ''/data'' ''acme'' ''d1'' ''../../etc/passwd'' [] ''data'' sample_fs = (Inr ref, fs')
    \<and> path_elems ref = [''data'', sanitizeSegment sha_runtime ''acme'', sanitizeSegment sha_runtime ''d1'' @ ''_passwd'']
    \<and> rooted ref \<and> fs_files fs' = [ref \<mapsto> ''data'']"
proof -
  obtain ref fs' where p: "local_Put sha_runtime ''/data'' ''acme'' ''d1'' ''../../etc/passwd'' [] ''data'' sample_fs = (Inr ref, fs')"
    by (simp add: local_Put_def os_WriteFile_def sample_fs_def Let_def)
  have "path_elems ''/data'' = [''data'']" "safe_name ''../../etc/passwd'' = ''passwd''" "rooted ''/data''" by code_simp+
  with local_Put_contained [OF sha_runtime_length sample_root p] p show ?thesis by (simp add: sample_fs_def)
qed

end
