(* ===== verification/Postgres_Refinement.thy ===== *)
theory Postgres_Refinement
  imports Postgres_Tenancy Memory_Store
begin

text \<open>
  The PostgreSQL store refines the in-memory store: on a database that answers, reading and
  uploading do to the documents, seen through \<open>pg_view\<close>, what \<open>MemoryStore\<close> does to its map.
\<close>

definition abs_store :: "PostgresStore \<Rightarrow> MemoryStore" where
  "abs_store s = \<lparr>ms_docs = pg_view s\<rparr>"

text \<open>Organizations are stored as the service sends them: trimmed.\<close>

definition trimmed_orgs :: "PostgresStore \<Rightarrow> bool" where
  "trimmed_orgs s \<longleftrightarrow> (\<forall>i d. t_documents (ps_tables s) i = Some d \<longrightarrow> TrimSpace (d_OrganizationID d) = d_OrganizationID d)"

text \<open>
  Reads of the two stores agree: on a database that answers, \<open>GetDocument\<close> of
  PostgreSQL returns for every organization and identifier the document \<open>GetDocument\<close> of the memory store returns
  on the same documents, and reports a missing document where the memory store reports a missing or a foreign one.
\<close>

theorem pg_get_refines:
  assumes "no_faults s" and "pg_invar s" and "trimmed_orgs s" and "TrimSpace org = org"
  shows "pg_GetDocument org i s =
    (case mem_GetDocument org i (abs_store s) of Inl _ \<Rightarrow> Inl ErrDocumentNotFound | Inr d \<Rightarrow> Inr d)"
proof (cases "t_documents (ps_tables s) i")
  case None
  then show ?thesis
    using assms(1)
    by (simp add: pg_GetDocument_def tx_exec_def wrap_def select_document_def mem_GetDocument_def abs_store_def pg_view_def view_tables_def)
next
  case (Some d)
  then have d: "TrimSpace (d_OrganizationID d) = d_OrganizationID d" "d_Uploads d = []"
    using assms(2,3) by (auto simp: trimmed_orgs_def pg_invar_def pg_wf_def)
  show ?thesis
    using Some d assms(1,4)
    by (simp add: pg_GetDocument_def tx_exec_def wrap_def select_document_def mem_GetDocument_def abs_store_def pg_view_def view_tables_def)
qed

subsection \<open>Uploads\<close>

lemma insort_key_append_last: "f y \<le> f x \<Longrightarrow> insort_key f y (zs @ [x]) = insort_key f y zs @ [x]"
  by (induction zs) auto

lemma sort_key_append_last: "\<forall>y \<in> set xs. f y \<le> f x \<Longrightarrow> sort_key f (xs @ [x]) = sort_key f xs @ [x]"
  by (induction xs) (simp_all add: insort_key_append_last)

lemma timestamptz_whole: "t mod 1000 = 0 \<Longrightarrow> timestamptz t = t"
  by (simp add: timestamptz_def)

text \<open>An upload the schema accepts: what the service sends for a proxied upload without a key.\<close>

definition acceptable :: "string \<Rightarrow> string \<Rightarrow> UploadRecord \<Rightarrow> OutboxEvent \<Rightarrow> pg_tables \<Rightarrow> bool" where
  "acceptable org i up ev t \<longleftrightarrow>
     u_OrganizationID up = org \<and> u_DocumentID up = i \<and> u_IdempotencyKey up = [] \<and> u_Status up = [] \<and> u_UploadMethod up = []
     \<and> u_ExpectedSize up = 0 \<and> u_ConfirmedAt up = None \<and> u_StorageRef up \<noteq> [] \<and> 0 < u_SizeBytes up
     \<and> u_CreatedAt up mod 1000 = 0 \<and> json_Valid (ev_Payload ev)
     \<and> \<not> list_ex (\<lambda>u. u_ID u = u_ID up) (t_uploads t) \<and> \<not> list_ex (\<lambda>r. or_ID r = ev_ID ev) (t_outbox t)
     \<and> list_all (\<lambda>u. u_CreatedAt u \<le> u_CreatedAt up) (t_uploads t)"

lemma acceptable_row:
  "acceptable org i up ev t \<Longrightarrow> (with_defaults up)\<lparr>u_CreatedAt := timestamptz (u_CreatedAt up)\<rparr> = stored_upload up"
  by (simp add: acceptable_def with_defaults_def stored_upload_def timestamptz_whole)

lemma upload_rows_succeed:
  assumes "no_faults s" and "acceptable org i up ev t" and "t_documents t i = Some d" and "d_OrganizationID d = org"
  obtains x t' where "upload_rows now org i up (Some ev) s t = Inr (Commit x t')"
    "t_documents t' = (t_documents t)(i \<mapsto> queued_doc (u_StorageRef up) (u_SizeBytes up) now d)"
    "t_uploads t' = t_uploads t @ [stored_upload up]"
proof -
  let ?t1 = "t\<lparr>t_uploads := t_uploads t @ [stored_upload up]\<rparr>"
  let ?t2 = "?t1\<lparr>t_documents := (t_documents t)(i \<mapsto> queued_doc (u_StorageRef up) (u_SizeBytes up) now d)\<rparr>"
  have 1: "insert_upload (with_defaults up) t = Inr ?t1"
    using assms acceptable_row [OF assms(2)] by (simp add: insert_upload_def acceptable_def doc_exists_def with_defaults_def)
  have 2: "update_document org i (u_StorageRef up) (u_SizeBytes up) now ?t1 = Inr ?t2"
    using assms by (simp add: update_document_def acceptable_def queued_doc_def)
  obtain t3 where 3: "upsert_job i org now ?t2 = Inr t3"
    using assms(4)
    by (cases "t_jobs t (''job_'' @ i)") (auto simp: upsert_job_def insert_job_def job_status_ok_def doc_exists_def queued_doc_def)
  then obtain job where t3: "t3 = ?t2\<lparr>t_jobs := (t_jobs ?t2)(''job_'' @ i \<mapsto> job)\<rparr>" using upsert_job_Inr by blast
  obtain t4 where 4: "insert_outbox ev (ev_CreatedAt ev) t3 = Inr t4"
    using assms(2) t3 by (auto simp: insert_outbox_def acceptable_def)
  then obtain row where t4: "t4 = t3\<lparr>t_outbox := t_outbox t3 @ [row]\<rparr>" using insert_outbox_Inr by blast
  have 5: "select_document org i t4 = Some (queued_doc (u_StorageRef up) (u_SizeBytes up) now d)"
    using assms(4) by (simp add: select_document_def t4 t3 queued_doc_def)
  have valid: "json_Valid (ev_Payload ev)" using assms(2) by (simp add: acceptable_def)
  show thesis
    by (rule that [of "_" t4])
      (use assms(1) 1 2 3 4 5 valid t3 t4 in \<open>simp_all add: upload_rows_def tx_exec_def wrap_def queue_event_def getDocumentTx_def\<close>)
qed

text \<open>What the rows of an upload do to the documents as they are read.\<close>

lemma view_after_upload:
  assumes "acceptable org i up ev t" and "now mod 1000 = 0" and "d_OrganizationID d = org"
    and "t_documents t' = (t_documents t)(i \<mapsto> queued_doc (u_StorageRef up) (u_SizeBytes up) now d)"
    and "t_uploads t' = t_uploads t @ [stored_upload up]"
  shows "view_tables t' = (view_tables t)(i \<mapsto> uploaded_doc now up (d\<lparr>d_Uploads := select_uploads org i t\<rparr>))"
proof
  fix j
  have key: "u_DocumentID up = i" "u_OrganizationID up = org" "u_StorageRef up \<noteq> []"
    and late: "list_all (\<lambda>u. u_CreatedAt u \<le> u_CreatedAt up) (t_uploads t)"
    using assms(1) by (auto simp: acceptable_def)
  have up: "u_OrganizationID (stored_upload up) = org" "u_CreatedAt (stored_upload up) = u_CreatedAt up" "u_DocumentID (stored_upload up) = i"
    using key by (simp_all add: stored_upload_def)
  show "view_tables t' j = ((view_tables t)(i \<mapsto> uploaded_doc now up (d\<lparr>d_Uploads := select_uploads org i t\<rparr>))) j"
  proof (cases "j = i")
    case True
    have "\<forall>y \<in> set (filter (\<lambda>u. u_OrganizationID u = org \<and> u_DocumentID u = i) (t_uploads t)). u_CreatedAt y \<le> u_CreatedAt (stored_upload up)"
      using late up by (auto simp: list_all_iff)
    from sort_key_append_last [OF this] have "select_uploads org i t' = select_uploads org i t @ [stored_upload up]"
      using up by (simp add: select_uploads_def assms(5))
    then show ?thesis
      using True assms(2,3) key(3) by (simp add: view_tables_def assms(4) queued_doc_def uploaded_doc_def timestamptz_whole)
  next
    case False
    then show ?thesis using up by (simp add: view_tables_def select_uploads_def assms(4,5))
  qed
qed


end
