(* ===== verification/Intake_Postgres.thy ===== *)
theory Intake_Postgres
  imports Intake_Isolation Postgres_Refinement
begin

text \<open>
  The Document Intake service on the PostgreSQL store: tenant isolation at \<open>postgres_ops\<close>, and
  what an upload answers when its idempotency key was used for another document.
\<close>

lemma postgres_ops_simps [simp]:
  "si_GetDocument (postgres_ops) = pg_GetDocument" "si_UploadDocumentAndQueue (postgres_ops) = Some (pg_UploadDocumentAndQueue)"
  by (simp_all add: postgres_ops_def)

text \<open>
  Property C6. Tenant isolation on PostgreSQL. Whatever sequence of calls the service serves, and whatever
  statements the database fails, a document that belongs to none of the organizations the callers are
  authenticated for has, at the end, the same row and the same uploads, and the constraints of the schema
  hold.
\<close>

theorem intake_tenant_isolation_postgres:
  assumes "sv_store s = postgres_ops" and "pg_invar (sv_db s)" and "run_calls rt cs s = Some s'"
    and "pg_view (sv_db s) i = Some d"
    and "\<forall>(env, ctx, call) \<in> set cs. \<forall>md. ctx = Some md \<longrightarrow> claimed_org md \<noteq> TrimSpace (d_OrganizationID d)"
  shows "pg_view (sv_db s') i = Some d \<and> pg_invar (sv_db s')"
proof -
  have "\<forall>(env, ctx, call) \<in> set cs. \<forall>md. ctx = Some md \<longrightarrow> \<not> owned_by (claimed_org md) d"
    using assms(5) by (auto simp: owned_by_def claimed_org_def dest!: bspec)
  moreover have "pg.safe s" using assms(1,2) by (simp add: pg.safe_def)
  ultimately show ?thesis
    using pg.run_isolated [OF _ assms(3,4)] unfolding pg.safe_def by blast
qed

subsection \<open>An idempotency key used for another document\<close>

lemma keyed_unique:
  assumes "distinct (keyed us)" and "u \<in> set us" and "v \<in> set us" and "u_IdempotencyKey u \<noteq> []"
    and "u_OrganizationID v = u_OrganizationID u" and "u_IdempotencyKey v = u_IdempotencyKey u"
  shows "v = u"
proof -
  have "inj_on (\<lambda>u. (u_OrganizationID u, u_IdempotencyKey u)) (set (filter (\<lambda>u. u_IdempotencyKey u \<noteq> []) us))"
    using assms(1) by (simp add: keyed_def distinct_map)
  then show ?thesis by (rule inj_onD) (use assms in auto)
qed

lemma pg_upload_key_hit:
  assumes "no_faults s" and "u_IdempotencyKey up \<noteq> []" and "select_by_key org (u_IdempotencyKey up) (ps_tables s) = Some u"
    and "pg_UploadDocumentAndQueue now org i up ev s = (Inr d, s')"
  shows "ps_tables s' = ps_tables s"
  using assms
  by (auto simp: pg_UploadDocumentAndQueue_def uploadDocument_def run_tx_def tx_exec_def wrap_def select_owner_def
      split: option.splits if_splits sum.splits tx_end.splits)

text \<open>An upload that no upload of its document answers is written to the database.\<close>

lemma upload_persists:
  fixes rt :: "'z float_runtime_scheme"
  defines "up env req ref \<equiv> proxied_upload rt env (TrimSpace (ud_OrganizationId req)) (TrimSpace (ud_DocumentId req))
    (content_type_of rt (ud_ContentType req) (ud_Content req)) ref req"
  assumes "sv_store s = postgres_ops" and "UploadDocument rt env ctx (Some req) s = Some (Inr resp, s')"
    and new: "\<And>d e. pg_GetDocument (TrimSpace (ud_OrganizationId req)) (TrimSpace (ud_DocumentId req)) (sv_db s) = Inr d \<Longrightarrow>
      e \<in> set (d_Uploads d) \<Longrightarrow> ud_IdempotencyKey req \<noteq> [] \<Longrightarrow> u_IdempotencyKey e \<noteq> ud_IdempotencyKey req"
  obtains d ref ev d' where "pg_GetDocument (TrimSpace (ud_OrganizationId req)) (TrimSpace (ud_DocumentId req)) (sv_db s) = Inr d"
    "NewDocumentUploaded (newID env 1 ''evt'') d (up env req ref) = Inr ev"
    "pg_UploadDocumentAndQueue (ce_now env 3) (TrimSpace (ud_OrganizationId req)) (TrimSpace (ud_DocumentId req)) (up env req ref) ev (sv_db s)
      = (Inr d', sv_db s')"
    "ur_UploadId resp = newID env 0 ''upl''" "ur_StorageRef resp = ref" "ur_Checksum resp = u_Checksum (up env req ref)"
proof -
  let ?org = "TrimSpace (ud_OrganizationId req)" and ?i = "TrimSpace (ud_DocumentId req)"
  let ?ct = "content_type_of rt (ud_ContentType req) (ud_Content req)"
  obtain obj t t' where b: "upload_body rt env ?org ?i ?ct obj req t = (Inr resp, t')"
      "sv_db t = sv_db s" "sv_objects t = sv_objects s" "sv_store t = sv_store s" "sv_db s' = sv_db t'"
    by (rule UploadDocument_body [OF assms(3)])
  have t: "sv_store t = postgres_ops" using b(4) assms(2) by simp
  obtain d where d: "pg_GetDocument ?org ?i (sv_db s) = Inr d"
    using b(1) by (auto simp: upload_body_def t b(2) split: sum.splits)
  have none: "find (\<lambda>e. ud_IdempotencyKey req \<noteq> [] \<and> u_IdempotencyKey e = ud_IdempotencyKey req) (d_Uploads d) = None"
    using new [OF d] by (auto simp: find_None_iff)
  obtain x o1 where put: "oi_Put obj ?org ?i (ud_Filename req) ?ct (ud_Content req) (sv_objects t) = (x, o1)" by fastforce
  obtain ref where ref: "x = Inr ref" using b(1,2) d none put t by (cases x) (auto simp: upload_body_def)
  let ?s1 = "metrics_update (AddStreamedBytes (int (length (ud_Content req)))) (pool_update pool_success (t\<lparr>sv_objects := o1\<rparr>))"
  have p: "persist_upload rt env ?org ?i d (up env req ref) ?s1 = (Inr resp, t')"
    using b(1,2) d none put ref t by (simp add: upload_body_def up_def Let_def)
  have s1: "sv_db ?s1 = sv_db s" "sv_store ?s1 = postgres_ops"
    using t b(2) by (simp_all add: metrics_update_def pool_update_def)
  obtain ev where ev: "NewDocumentUploaded (newID env 1 ''evt'') d (up env req ref) = Inr ev"
    using p by (auto simp: persist_upload_def split: sum.splits)
  obtain y db where q: "pg_UploadDocumentAndQueue (ce_now env 3) ?org ?i (up env req ref) ev (sv_db s) = (y, db)" by fastforce
  obtain d' where y: "y = Inr d'" "sv_db t' = db" and resp: "ur_UploadId resp = u_ID (up env req ref)"
      "ur_StorageRef resp = u_StorageRef (up env req ref)" "ur_Checksum resp = u_Checksum (up env req ref)"
    using p ev q s1 by (cases y) (auto simp: persist_upload_def store_upload_def)
  have "u_ID (up env req ref) = newID env 0 ''upl''" "u_StorageRef (up env req ref) = ref"
    by (simp_all add: up_def proxied_upload_def)
  with that [OF d ev] q y resp b(5) show thesis by simp
qed

text \<open>
  An upload with an idempotency key that the organization has already used for
  another document is answered with success and a fresh upload identifier, but nothing is recorded: the tables are
  as before and no upload has that identifier.
\<close>

theorem upload_response_unrecorded:
  assumes "sv_store s = postgres_ops" and "no_faults (sv_db s)" and "pg_invar (sv_db s)"
    and "UploadDocument rt env ctx (Some req) s = Some (Inr resp, s')" and "ud_IdempotencyKey req \<noteq> []"
    and "select_by_key (TrimSpace (ud_OrganizationId req)) (ud_IdempotencyKey req) (ps_tables (sv_db s)) = Some u"
    and "u_DocumentID u \<noteq> TrimSpace (ud_DocumentId req)"
    and "\<not> list_ex (\<lambda>v. u_ID v = newID env 0 ''upl'') (t_uploads (ps_tables (sv_db s)))"
  shows "ps_tables (sv_db s') = ps_tables (sv_db s)
    \<and> \<not> list_ex (\<lambda>v. u_ID v = ur_UploadId resp) (t_uploads (ps_tables (sv_db s')))"
proof -
  let ?org = "TrimSpace (ud_OrganizationId req)" and ?i = "TrimSpace (ud_DocumentId req)"
  have u: "u \<in> set (t_uploads (ps_tables (sv_db s)))" "u_OrganizationID u = ?org" "u_IdempotencyKey u = ud_IdempotencyKey req"
    using find_SomeD [OF assms(6) [unfolded select_by_key_def]] by auto
  have new: "u_IdempotencyKey e \<noteq> ud_IdempotencyKey req"
    if d: "pg_GetDocument ?org ?i (sv_db s) = Inr d" and e: "e \<in> set (d_Uploads d)" for d e
  proof -
    have "d_Uploads d = select_uploads ?org ?i (ps_tables (sv_db s))"
      using d assms(3) by (auto simp: pg_GetDocument_def select_document_def pg_invar_def pg_wf_def split: option.splits if_splits)
    then show ?thesis
      using keyed_unique [of "t_uploads (ps_tables (sv_db s))" u e] assms(3,5,7) e u
      by (auto simp: select_uploads_def pg_invar_def pg_wf_def)
  qed
  show ?thesis
  proof (rule upload_persists [OF assms(1,4) new], assumption, assumption)
    fix d ref ev d'
    let ?up = "proxied_upload rt env ?org ?i (content_type_of rt (ud_ContentType req) (ud_Content req)) ref req"
    assume q: "pg_UploadDocumentAndQueue (ce_now env 3) ?org ?i ?up ev (sv_db s) = (Inr d', sv_db s')"
      and resp: "ur_UploadId resp = newID env 0 ''upl''"
    have "ps_tables (sv_db s') = ps_tables (sv_db s)"
      using pg_upload_key_hit [OF assms(2) _ _ q] assms(5,6) by simp
    then show ?thesis using resp assms(8) by simp
  qed
qed

text \<open>The JSON of an upload's event, as it is written and read.\<close>

definition event_members :: "string \<Rightarrow> string \<Rightarrow> Document \<Rightarrow> UploadRecord \<Rightarrow> json" where
  "event_members i occurred d up =
     JObj [(''event_id'', JStr (to_valid i)), (''event_type'', JStr ''DocumentUploaded''), (''event_version'', JNum ''1''),
       (''occurred_at'', JStr occurred), (''organization_id'', JStr (to_valid (d_OrganizationID d))),
       (''document_id'', JStr (to_valid (d_ID d))),
       (''payload'', JObj [(''type'', JStr (to_valid (d_Type d))), (''upload_ids'', JArr [JStr (to_valid (u_ID up))]),
         (''uploads'', JArr [JObj [(''id'', JStr (to_valid (u_ID up))), (''filename'', JStr (to_valid (u_Filename up))),
           (''content_type'', JStr (to_valid (u_ContentType up))), (''size_bytes'', JNum (show_int (u_SizeBytes up))),
           (''checksum'', JStr (to_valid (u_Checksum up))), (''storage_ref'', JStr (to_valid (u_StorageRef up)))]])])]"

lemma event_members:
  "valid_json (envelope_json (JStr (format_RFC3339Nano t)) (uploaded_envelope i d up)) = event_members i (format_RFC3339Nano t) d up"
proof -
  have "show_int 1 = ''1''" by code_simp
  then show ?thesis
    by (simp add: envelope_json_def payload_json_def file_json_def uploaded_envelope_def event_members_def to_valid_ascii format_ascii)
      (simp add: to_valid_ascii is_ascii_def byte_def)
qed


subsection \<open>A concrete database\<close>

definition sample_upload_row :: "string \<Rightarrow> string \<Rightarrow> string \<Rightarrow> UploadRecord" where
  "sample_upload_row i doc key = \<lparr>u_ID = i, u_DocumentID = doc, u_OrganizationID = ''acme'', u_Filename = ''a.pdf'',
     u_ContentType = ''application/pdf'', u_SizeBytes = 4, u_Checksum = ''00'', u_StorageRef = ''r'', u_IdempotencyKey = key,
     u_Status = [], u_UploadMethod = [], u_ExpectedSize = 0, u_ConfirmedAt = None, u_CreatedAt = 1000\<rparr>"

definition sample_doc_row :: "string \<Rightarrow> Document" where
  "sample_doc_row i = \<lparr>d_ID = i, d_OrganizationID = ''acme'', d_Type = ''invoice'', d_Filename = ''a.pdf'',
     d_ContentType = ''application/pdf'', d_Status = ''created'', d_ProcessingJobStatus = ''pending'', d_StorageRef = [],
     d_SizeBytes = 0, d_CreatedAt = 0, d_UpdatedAt = 0, d_Uploads = []\<rparr>"

definition sample_pg :: PostgresStore where
  "sample_pg = \<lparr>ps_tables = \<lparr>t_documents = [''d1'' \<mapsto> sample_doc_row ''d1'', ''d2'' \<mapsto> sample_doc_row ''d2''], t_jobs = Map.empty,
       t_uploads = [with_defaults (sample_upload_row ''u1'' ''d1'' ''k1'')], t_outbox = []\<rparr>,
     ps_calls = 0, ps_fault = (\<lambda>_ _. None)\<rparr>"

definition sample_event :: OutboxEvent where
  "sample_event = \<lparr>ev_ID = ''e1'', ev_EventType = ''DocumentUploaded'', ev_EventVersion = 1, ev_RoutingKey = ''document.uploaded'',
     ev_OrganizationID = ''acme'', ev_DocumentID = ''d2'', ev_Payload = ''{}'', ev_CreatedAt = 1000\<rparr>"

lemma sample_payload [simp]: "json_Valid ''{}''"
  by code_simp

lemma sample_pg_ok [simp]: "no_faults sample_pg" "pg_invar sample_pg"
  by (simp_all add: sample_pg_def no_faults_def pg_invar_def pg_wf_def sample_doc_row_def sample_upload_row_def keyed_def
      doc_exists_def with_defaults_def)

theorem upload_and_event_atomic_witness:
  "upload_committed ''acme'' ''d2'' (sample_upload_row ''u2'' ''d2'' []) sample_event (ps_tables sample_pg)
     (ps_tables (snd (pg_UploadDocumentAndQueue 2000 ''acme'' ''d2'' (sample_upload_row ''u2'' ''d2'' []) sample_event sample_pg)))"
proof -
  obtain r s' where r: "pg_UploadDocumentAndQueue 2000 ''acme'' ''d2'' (sample_upload_row ''u2'' ''d2'' []) sample_event sample_pg = (r, s')"
    by fastforce
  have "is_ok (fst (pg_UploadDocumentAndQueue 2000 ''acme'' ''d2'' (sample_upload_row ''u2'' ''d2'' []) sample_event sample_pg))"
    by code_simp
  then obtain d where "r = Inr d" using r by (auto simp: is_ok_iff)
  with upload_and_event_atomic [OF _ _ r] r show ?thesis by (simp add: sample_upload_row_def)
qed

theorem pg_intent_never_created_witness:
  "ps_tables (snd (pg_CreateUploadIntent 0 ''acme'' ''d2'' (sample_upload_row ''u3'' ''d2'' []) sample_pg)) = ps_tables sample_pg
   \<and> \<not> is_ok (fst (pg_CreateUploadIntent 0 ''acme'' ''d2'' (sample_upload_row ''u3'' ''d2'' []) sample_pg))"
  using pg_intent_never_created [OF prod.collapse [symmetric], of 0 "''acme''" "''d2''" "sample_upload_row ''u3'' ''d2'' []" sample_pg]
  by (auto simp: is_ok_iff sample_upload_row_def)

theorem pg_get_refines_witness:
  "\<exists>d. pg_GetDocument ''acme'' ''d1'' sample_pg = Inr d \<and> mem_GetDocument ''acme'' ''d1'' (abs_store sample_pg) = Inr d"
proof -
  have "is_ok (pg_GetDocument ''acme'' ''d1'' sample_pg)" by code_simp
  then obtain d where d: "pg_GetDocument ''acme'' ''d1'' sample_pg = Inr d" by (auto simp: is_ok_iff)
  have trim: "TrimSpace ''acme'' = ''acme''" by code_simp
  then have "trimmed_orgs sample_pg" by (simp add: trimmed_orgs_def sample_pg_def sample_doc_row_def)
  from pg_get_refines [OF sample_pg_ok this trim, of "''d1''"] d show ?thesis by (auto split: sum.splits)
qed


definition sample_pg_service :: "(PostgresStore, local_fs) Service" where
  "sample_pg_service = NewService sample_intake_runtime postgres_ops sample_pg
     (Some (local_ops sample_intake_runtime ''/data''))
     \<lparr>fs_files = Map.empty, fs_mkdir_err = (\<lambda>_. None), fs_write_err = (\<lambda>_. None), fs_stat_err = (\<lambda>_. ''no such file'')\<rparr>
     1000 [''application/pdf'']"

definition sample_pg_env :: call_env where
  "sample_pg_env = \<lparr>ce_now = (\<lambda>n. 2000), ce_rand = (\<lambda>n. Some [char_of n]), ce_nanos = (\<lambda>_. 0)\<rparr>"

definition sample_pg_md :: "string \<Rightarrow> metadata" where
  "sample_pg_md org = md_Pairs [(''x-organization-id'', org), (''x-roles'', ''member'')]"

definition sample_pg_upload :: "string \<Rightarrow> UploadDocumentRequest" where
  "sample_pg_upload key = \<lparr>ud_OrganizationId = ''acme'', ud_DocumentId = ''d2'', ud_Filename = ''b.pdf'',
     ud_ContentType = ''application/pdf'', ud_Content = ''data'', ud_IdempotencyKey = key\<rparr>"

lemma sample_pg_service_simps [simp]:
  "sv_store sample_pg_service = postgres_ops" "sv_db sample_pg_service = sample_pg"
  by (simp_all add: sample_pg_service_def NewService_def)

theorem upload_response_unrecorded_witness:
  "\<exists>resp s'. UploadDocument sample_intake_runtime sample_pg_env (Some (sample_pg_md ''acme'')) (Some (sample_pg_upload ''k1'')) sample_pg_service
       = Some (Inr resp, s')
     \<and> \<not> list_ex (\<lambda>v. u_ID v = ur_UploadId resp) (t_uploads (ps_tables (sv_db s')))"
proof -
  have "map_option (is_ok \<circ> fst) (UploadDocument sample_intake_runtime sample_pg_env (Some (sample_pg_md ''acme''))
      (Some (sample_pg_upload ''k1'')) sample_pg_service) = Some True" by code_simp
  then obtain resp s' where r: "UploadDocument sample_intake_runtime sample_pg_env (Some (sample_pg_md ''acme''))
      (Some (sample_pg_upload ''k1'')) sample_pg_service = Some (Inr resp, s')" by (auto simp: is_ok_iff)
  have trim: "TrimSpace ''acme'' = ''acme''" "TrimSpace ''d2'' = ''d2''" by code_simp+
  have key: "select_by_key ''acme'' ''k1'' (ps_tables sample_pg) = Some (with_defaults (sample_upload_row ''u1'' ''d1'' ''k1''))"
    by (simp add: select_by_key_def sample_pg_def with_defaults_def sample_upload_row_def)
  have fresh: "\<not> list_ex (\<lambda>v. u_ID v = newID sample_pg_env 0 ''upl'') (t_uploads (ps_tables sample_pg))" by code_simp
  show ?thesis
    using upload_response_unrecorded [OF _ _ _ r, of "with_defaults (sample_upload_row ''u1'' ''d1'' ''k1'')"]
      r trim key fresh
    by (auto simp: sample_pg_upload_def sample_upload_row_def)
qed


theorem intake_tenant_isolation_postgres_witness:
  "\<exists>s'. run_calls sample_intake_runtime
       [(sample_pg_env, Some (sample_pg_md ''other''), CallUploadDocument (Some (sample_pg_upload [])))] sample_pg_service = Some s'
     \<and> pg_view (sv_db s') ''d2'' = pg_view sample_pg ''d2''"
proof -
  let ?cs = "[(sample_pg_env, Some (sample_pg_md ''other''), CallUploadDocument (Some (sample_pg_upload [])))]"
  have "run_calls sample_intake_runtime ?cs sample_pg_service \<noteq> None" by code_simp
  then obtain s' where s': "run_calls sample_intake_runtime ?cs sample_pg_service = Some s'" by blast
  obtain d where d: "pg_view sample_pg ''d2'' = Some d" "d_OrganizationID d = ''acme''"
    by (simp add: pg_view_def view_tables_def sample_pg_def sample_doc_row_def)
  have "claimed_org (sample_pg_md ''other'') \<noteq> TrimSpace ''acme''" by code_simp
  then have "\<forall>(env, ctx, call) \<in> set ?cs. \<forall>md. ctx = Some md \<longrightarrow> claimed_org md \<noteq> TrimSpace (d_OrganizationID d)"
    using d(2) by simp
  from intake_tenant_isolation_postgres [OF _ _ s' _ this, of "''d2''"] s' d show ?thesis by simp
qed

end
