(* ===== verification/Outbox.thy ===== *)
theory Outbox
  imports Postgres_Tenancy
begin

text \<open>
  The outbox publisher: \<open>ClaimOutbox\<close>, \<open>MarkOutboxPublished\<close> and \<open>MarkOutboxFailed\<close> of
  \<open>store/postgres.go\<close>, and \<open>publishOutboxBatch\<close> and \<open>RunOutboxPublisher\<close> of \<open>events/rabbitmq.go\<close>. The message
  broker is a parameter: for each attempt, whether \<open>PublishWithContext\<close> returned an error.
\<close>

record OutboxRecord =
  ob_ID :: string
  ob_RoutingKey :: string
  ob_Payload :: bytes
  ob_AttemptCount :: int

definition claimable :: "time \<Rightarrow> (string \<Rightarrow> bool) \<Rightarrow> OutboxRow \<Rightarrow> bool" where
  "claimable now locked r \<longleftrightarrow>
     (or_Status r = ''pending'' \<or> or_Status r = ''failed'') \<and> or_NextAttemptAt r \<le> now \<and> \<not> locked (or_ID r)"

text \<open>\<open>ORDER BY next_attempt_at, created_at ... LIMIT\<close>, skipping the rows other publishers have locked.\<close>

definition claimed_ids :: "time \<Rightarrow> (string \<Rightarrow> bool) \<Rightarrow> nat \<Rightarrow> OutboxRow list \<Rightarrow> string list" where
  "claimed_ids now locked limit rows =
     map or_ID (take limit (sort_key or_NextAttemptAt (sort_key or_CreatedAt (filter (claimable now locked) rows))))"

definition claim_row :: "string list \<Rightarrow> OutboxRow \<Rightarrow> OutboxRow" where
  "claim_row ids r =
     (if or_ID r \<in> set ids then r\<lparr>or_Status := ''publishing'', or_AttemptCount := or_AttemptCount r + 1\<rparr> else r)"

definition outbox_record :: "OutboxRow \<Rightarrow> OutboxRecord" where
  "outbox_record r =
     \<lparr>ob_ID = or_ID r, ob_RoutingKey = or_RoutingKey r, ob_Payload = or_Payload r, ob_AttemptCount = or_AttemptCount r\<rparr>"

definition claim_tables :: "time \<Rightarrow> (string \<Rightarrow> bool) \<Rightarrow> nat \<Rightarrow> pg_tables \<Rightarrow> OutboxRecord list \<times> pg_tables" where
  "claim_tables now locked limit t =
     (let ids = claimed_ids now locked limit (t_outbox t);
          rows = map (claim_row ids) (t_outbox t)
      in (map outbox_record (filter (\<lambda>r. or_ID r \<in> set ids) rows), t\<lparr>t_outbox := rows\<rparr>))"

text \<open>
  Statement 0 is the query, 1 the scan of a row, 2 the end of the iteration; after an error in the
  last two the rows are claimed all the same.
\<close>

definition ClaimOutbox ::
  "time \<Rightarrow> (string \<Rightarrow> bool) \<Rightarrow> nat \<Rightarrow> PostgresStore \<Rightarrow> (string + OutboxRecord list) \<times> PostgresStore" where
  "ClaimOutbox now locked limit s =
     (let (records, t) = claim_tables now locked limit (ps_tables s)
      in case stmt_fault s 0 of
           Some (e, applied) \<Rightarrow>
             (Inl (''claim event outbox records: '' @ e), tick (if applied then t else ps_tables s) s)
         | None \<Rightarrow>
             (case stmt_fault s 1 of
                Some (e, _) \<Rightarrow> (Inl (''scan event outbox record: '' @ e), tick t s)
              | None \<Rightarrow>
                  (case stmt_fault s 2 of
                     Some (e, _) \<Rightarrow> (Inl e, tick t s)
                   | None \<Rightarrow> (Inr records, tick t s))))"

definition set_row :: "string \<Rightarrow> (OutboxRow \<Rightarrow> OutboxRow) \<Rightarrow> pg_tables \<Rightarrow> string + pg_tables" where
  "set_row i f t = Inr (t\<lparr>t_outbox := map (\<lambda>r. if or_ID r = i then f r else r) (t_outbox t)\<rparr>)"

definition MarkOutboxPublished :: "string \<Rightarrow> time \<Rightarrow> PostgresStore \<Rightarrow> string option \<times> PostgresStore" where
  "MarkOutboxPublished i publishedAt s =
     (let (e, t) = auto_exec s 0 (set_row i (\<lambda>r. r\<lparr>or_Status := ''published'', or_PublishedAt := Some (timestamptz publishedAt),
                      or_LastError := []\<rparr>)) (ps_tables s)
      in (e, tick t s))"

text \<open>SQL's \<open>LEFT\<close> counts characters: a leading byte with its continuation bytes.\<close>

definition continuation :: "char \<Rightarrow> bool" where
  "continuation c \<longleftrightarrow> 128 \<le> byte c \<and> byte c < 192"

fun left_chars :: "nat \<Rightarrow> string \<Rightarrow> string" where
  "left_chars 0 s = []"
| "left_chars n [] = []"
| "left_chars (Suc n) (c # s) = c # takeWhile continuation s @ left_chars n (dropWhile continuation s)"

definition MarkOutboxFailed :: "string \<Rightarrow> string \<Rightarrow> time \<Rightarrow> PostgresStore \<Rightarrow> string option \<times> PostgresStore" where
  "MarkOutboxFailed i lastError nextAttemptAt s =
     (let (e, t) = auto_exec s 0 (set_row i (\<lambda>r. r\<lparr>or_Status := ''failed'', or_LastError := left_chars 1000 lastError,
                      or_NextAttemptAt := timestamptz nextAttemptAt\<rparr>)) (ps_tables s)
      in (e, tick t s))"

definition backoff :: "int \<Rightarrow> duration" where
  "backoff attemptCount = 2 ^ nat (min attemptCount 6) * second"

text \<open>
  What a batch meets: the server's clock and the rows others have locked, the broker's answer to
  the \<open>k\<close>-th message, and the readings of the client's clock. The state is the store and the messages handed
  to the broker without an error.
\<close>

record batch_env =
  be_now :: time
  be_locked :: "string \<Rightarrow> bool"
  be_publish :: "nat \<Rightarrow> OutboxRecord \<Rightarrow> string option"
  be_clock :: "nat \<Rightarrow> time"

type_synonym publisher_state = "PostgresStore \<times> OutboxRecord list"

definition publish_record :: "batch_env \<Rightarrow> nat \<Rightarrow> OutboxRecord \<Rightarrow> publisher_state \<Rightarrow> publisher_state" where
  "publish_record env k record st =
     (let (s, sent) = st;
          err0 = be_publish env k record;
          sent' = (if err0 = None then sent @ [record] else sent);
          (err, s1) = (case err0 of
                         None \<Rightarrow> MarkOutboxPublished (ob_ID record) (be_clock env (2 * k)) s
                       | Some e \<Rightarrow> (Some e, s))
      in case err of
           None \<Rightarrow> (s1, sent')
         | Some e \<Rightarrow>
             (snd (MarkOutboxFailed (ob_ID record) e (be_clock env (2 * k + 1) + backoff (ob_AttemptCount record)) s1), sent'))"

fun publish_records :: "batch_env \<Rightarrow> nat \<Rightarrow> OutboxRecord list \<Rightarrow> publisher_state \<Rightarrow> publisher_state" where
  "publish_records env k [] st = st"
| "publish_records env k (r # rs) st = publish_records env (Suc k) rs (publish_record env k r st)"

definition publishOutboxBatch :: "batch_env \<Rightarrow> publisher_state \<Rightarrow> string option \<times> publisher_state" where
  "publishOutboxBatch env st =
     (case ClaimOutbox (be_now env) (be_locked env) 50 (fst st) of
        (Inl e, s) \<Rightarrow> (Some e, (s, snd st))
      | (Inr records, s) \<Rightarrow> (None, publish_records env 0 records (s, snd st)))"

text \<open>
  \<open>RunOutboxPublisher\<close>: a batch at once, then one at every tick until the context is cancelled; an error of a batch is
  logged. The list has an element per batch.
\<close>

fun RunOutboxPublisher :: "batch_env list \<Rightarrow> publisher_state \<Rightarrow> publisher_state" where
  "RunOutboxPublisher [] st = st"
| "RunOutboxPublisher (env # envs) st = RunOutboxPublisher envs (snd (publishOutboxBatch env st))"

subsection \<open>A batch changes only the rows it claims\<close>

definition rows_changed :: "string set \<Rightarrow> pg_tables \<Rightarrow> pg_tables \<Rightarrow> bool" where
  "rows_changed ids t t' \<longleftrightarrow>
     t_documents t' = t_documents t \<and> t_uploads t' = t_uploads t \<and> t_jobs t' = t_jobs t
     \<and> (\<exists>f. t_outbox t' = map f (t_outbox t)
          \<and> (\<forall>r. or_ID (f r) = or_ID r \<and> or_Payload (f r) = or_Payload r \<and> (or_ID r \<notin> ids \<longrightarrow> f r = r)))"

lemma rows_changed_refl [simp]: "rows_changed ids t t"
  unfolding rows_changed_def by (auto intro!: exI [of _ id])

lemma rows_changed_trans:
  assumes "rows_changed ids t u" and "rows_changed ids u v"
  shows "rows_changed ids t v"
proof -
  obtain f where f: "t_outbox u = map f (t_outbox t)"
      "\<forall>r. or_ID (f r) = or_ID r \<and> or_Payload (f r) = or_Payload r \<and> (or_ID r \<notin> ids \<longrightarrow> f r = r)"
    using assms(1) unfolding rows_changed_def by blast
  obtain g where g: "t_outbox v = map g (t_outbox u)"
      "\<forall>r. or_ID (g r) = or_ID r \<and> or_Payload (g r) = or_Payload r \<and> (or_ID r \<notin> ids \<longrightarrow> g r = r)"
    using assms(2) unfolding rows_changed_def by blast
  from f g have "\<exists>h. t_outbox v = map h (t_outbox t)
      \<and> (\<forall>r. or_ID (h r) = or_ID r \<and> or_Payload (h r) = or_Payload r \<and> (or_ID r \<notin> ids \<longrightarrow> h r = r))"
    by (intro exI [of _ "g \<circ> f"]) simp
  then show ?thesis using assms unfolding rows_changed_def by simp
qed

lemma set_row_changed:
  assumes "i \<in> ids" and "\<And>r. or_ID (f r) = or_ID r \<and> or_Payload (f r) = or_Payload r"
    and "auto_exec s k (set_row i f) t = (e, t')"
  shows "rows_changed ids t t'"
proof -
  have "rows_changed ids t (t\<lparr>t_outbox := map (\<lambda>r. if or_ID r = i then f r else r) (t_outbox t)\<rparr>)"
    unfolding rows_changed_def
    by (intro conjI exI [of _ "\<lambda>r. if or_ID r = i then f r else r"]) (use assms(1,2) in auto)
  then show ?thesis
    using assms(3) by (auto simp: auto_exec_def set_row_def split: option.splits prod.splits if_splits)
qed

lemma MarkOutboxPublished_changed:
  "i \<in> ids \<Longrightarrow> MarkOutboxPublished i p s = (e, s') \<Longrightarrow> rows_changed ids (ps_tables s) (ps_tables s')"
  by (auto simp: MarkOutboxPublished_def tick_def split: prod.splits elim!: set_row_changed [rotated 2])

lemma MarkOutboxFailed_changed:
  "i \<in> ids \<Longrightarrow> MarkOutboxFailed i err n s = (e, s') \<Longrightarrow> rows_changed ids (ps_tables s) (ps_tables s')"
  by (auto simp: MarkOutboxFailed_def tick_def split: prod.splits elim!: set_row_changed [rotated 2])

lemma publish_record_changed:
  assumes "ob_ID record \<in> ids" and "publish_record env k record (s, sent) = (s', sent')"
  shows "rows_changed ids (ps_tables s) (ps_tables s')"
proof -
  obtain e s1 where 1: "(case be_publish env k record of
        None \<Rightarrow> MarkOutboxPublished (ob_ID record) (be_clock env (2 * k)) s | Some e \<Rightarrow> (Some e, s)) = (e, s1)" by fastforce
  have a: "rows_changed ids (ps_tables s) (ps_tables s1)"
    using 1 MarkOutboxPublished_changed [OF assms(1)] by (auto split: option.splits)
  show ?thesis
  proof (cases e)
    case None
    then show ?thesis using assms(2) 1 a by (simp add: publish_record_def)
  next
    case (Some x)
    obtain e2 s2 where 2: "MarkOutboxFailed (ob_ID record) x (be_clock env (2 * k + 1) + backoff (ob_AttemptCount record)) s1 = (e2, s2)"
      by fastforce
    then have "s' = s2" using assms(2) 1 Some by (simp add: publish_record_def)
    then show ?thesis using rows_changed_trans [OF a MarkOutboxFailed_changed [OF assms(1) 2]] by simp
  qed
qed

lemma publish_records_changed:
  assumes "ob_ID ` set rs \<subseteq> ids" and "publish_records env k rs (s, sent) = (s', sent')"
  shows "rows_changed ids (ps_tables s) (ps_tables s')"
  using assms
proof (induction rs arbitrary: k s sent)
  case (Cons r rs)
  obtain s1 sent1 where 1: "publish_record env k r (s, sent) = (s1, sent1)" by fastforce
  then have "publish_records env (Suc k) rs (s1, sent1) = (s', sent')" using Cons.prems(2) by simp
  with Cons.IH [OF _ this] Cons.prems(1) have "rows_changed ids (ps_tables s1) (ps_tables s')" by simp
  moreover have "rows_changed ids (ps_tables s) (ps_tables s1)"
    using publish_record_changed [OF _ 1] Cons.prems(1) by simp
  ultimately show ?case using rows_changed_trans by blast
qed simp

lemma claim_changed:
  "claim_tables now locked limit t = (rs, t') \<Longrightarrow>
     rows_changed (set (claimed_ids now locked limit (t_outbox t))) t t'
     \<and> ob_ID ` set rs \<subseteq> set (claimed_ids now locked limit (t_outbox t))"
  by (auto simp: claim_tables_def Let_def rows_changed_def claim_row_def outbox_record_def
      intro!: exI [of _ "claim_row (claimed_ids now locked limit (t_outbox t))"])

lemma batch_changed:
  assumes "publishOutboxBatch env (s, sent) = (e, (s', sent'))"
  shows "rows_changed (set (claimed_ids (be_now env) (be_locked env) 50 (t_outbox (ps_tables s)))) (ps_tables s) (ps_tables s')"
proof -
  let ?ids = "set (claimed_ids (be_now env) (be_locked env) 50 (t_outbox (ps_tables s)))"
  obtain rs t where c: "claim_tables (be_now env) (be_locked env) 50 (ps_tables s) = (rs, t)" by fastforce
  note cc = claim_changed [OF c]
  obtain x s1 where cl: "ClaimOutbox (be_now env) (be_locked env) 50 s = (x, s1)" by fastforce
  then have s1: "ps_tables s1 = t \<or> ps_tables s1 = ps_tables s" and x: "\<And>records. x = Inr records \<Longrightarrow> records = rs"
    using c by (auto simp: ClaimOutbox_def tick_def split: option.splits prod.splits if_splits)
  then have a: "rows_changed ?ids (ps_tables s) (ps_tables s1)" using cc by auto
  show ?thesis
  proof (cases x)
    case (Inl err)
    then show ?thesis using assms cl a by (simp add: publishOutboxBatch_def)
  next
    case (Inr records)
    then have "publish_records env 0 rs (s1, sent) = (s', sent')"
      using assms cl x by (simp add: publishOutboxBatch_def)
    from publish_records_changed [OF conjunct2 [OF cc] this] show ?thesis using rows_changed_trans [OF a] by blast
  qed
qed

lemma claimed_claimable:
  "i \<in> set (claimed_ids now locked limit rows) \<Longrightarrow> \<exists>r \<in> set rows. or_ID r = i \<and> claimable now locked r"
  by (auto simp: claimed_ids_def dest!: in_set_takeD)

lemma rows_changed_distinct:
  "rows_changed ids t t' \<Longrightarrow> map or_ID (t_outbox t') = map or_ID (t_outbox t)"
  by (auto simp: rows_changed_def)

lemma publishing_not_claimed:
  assumes "distinct (map or_ID rows)" and "r \<in> set rows" and "or_Status r = ''publishing''"
  shows "or_ID r \<notin> set (claimed_ids now locked limit rows)"
proof
  assume "or_ID r \<in> set (claimed_ids now locked limit rows)"
  then obtain q where "q \<in> set rows" "or_ID q = or_ID r" "claimable now locked q"
    using claimed_claimable by blast
  moreover from this have "q = r" using assms(1,2) by (auto simp: distinct_map dest: inj_onD)
  ultimately show False using assms(3) by (simp add: claimable_def)
qed

lemma publish_records_from:
  "publish_records env k rs (s, sent) = (s', sent') \<Longrightarrow> set sent' \<subseteq> set sent \<union> set rs"
proof (induction rs arbitrary: k s sent)
  case (Cons r rs)
  obtain s1 sent1 where 1: "publish_record env k r (s, sent) = (s1, sent1)" by fastforce
  then have "set sent1 \<subseteq> insert r (set sent)" by (auto simp: publish_record_def Let_def split: prod.splits option.splits if_splits)
  moreover have "set sent' \<subseteq> set sent1 \<union> set rs" using Cons.IH Cons.prems 1 by simp
  ultimately show ?case by auto
qed simp

lemma claimed_rows:
  assumes "claim_tables now locked limit t = (rs, t')" and "record \<in> set rs"
  shows "\<exists>r \<in> set (t_outbox t). ob_ID record = or_ID r \<and> ob_RoutingKey record = or_RoutingKey r \<and> ob_Payload record = or_Payload r
    \<and> ob_AttemptCount record = or_AttemptCount r + 1"
  using assms by (auto simp: claim_tables_def Let_def claim_row_def outbox_record_def) blast

lemma ClaimOutbox_records:
  "ClaimOutbox now locked limit s = (Inr records, s') \<Longrightarrow> \<exists>t. claim_tables now locked limit (ps_tables s) = (records, t)"
  by (auto simp: ClaimOutbox_def split: prod.splits option.splits)

lemma batch_sends_claimed:
  assumes "publishOutboxBatch env (s, sent) = (e, (s', sent'))"
  shows "ob_ID ` set sent' \<subseteq> ob_ID ` set sent \<union> set (claimed_ids (be_now env) (be_locked env) 50 (t_outbox (ps_tables s)))"
proof -
  obtain x s1 where c: "ClaimOutbox (be_now env) (be_locked env) 50 s = (x, s1)" by fastforce
  show ?thesis
  proof (cases x)
    case (Inr records)
    then obtain t where t: "claim_tables (be_now env) (be_locked env) 50 (ps_tables s) = (records, t)"
      using ClaimOutbox_records c by blast
    have "publish_records env 0 records (s1, sent) = (s', sent')" using assms c Inr by (simp add: publishOutboxBatch_def)
    from publish_records_from [OF this] claim_changed [OF t] show ?thesis by auto
  qed (use assms c in \<open>simp add: publishOutboxBatch_def\<close>)
qed

lemma run_keeps_publishing:
  assumes "distinct (map or_ID (t_outbox (ps_tables s)))" and "r \<in> set (t_outbox (ps_tables s))"
    and "or_Status r = ''publishing''" and "RunOutboxPublisher envs (s, sent) = (s', sent')"
  shows "r \<in> set (t_outbox (ps_tables s')) \<and> (or_ID r \<in> ob_ID ` set sent' \<longrightarrow> or_ID r \<in> ob_ID ` set sent)"
  using assms
proof (induction envs arbitrary: s sent)
  case (Cons env envs)
  obtain e s1 sent1 where b: "publishOutboxBatch env (s, sent) = (e, (s1, sent1))" by (metis prod.collapse)
  note ch = batch_changed [OF b] and nc = publishing_not_claimed [OF Cons.prems(1-3)]
  have "r \<in> set (t_outbox (ps_tables s1))"
    using ch nc Cons.prems(2) unfolding rows_changed_def by (metis (no_types, lifting) image_eqI list.set_map)
  moreover have "distinct (map or_ID (t_outbox (ps_tables s1)))"
    using rows_changed_distinct [OF ch] Cons.prems(1) by simp
  moreover have "RunOutboxPublisher envs (s1, sent1) = (s', sent')" using Cons.prems(4) b by simp
  ultimately show ?case using Cons.IH [of s1 sent1] Cons.prems(3) batch_sends_claimed [OF b] nc by blast
qed simp

text \<open>
  An event that is left in the status \<open>publishing\<close>, by a crash of the
  publisher or by a failed update of its row, is never published again: no batch, now or later and
  whatever the servers answer, claims it or changes it.
\<close>

theorem outbox_stuck_forever:
  assumes "distinct (map or_ID (t_outbox (ps_tables s)))" and "r \<in> set (t_outbox (ps_tables s))"
    and "or_Status r = ''publishing''" and "RunOutboxPublisher envs (s, sent) = (s', sent')"
  shows "r \<in> set (t_outbox (ps_tables s'))"
  using run_keeps_publishing [OF assms] by (rule conjunct1)

subsection \<open>Nothing is marked published that was not handed to the broker\<close>

definition published_sent :: "string set \<Rightarrow> PostgresStore \<Rightarrow> OutboxRecord list \<Rightarrow> bool" where
  "published_sent before s sent \<longleftrightarrow>
     (\<forall>r \<in> set (t_outbox (ps_tables s)). or_Status r = ''published'' \<longrightarrow> or_ID r \<in> before \<union> ob_ID ` set sent)"

lemma set_row_rows:
  assumes "auto_exec s k (set_row i f) t = (e, t')" and "r' \<in> set (t_outbox t')"
  shows "r' \<in> set (t_outbox t) \<or> (\<exists>r \<in> set (t_outbox t). or_ID r = i \<and> r' = f r)"
  using assms by (auto simp: auto_exec_def set_row_def split: option.splits prod.splits if_splits)

lemma MarkOutboxPublished_sent:
  assumes "MarkOutboxPublished i p s = (e, s')" and "published_sent b s sent" and "i \<in> ob_ID ` set sent"
  shows "published_sent b s' sent"
  using assms
  by (auto simp: MarkOutboxPublished_def tick_def published_sent_def split: prod.splits dest!: set_row_rows)

lemma MarkOutboxFailed_sent:
  assumes "MarkOutboxFailed i err n s = (e, s')" and "published_sent b s sent"
  shows "published_sent b s' sent"
  using assms
  by (auto simp: MarkOutboxFailed_def tick_def published_sent_def split: prod.splits dest!: set_row_rows)

lemma publish_record_sent:
  assumes "publish_record env k record (s, sent) = (s', sent')" and "published_sent b s sent"
  shows "published_sent b s' sent' \<and> set sent \<subseteq> set sent'"
proof -
  let ?sent = "if be_publish env k record = None then sent @ [record] else sent"
  obtain e s1 where 1: "(case be_publish env k record of
        None \<Rightarrow> MarkOutboxPublished (ob_ID record) (be_clock env (2 * k)) s | Some e \<Rightarrow> (Some e, s)) = (e, s1)" by fastforce
  have "published_sent b s ?sent" using assms(2) by (auto simp: published_sent_def)
  then have p1: "published_sent b s1 ?sent"
    using 1 MarkOutboxPublished_sent [of "ob_ID record" "be_clock env (2 * k)" s e s1 b ?sent] by (auto split: option.splits)
  show ?thesis
  proof (cases e)
    case None
    then show ?thesis using assms(1) 1 p1 by (auto simp: publish_record_def)
  next
    case (Some x)
    obtain e2 s2 where 2: "MarkOutboxFailed (ob_ID record) x (be_clock env (2 * k + 1) + backoff (ob_AttemptCount record)) s1 = (e2, s2)"
      by fastforce
    then have "s' = s2" "sent' = ?sent" using assms(1) 1 Some by (simp_all add: publish_record_def)
    then show ?thesis using MarkOutboxFailed_sent [OF 2 p1] by auto
  qed
qed

lemma publish_records_sent:
  assumes "publish_records env k rs (s, sent) = (s', sent')" and "published_sent b s sent"
  shows "published_sent b s' sent'"
  using assms
proof (induction rs arbitrary: k s sent)
  case (Cons r rs)
  obtain s1 sent1 where 1: "publish_record env k r (s, sent) = (s1, sent1)" by fastforce
  then show ?case using Cons publish_record_sent [OF 1] by auto
qed simp

lemma claim_sent:
  "claim_tables now locked limit t = (rs, t') \<Longrightarrow> r \<in> set (t_outbox t') \<Longrightarrow> or_Status r = ''published'' \<Longrightarrow> r \<in> set (t_outbox t)"
  by (auto simp: claim_tables_def Let_def claim_row_def split: if_splits)

lemma batch_sent:
  assumes "publishOutboxBatch env (s, sent) = (e, (s', sent'))" and "published_sent b s sent"
  shows "published_sent b s' sent'"
proof -
  obtain x s1 where cl: "ClaimOutbox (be_now env) (be_locked env) 50 s = (x, s1)" by fastforce
  then have "published_sent b s1 sent"
    using assms(2) claim_sent
    by (auto simp: ClaimOutbox_def tick_def published_sent_def split: prod.splits option.splits if_splits)
  then show ?thesis
    using assms(1) cl publish_records_sent by (auto simp: publishOutboxBatch_def split: sum.splits)
qed

text \<open>
  Property C12. The publisher marks an event \<open>published\<close> only after it has handed it to the
  broker without an error: at the end of any run of batches, whatever statements and messages fail, a row with
  that status was published before the run, or its message is among those the broker accepted.
\<close>

theorem published_was_sent:
  assumes "RunOutboxPublisher envs (s, sent) = (s', sent')"
    and "r \<in> set (t_outbox (ps_tables s'))" and "or_Status r = ''published''"
  shows "or_ID r \<in> or_ID ` {q \<in> set (t_outbox (ps_tables s)). or_Status q = ''published''} \<union> ob_ID ` set sent'"
proof -
  let ?b = "or_ID ` {q \<in> set (t_outbox (ps_tables s)). or_Status q = ''published''}"
  have "RunOutboxPublisher es (u, snt) = (s', sent') \<Longrightarrow> published_sent ?b u snt \<Longrightarrow> published_sent ?b s' sent'" for es u snt
  proof (induction es arbitrary: u snt)
    case (Cons env es)
    obtain e s1 sent1 where b: "publishOutboxBatch env (u, snt) = (e, (s1, sent1))" by (metis prod.collapse)
    then show ?case using Cons batch_sent [OF b] by simp
  qed simp
  moreover have "published_sent ?b s sent" by (auto simp: published_sent_def)
  ultimately show ?thesis using assms by (auto simp: published_sent_def)
qed

subsection \<open>A batch settles what it claims\<close>

text \<open>What the attempt to publish a record does to its row, when the database answers.\<close>

definition settle :: "batch_env \<Rightarrow> nat \<Rightarrow> OutboxRecord \<Rightarrow> OutboxRow \<Rightarrow> OutboxRow" where
  "settle env k record r =
     (if or_ID r \<noteq> ob_ID record then r
      else case be_publish env k record of
        None \<Rightarrow> r\<lparr>or_Status := ''published'', or_PublishedAt := Some (timestamptz (be_clock env (2 * k))), or_LastError := []\<rparr>
      | Some e \<Rightarrow> r\<lparr>or_Status := ''failed'', or_LastError := left_chars 1000 e,
                    or_NextAttemptAt := timestamptz (be_clock env (2 * k + 1) + backoff (ob_AttemptCount record))\<rparr>)"

lemma publish_record_settles:
  assumes "no_faults s" and "publish_record env k record (s, sent) = (s', sent')"
  shows "no_faults s' \<and> t_outbox (ps_tables s') = map (settle env k record) (t_outbox (ps_tables s))"
proof -
  have "(\<lambda>r. if or_ID r = ob_ID record then f r else r) = settle env k record"
    if "\<And>r. f r = (case be_publish env k record of
        None \<Rightarrow> r\<lparr>or_Status := ''published'', or_PublishedAt := Some (timestamptz (be_clock env (2 * k))), or_LastError := []\<rparr>
      | Some e \<Rightarrow> r\<lparr>or_Status := ''failed'', or_LastError := left_chars 1000 e,
                    or_NextAttemptAt := timestamptz (be_clock env (2 * k + 1) + backoff (ob_AttemptCount record))\<rparr>)" for f
    using that by (auto simp: settle_def fun_eq_iff)
  then show ?thesis
    using assms
    by (cases "be_publish env k record")
      (auto simp: publish_record_def MarkOutboxPublished_def MarkOutboxFailed_def auto_exec_def set_row_def)
qed

fun settle_all :: "batch_env \<Rightarrow> nat \<Rightarrow> OutboxRecord list \<Rightarrow> OutboxRow \<Rightarrow> OutboxRow" where
  "settle_all env k [] r = r"
| "settle_all env k (x # xs) r = settle_all env (Suc k) xs (settle env k x r)"

lemma publish_records_settle:
  assumes "no_faults s" and "publish_records env k rs (s, sent) = (s', sent')"
  shows "no_faults s' \<and> t_outbox (ps_tables s') = map (settle_all env k rs) (t_outbox (ps_tables s))"
  using assms
proof (induction rs arbitrary: k s sent)
  case Nil
  then show ?case by (simp add: map_idI)
next
  case (Cons r rs)
  obtain s1 sent1 where 1: "publish_record env k r (s, sent) = (s1, sent1)" by fastforce
  note st = publish_record_settles [OF Cons.prems(1) 1]
  with Cons.IH [of s1 "Suc k" sent1] Cons.prems(2) 1 show ?case by (simp add: comp_def)
qed

lemma settle_ID [simp]: "or_ID (settle env k x r) = or_ID r"
  by (simp add: settle_def split: option.split)

lemma settle_all_other: "or_ID r \<notin> ob_ID ` set xs \<Longrightarrow> settle_all env k xs r = r"
  by (induction xs arbitrary: k r) (auto simp: settle_def)

lemma settle_all_status:
  "or_ID r \<in> ob_ID ` set xs \<Longrightarrow>
   or_Status (settle_all env k xs r) = ''published''
   \<or> or_Status (settle_all env k xs r) = ''failed'' \<and> (\<exists>x\<in>set xs. \<exists>j. or_ID r = ob_ID x \<and>
       or_NextAttemptAt (settle_all env k xs r) = timestamptz (be_clock env j + backoff (ob_AttemptCount x)))"
proof (induction xs arbitrary: k r)
  case (Cons x xs)
  show ?case
  proof (cases "or_ID r \<in> ob_ID ` set xs")
    case True
    then show ?thesis using Cons.IH [of "settle env k x r" "Suc k"] by auto
  next
    case False
    then have "settle_all env (Suc k) xs (settle env k x r) = settle env k x r" by (simp add: settle_all_other)
    then show ?thesis using Cons.prems False by (auto simp: settle_def split: option.split)
  qed
qed simp

lemma backoff_bounds: "1 \<le> a \<Longrightarrow> 2 * second \<le> backoff a \<and> backoff a \<le> 64 * second"
proof -
  assume "1 \<le> a"
  then have "(2::int) ^ 1 \<le> 2 ^ nat (min a 6)" "(2::int) ^ nat (min a 6) \<le> 2 ^ 6"
    by (intro power_increasing; simp)+
  then show ?thesis by (simp add: backoff_def)
qed

lemma claim_row_ID [simp]: "or_ID (claim_row ids r) = or_ID r"
  by (simp add: claim_row_def)

lemma settle_all_ID [simp]: "or_ID (settle_all env k xs r) = or_ID r"
  by (induction xs arbitrary: k r) auto

text \<open>What becomes of a claimed row: it is published, or failed with a backoff that its attempts give.\<close>

lemma settle_claimed:
  assumes "distinct (map or_ID rows)" and "r \<in> set rows" and "or_ID r \<in> set ids" and "0 \<le> or_AttemptCount r"
    and "rs = map outbox_record (filter (\<lambda>r. or_ID r \<in> set ids) (map (claim_row ids) rows))"
  shows "or_Status (settle_all env k rs (claim_row ids r)) = ''published''
    \<or> or_Status (settle_all env k rs (claim_row ids r)) = ''failed''
      \<and> (\<exists>j d. or_NextAttemptAt (settle_all env k rs (claim_row ids r)) = timestamptz (be_clock env j + d)
          \<and> 2 * second \<le> d \<and> d \<le> 64 * second)"
proof -
  have att: "1 \<le> ob_AttemptCount x" if x: "x \<in> set rs" "ob_ID x = or_ID r" for x
  proof -
    obtain q where "q \<in> set rows" "x = outbox_record (claim_row ids q)" using x(1) assms(5) by auto
    moreover from this have "q = r" using assms(1,2) x(2) by (auto simp: outbox_record_def distinct_map dest: inj_onD)
    ultimately show ?thesis using assms(3,4) by (simp add: outbox_record_def claim_row_def)
  qed
  have "outbox_record (claim_row ids r) \<in> set rs" using assms(2,3,5) by simp
  then have "or_ID (claim_row ids r) \<in> ob_ID ` set rs" by (rule rev_image_eqI) (simp add: outbox_record_def)
  note st = settle_all_status [OF this, of env k, unfolded claim_row_ID]
  show ?thesis
  proof (cases "or_Status (settle_all env k rs (claim_row ids r)) = ''published''")
    case False
    with st obtain x j where x: "x \<in> set rs" "or_ID r = ob_ID x" "or_Status (settle_all env k rs (claim_row ids r)) = ''failed''"
        "or_NextAttemptAt (settle_all env k rs (claim_row ids r)) = timestamptz (be_clock env j + backoff (ob_AttemptCount x))" by blast
    from backoff_bounds [OF att [OF x(1) x(2) [symmetric]]] x(3,4) show ?thesis by blast
  qed simp
qed


subsection \<open>A concrete outbox\<close>

definition sample_row :: "string \<Rightarrow> string \<Rightarrow> OutboxRow" where
  "sample_row i st = \<lparr>or_ID = i, or_EventType = ''DocumentUploaded'', or_EventVersion = 1, or_RoutingKey = ''document.uploaded'',
     or_OrganizationID = ''acme'', or_DocumentID = ''doc_00'', or_Payload = [], or_Status = st, or_AttemptCount = 0,
     or_NextAttemptAt = 0, or_LastError = [], or_CreatedAt = 0, or_PublishedAt = None\<rparr>"

definition sample_outbox :: PostgresStore where
  "sample_outbox = \<lparr>ps_tables = \<lparr>t_documents = Map.empty, t_jobs = Map.empty, t_uploads = [],
       t_outbox = [sample_row ''evt_1'' ''pending'', sample_row ''evt_2'' ''publishing'']\<rparr>,
     ps_calls = 0, ps_fault = (\<lambda>_ _. None)\<rparr>"

definition sample_batch :: batch_env where
  "sample_batch = \<lparr>be_now = 1000, be_locked = (\<lambda>_. False), be_publish = (\<lambda>_ _. None), be_clock = int\<rparr>"

lemma sample_outbox_rows:
  "t_outbox (ps_tables sample_outbox) = [sample_row ''evt_1'' ''pending'', sample_row ''evt_2'' ''publishing'']"
  by (simp add: sample_outbox_def)

theorem outbox_stuck_forever_witness:
  "sample_row ''evt_2'' ''publishing''
     \<in> set (t_outbox (ps_tables (fst (RunOutboxPublisher [sample_batch, sample_batch] (sample_outbox, [])))))"
proof -
  obtain s' sent' where r: "RunOutboxPublisher [sample_batch, sample_batch] (sample_outbox, []) = (s', sent')" by fastforce
  from outbox_stuck_forever [OF _ _ _ r, of "sample_row ''evt_2'' ''publishing''"] r show ?thesis
    by (simp add: sample_outbox_rows sample_row_def)
qed

theorem published_was_sent_witness:
  "\<exists>r \<in> set (t_outbox (ps_tables (fst (RunOutboxPublisher [sample_batch] (sample_outbox, []))))).
     or_Status r = ''published'' \<and> or_ID r \<in> ob_ID ` set (snd (RunOutboxPublisher [sample_batch] (sample_outbox, [])))"
proof -
  obtain s' sent' where r: "RunOutboxPublisher [sample_batch] (sample_outbox, []) = (s', sent')" by fastforce
  have "\<exists>r \<in> set (t_outbox (ps_tables (fst (RunOutboxPublisher [sample_batch] (sample_outbox, []))))). or_Status r = ''published''"
    by code_simp
  then obtain q where "q \<in> set (t_outbox (ps_tables s'))" "or_Status q = ''published''" using r by auto
  with published_was_sent [OF r this] r show ?thesis by (auto simp: sample_outbox_rows sample_row_def)
qed


end
