(* ===== verification/Identity_Auth.thy ===== *)
theory Identity_Auth
  imports Go_Json Go_Numeric
begin

text \<open>
  Credentials of the Identity service: password hashes (\<open>auth/password.go\<close>) and the issuer of access and refresh
  tokens (\<open>auth/jwt.go\<close>). \<open>json.Marshal\<close> cannot fail on the header and the claims, which hold only strings and an
  integer, so \<open>sign\<close> has no error. An empty list of roles stands for the nil slice, which is written as \<open>null\<close>.
\<close>

unbundle bit_operations_syntax

text \<open>
  What the identity service and the gateway take from the runtime beside \<open>runtime\<close>: whether
  \<open>mail.ParseAddress\<close> accepts a text, and \<open>Time.Format("20060102150405.000000000")\<close>.
\<close>

record auth_runtime = float_runtime +
  parse_address :: "string \<Rightarrow> bool"
  format_stamp :: "time \<Rightarrow> string"

subsection \<open>Passwords\<close>

definition passwordScheme :: string where "passwordScheme = ''sha256''"

definition saltedSHA256 :: "'z runtime_scheme \<Rightarrow> bytes \<Rightarrow> bytes \<Rightarrow> bytes" where
  "saltedSHA256 rt salt password = sha256 rt (salt @ password)"

text \<open>The salt is what the random source gives, or its error.\<close>

definition HashPassword :: "'z runtime_scheme \<Rightarrow> string + bytes \<Rightarrow> string \<Rightarrow> string + string" where
  "HashPassword rt random password =
     (if length password < 8 then Inl ''password must be at least 8 characters''
      else case random of
             Inl err \<Rightarrow> Inl err
           | Inr salt \<Rightarrow>
               Inr (passwordScheme @ ''$'' @ RawURLEncode salt @ ''$'' @ RawURLEncode (saltedSHA256 rt salt password)))"

definition VerifyPassword :: "'z runtime_scheme \<Rightarrow> string \<Rightarrow> string \<Rightarrow> bool" where
  "VerifyPassword rt encoded password =
     (case Split encoded CHR ''$'' of
        [scheme, salt64, sum64] \<Rightarrow>
          scheme = passwordScheme \<and>
          (case RawURLDecode salt64 of
             None \<Rightarrow> False
           | Some salt \<Rightarrow>
               (case RawURLDecode sum64 of
                  None \<Rightarrow> False
                | Some expected \<Rightarrow> saltedSHA256 rt salt password = expected))
      | _ \<Rightarrow> False)"

lemma VerifyPassword_hash:
  "VerifyPassword rt (passwordScheme @ ''$'' @ RawURLEncode salt @ ''$'' @ RawURLEncode d) q \<longleftrightarrow> saltedSHA256 rt salt q = d"
  using RawURLEncode_no_sep(2) [of salt] RawURLEncode_no_sep(2) [of d]
  by (simp add: VerifyPassword_def passwordScheme_def Split_append_sep Split_single)

text \<open>
  Property C19. A stored hash accepts the password it was made of, and any other password only when
  the two collide under the salted SHA-256; a password shorter than eight bytes gets no hash.
\<close>

theorem password_roundtrip:
  assumes "HashPassword rt random p = Inr h"
  shows "VerifyPassword rt h p \<and> 8 \<le> length p
    \<and> (\<exists>salt. random = Inr salt \<and> (\<forall>q. VerifyPassword rt h q \<longleftrightarrow> sha256 rt (salt @ q) = sha256 rt (salt @ p)))"
proof -
  obtain salt where "random = Inr salt" "8 \<le> length p"
    "h = passwordScheme @ ''$'' @ RawURLEncode salt @ ''$'' @ RawURLEncode (saltedSHA256 rt salt p)"
    using assms by (auto simp: HashPassword_def split: if_splits sum.splits)
  then show ?thesis using VerifyPassword_hash [of rt salt "saltedSHA256 rt salt p"] by (simp add: saltedSHA256_def)
qed

subsection \<open>Tokens\<close>

record Claims =
  c_Subject :: string
  c_OrganizationID :: string
  c_Roles :: "string list"
  c_ExpiresAt :: int

text \<open>\<open>hmac.New(sha256.New, key)\<close> on one message, with SHA-256's block of 64 bytes.\<close>

definition xor_bytes :: "nat \<Rightarrow> bytes \<Rightarrow> bytes" where
  "xor_bytes pad key = map (\<lambda>c. char_of (byte c XOR pad)) key"

definition hmac_SHA256 :: "'z runtime_scheme \<Rightarrow> bytes \<Rightarrow> bytes \<Rightarrow> bytes" where
  "hmac_SHA256 rt secret data =
     (let key0 = (if 64 < length secret then sha256 rt secret else secret);
          key = key0 @ replicate (64 - length key0) (CHR 0x00)
      in sha256 rt (xor_bytes 0x5C key @ sha256 rt (xor_bytes 0x36 key @ data)))"

definition roles_json :: "string list \<Rightarrow> json" where
  "roles_json roles = (if roles = [] then JNull else JArr (map JStr roles))"

definition claims_json :: "Claims \<Rightarrow> json" where
  "claims_json c =
     JObj [(''sub'', JStr (c_Subject c)), (''org_id'', JStr (c_OrganizationID c)), (''roles'', roles_json (c_Roles c)),
           (''exp'', JNum (show_int (c_ExpiresAt c)))]"

definition token_header :: json where
  "token_header = JObj [(''alg'', JStr ''HS256''), (''typ'', JStr ''JWT'')]"

definition sign :: "'z runtime_scheme \<Rightarrow> bytes \<Rightarrow> Claims \<Rightarrow> string" where
  "sign rt secret claims =
     (let signingInput = RawURLEncode (enc_json token_header) @ ''.'' @ RawURLEncode (enc_json (claims_json claims))
      in signingInput @ ''.'' @ RawURLEncode (hmac_SHA256 rt secret signingInput))"

definition AccessToken :: "'z runtime_scheme \<Rightarrow> bytes \<Rightarrow> time \<Rightarrow> string \<Rightarrow> string \<Rightarrow> string list \<Rightarrow> duration \<Rightarrow> string" where
  "AccessToken rt secret now userID organizationID roles ttl =
     sign rt secret \<lparr>c_Subject = userID, c_OrganizationID = organizationID, c_Roles = roles, c_ExpiresAt = time_Unix (now + ttl)\<rparr>"

definition RefreshToken :: "string + bytes \<Rightarrow> string + string" where
  "RefreshToken random = (case random of Inl err \<Rightarrow> Inl err | Inr bs \<Rightarrow> Inr (RawURLEncode bs))"

subsection \<open>A concrete runtime\<close>

definition sample_auth_runtime :: auth_runtime where
  "sample_auth_runtime =
     float_runtime.extend sample_runtime (auth_runtime.fields (\<lambda>a. CHR ''@'' \<in> set a) show_int)"

lemma sample_auth_runtime_simps [simp]:
  "round64 sample_auth_runtime = Fin" "parse_address sample_auth_runtime a \<longleftrightarrow> CHR ''@'' \<in> set a"
  "sha256 sample_auth_runtime x = replicate 32 CHR 0x00" "format_stamp sample_auth_runtime t = show_int t"
  "rfc3339 sample_auth_runtime t = show_int t"
  by (simp_all add: sample_auth_runtime_def auth_runtime.defs float_runtime.defs sample_runtime_def)

theorem password_roundtrip_witness:
  "HashPassword sample_auth_runtime (Inr ''salt'') ''correct horse'' = Inr ''sha256$c2FsdA$AAAAAAAAAAAAAAAAAAAAAAAAAAAAAAAAAAAAAAAAAAA''
   \<and> VerifyPassword sample_auth_runtime ''sha256$c2FsdA$AAAAAAAAAAAAAAAAAAAAAAAAAAAAAAAAAAAAAAAAAAA'' ''correct horse''"
proof -
  have h: "HashPassword sample_auth_runtime (Inr ''salt'') ''correct horse'' = Inr ''sha256$c2FsdA$AAAAAAAAAAAAAAAAAAAAAAAAAAAAAAAAAAAAAAAAAAA''"
    by code_simp
  with password_roundtrip [OF h] show ?thesis by simp
qed

end
