(* ===== verification/Gateway_Auth.thy ===== *)
theory Gateway_Auth
  imports Identity_Auth
begin

text \<open>
  The gateway's verifier of access tokens (\<open>auth/jwt.go\<close> of the gateway), and the agreement of the
  verifier with the issuer of the Identity service. The two \<open>Claims\<close> structs are the same. Of the texts of
  errors, which no caller reads, what a library adds is left out.
\<close>

record jwt_header =
  jh_Algorithm :: string
  jh_Type :: string

definition header_fields :: "jwt_header field list" where
  "header_fields =
     [(''alg'', set_string (\<lambda>v h. h\<lparr>jh_Algorithm := v\<rparr>)), (''typ'', set_string (\<lambda>v h. h\<lparr>jh_Type := v\<rparr>))]"

definition claims_fields :: "Claims field list" where
  "claims_fields =
     [(''sub'', set_string (\<lambda>v c. c\<lparr>c_Subject := v\<rparr>)), (''org_id'', set_string (\<lambda>v c. c\<lparr>c_OrganizationID := v\<rparr>)),
      (''roles'', set_strings c_Roles (\<lambda>v c. c\<lparr>c_Roles := v\<rparr>)), (''exp'', set_int64 (\<lambda>v c. c\<lparr>c_ExpiresAt := v\<rparr>))]"

definition zero_claims :: Claims where
  "zero_claims = \<lparr>c_Subject = [], c_OrganizationID = [], c_Roles = [], c_ExpiresAt = 0\<rparr>"

definition parse_header :: "bytes \<Rightarrow> jwt_header option" where
  "parse_header bs = Option.bind (json_Unmarshal bs) (set_struct False header_fields \<lparr>jh_Algorithm = [], jh_Type = []\<rparr>)"

definition parse_claims :: "bytes \<Rightarrow> Claims option" where
  "parse_claims bs = Option.bind (json_Unmarshal bs) (set_struct False claims_fields zero_claims)"

definition check_claims :: "time \<Rightarrow> Claims \<Rightarrow> string + Claims" where
  "check_claims now claims =
     (if 0 < c_ExpiresAt claims \<and> c_ExpiresAt claims \<le> time_Unix now then Inl ''expired token''
      else if c_Subject claims = [] then Inl ''missing subject''
      else Inr claims)"

definition Verify :: "'z runtime_scheme \<Rightarrow> bytes \<Rightarrow> time \<Rightarrow> string \<Rightarrow> string + Claims" where
  "Verify rt secret now token =
     (case Split token CHR ''.'' of
        [part0, part1, part2] \<Rightarrow>
          (case RawURLDecode part0 of
             None \<Rightarrow> Inl ''decode header''
           | Some headerBytes \<Rightarrow>
               (case parse_header headerBytes of
                  None \<Rightarrow> Inl ''parse header''
                | Some header \<Rightarrow>
                    if jh_Algorithm header \<noteq> ''HS256'' then Inl ''unsupported token algorithm''
                    else
                      (case RawURLDecode part2 of
                         None \<Rightarrow> Inl ''decode signature''
                       | Some actual \<Rightarrow>
                           if actual \<noteq> hmac_SHA256 rt secret (part0 @ ''.'' @ part1) then Inl ''invalid signature''
                           else
                             (case RawURLDecode part1 of
                                None \<Rightarrow> Inl ''decode payload''
                              | Some payloadBytes \<Rightarrow>
                                  (case parse_claims payloadBytes of
                                     None \<Rightarrow> Inl ''parse claims''
                                   | Some claims \<Rightarrow> check_claims now claims)))))
      | _ \<Rightarrow> Inl ''malformed token'')"

definition VerifyBearer :: "'z runtime_scheme \<Rightarrow> bytes \<Rightarrow> time \<Rightarrow> string \<Rightarrow> string + Claims" where
  "VerifyBearer rt secret now header =
     (if \<not> HasPrefix header ''Bearer '' then Inl ''missing bearer token''
      else Verify rt secret now (TrimSpace (TrimPrefix header ''Bearer '')))"

subsection \<open>Issuer and verifier agree\<close>

text \<open>The claims a decoder gives back: the texts with their stray bytes replaced.\<close>

definition valid_claims :: "Claims \<Rightarrow> Claims" where
  "valid_claims c = \<lparr>c_Subject = to_valid (c_Subject c), c_OrganizationID = to_valid (c_OrganizationID c),
     c_Roles = map to_valid (c_Roles c), c_ExpiresAt = c_ExpiresAt c\<rparr>"

lemma parse_token_header: "parse_header (enc_json token_header) = Some \<lparr>jh_Algorithm = ''HS256'', jh_Type = ''JWT''\<rparr>"
proof -
  have "json_Unmarshal (enc_json token_header) = Some (valid_json token_header)"
    by (rule Unmarshal_enc_json) (simp add: token_header_def)
  moreover have "valid_json token_header = token_header"
    by (simp add: token_header_def to_valid_ascii is_ascii_def byte_def)
  ultimately show ?thesis
    by (simp add: parse_header_def token_header_def set_struct_def header_fields_def find_field_def set_string_def)
qed

lemma parse_claims_json:
  assumes "in_int64 (c_ExpiresAt c)"
  shows "parse_claims (enc_json (claims_json c)) = Some (valid_claims c)"
proof -
  have "json_Unmarshal (enc_json (claims_json c)) = Some (valid_json (claims_json c))"
    using valid_number_show_int [of "c_ExpiresAt c"]
    by (intro Unmarshal_enc_json) (simp add: claims_json_def roles_json_def list_all_iff)
  moreover have "valid_json (claims_json c) = claims_json (valid_claims c)"
    by (simp add: claims_json_def roles_json_def valid_claims_def to_valid_ascii is_ascii_def byte_def comp_def)
  moreover have "set_struct False claims_fields zero_claims (claims_json d) = Some d" if "in_int64 (c_ExpiresAt d)" for d
    using ParseInt_show_int [OF that]
    by (simp add: claims_json_def roles_json_def set_struct_def claims_fields_def find_field_def set_string_def
        set_strings_def set_int64_def zero_claims_def)
  ultimately show ?thesis using assms by (simp add: parse_claims_def valid_claims_def)
qed

lemma sign_split:
  "Split (sign rt secret c) CHR ''.'' =
     [RawURLEncode (enc_json token_header), RawURLEncode (enc_json (claims_json c)),
      RawURLEncode (hmac_SHA256 rt secret (RawURLEncode (enc_json token_header) @ ''.'' @ RawURLEncode (enc_json (claims_json c))))]"
  using RawURLEncode_no_sep
  by (simp add: sign_def Let_def Split_append_sep Split_single)

lemma Verify_sign:
  assumes "in_int64 (c_ExpiresAt c)"
  shows "Verify rt secret now (sign rt secret c) = check_claims now (valid_claims c)"
  by (simp add: Verify_def sign_split parse_token_header parse_claims_json [OF assms])

text \<open>A token is printable, so the trimming of the header leaves it as it is.\<close>

lemma RawURLEncode_graphic: "list_all graphic (RawURLEncode s)"
  using encode64_alphabet [OF good_url, of s]
  by (fastforce simp: RawURLEncode_def url_alphabet_def list_all_iff graphic_def byte_def)

lemma TrimSpace_sign: "TrimSpace (sign rt secret c) = sign rt secret c"
  using RawURLEncode_graphic
  by (intro TrimSpace_all_graphic) (simp add: sign_def Let_def graphic_def byte_def)

lemma VerifyBearer_sign:
  assumes "in_int64 (c_ExpiresAt c)"
  shows "VerifyBearer rt secret now (''Bearer '' @ sign rt secret c) = check_claims now (valid_claims c)"
proof -
  have "VerifyBearer rt secret now (''Bearer '' @ sign rt secret c) = Verify rt secret now (sign rt secret c)"
    unfolding VerifyBearer_def
    by (simp only: TrimPrefix_append HasPrefix_append TrimSpace_sign not_True_eq_False if_False)
  with Verify_sign [OF assms] show ?thesis by simp
qed

lemma VerifyBearer_AccessToken:
  assumes "in_int64 (time_Unix (t0 + ttl))" and "0 < time_Unix (t0 + ttl)" and "userID \<noteq> []"
    and "to_valid userID = userID" and "to_valid org = org" and "map to_valid roles = roles"
  shows "VerifyBearer rt secret now (''Bearer '' @ AccessToken rt secret t0 userID org roles ttl) =
    (if time_Unix now < time_Unix (t0 + ttl)
     then Inr \<lparr>c_Subject = userID, c_OrganizationID = org, c_Roles = roles, c_ExpiresAt = time_Unix (t0 + ttl)\<rparr>
     else Inl ''expired token'')"
proof -
  let ?c = "\<lparr>c_Subject = userID, c_OrganizationID = org, c_Roles = roles, c_ExpiresAt = time_Unix (t0 + ttl)\<rparr>"
  have "VerifyBearer rt secret now (''Bearer '' @ sign rt secret ?c) = check_claims now (valid_claims ?c)"
    using assms(1) by (intro VerifyBearer_sign) simp
  then show ?thesis using assms(2-) by (simp only: AccessToken_def) (simp add: valid_claims_def check_claims_def not_less)
qed

text \<open>
  The gateway and the Identity service agree on access tokens. With the same secret, the
  header a client sends with a token is accepted exactly until the second the token expires, and the claims the gateway then
  has are the user, the organization and the roles the token was issued for. The texts are valid UTF-8, as what a store of text
  returns is.
\<close>

theorem token_agreement:
  assumes "in_int64 (time_Unix (t0 + ttl))" and "0 < time_Unix (t0 + ttl)" and "userID \<noteq> []"
    and "to_valid userID = userID" and "to_valid org = org" and "map to_valid roles = roles"
  shows "VerifyBearer rt secret now (''Bearer '' @ AccessToken rt secret t0 userID org roles ttl) =
    (if time_Unix now < time_Unix (t0 + ttl)
     then Inr \<lparr>c_Subject = userID, c_OrganizationID = org, c_Roles = roles, c_ExpiresAt = time_Unix (t0 + ttl)\<rparr>
     else Inl ''expired token'')"
  by (rule VerifyBearer_AccessToken [OF assms])

theorem token_agreement_witness:
  "VerifyBearer sample_auth_runtime ''secret'' 0 (''Bearer '' @ AccessToken sample_auth_runtime ''secret'' 0 ''usr_1'' ''acme'' [''member''] minute)
     = Inr \<lparr>c_Subject = ''usr_1'', c_OrganizationID = ''acme'', c_Roles = [''member''], c_ExpiresAt = 60\<rparr>"
  using token_agreement [of 0 minute "''usr_1''" "''acme''" "[''member'']" sample_auth_runtime "''secret''" 0]
  by (simp add: to_valid_ascii is_ascii_def byte_def in_int64_def time_Unix_def)

text \<open>
  Property C13. What the verifier accepts was signed with its secret: the token has three
  parts, the third is the HMAC of the first two under the secret, the header names HS256, and the claims are those of the
  second part, with a subject and, when they carry an expiry, before it.
\<close>

theorem verify_authentic:
  assumes "Verify rt secret now token = Inr claims"
  shows "\<exists>part0 part1 part2 headerBytes header payloadBytes.
      token = part0 @ ''.'' @ part1 @ ''.'' @ part2
    \<and> RawURLDecode part2 = Some (hmac_SHA256 rt secret (part0 @ ''.'' @ part1))
    \<and> RawURLDecode part0 = Some headerBytes \<and> parse_header headerBytes = Some header \<and> jh_Algorithm header = ''HS256''
    \<and> RawURLDecode part1 = Some payloadBytes \<and> parse_claims payloadBytes = Some claims
    \<and> c_Subject claims \<noteq> [] \<and> (c_ExpiresAt claims \<le> 0 \<or> time_Unix now < c_ExpiresAt claims)"
proof -
  obtain p0 p1 p2 where s: "Split token CHR ''.'' = [p0, p1, p2]"
    using assms by (auto simp: Verify_def split: list.splits)
  then have "token = p0 @ ''.'' @ p1 @ ''.'' @ p2" using Join_Split [of token "CHR ''.''"] by simp
  moreover obtain hb where hb: "RawURLDecode p0 = Some hb"
    using assms s by (cases "RawURLDecode p0") (simp_all add: Verify_def)
  moreover obtain h where h: "parse_header hb = Some h"
    using assms s hb by (cases "parse_header hb") (simp_all add: Verify_def)
  moreover have alg: "jh_Algorithm h = ''HS256''"
    using assms s hb h by (cases "jh_Algorithm h = ''HS256''") (simp_all add: Verify_def)
  moreover obtain sg where sg: "RawURLDecode p2 = Some sg"
    using assms s hb h alg by (cases "RawURLDecode p2") (simp_all add: Verify_def)
  moreover have mac: "sg = hmac_SHA256 rt secret (p0 @ ''.'' @ p1)"
    using assms s hb h alg sg by (cases "sg = hmac_SHA256 rt secret (p0 @ ''.'' @ p1)") (simp_all add: Verify_def)
  moreover obtain pb where pb: "RawURLDecode p1 = Some pb"
    using assms s hb h alg sg mac by (cases "RawURLDecode p1") (simp_all add: Verify_def)
  moreover obtain c where c: "parse_claims pb = Some c"
    using assms s hb h alg sg mac pb by (cases "parse_claims pb") (simp_all add: Verify_def)
  moreover have "check_claims now c = Inr claims"
    using assms s hb h alg sg mac pb c by (simp add: Verify_def)
  then have "c = claims" "c_Subject claims \<noteq> []" "c_ExpiresAt claims \<le> 0 \<or> time_Unix now < c_ExpiresAt claims"
    by (auto simp: check_claims_def split: if_splits)
  ultimately show ?thesis by blast
qed

theorem verify_authentic_witness:
  "\<exists>p0 p1 p2. sign sample_auth_runtime ''secret'' (zero_claims\<lparr>c_Subject := ''usr_1''\<rparr>) = p0 @ ''.'' @ p1 @ ''.'' @ p2
    \<and> RawURLDecode p2 = Some (hmac_SHA256 sample_auth_runtime ''secret'' (p0 @ ''.'' @ p1))"
proof -
  have "Verify sample_auth_runtime ''secret'' 0 (sign sample_auth_runtime ''secret'' (zero_claims\<lparr>c_Subject := ''usr_1''\<rparr>))
      = Inr (zero_claims\<lparr>c_Subject := ''usr_1''\<rparr>)"
    by (subst Verify_sign) (simp_all add: zero_claims_def in_int64_def check_claims_def valid_claims_def to_valid_ascii is_ascii_def byte_def)
  from verify_authentic [OF this] show ?thesis by blast
qed

end
