(* ===== verification/Gateway_Http.thy ===== *)
theory Gateway_Http
  imports Gateway_Auth Grpc Go_Path
begin

text \<open>
  HTTP as the gateway sees it: requests and responses, the routing of \<open>http.ServeMux\<close> over the gateway's patterns
  (\<open>httpapi/server.go\<close>, \<open>routes\<close>), the client address, which requests need a token, JSON responses
  (\<open>observability/logger.go\<close>) and the mapping of upstream errors (\<open>httpapi/errors.go\<close>).
\<close>

subsection \<open>Requests and responses\<close>

text \<open>
  A request after \<open>net/http\<close> has parsed it: the path as \<open>URL.EscapedPath\<close> gives it, the query and the headers as
  pairs of canonical keys and values in order, and the claims the middleware puts into the context.
\<close>

record http_request =
  rq_Method :: string
  rq_EscapedPath :: string
  rq_Query :: "(string \<times> string) list"
  rq_Header :: "(string \<times> string) list"
  rq_Body :: string
  rq_RemoteAddr :: string
  rq_Claims :: "Claims option"

text \<open>The verified claims travel in the context of the request (\<open>auth/jwt.go\<close>).\<close>

definition WithClaims :: "Claims \<Rightarrow> http_request \<Rightarrow> http_request" where
  "WithClaims claims r = r\<lparr>rq_Claims := Some claims\<rparr>"

definition ClaimsFromContext :: "http_request \<Rightarrow> Claims option" where
  "ClaimsFromContext r = rq_Claims r"

declare WithClaims_def [simp] ClaimsFromContext_def [simp]

record http_response =
  rs_Status :: int
  rs_ContentType :: string
  rs_Body :: string

text \<open>\<open>Header.Get\<close> and \<open>Values.Get\<close>: the first value, or the empty string.\<close>

definition first_of :: "(string \<times> string) list \<Rightarrow> string \<Rightarrow> string" where
  "first_of kvs k = (case map_of kvs k of None \<Rightarrow> [] | Some v \<Rightarrow> v)"

text \<open>The decoding of \<open>%XX\<close>; \<open>None\<close> is a malformed escape.\<close>

fun url_unescape :: "string \<Rightarrow> string option" where
  "url_unescape [] = Some []"
| "url_unescape (c # s) =
     (if c = CHR ''%'' then
        (case s of
           a # b # t \<Rightarrow>
             (case (hex_value a, hex_value b) of
                (Some i, Some j) \<Rightarrow> map_option (\<lambda>u. char_of (i * 16 + j) # u) (url_unescape t)
              | _ \<Rightarrow> None)
         | _ \<Rightarrow> None)
      else map_option (\<lambda>u. c # u) (url_unescape s))"

text \<open>\<open>URL.Path\<close>; the server answers a request with a malformed path itself.\<close>

definition rq_Path :: "http_request \<Rightarrow> string" where
  "rq_Path r = (case url_unescape (rq_EscapedPath r) of Some p \<Rightarrow> p | None \<Rightarrow> rq_EscapedPath r)"

definition WriteJSON :: "int \<Rightarrow> json \<Rightarrow> http_response" where
  "WriteJSON status body = \<lparr>rs_Status = status, rs_ContentType = ''application/json'', rs_Body = enc_json body @ [CHR 0x0A]\<rparr>"

definition http_Error :: "int \<Rightarrow> string \<Rightarrow> http_response" where
  "http_Error status message = WriteJSON status (JObj [(''error'', JStr message)])"

subsection \<open>Upstream errors\<close>

text \<open>The error of a client call: the context's own errors, a gRPC status, or anything else.\<close>

datatype call_error = CtxCanceled | CtxDeadlineExceeded | GrpcStatus status_error | NoStatus string

definition status_response :: "status_error \<Rightarrow> http_response" where
  "status_response st =
     http_Error
       (case status_code st of
          InvalidArgument \<Rightarrow> 400 | Unauthenticated \<Rightarrow> 401 | PermissionDenied \<Rightarrow> 403 | NotFound \<Rightarrow> 404
        | AlreadyExists \<Rightarrow> 409 | FailedPrecondition \<Rightarrow> 409 | Unavailable \<Rightarrow> 503 | DeadlineExceeded \<Rightarrow> 504 | _ \<Rightarrow> 502)
       (status_message st)"

definition writeUpstreamError :: "call_error \<Rightarrow> http_response" where
  "writeUpstreamError err =
     (case err of
        CtxCanceled \<Rightarrow> http_Error 408 ''request canceled''
      | CtxDeadlineExceeded \<Rightarrow> http_Error 504 ''upstream timeout''
      | NoStatus _ \<Rightarrow> http_Error 502 ''upstream error''
      | GrpcStatus st \<Rightarrow> status_response st)"

subsection \<open>Routes\<close>

datatype route =
    RHealth | RReady | RMetrics | RLogin | RCreateUser | RCreateDocument | RGetDocument | RUploadDocument
  | RDocumentStatus | RStartVerification | RGetVerification

datatype pattern_segment = Lit string | Wild

definition routes :: "(string \<times> pattern_segment list \<times> route) list" where
  "routes =
     [(''GET'', [Lit ''healthz''], RHealth), (''GET'', [Lit ''readyz''], RReady), (''GET'', [Lit ''metrics''], RMetrics),
      (''POST'', [Lit ''identity'', Lit ''login''], RLogin), (''POST'', [Lit ''identity'', Lit ''users''], RCreateUser),
      (''POST'', [Lit ''documents''], RCreateDocument), (''GET'', [Lit ''documents'', Wild], RGetDocument),
      (''POST'', [Lit ''documents'', Wild, Lit ''uploads''], RUploadDocument),
      (''GET'', [Lit ''documents'', Wild, Lit ''status''], RDocumentStatus),
      (''POST'', [Lit ''verifications''], RStartVerification), (''GET'', [Lit ''verifications'', Wild], RGetVerification)]"

fun match_segments :: "pattern_segment list \<Rightarrow> string list \<Rightarrow> string list option" where
  "match_segments [] [] = Some []"
| "match_segments (Lit l # ps) (s # ss) = (if s = l then match_segments ps ss else None)"
| "match_segments (Wild # ps) (s # ss) = (if s = [] then None else map_option (\<lambda>vs. s # vs) (match_segments ps ss))"
| "match_segments _ _ = None"

text \<open>A pattern for GET serves HEAD too.\<close>

definition method_matches :: "string \<Rightarrow> string \<Rightarrow> bool" where
  "method_matches pat m \<longleftrightarrow> m = pat \<or> pat = ''GET'' \<and> m = ''HEAD''"

datatype mux_result = Found route "string list" | MethodNotAllowed | NoRoute | Redirect string

definition clean_path :: "string \<Rightarrow> string" where
  "clean_path p =
     (let p1 = (if p = [] then ''/'' else if hd p \<noteq> CHR ''/'' then CHR ''/'' # p else p);
          np = filepath_Clean p1
      in if last p1 = CHR ''/'' \<and> np \<noteq> ''/'' then np @ ''/'' else np)"

definition segments :: "string \<Rightarrow> string list" where
  "segments path = map (\<lambda>s. case url_unescape s of Some u \<Rightarrow> u | None \<Rightarrow> s) (Split (tl path) CHR ''/'')"

definition find_route :: "string \<Rightarrow> string list \<Rightarrow> (route \<times> string list) option" where
  "find_route method segs =
     (case find (\<lambda>(m, pat, rt). method_matches m method \<and> match_segments pat segs \<noteq> None) routes of
        None \<Rightarrow> None
      | Some (m, pat, rt) \<Rightarrow> Some (rt, the (match_segments pat segs)))"

text \<open>
  A path that is not clean is redirected to the clean one, except for CONNECT; then the patterns decide, and a path
  that only another method has is answered as such.
\<close>

definition mux_handler :: "http_request \<Rightarrow> mux_result" where
  "mux_handler r =
     (let path = rq_EscapedPath r
      in if rq_Method r \<noteq> ''CONNECT'' \<and> clean_path path \<noteq> path then Redirect (clean_path path)
         else case find_route (rq_Method r) (segments path) of
                Some (rt, vs) \<Rightarrow> Found rt vs
              | None \<Rightarrow>
                  if list_ex (\<lambda>(m, pat, rt). match_segments pat (segments path) \<noteq> None) routes then MethodNotAllowed else NoRoute)"

definition requiresAuth :: "http_request \<Rightarrow> bool" where
  "requiresAuth r =
     (if rq_Path r \<in> {''/healthz'', ''/readyz'', ''/metrics''} then False
      else \<not> (rq_Method r = ''POST'' \<and> rq_Path r = ''/identity/login''))"

subsection \<open>Client addresses\<close>

text \<open>\<open>net.SplitHostPort\<close>: the host, \<open>None\<close> an error.\<close>

definition index_byte :: "char \<Rightarrow> string \<Rightarrow> nat option" where
  "index_byte c s = (if c \<in> set s then Some (length (takeWhile (\<lambda>x. x \<noteq> c) s)) else None)"

definition last_index :: "char \<Rightarrow> string \<Rightarrow> nat option" where
  "last_index c s = map_option (\<lambda>i. length s - 1 - i) (index_byte c (rev s))"

definition SplitHostPort :: "string \<Rightarrow> string option" where
  "SplitHostPort s =
     (case last_index CHR '':'' s of
        None \<Rightarrow> None
      | Some i \<Rightarrow>
          if s \<noteq> [] \<and> hd s = CHR 0x5B then
            (case index_byte CHR 0x5D s of
               None \<Rightarrow> None
             | Some e \<Rightarrow>
                 if e + 1 \<noteq> i then None
                 else if CHR 0x5B \<in> set (drop 1 s) \<or> CHR 0x5D \<in> set (drop (e + 1) s) then None
                 else Some (take (e - 1) (drop 1 s)))
          else if CHR '':'' \<in> set (take i s) then None
          else if CHR 0x5B \<in> set s \<or> CHR 0x5D \<in> set s then None
          else Some (take i s))"

definition clientIP :: "http_request \<Rightarrow> string" where
  "clientIP r =
     (let forwarded = TrimSpace (first_of (rq_Header r) ''X-Forwarded-For'')
      in if forwarded \<noteq> [] then TrimSpace (hd (Split forwarded CHR '',''))
         else case SplitHostPort (rq_RemoteAddr r) of
                None \<Rightarrow> rq_RemoteAddr r
              | Some host \<Rightarrow> host)"

definition requestID :: "'z auth_runtime_scheme \<Rightarrow> time \<Rightarrow> http_request \<Rightarrow> string" where
  "requestID rt now r =
     (let i = TrimSpace (first_of (rq_Header r) ''X-Request-Id'') in if i \<noteq> [] then i else format_stamp rt now)"

end
