(* ===== verification/Identity_Store.thy ===== *)
theory Identity_Store
  imports Identity_Auth
begin

text \<open>
  The stores of the Identity service: its data (\<open>domain/domain.go\<close>), the interface \<open>Store\<close> with the in-memory
  implementation (\<open>store/memory.go\<close>) and the PostgreSQL implementation (\<open>store/postgres.go\<close>, with the schema of
  \<open>store/migration.go\<close>). \<open>user_store\<close> is the contract the service relies on; both stores satisfy it.
\<close>

record User =
  us_ID :: string
  us_OrganizationID :: string
  us_Email :: string
  us_PasswordHash :: string
  us_Roles :: "string list"
  us_Disabled :: bool
  us_CreatedAt :: time

record RefreshTokenRecord =
  tk_Token :: string
  tk_UserID :: string
  tk_ExpiresAt :: time
  tk_CreatedAt :: time

datatype identity_error = ErrUserExists | ErrNotFound | ErrStore string

record 's identity_iface =
  is_CreateUser :: "time \<Rightarrow> User \<Rightarrow> 's \<Rightarrow> (identity_error + User) \<times> 's"
  is_UserByEmail :: "string \<Rightarrow> 's \<Rightarrow> identity_error + User"
  is_SaveRefreshToken :: "RefreshTokenRecord \<Rightarrow> 's \<Rightarrow> identity_error option \<times> 's"

definition store_normalizeEmail :: "'z runtime_scheme \<Rightarrow> string \<Rightarrow> string" where
  "store_normalizeEmail rt email = ToLower rt (TrimSpace email)"

text \<open>The user as it is stored: the email normalized, a zero creation time replaced by the clock.\<close>

definition dated :: "time \<Rightarrow> User \<Rightarrow> User" where
  "dated now user = (if time_IsZero (us_CreatedAt user) then user\<lparr>us_CreatedAt := now\<rparr> else user)"

subsection \<open>Memory\<close>

record Memory =
  usersByID :: "string \<rightharpoonup> User"
  userIDByEmail :: "string \<rightharpoonup> string"
  refreshTokens :: "string \<rightharpoonup> RefreshTokenRecord"

definition NewMemory :: Memory where
  "NewMemory = \<lparr>usersByID = Map.empty, userIDByEmail = Map.empty, refreshTokens = Map.empty\<rparr>"

definition mem_CreateUser :: "'z runtime_scheme \<Rightarrow> time \<Rightarrow> User \<Rightarrow> Memory \<Rightarrow> (identity_error + User) \<times> Memory" where
  "mem_CreateUser rt now user m =
     (let email = store_normalizeEmail rt (us_Email user)
      in case userIDByEmail m email of
           Some _ \<Rightarrow> (Inl ErrUserExists, m)
         | None \<Rightarrow>
             let user' = dated now (user\<lparr>us_Email := email\<rparr>)
             in (Inr user', m\<lparr>usersByID := (usersByID m)(us_ID user' \<mapsto> user'),
                              userIDByEmail := (userIDByEmail m)(email \<mapsto> us_ID user')\<rparr>))"

text \<open>An index of a map without the key gives the zero value.\<close>

definition zero_user :: User where
  "zero_user = \<lparr>us_ID = [], us_OrganizationID = [], us_Email = [], us_PasswordHash = [], us_Roles = [], us_Disabled = False,
     us_CreatedAt = zero_time\<rparr>"

definition mem_UserByEmail :: "'z runtime_scheme \<Rightarrow> string \<Rightarrow> Memory \<Rightarrow> identity_error + User" where
  "mem_UserByEmail rt email m =
     (case userIDByEmail m (store_normalizeEmail rt email) of
        None \<Rightarrow> Inl ErrNotFound
      | Some i \<Rightarrow> Inr (case usersByID m i of None \<Rightarrow> zero_user | Some u \<Rightarrow> u))"

definition mem_SaveRefreshToken :: "RefreshTokenRecord \<Rightarrow> Memory \<Rightarrow> identity_error option \<times> Memory" where
  "mem_SaveRefreshToken token m = (None, m\<lparr>refreshTokens := (refreshTokens m)(tk_Token token \<mapsto> token)\<rparr>)"

definition memory_identity :: "'z runtime_scheme \<Rightarrow> Memory identity_iface" where
  "memory_identity rt =
     \<lparr>is_CreateUser = mem_CreateUser rt, is_UserByEmail = mem_UserByEmail rt, is_SaveRefreshToken = mem_SaveRefreshToken\<rparr>"

subsection \<open>PostgreSQL\<close>

text \<open>
  The tables \<open>users\<close> and \<open>refresh_tokens\<close>, and the answers of the server: for every call of the store and every statement
  of it, an error and whether the statement took effect all the same, which matters for the commit alone (a client that
  loses the connection does not learn the outcome). A row of \<open>refresh_tokens\<close> has the hash of the token.
\<close>

record identity_tables =
  it_users :: "User list"
  it_tokens :: "RefreshTokenRecord list"

record Postgres =
  ip_tables :: identity_tables
  ip_calls :: nat
  ip_fault :: "nat \<Rightarrow> nat \<Rightarrow> (string \<times> bool) option"

datatype sql_error = UniqueViolation | OtherViolation string

definition isUniqueViolation :: "sql_error \<Rightarrow> bool" where
  "isUniqueViolation e \<longleftrightarrow> e = UniqueViolation"

definition hashToken :: "'z runtime_scheme \<Rightarrow> string \<Rightarrow> string" where
  "hashToken rt token = hex_encode (sha256 rt token)"

definition insert_user :: "User \<Rightarrow> identity_tables \<Rightarrow> sql_error + identity_tables" where
  "insert_user u t =
     (if list_ex (\<lambda>v. us_ID v = us_ID u \<or> us_Email v = us_Email u) (it_users t) then Inl UniqueViolation
      else Inr (t\<lparr>it_users := it_users t @ [u\<lparr>us_CreatedAt := timestamptz (us_CreatedAt u)\<rparr>]\<rparr>))"

definition insert_token :: "RefreshTokenRecord \<Rightarrow> identity_tables \<Rightarrow> sql_error + identity_tables" where
  "insert_token tk t =
     (if list_ex (\<lambda>r. tk_Token r = tk_Token tk) (it_tokens t) then Inl UniqueViolation
      else if \<not> list_ex (\<lambda>u. us_ID u = tk_UserID tk) (it_users t) then Inl (OtherViolation ''foreign key'')
      else Inr (t\<lparr>it_tokens := it_tokens t @
             [tk\<lparr>tk_ExpiresAt := timestamptz (tk_ExpiresAt tk), tk_CreatedAt := timestamptz (tk_CreatedAt tk)\<rparr>]\<rparr>))"

text \<open>
  A transaction of one statement: \<open>BeginTx\<close> is statement 0 of the call, the statement 1 and \<open>Commit\<close> 2. Every way out
  but the commit rolls back. \<open>Inl\<close> is the error of the statement, or that of the server.
\<close>

definition id_tick :: "identity_tables \<Rightarrow> Postgres \<Rightarrow> Postgres" where
  "id_tick t s = s\<lparr>ip_tables := t, ip_calls := Suc (ip_calls s)\<rparr>"

definition id_tx :: "(identity_tables \<Rightarrow> sql_error + identity_tables) \<Rightarrow> Postgres \<Rightarrow> sql_error option \<times> Postgres" where
  "id_tx stmt s =
     (case ip_fault s (ip_calls s) 0 of
        Some (e, _) \<Rightarrow> (Some (OtherViolation e), id_tick (ip_tables s) s)
      | None \<Rightarrow>
          (case ip_fault s (ip_calls s) 1 of
             Some (e, _) \<Rightarrow> (Some (OtherViolation e), id_tick (ip_tables s) s)
           | None \<Rightarrow>
               (case stmt (ip_tables s) of
                  Inl e \<Rightarrow> (Some e, id_tick (ip_tables s) s)
                | Inr t \<Rightarrow>
                    (case ip_fault s (ip_calls s) 2 of
                       None \<Rightarrow> (None, id_tick t s)
                     | Some (e, applied) \<Rightarrow> (Some (OtherViolation e), id_tick (if applied then t else ip_tables s) s)))))"

fun sql_text :: "sql_error \<Rightarrow> string" where
  "sql_text UniqueViolation = ''duplicate key value violates unique constraint''"
| "sql_text (OtherViolation e) = e"

definition pg_CreateUser :: "'z runtime_scheme \<Rightarrow> time \<Rightarrow> User \<Rightarrow> Postgres \<Rightarrow> (identity_error + User) \<times> Postgres" where
  "pg_CreateUser rt now user s =
     (let user' = dated now user;
          row = user'\<lparr>us_Email := store_normalizeEmail rt (us_Email user')\<rparr>
      in case id_tx (insert_user row) s of
           (None, s') \<Rightarrow> (Inr row, s')
         | (Some e, s') \<Rightarrow> (Inl (if isUniqueViolation e then ErrUserExists else ErrStore (sql_text e)), s'))"

definition pg_UserByEmail :: "'z runtime_scheme \<Rightarrow> string \<Rightarrow> Postgres \<Rightarrow> identity_error + User" where
  "pg_UserByEmail rt email s =
     (case ip_fault s (ip_calls s) 0 of
        Some (e, _) \<Rightarrow> Inl (ErrStore e)
      | None \<Rightarrow>
          (case find (\<lambda>u. us_Email u = store_normalizeEmail rt email) (it_users (ip_tables s)) of
             None \<Rightarrow> Inl ErrNotFound
           | Some u \<Rightarrow> Inr u))"

definition pg_SaveRefreshToken :: "'z runtime_scheme \<Rightarrow> RefreshTokenRecord \<Rightarrow> Postgres \<Rightarrow> identity_error option \<times> Postgres" where
  "pg_SaveRefreshToken rt token s =
     (case id_tx (insert_token (token\<lparr>tk_Token := hashToken rt (tk_Token token)\<rparr>)) s of
        (None, s') \<Rightarrow> (None, s')
      | (Some e, s') \<Rightarrow> (Some (ErrStore (sql_text e)), s'))"

definition postgres_identity :: "'z runtime_scheme \<Rightarrow> Postgres identity_iface" where
  "postgres_identity rt =
     \<lparr>is_CreateUser = pg_CreateUser rt, is_UserByEmail = pg_UserByEmail rt, is_SaveRefreshToken = pg_SaveRefreshToken rt\<rparr>"

subsection \<open>The contract\<close>

text \<open>
  \<open>accounts\<close> are the users by normalized email. Creating a user adds an account where there was none, with
  everything the caller gave but the normalized email and the time, and changes no other; a failure adds nothing, except that the
  outcome of an interrupted commit is open. A store may want the identifier to be \<open>fresh\<close>.
\<close>

definition same_account :: "User \<Rightarrow> User \<Rightarrow> bool" where
  "same_account u v \<longleftrightarrow> u\<lparr>us_CreatedAt := 0\<rparr> = v\<lparr>us_CreatedAt := 0\<rparr>"

locale user_store =
  fixes ops :: "'s identity_iface"
    and norm :: "string \<Rightarrow> string"
    and accounts :: "'s \<Rightarrow> string \<rightharpoonup> User"
    and invar :: "'s \<Rightarrow> bool"
    and fresh :: "'s \<Rightarrow> string \<Rightarrow> bool"
  assumes create_law: "invar s \<Longrightarrow> fresh s (us_ID u) \<Longrightarrow> is_CreateUser ops now u s = (Inr v, t) \<Longrightarrow>
      invar t \<and> accounts s (norm (us_Email u)) = None \<and> same_account v (u\<lparr>us_Email := norm (us_Email u)\<rparr>)
      \<and> (\<exists>r. same_account r v \<and> accounts t = (accounts s)(norm (us_Email u) \<mapsto> r))"
    and create_fail_law: "invar s \<Longrightarrow> fresh s (us_ID u) \<Longrightarrow> is_CreateUser ops now u s = (Inl e, t) \<Longrightarrow>
      invar t \<and> (accounts t = accounts s \<or> e \<noteq> ErrUserExists \<and> accounts s (norm (us_Email u)) = None
        \<and> (\<exists>r. same_account r (u\<lparr>us_Email := norm (us_Email u)\<rparr>) \<and> accounts t = (accounts s)(norm (us_Email u) \<mapsto> r)))"
    and lookup_law: "invar s \<Longrightarrow> is_UserByEmail ops email s = Inr v \<Longrightarrow> accounts s (norm email) = Some v"
    and missing_law: "invar s \<Longrightarrow> is_UserByEmail ops email s = Inl ErrNotFound \<Longrightarrow> accounts s (norm email) = None"
    and save_law: "invar s \<Longrightarrow> is_SaveRefreshToken ops tok s = (e', t) \<Longrightarrow> invar t \<and> accounts t = accounts s \<and> (fresh s i \<longrightarrow> fresh t i)"
    and fresh_law: "invar s \<Longrightarrow> is_CreateUser ops now u s = (r, t) \<Longrightarrow> fresh s i \<Longrightarrow> i \<noteq> us_ID u \<Longrightarrow> fresh t i"
begin

lemma create_invar:
  "invar s \<Longrightarrow> fresh s (us_ID u) \<Longrightarrow> is_CreateUser ops now u s = (r, t) \<Longrightarrow> invar t"
  by (cases r) (use create_law create_fail_law in blast)+

text \<open>An account, once there, stays what it is.\<close>

lemma create_keeps:
  assumes "invar s" and "fresh s (us_ID u)" and "is_CreateUser ops now u s = (r, t)" and "accounts s e = Some v"
  shows "accounts t e = Some v \<and> invar t"
proof (cases r)
  case (Inl x)
  with create_fail_law [OF assms(1,2)] assms(3,4) show ?thesis by fastforce
next
  case (Inr w)
  with create_law [OF assms(1,2)] assms(3,4) show ?thesis by fastforce
qed

end

subsection \<open>The stores satisfy it\<close>

definition memory_accounts :: "Memory \<Rightarrow> string \<rightharpoonup> User" where
  "memory_accounts m email = (case userIDByEmail m email of None \<Rightarrow> None | Some i \<Rightarrow> usersByID m i)"

text \<open>Every email leads to a user with that email, and so no two emails to the same user.\<close>

definition memory_invar :: "Memory \<Rightarrow> bool" where
  "memory_invar m \<longleftrightarrow>
     (\<forall>email i. userIDByEmail m email = Some i \<longrightarrow> (\<exists>u. usersByID m i = Some u \<and> us_Email u = email \<and> us_ID u = i))"

lemma memory_invar_new: "memory_invar NewMemory"
  by (simp add: memory_invar_def NewMemory_def)

lemma dated_simps [simp]:
  "us_ID (dated now u) = us_ID u" "us_Email (dated now u) = us_Email u" "same_account (dated now u) u"
  by (simp_all add: dated_def same_account_def)

lemma same_account_refl [simp]: "same_account u u"
  by (simp add: same_account_def)

lemma mem_CreateUser_ok:
  assumes "memory_invar m" and "usersByID m (us_ID u) = None" and "mem_CreateUser rt now u m = (Inr v, m')"
  shows "memory_invar m' \<and> memory_accounts m (store_normalizeEmail rt (us_Email u)) = None
    \<and> v = dated now (u\<lparr>us_Email := store_normalizeEmail rt (us_Email u)\<rparr>)
    \<and> memory_accounts m' = (memory_accounts m)(store_normalizeEmail rt (us_Email u) \<mapsto> v)"
proof -
  let ?e = "store_normalizeEmail rt (us_Email u)"
  have none: "userIDByEmail m ?e = None" and v: "v = dated now (u\<lparr>us_Email := ?e\<rparr>)"
    and m': "m' = m\<lparr>usersByID := (usersByID m)(us_ID u \<mapsto> v), userIDByEmail := (userIDByEmail m)(?e \<mapsto> us_ID u)\<rparr>"
    using assms(3) by (auto simp: mem_CreateUser_def Let_def split: option.splits)
  have other: "userIDByEmail m x = Some i \<Longrightarrow> i \<noteq> us_ID u" for x i
    using assms(1,2) unfolding memory_invar_def by (metis option.distinct(1))
  have "memory_accounts m' = (memory_accounts m)(?e \<mapsto> v)"
    using other by (auto simp: memory_accounts_def m' fun_eq_iff split: option.split)
  moreover have "memory_invar m'"
    using assms(1) other unfolding memory_invar_def m' by (auto simp: v split: if_splits)
  ultimately show ?thesis using none v by (simp add: memory_accounts_def)
qed

interpretation mem_id: user_store "memory_identity rt" "store_normalizeEmail rt" memory_accounts memory_invar
  "\<lambda>m i. usersByID m i = None"
proof (unfold_locales, goal_cases)
  case (1 s u now v t)
  then have "mem_CreateUser rt now u s = (Inr v, t)" by (simp add: memory_identity_def)
  from mem_CreateUser_ok [OF 1(1,2) this] show ?case by (auto intro: exI [of _ v])
next
  case (2 s u now e t)
  then show ?case by (auto simp: memory_identity_def mem_CreateUser_def Let_def split: option.splits)
next
  case (3 s email v)
  then show ?case
    by (fastforce simp: memory_identity_def mem_UserByEmail_def memory_accounts_def memory_invar_def split: option.splits)
next
  case (4 s email)
  then show ?case by (auto simp: memory_identity_def mem_UserByEmail_def memory_accounts_def split: option.splits)
next
  case (5 s tok e' t i)
  then show ?case by (auto simp: memory_identity_def mem_SaveRefreshToken_def memory_accounts_def memory_invar_def fun_eq_iff split: option.split)
next
  case (6 s now u r t i)
  then show ?case by (auto simp: memory_identity_def mem_CreateUser_def Let_def split: option.splits)
qed

definition postgres_accounts :: "Postgres \<Rightarrow> string \<rightharpoonup> User" where
  "postgres_accounts s email = find (\<lambda>u. us_Email u = email) (it_users (ip_tables s))"

definition postgres_wf :: "Postgres \<Rightarrow> bool" where
  "postgres_wf s \<longleftrightarrow> distinct (map us_ID (it_users (ip_tables s))) \<and> distinct (map us_Email (it_users (ip_tables s)))"

lemma find_snoc: "find P (xs @ [x]) = (case find P xs of Some y \<Rightarrow> Some y | None \<Rightarrow> if P x then Some x else None)"
  by (induction xs) auto

lemma insert_user_ok:
  assumes "insert_user u t = Inr t'"
  shows "find (\<lambda>v. us_Email v = us_Email u) (it_users t) = None
    \<and> it_users t' = it_users t @ [u\<lparr>us_CreatedAt := timestamptz (us_CreatedAt u)\<rparr>]
    \<and> us_ID u \<notin> us_ID ` set (it_users t) \<and> us_Email u \<notin> us_Email ` set (it_users t)"
  using assms by (auto simp: insert_user_def list_ex_iff find_None_iff split: if_splits)

lemma id_tx_cases:
  assumes "id_tx stmt s = (e, s')"
  obtains (kept) "ip_tables s' = ip_tables s" "e \<noteq> None"
    | (committed) t where "stmt (ip_tables s) = Inr t" "ip_tables s' = t" "e \<noteq> Some UniqueViolation"
  using assms by (auto simp: id_tx_def id_tick_def split: option.splits sum.splits if_splits)

interpretation pg_id: user_store "postgres_identity rt" "store_normalizeEmail rt" postgres_accounts postgres_wf "\<lambda>_ _. True"
proof (unfold_locales, goal_cases)
  case (1 s u now v t)
  let ?row = "(dated now u)\<lparr>us_Email := store_normalizeEmail rt (us_Email u)\<rparr>"
  have tx: "id_tx (insert_user ?row) s = (None, t)" and v: "v = ?row"
    using 1(3) by (auto simp: postgres_identity_def pg_CreateUser_def Let_def split: prod.splits option.splits if_splits)
  from tx show ?case
  proof (cases rule: id_tx_cases)
    case (committed t')
    have "same_account (?row\<lparr>us_CreatedAt := timestamptz (us_CreatedAt ?row)\<rparr>) ?row"
      "same_account ?row (u\<lparr>us_Email := store_normalizeEmail rt (us_Email u)\<rparr>)"
      by (simp_all add: same_account_def dated_def)
    with insert_user_ok [OF committed(1)] committed(2) 1(1) show ?thesis
      unfolding v by (auto simp: postgres_wf_def postgres_accounts_def find_snoc fun_eq_iff split: option.split
          intro!: exI [of _ "?row\<lparr>us_CreatedAt := timestamptz (us_CreatedAt ?row)\<rparr>"])
  qed simp
next
  case (2 s u now e t)
  let ?row = "(dated now u)\<lparr>us_Email := store_normalizeEmail rt (us_Email u)\<rparr>"
  obtain x where tx: "id_tx (insert_user ?row) s = (Some x, t)" and e: "e = (if isUniqueViolation x then ErrUserExists else ErrStore (sql_text x))"
    using 2(3) by (auto simp: postgres_identity_def pg_CreateUser_def Let_def split: prod.splits option.splits if_splits)
  from tx show ?case
  proof (cases rule: id_tx_cases)
    case kept
    then show ?thesis using 2(1) by (simp add: postgres_wf_def postgres_accounts_def [abs_def])
  next
    case (committed t')
    have "same_account (?row\<lparr>us_CreatedAt := timestamptz (us_CreatedAt ?row)\<rparr>) (u\<lparr>us_Email := store_normalizeEmail rt (us_Email u)\<rparr>)"
      by (simp add: same_account_def dated_def)
    moreover have "e \<noteq> ErrUserExists" using e committed(3) by (auto simp: isUniqueViolation_def)
    ultimately show ?thesis
      using insert_user_ok [OF committed(1)] committed(2) 2(1)
      by (auto simp: postgres_wf_def postgres_accounts_def find_snoc fun_eq_iff split: option.split
          intro!: exI [of _ "?row\<lparr>us_CreatedAt := timestamptz (us_CreatedAt ?row)\<rparr>"])
  qed
next
  case (3 s email v)
  then show ?case by (auto simp: postgres_identity_def pg_UserByEmail_def postgres_accounts_def split: option.splits)
next
  case (4 s email)
  then show ?case by (auto simp: postgres_identity_def pg_UserByEmail_def postgres_accounts_def split: option.splits)
next
  case (5 s tok e' t i)
  obtain x where "id_tx (insert_token (tok\<lparr>tk_Token := hashToken rt (tk_Token tok)\<rparr>)) s = (x, t)"
    using 5(2) by (auto simp: postgres_identity_def pg_SaveRefreshToken_def split: prod.splits option.splits)
  moreover have "insert_token tk t0 = Inr t1 \<Longrightarrow> it_users t1 = it_users t0" for tk t0 t1
    by (auto simp: insert_token_def split: if_splits)
  ultimately have "it_users (ip_tables t) = it_users (ip_tables s)"
    by (cases rule: id_tx_cases) auto
  with 5(1) show ?case by (simp add: postgres_wf_def postgres_accounts_def [abs_def])
qed simp

end
