(* ===== verification/Identity_Service.thy ===== *)
theory Identity_Service
  imports Identity_Store Grpc
begin

text \<open>
  The Identity service (\<open>service/identity.go\<close>): users, logins, and the seeding of the development user. A nil request has
  zero fields, which is what its getters return. The environment of a call gives the readings of the clock and of the
  random source in the order the code makes them.
\<close>

record CreateUserRequest =
  cr_OrganizationId :: string
  cr_Email :: string
  cr_Password :: string
  cr_Roles :: "string list"

record LoginRequest =
  lq_Email :: string
  lq_Password :: string

record ProtoUser =
  pr_Id :: string
  pr_OrganizationId :: string
  pr_Email :: string
  pr_Roles :: "string list"
  pr_Disabled :: bool
  pr_CreatedAt :: string

record LoginResponse =
  lr_AccessToken :: string
  lr_RefreshToken :: string
  lr_User :: ProtoUser

record 's Identity =
  id_store :: "'s identity_iface"
  id_secret :: bytes
  id_accessTokenTTL :: duration
  id_refreshTokenTTL :: duration
  id_db :: 's

record identity_env =
  ie_now :: "nat \<Rightarrow> time"
  ie_rand :: "nat \<Rightarrow> string + bytes"

definition NewIdentity :: "'s identity_iface \<Rightarrow> 's \<Rightarrow> bytes \<Rightarrow> duration \<Rightarrow> duration \<Rightarrow> 's Identity" where
  "NewIdentity st db secret accessTokenTTL refreshTokenTTL =
     \<lparr>id_store = st, id_secret = secret, id_accessTokenTTL = accessTokenTTL, id_refreshTokenTTL = refreshTokenTTL, id_db = db\<rparr>"

definition normalizeEmail :: "'z auth_runtime_scheme \<Rightarrow> string \<Rightarrow> string option" where
  "normalizeEmail rt email0 =
     (let email = ToLower rt (TrimSpace email0)
      in if parse_address rt email then Some email else None)"

fun clean_into :: "'z runtime_scheme \<Rightarrow> string list \<Rightarrow> string list \<Rightarrow> string list" where
  "clean_into rt cleaned [] = cleaned"
| "clean_into rt cleaned (r # roles) =
     (let role = ToLower rt (TrimSpace r)
      in if role = [] \<or> role \<in> set cleaned then clean_into rt cleaned roles
         else clean_into rt (cleaned @ [role]) roles)"

definition cleanRoles :: "'z runtime_scheme \<Rightarrow> string list \<Rightarrow> string list" where
  "cleanRoles rt roles = clean_into rt [] roles"

definition toProtoUser :: "'z runtime_scheme \<Rightarrow> User \<Rightarrow> ProtoUser" where
  "toProtoUser rt u =
     \<lparr>pr_Id = us_ID u, pr_OrganizationId = us_OrganizationID u, pr_Email = us_Email u, pr_Roles = us_Roles u,
      pr_Disabled = us_Disabled u, pr_CreatedAt = rfc3339 rt (us_CreatedAt u)\<rparr>"

definition identity_newID :: "'z auth_runtime_scheme \<Rightarrow> string \<Rightarrow> string + bytes \<Rightarrow> time \<Rightarrow> string" where
  "identity_newID rt pre random now =
     (case random of
        Inl _ \<Rightarrow> pre @ ''_'' @ hex_encode (format_stamp rt now)
      | Inr b \<Rightarrow> pre @ ''_'' @ hex_encode b)"

definition created_user :: "'z auth_runtime_scheme \<Rightarrow> identity_env \<Rightarrow> CreateUserRequest \<Rightarrow> string \<Rightarrow> string \<Rightarrow> User" where
  "created_user rt env req email passwordHash =
     (let cleaned = cleanRoles rt (cr_Roles req)
      in \<lparr>us_ID = identity_newID rt ''usr'' (ie_rand env 1) (ie_now env 0), us_OrganizationID = TrimSpace (cr_OrganizationId req),
          us_Email = email, us_PasswordHash = passwordHash, us_Roles = (if cleaned = [] then [''member''] else cleaned),
          us_Disabled = False, us_CreatedAt = ie_now env 1\<rparr>)"

definition CreateUser ::
  "'z auth_runtime_scheme \<Rightarrow> identity_env \<Rightarrow> CreateUserRequest \<Rightarrow> 's Identity \<Rightarrow> ProtoUser rpc_result \<times> 's Identity" where
  "CreateUser rt env req s =
     (if cr_OrganizationId req = [] then (Inl (Status InvalidArgument ''organization_id is required''), s)
      else case normalizeEmail rt (cr_Email req) of
        None \<Rightarrow> (Inl (Status InvalidArgument ''valid email is required''), s)
      | Some email \<Rightarrow>
          (case HashPassword rt (ie_rand env 0) (cr_Password req) of
             Inl err \<Rightarrow> (Inl (Status InvalidArgument err), s)
           | Inr passwordHash \<Rightarrow>
               (case is_CreateUser (id_store s) (ie_now env 2) (created_user rt env req email passwordHash) (id_db s) of
                  (Inl ErrUserExists, db) \<Rightarrow> (Inl (Status AlreadyExists ''user already exists''), s\<lparr>id_db := db\<rparr>)
                | (Inl _, db) \<Rightarrow> (Inl (Status Internal ''create user''), s\<lparr>id_db := db\<rparr>)
                | (Inr created, db) \<Rightarrow> (Inr (toProtoUser rt created), s\<lparr>id_db := db\<rparr>))))"

definition invalid_login :: status_error where
  "invalid_login = Status Unauthenticated ''invalid email or password''"

definition Login ::
  "'z auth_runtime_scheme \<Rightarrow> identity_env \<Rightarrow> LoginRequest \<Rightarrow> 's Identity \<Rightarrow> LoginResponse rpc_result \<times> 's Identity" where
  "Login rt env req s =
     (case normalizeEmail rt (lq_Email req) of
        None \<Rightarrow> (Inl invalid_login, s)
      | Some email \<Rightarrow>
          if lq_Password req = [] then (Inl invalid_login, s)
          else
            (case is_UserByEmail (id_store s) email (id_db s) of
               Inl _ \<Rightarrow> (Inl invalid_login, s)
             | Inr user \<Rightarrow>
                 if us_Disabled user \<or> \<not> VerifyPassword rt (us_PasswordHash user) (lq_Password req) then (Inl invalid_login, s)
                 else
                   let accessToken = AccessToken rt (id_secret s) (ie_now env 0) (us_ID user) (us_OrganizationID user)
                                       (us_Roles user) (id_accessTokenTTL s)
                   in case RefreshToken (ie_rand env 0) of
                        Inl _ \<Rightarrow> (Inl (Status Internal ''issue refresh token''), s)
                      | Inr refreshToken \<Rightarrow>
                          (case is_SaveRefreshToken (id_store s)
                                  \<lparr>tk_Token = refreshToken, tk_UserID = us_ID user,
                                   tk_ExpiresAt = ie_now env 1 + id_refreshTokenTTL s, tk_CreatedAt = ie_now env 1\<rparr> (id_db s) of
                             (Some _, db) \<Rightarrow> (Inl (Status Internal ''save refresh token''), s\<lparr>id_db := db\<rparr>)
                           | (None, db) \<Rightarrow>
                               (Inr \<lparr>lr_AccessToken = accessToken, lr_RefreshToken = refreshToken, lr_User = toProtoUser rt user\<rparr>,
                                s\<lparr>id_db := db\<rparr>))))"

definition SeedDevelopmentUser ::
  "'z auth_runtime_scheme \<Rightarrow> identity_env \<Rightarrow> string \<Rightarrow> string \<Rightarrow> string \<Rightarrow> 's Identity \<Rightarrow> status_error option \<times> 's Identity" where
  "SeedDevelopmentUser rt env orgID email password s =
     (case CreateUser rt env \<lparr>cr_OrganizationId = orgID, cr_Email = email, cr_Password = password, cr_Roles = [''admin'']\<rparr> s of
        (Inr _, s') \<Rightarrow> (None, s')
      | (Inl err, s') \<Rightarrow> (if status_code err = AlreadyExists then None else Some err, s'))"

subsection \<open>Roles\<close>

lemma clean_into_spec:
  "distinct cleaned \<Longrightarrow> [] \<notin> set cleaned \<Longrightarrow>
   distinct (clean_into rt cleaned roles) \<and> [] \<notin> set (clean_into rt cleaned roles)
   \<and> set (clean_into rt cleaned roles) = set cleaned \<union> ((\<lambda>r. ToLower rt (TrimSpace r)) ` set roles - {[]})"
  by (induction rt cleaned roles rule: clean_into.induct) (auto simp: Let_def)

lemma cleanRoles_spec:
  "distinct (cleanRoles rt roles) \<and> set (cleanRoles rt roles) = (\<lambda>r. ToLower rt (TrimSpace r)) ` set roles - {[]}"
  using clean_into_spec [of "[]" rt roles] by (simp add: cleanRoles_def)

subsection \<open>Calls\<close>

datatype identity_call = CallCreateUser CreateUserRequest | CallLogin LoginRequest
datatype identity_reply = ReplyUser ProtoUser | ReplyLogin LoginResponse

fun identity_handle ::
  "'z auth_runtime_scheme \<Rightarrow> identity_env \<Rightarrow> identity_call \<Rightarrow> 's Identity \<Rightarrow> identity_reply rpc_result \<times> 's Identity" where
  "identity_handle rt env (CallCreateUser req) s = (case CreateUser rt env req s of (r, s') \<Rightarrow> (map_sum id ReplyUser r, s'))"
| "identity_handle rt env (CallLogin req) s = (case Login rt env req s of (r, s') \<Rightarrow> (map_sum id ReplyLogin r, s'))"

fun run_identity :: "'z auth_runtime_scheme \<Rightarrow> (identity_env \<times> identity_call) list \<Rightarrow> 's Identity \<Rightarrow> 's Identity" where
  "run_identity rt [] s = s"
| "run_identity rt ((env, call) # cs) s = run_identity rt cs (snd (identity_handle rt env call s))"

text \<open>The identifiers a run generates for new users.\<close>

fun new_ids :: "'z auth_runtime_scheme \<Rightarrow> (identity_env \<times> identity_call) list \<Rightarrow> string list" where
  "new_ids rt [] = []"
| "new_ids rt ((env, CallCreateUser req) # cs) = identity_newID rt ''usr'' (ie_rand env 1) (ie_now env 0) # new_ids rt cs"
| "new_ids rt ((env, CallLogin req) # cs) = new_ids rt cs"

lemma created_user_ID [simp]: "us_ID (created_user rt env req email h) = identity_newID rt ''usr'' (ie_rand env 1) (ie_now env 0)"
  by (simp add: created_user_def Let_def)

lemma CreateUser_cases:
  assumes "CreateUser rt env req s = (r, s')"
  obtains (refused) e where "r = Inl e" "s' = s"
    | (asked) email h x db where "cr_OrganizationId req \<noteq> []" "normalizeEmail rt (cr_Email req) = Some email"
        "HashPassword rt (ie_rand env 0) (cr_Password req) = Inr h"
        "is_CreateUser (id_store s) (ie_now env 2) (created_user rt env req email h) (id_db s) = (x, db)"
        "s' = s\<lparr>id_db := db\<rparr>" "is_ok r \<longleftrightarrow> is_ok x" "\<And>v. x = Inr v \<Longrightarrow> r = Inr (toProtoUser rt v)"
proof -
  consider "cr_OrganizationId req = [] \<or> normalizeEmail rt (cr_Email req) = None
      \<or> \<not> is_ok (HashPassword rt (ie_rand env 0) (cr_Password req))"
    | email h where "cr_OrganizationId req \<noteq> []" "normalizeEmail rt (cr_Email req) = Some email"
        "HashPassword rt (ie_rand env 0) (cr_Password req) = Inr h"
    by (metis is_ok_iff option.exhaust)
  then show ?thesis
  proof cases
    case 1
    then show ?thesis
      using assms refused by (auto simp: CreateUser_def split: if_splits option.splits sum.splits)
  next
    case (2 email h)
    obtain x db where x: "is_CreateUser (id_store s) (ie_now env 2) (created_user rt env req email h) (id_db s) = (x, db)"
      by fastforce
    show ?thesis
      using assms 2 x
      by (intro asked [OF 2 x]) (auto simp: CreateUser_def split: sum.splits identity_error.splits)
  qed
qed

lemma Login_cases:
  assumes "Login rt env req s = (r, s')"
  obtains (refused) e where "r = Inl e" "s' = s"
    | (checked) email user token e db where "normalizeEmail rt (lq_Email req) = Some email" "lq_Password req \<noteq> []"
        "is_UserByEmail (id_store s) email (id_db s) = Inr user" "\<not> us_Disabled user"
        "VerifyPassword rt (us_PasswordHash user) (lq_Password req)"
        "is_SaveRefreshToken (id_store s)
           \<lparr>tk_Token = token, tk_UserID = us_ID user, tk_ExpiresAt = ie_now env 1 + id_refreshTokenTTL s, tk_CreatedAt = ie_now env 1\<rparr>
           (id_db s) = (e, db)" "s' = s\<lparr>id_db := db\<rparr>" "is_ok r \<longleftrightarrow> e = None"
        "e = None \<Longrightarrow> r = Inr \<lparr>lr_AccessToken = AccessToken rt (id_secret s) (ie_now env 0) (us_ID user)
            (us_OrganizationID user) (us_Roles user) (id_accessTokenTTL s), lr_RefreshToken = token, lr_User = toProtoUser rt user\<rparr>"
proof -
  consider "normalizeEmail rt (lq_Email req) = None \<or> lq_Password req = []"
    | email x where "normalizeEmail rt (lq_Email req) = Some email" "lq_Password req \<noteq> []"
        "is_UserByEmail (id_store s) email (id_db s) = Inl x"
    | email user where "normalizeEmail rt (lq_Email req) = Some email" "lq_Password req \<noteq> []"
        "is_UserByEmail (id_store s) email (id_db s) = Inr user"
    by (cases "normalizeEmail rt (lq_Email req)"; cases "is_UserByEmail (id_store s) (the (normalizeEmail rt (lq_Email req))) (id_db s)") auto
  then show ?thesis
  proof cases
    case (3 email user)
    show ?thesis
    proof (cases "us_Disabled user \<or> \<not> VerifyPassword rt (us_PasswordHash user) (lq_Password req) \<or> \<not> is_ok (ie_rand env 0)")
      case True
      then show ?thesis using assms 3 refused by (auto simp: Login_def RefreshToken_def Let_def split: if_splits sum.splits)
    next
      case False
      then obtain bs where ok: "\<not> us_Disabled user" "VerifyPassword rt (us_PasswordHash user) (lq_Password req)" "ie_rand env 0 = Inr bs"
        by (auto simp: is_ok_iff)
      obtain e db where x: "is_SaveRefreshToken (id_store s)
           \<lparr>tk_Token = RawURLEncode bs, tk_UserID = us_ID user, tk_ExpiresAt = ie_now env 1 + id_refreshTokenTTL s,
            tk_CreatedAt = ie_now env 1\<rparr> (id_db s) = (e, db)"
        by fastforce
      show ?thesis
        using assms 3 ok x
        by (intro checked [OF 3 ok(1,2) x]) (auto simp: Login_def RefreshToken_def Let_def split: option.splits)
    qed
  qed (use assms refused in \<open>auto simp: Login_def split: option.splits if_splits\<close>)
qed

end
