(* ===== verification/Gateway_Handlers.thy ===== *)
theory Gateway_Handlers
  imports Gateway_Http Identity_Service Intake_Service
begin

text \<open>
  The gateway's handlers (\<open>httpapi/handlers.go\<close>). The gRPC clients are the parameter \<open>clients\<close>: each call takes the
  outgoing metadata where the handler attaches some, the request and the state \<open>'w\<close> of what is behind the clients. A handler takes
  the request, the values of the path's wildcards and that state.
\<close>

record StartVerificationRequest =
  sq_OrganizationId :: string
  sq_DocumentId :: string
  sq_Checks :: "string list"

record GetVerificationRequest =
  gv_OrganizationId :: string
  gv_Id :: string

record Verification =
  vf_Id :: string
  vf_DocumentId :: string
  vf_OrganizationId :: string
  vf_RiskScore :: int
  vf_Status :: string
  vf_CreatedAt :: string
  vf_CompletedAt :: string

record 'w clients =
  cl_CreateUser :: "CreateUserRequest \<Rightarrow> 'w \<Rightarrow> (call_error + ProtoUser) \<times> 'w"
  cl_Login :: "LoginRequest \<Rightarrow> 'w \<Rightarrow> (call_error + LoginResponse) \<times> 'w"
  cl_CreateDocument :: "metadata \<Rightarrow> CreateDocumentRequest \<Rightarrow> 'w \<Rightarrow> (call_error + ProtoDocument) \<times> 'w"
  cl_GetDocument :: "metadata \<Rightarrow> GetDocumentRequest \<Rightarrow> 'w \<Rightarrow> (call_error + ProtoDocument) \<times> 'w"
  cl_UploadDocument :: "metadata \<Rightarrow> UploadDocumentRequest \<Rightarrow> 'w \<Rightarrow> (call_error + UploadDocumentResponse) \<times> 'w"
  cl_GetDocumentStatus :: "metadata \<Rightarrow> GetDocumentStatusRequest \<Rightarrow> 'w \<Rightarrow> (call_error + DocumentStatus) \<times> 'w"
  cl_StartVerification :: "StartVerificationRequest \<Rightarrow> 'w \<Rightarrow> (call_error + Verification) \<times> 'w"
  cl_GetVerification :: "GetVerificationRequest \<Rightarrow> 'w \<Rightarrow> (call_error + Verification) \<times> 'w"
  cl_HealthChecks :: "(string \<times> ('w \<Rightarrow> bool)) list"

subsection \<open>Messages as JSON\<close>

text \<open>The generated structs omit empty fields.\<close>

definition str_field :: "string \<Rightarrow> string \<Rightarrow> (string \<times> json) list" where
  "str_field name v = (if v = [] then [] else [(name, JStr v)])"

definition int_field :: "string \<Rightarrow> int \<Rightarrow> (string \<times> json) list" where
  "int_field name v = (if v = 0 then [] else [(name, JNum (show_int v))])"

definition strs_field :: "string \<Rightarrow> string list \<Rightarrow> (string \<times> json) list" where
  "strs_field name vs = (if vs = [] then [] else [(name, JArr (map JStr vs))])"

definition user_json :: "ProtoUser \<Rightarrow> json" where
  "user_json u =
     JObj (str_field ''id'' (pr_Id u) @ str_field ''organization_id'' (pr_OrganizationId u) @ str_field ''email'' (pr_Email u)
       @ strs_field ''roles'' (pr_Roles u) @ (if pr_Disabled u then [(''disabled'', JBool True)] else [])
       @ str_field ''created_at'' (pr_CreatedAt u))"

definition login_json :: "LoginResponse \<Rightarrow> json" where
  "login_json r =
     JObj (str_field ''access_token'' (lr_AccessToken r) @ str_field ''refresh_token'' (lr_RefreshToken r)
       @ [(''user'', user_json (lr_User r))])"

definition upload_json :: "ProtoUpload \<Rightarrow> json" where
  "upload_json u =
     JObj (str_field ''id'' (pu_Id u) @ str_field ''filename'' (pu_Filename u) @ str_field ''content_type'' (pu_ContentType u)
       @ int_field ''size_bytes'' (pu_SizeBytes u) @ str_field ''checksum'' (pu_Checksum u)
       @ str_field ''storage_ref'' (pu_StorageRef u) @ str_field ''created_at'' (pu_CreatedAt u))"

definition document_json :: "ProtoDocument \<Rightarrow> json" where
  "document_json d =
     JObj (str_field ''id'' (pd_Id d) @ str_field ''organization_id'' (pd_OrganizationId d) @ str_field ''type'' (pd_Type d)
       @ str_field ''filename'' (pd_Filename d) @ str_field ''content_type'' (pd_ContentType d) @ str_field ''status'' (pd_Status d)
       @ str_field ''created_at'' (pd_CreatedAt d)
       @ (if pd_Uploads d = [] then [] else [(''uploads'', JArr (map upload_json (pd_Uploads d)))]))"

definition upload_response_json :: "UploadDocumentResponse \<Rightarrow> json" where
  "upload_response_json r =
     JObj (str_field ''upload_id'' (ur_UploadId r) @ str_field ''document_id'' (ur_DocumentId r)
       @ str_field ''storage_ref'' (ur_StorageRef r) @ str_field ''checksum'' (ur_Checksum r))"

definition status_json :: "DocumentStatus \<Rightarrow> json" where
  "status_json d =
     JObj (str_field ''document_id'' (ds_DocumentId d) @ str_field ''status'' (ds_Status d)
       @ str_field ''processing_job_status'' (ds_ProcessingJobStatus d) @ str_field ''updated_at'' (ds_UpdatedAt d))"

definition verification_json :: "Verification \<Rightarrow> json" where
  "verification_json v =
     JObj (str_field ''id'' (vf_Id v) @ str_field ''document_id'' (vf_DocumentId v) @ str_field ''organization_id'' (vf_OrganizationId v)
       @ int_field ''risk_score'' (vf_RiskScore v) @ str_field ''status'' (vf_Status v) @ str_field ''created_at'' (vf_CreatedAt v)
       @ str_field ''completed_at'' (vf_CompletedAt v))"

subsection \<open>Bodies\<close>

text \<open>\<open>None\<close>: the handler has answered \<open>invalid json body\<close>.\<close>

definition decodeJSON :: "'s field list \<Rightarrow> 's \<Rightarrow> http_request \<Rightarrow> 's option" where
  "decodeJSON fs zero r = Option.bind (json_Decode (rq_Body r)) (set_struct True fs zero)"

definition invalid_body :: http_response where
  "invalid_body = http_Error 400 ''invalid json body''"

definition user_fields :: "CreateUserRequest field list" where
  "user_fields =
     [(''organization_id'', set_string (\<lambda>v r. r\<lparr>cr_OrganizationId := v\<rparr>)), (''email'', set_string (\<lambda>v r. r\<lparr>cr_Email := v\<rparr>)),
      (''password'', set_string (\<lambda>v r. r\<lparr>cr_Password := v\<rparr>)), (''roles'', set_strings cr_Roles (\<lambda>v r. r\<lparr>cr_Roles := v\<rparr>))]"

definition login_fields :: "LoginRequest field list" where
  "login_fields = [(''email'', set_string (\<lambda>v r. r\<lparr>lq_Email := v\<rparr>)), (''password'', set_string (\<lambda>v r. r\<lparr>lq_Password := v\<rparr>))]"

record document_body =
  db_OrganizationID :: string
  db_Type :: string
  db_Filename :: string
  db_ContentType :: string
  db_ContentBase64 :: string

definition document_fields :: "document_body field list" where
  "document_fields =
     [(''organization_id'', set_string (\<lambda>v b. b\<lparr>db_OrganizationID := v\<rparr>)), (''type'', set_string (\<lambda>v b. b\<lparr>db_Type := v\<rparr>)),
      (''filename'', set_string (\<lambda>v b. b\<lparr>db_Filename := v\<rparr>)), (''content_type'', set_string (\<lambda>v b. b\<lparr>db_ContentType := v\<rparr>)),
      (''content_base64'', set_string (\<lambda>v b. b\<lparr>db_ContentBase64 := v\<rparr>))]"

record upload_request_body =
  ub_Filename :: string
  ub_ContentType :: string
  ub_ContentBase64 :: string
  ub_IdempotencyKey :: string

definition upload_fields :: "upload_request_body field list" where
  "upload_fields =
     [(''filename'', set_string (\<lambda>v b. b\<lparr>ub_Filename := v\<rparr>)), (''content_type'', set_string (\<lambda>v b. b\<lparr>ub_ContentType := v\<rparr>)),
      (''content_base64'', set_string (\<lambda>v b. b\<lparr>ub_ContentBase64 := v\<rparr>)),
      (''idempotency_key'', set_string (\<lambda>v b. b\<lparr>ub_IdempotencyKey := v\<rparr>))]"

definition verification_fields :: "StartVerificationRequest field list" where
  "verification_fields =
     [(''organization_id'', set_string (\<lambda>v r. r\<lparr>sq_OrganizationId := v\<rparr>)), (''document_id'', set_string (\<lambda>v r. r\<lparr>sq_DocumentId := v\<rparr>)),
      (''checks'', set_strings sq_Checks (\<lambda>v r. r\<lparr>sq_Checks := v\<rparr>))]"

subsection \<open>Identity of the caller\<close>

definition organizationID :: "http_request \<Rightarrow> string \<Rightarrow> string" where
  "organizationID r fallback =
     (case ClaimsFromContext r of
        Some claims \<Rightarrow> if c_OrganizationID claims \<noteq> [] then c_OrganizationID claims else fallback
      | None \<Rightarrow> fallback)"

definition withIdentityMetadata :: "http_request \<Rightarrow> string \<Rightarrow> metadata" where
  "withIdentityMetadata r orgID =
     (case ClaimsFromContext r of
        Some claims \<Rightarrow>
          md_Pairs [(''x-organization-id'', c_OrganizationID claims), (''x-user-id'', c_Subject claims),
                    (''x-roles'', Join (c_Roles claims) '','')]
      | None \<Rightarrow> md_Pairs [(''x-organization-id'', orgID), (''x-roles'', ''org_admin'')])"

subsection \<open>Handlers\<close>

definition respond :: "int \<Rightarrow> ('a \<Rightarrow> json) \<Rightarrow> (call_error + 'a) \<times> 'w \<Rightarrow> http_response \<times> 'w" where
  "respond status body result =
     (case result of
        (Inl err, w) \<Rightarrow> (writeUpstreamError err, w)
      | (Inr v, w) \<Rightarrow> (WriteJSON status (body v), w))"

definition health :: http_response where
  "health = WriteJSON 200 (JObj [(''status'', JStr ''ok'')])"

definition ready :: "'w clients \<Rightarrow> 'w \<Rightarrow> http_response" where
  "ready h w =
     (case find (\<lambda>(name, serving). \<not> serving w) (cl_HealthChecks h) of
        Some (name, _) \<Rightarrow> WriteJSON 503 (JObj [(''service'', JStr name), (''status'', JStr ''unready'')])
      | None \<Rightarrow> WriteJSON 200 (JObj [(''status'', JStr ''ready'')]))"

definition createUser :: "'w clients \<Rightarrow> http_request \<Rightarrow> 'w \<Rightarrow> http_response \<times> 'w" where
  "createUser h r w =
     (case decodeJSON user_fields \<lparr>cr_OrganizationId = [], cr_Email = [], cr_Password = [], cr_Roles = []\<rparr> r of
        None \<Rightarrow> (invalid_body, w)
      | Some req \<Rightarrow>
          if cr_Email req = [] \<or> cr_Password req = [] \<or> cr_OrganizationId req = [] then
            (http_Error 400 ''organization_id, email, and password are required'', w)
          else respond 201 user_json (cl_CreateUser h req w))"

definition login :: "'w clients \<Rightarrow> http_request \<Rightarrow> 'w \<Rightarrow> http_response \<times> 'w" where
  "login h r w =
     (case decodeJSON login_fields \<lparr>lq_Email = [], lq_Password = []\<rparr> r of
        None \<Rightarrow> (invalid_body, w)
      | Some req \<Rightarrow>
          if lq_Email req = [] \<or> lq_Password req = [] then (http_Error 400 ''email and password are required'', w)
          else respond 200 login_json (cl_Login h req w))"

definition createDocument :: "'w clients \<Rightarrow> http_request \<Rightarrow> 'w \<Rightarrow> http_response \<times> 'w" where
  "createDocument h r w =
     (case decodeJSON document_fields
             \<lparr>db_OrganizationID = [], db_Type = [], db_Filename = [], db_ContentType = [], db_ContentBase64 = []\<rparr> r of
        None \<Rightarrow> (invalid_body, w)
      | Some req \<Rightarrow>
          let orgID = organizationID r (db_OrganizationID req)
          in if orgID = [] \<or> db_Type req = [] \<or> db_Filename req = [] \<or> db_ContentBase64 req = [] then
               (http_Error 400 ''organization_id, type, filename, and content_base64 are required'', w)
             else case StdDecode (db_ContentBase64 req) of
                    None \<Rightarrow> (http_Error 400 ''content_base64 must be valid base64'', w)
                  | Some content \<Rightarrow>
                      respond 201 document_json
                        (cl_CreateDocument h (withIdentityMetadata r orgID)
                           \<lparr>cd_OrganizationId = orgID, cd_Type = db_Type req, cd_Filename = db_Filename req,
                            cd_ContentType = db_ContentType req, cd_Content = content\<rparr> w))"

definition getDocument :: "'w clients \<Rightarrow> http_request \<Rightarrow> string \<Rightarrow> 'w \<Rightarrow> http_response \<times> 'w" where
  "getDocument h r i w =
     (let orgID = organizationID r (first_of (rq_Query r) ''organization_id'')
      in if orgID = [] then (http_Error 400 ''organization_id is required'', w)
         else respond 200 document_json
                (cl_GetDocument h (withIdentityMetadata r orgID) \<lparr>gd_OrganizationId = orgID, gd_Id = i\<rparr> w))"

definition uploadDocument_handler :: "'w clients \<Rightarrow> http_request \<Rightarrow> string \<Rightarrow> 'w \<Rightarrow> http_response \<times> 'w" where
  "uploadDocument_handler h r i w =
     (case decodeJSON upload_fields \<lparr>ub_Filename = [], ub_ContentType = [], ub_ContentBase64 = [], ub_IdempotencyKey = []\<rparr> r of
        None \<Rightarrow> (invalid_body, w)
      | Some req \<Rightarrow>
          let orgID = organizationID r (first_of (rq_Query r) ''organization_id'')
          in if orgID = [] \<or> ub_Filename req = [] \<or> ub_ContentBase64 req = [] then
               (http_Error 400 ''organization_id, filename, and content_base64 are required'', w)
             else case StdDecode (ub_ContentBase64 req) of
                    None \<Rightarrow> (http_Error 400 ''content_base64 must be valid base64'', w)
                  | Some content \<Rightarrow>
                      respond 202 upload_response_json
                        (cl_UploadDocument h (withIdentityMetadata r orgID)
                           \<lparr>ud_OrganizationId = orgID, ud_DocumentId = i, ud_Filename = ub_Filename req,
                            ud_ContentType = ub_ContentType req, ud_Content = content, ud_IdempotencyKey = ub_IdempotencyKey req\<rparr> w))"

definition getDocumentStatus_handler :: "'w clients \<Rightarrow> http_request \<Rightarrow> string \<Rightarrow> 'w \<Rightarrow> http_response \<times> 'w" where
  "getDocumentStatus_handler h r i w =
     (let orgID = organizationID r (first_of (rq_Query r) ''organization_id'')
      in if orgID = [] then (http_Error 400 ''organization_id is required'', w)
         else respond 200 status_json
                (cl_GetDocumentStatus h (withIdentityMetadata r orgID) \<lparr>gs_OrganizationId = orgID, gs_DocumentId = i\<rparr> w))"

definition startVerification :: "'w clients \<Rightarrow> http_request \<Rightarrow> 'w \<Rightarrow> http_response \<times> 'w" where
  "startVerification h r w =
     (case decodeJSON verification_fields \<lparr>sq_OrganizationId = [], sq_DocumentId = [], sq_Checks = []\<rparr> r of
        None \<Rightarrow> (invalid_body, w)
      | Some req0 \<Rightarrow>
          let req = req0\<lparr>sq_OrganizationId := organizationID r (sq_OrganizationId req0)\<rparr>
          in if sq_OrganizationId req = [] \<or> sq_DocumentId req = [] then
               (http_Error 400 ''organization_id and document_id are required'', w)
             else respond 202 verification_json (cl_StartVerification h req w))"

definition getVerification :: "'w clients \<Rightarrow> http_request \<Rightarrow> string \<Rightarrow> 'w \<Rightarrow> http_response \<times> 'w" where
  "getVerification h r i w =
     (let orgID = organizationID r (first_of (rq_Query r) ''organization_id'')
      in if orgID = [] then (http_Error 400 ''organization_id is required'', w)
         else respond 200 verification_json (cl_GetVerification h \<lparr>gv_OrganizationId = orgID, gv_Id = i\<rparr> w))"

end
