(* ===== verification/Rate_Limiter.thy ===== *)
theory Rate_Limiter
  imports Token_Bucket
begin

text \<open>
  The gateway's rate limiter (\<open>ratelimit/limiter.go\<close>): a token bucket per client. Its mutex makes every operation one
  step; the clock is an argument.
\<close>

record bucket =
  lb_tokens :: float64
  lb_seen :: time

record Limiter =
  li_rate :: float64
  li_burst :: float64
  li_clients :: "string \<rightharpoonup> bucket"

definition NewLimiter :: "'z float_runtime_scheme \<Rightarrow> int \<Rightarrow> int \<Rightarrow> Limiter" where
  "NewLimiter rt ratePerSecond burst =
     \<lparr>li_rate = float_of_int (round64 rt) ratePerSecond, li_burst = float_of_int (round64 rt) burst, li_clients = Map.empty\<rparr>"

definition Allow :: "'z float_runtime_scheme \<Rightarrow> time \<Rightarrow> string \<Rightarrow> Limiter \<Rightarrow> bool \<times> Limiter" where
  "Allow rt now key l =
     (case li_clients l key of
        None \<Rightarrow>
          (True, l\<lparr>li_clients := (li_clients l)(key \<mapsto> \<lparr>lb_tokens = fsub (round64 rt) (li_burst l) (Fin 1), lb_seen = now\<rparr>)\<rparr>)
      | Some b \<Rightarrow>
          let elapsed = duration_Seconds (round64 rt) (time_Sub now (lb_seen b));
              tokens = fmin (li_burst l) (fadd (round64 rt) (lb_tokens b) (fmul (round64 rt) elapsed (li_rate l)))
          in if fless tokens (Fin 1) then
               (False, l\<lparr>li_clients := (li_clients l)(key \<mapsto> \<lparr>lb_tokens = tokens, lb_seen = now\<rparr>)\<rparr>)
             else
               (True, l\<lparr>li_clients := (li_clients l)(key \<mapsto> \<lparr>lb_tokens = fsub (round64 rt) tokens (Fin 1), lb_seen = now\<rparr>)\<rparr>))"

definition Cleanup :: "time \<Rightarrow> duration \<Rightarrow> Limiter \<Rightarrow> Limiter" where
  "Cleanup now maxAge l =
     (let cutoff = now - maxAge
      in l\<lparr>li_clients := (\<lambda>key. case li_clients l key of
             None \<Rightarrow> None
           | Some b \<Rightarrow> if lb_seen b < cutoff then None else Some b)\<rparr>)"

subsection \<open>Exact arithmetic\<close>

text \<open>The limiter has rate \<open>r\<close> and burst \<open>b\<close>, and every bucket is between zero and the burst.\<close>

definition limiter_ok :: "'z float_runtime_scheme \<Rightarrow> rat \<Rightarrow> rat \<Rightarrow> time \<Rightarrow> Limiter \<Rightarrow> bool" where
  "limiter_ok rt r b t l \<longleftrightarrow> round64 rt = Fin \<and> 0 < r \<and> 1 \<le> b \<and> li_rate l = Fin r \<and> li_burst l = Fin b
     \<and> (\<forall>key bk. li_clients l key = Some bk \<longrightarrow> (\<exists>x. lb_tokens bk = Fin x \<and> 0 \<le> x \<and> x \<le> b) \<and> lb_seen bk \<le> t)"

fun client_budget :: "rat \<Rightarrow> rat \<Rightarrow> time \<Rightarrow> bucket option \<Rightarrow> rat" where
  "client_budget r b t None = b"
| "client_budget r b t (Some bk) = min b ((case lb_tokens bk of Fin x \<Rightarrow> x | _ \<Rightarrow> 0) + accrued r (lb_seen bk) t)"

datatype limiter_op = LAllow string | LCleanup

fun limiter_do :: "'z float_runtime_scheme \<Rightarrow> duration \<Rightarrow> string \<Rightarrow> limiter_op \<Rightarrow> time \<Rightarrow> Limiter \<Rightarrow> bool \<times> Limiter" where
  "limiter_do rt maxAge key (LAllow k) t l = (let (ok, l') = Allow rt t k l in (ok \<and> k = key, l'))"
| "limiter_do rt maxAge key LCleanup t l = (False, Cleanup t maxAge l)"

lemma NewLimiter_ok:
  "round64 rt = Fin \<Longrightarrow> 0 < rate \<Longrightarrow> 0 < burst \<Longrightarrow> limiter_ok rt (of_int rate) (of_int burst) t (NewLimiter rt rate burst)"
  by (simp add: limiter_ok_def NewLimiter_def float_of_int_def)

text \<open>The refill of a bucket, as \<open>Allow\<close> computes it.\<close>

lemma refill_exact:
  assumes "limiter_ok rt r b t l" and "li_clients l key = Some bk"
  obtains x y where "lb_tokens bk = Fin x" "0 \<le> y" "y \<le> client_budget r b t (Some bk)" "y \<le> b"
    "y = min b (x + of_int (time_Sub t (lb_seen bk)) / 1000000000 * r)"
    "fmin (li_burst l) (fadd (round64 rt) (lb_tokens bk)
       (fmul (round64 rt) (duration_Seconds (round64 rt) (time_Sub t (lb_seen bk))) (li_rate l))) = Fin y"
proof -
  obtain x where x: "lb_tokens bk = Fin x" "0 \<le> x" "x \<le> b" "lb_seen bk \<le> t" and ok: "round64 rt = Fin" "0 < r" "1 \<le> b"
    "li_rate l = Fin r" "li_burst l = Fin b"
    using assms unfolding limiter_ok_def by blast
  let ?e = "of_int (time_Sub t (lb_seen bk)) / 1000000000 * r"
  have "(of_int (time_Sub t (lb_seen bk)) :: rat) \<le> of_int (t - lb_seen bk)"
    using time_Sub_le [OF x(4)] by (simp only: of_int_le_iff)
  then have le: "?e \<le> accrued r (lb_seen bk) t" using ok(2) by (simp add: accrued_def mult.commute divide_right_mono)
  have nn: "0 \<le> ?e" using time_Sub_nonneg [OF x(4)] ok(2) by simp
  show thesis
    using x ok le nn
    by (intro that [of x "min b (x + ?e)"]) (auto simp: duration_Seconds_exact fmin_def)
qed

lemma Allow_spends:
  assumes "limiter_ok rt r b t l" and "Allow rt t k l = (ok, l')"
  shows "limiter_ok rt r b t l'
    \<and> client_budget r b t (li_clients l' key) + of_bool (ok \<and> k = key) \<le> client_budget r b t (li_clients l key)"
proof (cases "li_clients l k")
  case None
  have "l' = l\<lparr>li_clients := (li_clients l)(k \<mapsto> \<lparr>lb_tokens = Fin (b - 1), lb_seen = t\<rparr>)\<rparr>" "ok"
    using assms None by (auto simp: Allow_def limiter_ok_def fsub_def)
  with None assms(1) show ?thesis by (auto simp: limiter_ok_def accrued_def)
next
  case (Some bk)
  obtain x y where y: "0 \<le> y" "y \<le> client_budget r b t (Some bk)" "y \<le> b"
    "fmin (li_burst l) (fadd (round64 rt) (lb_tokens bk)
       (fmul (round64 rt) (duration_Seconds (round64 rt) (time_Sub t (lb_seen bk))) (li_rate l))) = Fin y"
    by (rule refill_exact [OF assms(1) Some]) blast
  have rnd: "round64 rt = Fin" using assms(1) by (simp add: limiter_ok_def)
  have l': "ok \<longleftrightarrow> 1 \<le> y"
    "l' = l\<lparr>li_clients := (li_clients l)(k \<mapsto> \<lparr>lb_tokens = Fin (if 1 \<le> y then y - 1 else y), lb_seen = t\<rparr>)\<rparr>"
    using assms(2) by (auto simp: Allow_def Some y(4) [unfolded rnd] fsub_def rnd Let_def split: if_splits)
  have "limiter_ok rt r b t l'" using assms(1) y(1,3) l'(2) by (auto simp: limiter_ok_def)
  moreover have "client_budget r b t (li_clients l' key) + of_bool (ok \<and> k = key) \<le> client_budget r b t (li_clients l key)"
    using y(2,3) Some l' by (auto simp: accrued_def)
  ultimately show ?thesis by blast
qed

lemma Cleanup_keeps:
  assumes "limiter_ok rt r b t l" and "b \<le> accrued r 0 maxAge"
  shows "limiter_ok rt r b t (Cleanup t maxAge l)
    \<and> client_budget r b t (li_clients (Cleanup t maxAge l) key) = client_budget r b t (li_clients l key)"
proof -
  have full: "client_budget r b t (Some bk) = b" if cl: "li_clients l key = Some bk" and old: "lb_seen bk < t - maxAge" for bk
  proof -
    obtain x where x: "lb_tokens bk = Fin x" "0 \<le> x" "0 < r" using assms(1) cl unfolding limiter_ok_def by blast
    have "accrued r 0 maxAge \<le> accrued r (lb_seen bk) t"
      using old x(3) by (simp add: accrued_def divide_right_mono mult_left_mono)
    then show ?thesis using x assms(2) by simp
  qed
  have "limiter_ok rt r b t (Cleanup t maxAge l)"
    using assms(1) by (auto simp: limiter_ok_def Cleanup_def Let_def split: option.splits if_splits)
  then show ?thesis using full by (cases "li_clients l key") (auto simp: Cleanup_def Let_def)
qed

lemma limiter_spends:
  assumes "limiter_ok rt r b t l \<and> b \<le> accrued r 0 maxAge" and "limiter_do rt maxAge key op t l = (ok, l')"
  shows "(limiter_ok rt r b t l' \<and> b \<le> accrued r 0 maxAge)
    \<and> client_budget r b t (li_clients l' key) + of_bool ok \<le> client_budget r b t (li_clients l key)"
proof (cases op)
  case (LAllow k)
  then show ?thesis using assms Allow_spends [of rt r b t l k _ l' key] by (auto split: prod.splits)
next
  case LCleanup
  then show ?thesis using assms Cleanup_keeps [of rt r b t l maxAge key] by auto
qed

lemma limiter_waits:
  assumes "limiter_ok rt r b t l" and "t \<le> t'"
  shows "limiter_ok rt r b t' l
    \<and> client_budget r b t' (li_clients l key) \<le> client_budget r b t (li_clients l key) + accrued r t t'"
proof -
  have "0 \<le> accrued r t t'" using assms by (simp add: limiter_ok_def accrued_nonneg)
  moreover have "limiter_ok rt r b t' l" using assms unfolding limiter_ok_def by fastforce
  ultimately show ?thesis
    using accrued_add [of r "lb_seen (the (li_clients l key))" t t'] by (cases "li_clients l key") (auto simp: min_def)
qed

lemma client_budget_nonneg: "limiter_ok rt r b t l \<Longrightarrow> 0 \<le> client_budget r b t (li_clients l key)"
proof (cases "li_clients l key")
  case (Some bk)
  assume ok: "limiter_ok rt r b t l"
  then obtain x where "lb_tokens bk = Fin x" "0 \<le> x" "lb_seen bk \<le> t" "0 < r" "1 \<le> b"
    using Some unfolding limiter_ok_def by blast
  then show ?thesis using Some by (auto intro!: add_nonneg_nonneg accrued_nonneg)
qed (simp add: limiter_ok_def)

interpretation limiter: token_bucket "limiter_do rt maxAge key" "\<lambda>t l. client_budget r b t (li_clients l key)"
  "\<lambda>t l. limiter_ok rt r b t l \<and> b \<le> accrued r 0 maxAge" r
proof (unfold_locales, goal_cases)
  case (1 t s op ok s')
  then show ?case by (rule limiter_spends)
next
  case (2 t s t')
  then show ?case using limiter_waits [of rt r b t s t' key] by simp
next
  case (3 t s)
  then show ?case using client_budget_nonneg [of rt r b t s key] by simp
qed


text \<open>
  A client recovers: once \<open>1 / rate\<close> seconds have passed since its last request, the
  next one is allowed, however many were refused before.
\<close>

theorem limiter_recovers:
  assumes "round64 rt = Fin" and "0 < rate" and "0 < burst" and "timed t0 xs t1"
    and "of_int burst \<le> of_int rate * of_int maxAge / (1000000000 :: rat)"
    and "run_ops (limiter_do rt maxAge client) xs (NewLimiter rt rate burst) = (n, l)" and "t1 \<le> now"
    and "\<And>bk. li_clients l client = Some bk \<Longrightarrow> 1000000000 \<le> rate * (now - lb_seen bk) \<and> now - lb_seen bk \<le> max_int64"
  shows "fst (Allow rt now client l)"
proof (cases "li_clients l client")
  case (Some bk)
  have "limiter_ok rt (of_int rate) (of_int burst) t0 (NewLimiter rt rate burst) \<and> of_int burst \<le> accrued (of_int rate) 0 maxAge"
    using NewLimiter_ok [OF assms(1-3)] assms(5) by (simp add: accrued_def)
  from limiter.run_admits [OF this assms(4,6)] have "limiter_ok rt (of_int rate) (of_int burst) t1 l" by blast
  with limiter_waits [OF _ assms(7)] have ok: "limiter_ok rt (of_int rate) (of_int burst) now l" by blast
  obtain x y where y: "lb_tokens bk = Fin x" "y = min (of_int burst) (x + of_int (time_Sub now (lb_seen bk)) / 1000000000 * of_int rate)"
    "fmin (li_burst l) (fadd (round64 rt) (lb_tokens bk)
       (fmul (round64 rt) (duration_Seconds (round64 rt) (time_Sub now (lb_seen bk))) (li_rate l))) = Fin y"
    by (rule refill_exact [OF ok Some]) blast
  have "0 \<le> x" "lb_seen bk \<le> now" using ok Some y(1) unfolding limiter_ok_def by fastforce+
  moreover have "time_Sub now (lb_seen bk) = now - lb_seen bk"
    using assms(8) [OF Some] \<open>lb_seen bk \<le> now\<close> by (simp add: time_Sub_def max_int64_def min_int64_def)
  moreover have "(1 :: rat) \<le> of_int (now - lb_seen bk) / 1000000000 * of_int rate"
  proof -
    have "(1000000000 :: int) \<le> rate * (now - lb_seen bk)" using assms(8) [OF Some] by simp
    then have "(of_int 1000000000 :: rat) \<le> of_int (rate * (now - lb_seen bk))" by (simp only: of_int_le_iff)
    then show ?thesis by (simp add: field_simps)
  qed
  ultimately have "1 \<le> y" using assms(3) y(2) by simp
  then show ?thesis by (simp add: Allow_def Some y(3) Let_def)
qed (simp add: Allow_def)

definition sample_requests :: "(time \<times> limiter_op) list" where
  "sample_requests = [(0, LAllow ''a''), (0, LAllow ''a''), (0, LAllow ''a''), (0, LCleanup)]"

lemma sample_requests_run:
  "run_ops (limiter_do sample_runtime (2 * second) ''a'') sample_requests (NewLimiter sample_runtime 1 2)
   = (2, \<lparr>li_rate = Fin 1, li_burst = Fin 2, li_clients = [''a'' \<mapsto> \<lparr>lb_tokens = Fin 0, lb_seen = 0\<rparr>]\<rparr>)"
  by (simp add: sample_requests_def NewLimiter_def Allow_def Cleanup_def float_of_int_def fsub_def fmin_def duration_Seconds_exact fun_eq_iff)


theorem limiter_recovers_witness:
  "fst (Allow sample_runtime second ''a'' \<lparr>li_rate = Fin 1, li_burst = Fin 2, li_clients = [''a'' \<mapsto> \<lparr>lb_tokens = Fin 0, lb_seen = 0\<rparr>]\<rparr>)"
  by (rule limiter_recovers [OF _ _ _ _ _ sample_requests_run, where ?t0.0 = 0 and ?t1.0 = 0])
    (simp_all add: sample_requests_def max_int64_def)

end
