(* ===== verification/Gateway_Metrics.thy ===== *)
theory Gateway_Metrics
  imports Go_Numeric "HOL-Library.Word" "HOL-Library.AList" "HOL-Library.List_Lexorder"
begin

text \<open>
  The gateway's metrics (\<open>observability/metrics.go\<close>): counters of 64 bits and, for every route, the first thousand
  latencies. The map of latencies is an association list, whose order the report does not depend on.
\<close>

record Metrics =
  gm_total :: "64 word"
  gm_errors :: "64 word"
  gm_latency :: "(string \<times> duration list) list"

definition NewMetrics :: Metrics where
  "NewMetrics = \<lparr>gm_total = 0, gm_errors = 0, gm_latency = []\<rparr>"

definition samples :: "Metrics \<Rightarrow> string \<Rightarrow> duration list" where
  "samples m route = (case map_of (gm_latency m) route of None \<Rightarrow> [] | Some ds \<Rightarrow> ds)"

definition Observe :: "string \<Rightarrow> int \<Rightarrow> duration \<Rightarrow> Metrics \<Rightarrow> Metrics" where
  "Observe route status d m =
     m\<lparr>gm_total := gm_total m + 1,
       gm_errors := (if 500 \<le> status then gm_errors m + 1 else gm_errors m),
       gm_latency := (if length (samples m route) < 1000 then AList.update route (samples m route @ [d]) (gm_latency m)
                      else gm_latency m)\<rparr>"

text \<open>
  The report. A sum of durations wraps around as \<open>int64\<close> does; the division is by a positive integer;
  \<open>%.6f\<close> is a parameter. Strings sort by their bytes.
\<close>

definition wrap64 :: "int \<Rightarrow> int" where
  "wrap64 i = (i + 2 ^ 63) mod 2 ^ 64 - 2 ^ 63"

definition fdiv_int :: "(rat \<Rightarrow> float64) \<Rightarrow> float64 \<Rightarrow> int \<Rightarrow> float64" where
  "fdiv_int rnd x n = (case x of Fin a \<Rightarrow> rnd (a / of_int n) | y \<Rightarrow> y)"

definition average :: "(rat \<Rightarrow> float64) \<Rightarrow> duration list \<Rightarrow> float64" where
  "average rnd ds =
     (let total = fold (\<lambda>d acc. wrap64 (acc + d)) ds 0
      in fdiv_int rnd (duration_Seconds rnd total) (int (length ds)))"

definition report_line :: "'z float_runtime_scheme \<Rightarrow> (float64 \<Rightarrow> string) \<Rightarrow> Metrics \<Rightarrow> string \<Rightarrow> string" where
  "report_line rt format6 m route =
     (let ds = samples m route
      in if ds = [] then []
         else ''doclens_gateway_request_latency_seconds_avg{route='' @ quote rt (filter (\<lambda>c. c \<noteq> CHR 0x22) route) @ [CHR 0x7D] @ '' ''
              @ format6 (average (round64 rt) ds) @ [CHR 0x0A])"

definition metrics_ServeHTTP :: "'z float_runtime_scheme \<Rightarrow> (float64 \<Rightarrow> string) \<Rightarrow> Metrics \<Rightarrow> string" where
  "metrics_ServeHTTP rt format6 m =
     ''doclens_gateway_requests_total '' @ show_nat (unat (gm_total m)) @ [CHR 0x0A]
     @ ''doclens_gateway_errors_total '' @ show_nat (unat (gm_errors m)) @ [CHR 0x0A]
     @ concat (map (report_line rt format6 m) (sort_key (map byte) (remdups (map fst (gm_latency m)))))"

subsection \<open>What the metrics keep\<close>

definition observed :: "string \<times> int \<times> duration \<Rightarrow> Metrics \<Rightarrow> Metrics" where
  "observed ob m = (case ob of (route, status, d) \<Rightarrow> Observe route status d m)"

lemma observed_Pair [simp]: "observed (route, status, d) m = Observe route status d m"
  by (simp add: observed_def)

lemma samples_Observe:
  "samples (Observe r st d m) route =
     (if route = r \<and> length (samples m r) < 1000 then samples m r @ [d] else samples m route)"
  by (auto simp: samples_def Observe_def update_conv split: option.splits)

lemma samples_fold:
  assumes "length (samples m route) \<le> 1000"
  shows "samples (fold observed obs m) route =
    take 1000 (samples m route @ map (\<lambda>(r, st, d). d) (filter (\<lambda>(r, st, d). r = route) obs))"
  using assms
proof (induction obs arbitrary: m)
  case (Cons ob obs)
  obtain r st d where ob: "ob = (r, st, d)" by (cases ob) auto
  have step: "length (samples (Observe r st d m) route) \<le> 1000" using Cons.prems by (simp add: samples_Observe)
  show ?case
  proof (cases "r = route \<and> length (samples m r) < 1000")
    case True
    then have "samples (Observe r st d m) route = samples m route @ [d]" by (auto simp: samples_Observe)
    then show ?thesis using Cons.IH [OF step] True by (simp add: ob del: take_append)
  next
    case False
    then show ?thesis using Cons.IH [OF step] Cons.prems by (auto simp: ob samples_Observe)
  qed
qed simp

lemma counters_fold:
  "gm_total (fold observed obs m) = gm_total m + of_nat (length obs)"
  "gm_errors (fold observed obs m) = gm_errors m + of_nat (length (filter (\<lambda>(r, st, d). 500 \<le> st) obs))"
  by (induction obs arbitrary: m) (auto simp: Observe_def)

text \<open>
  After any sequence of requests the metrics of a new gateway are exact: the counters
  hold the number of requests and of responses with a status of 500 or more, modulo \<open>2 ^ 64\<close>, and for every route the samples are
  the latencies of its first thousand requests, in order, and never more.
\<close>

theorem metrics_exact:
  "unat (gm_total (fold observed obs NewMetrics)) = length obs mod 2 ^ 64
   \<and> unat (gm_errors (fold observed obs NewMetrics)) = length (filter (\<lambda>(r, st, d). 500 \<le> st) obs) mod 2 ^ 64
   \<and> samples (fold observed obs NewMetrics) route = take 1000 (map (\<lambda>(r, st, d). d) (filter (\<lambda>(r, st, d). r = route) obs))"
  using samples_fold [of NewMetrics route obs] counters_fold [of obs NewMetrics]
  by (simp add: NewMetrics_def samples_def unat_of_nat)

end
