(* ===== verification/Gateway_Server.thy ===== *)
theory Gateway_Server
  imports Gateway_Handlers Rate_Limiter Gateway_Metrics
begin

text \<open>
  The gateway's server (\<open>httpapi/server.go\<close>): the routing to the handlers and the middleware around it, with the rate
  limiter, the verification of tokens and the metrics. The deadline that the middleware gives a request acts through the
  clients' answers. The logger writes to the process's output only.
\<close>

record Server =
  gs_metrics :: Metrics
  gs_secret :: bytes
  gs_authDisabled :: bool
  gs_limiter :: "Limiter option"

record Deps =
  dp_Metrics :: "Metrics option"
  dp_JWTSecret :: string
  dp_AuthDisabled :: bool
  dp_RateLimiter :: "Limiter option"

definition NewServer :: "Deps \<Rightarrow> Server" where
  "NewServer deps =
     \<lparr>gs_metrics = (case dp_Metrics deps of None \<Rightarrow> NewMetrics | Some m \<Rightarrow> m), gs_secret = dp_JWTSecret deps,
      gs_authDisabled = dp_AuthDisabled deps, gs_limiter = dp_RateLimiter deps\<rparr>"

text \<open>
  What the middleware reads of the clock in a request: at its start, in the limiter, in the verifier and at its end;
  and the parameters of the report of the metrics.
\<close>

record gateway_env =
  ge_start :: time
  ge_stamp :: time
  ge_allow :: time
  ge_verify :: time
  ge_end :: time
  ge_format6 :: "float64 \<Rightarrow> string"

definition plain_text :: "int \<Rightarrow> string \<Rightarrow> http_response" where
  "plain_text status body = \<lparr>rs_Status = status, rs_ContentType = ''text/plain; charset=utf-8'', rs_Body = body @ [CHR 0x0A]\<rparr>"

fun serve_route ::
  "'z auth_runtime_scheme \<Rightarrow> gateway_env \<Rightarrow> 'w clients \<Rightarrow> Server \<Rightarrow> route \<Rightarrow> string list \<Rightarrow> http_request \<Rightarrow> 'w \<Rightarrow> http_response \<times> 'w" where
  "serve_route rt env h s RHealth vs r w = (health, w)"
| "serve_route rt env h s RReady vs r w = (ready h w, w)"
| "serve_route rt env h s RMetrics vs r w =
     (\<lparr>rs_Status = 200, rs_ContentType = ''text/plain; version=0.0.4'', rs_Body = metrics_ServeHTTP rt (ge_format6 env) (gs_metrics s)\<rparr>, w)"
| "serve_route rt env h s RLogin vs r w = login h r w"
| "serve_route rt env h s RCreateUser vs r w = createUser h r w"
| "serve_route rt env h s RCreateDocument vs r w = createDocument h r w"
| "serve_route rt env h s RGetDocument vs r w = getDocument h r (hd vs) w"
| "serve_route rt env h s RUploadDocument vs r w = uploadDocument_handler h r (hd vs) w"
| "serve_route rt env h s RDocumentStatus vs r w = getDocumentStatus_handler h r (hd vs) w"
| "serve_route rt env h s RStartVerification vs r w = startVerification h r w"
| "serve_route rt env h s RGetVerification vs r w = getVerification h r (hd vs) w"

definition serve_mux ::
  "'z auth_runtime_scheme \<Rightarrow> gateway_env \<Rightarrow> 'w clients \<Rightarrow> Server \<Rightarrow> http_request \<Rightarrow> 'w \<Rightarrow> http_response \<times> 'w" where
  "serve_mux rt env h s r w =
     (case mux_handler r of
        Found ro vs \<Rightarrow> serve_route rt env h s ro vs r w
      | MethodNotAllowed \<Rightarrow> (plain_text 405 ''Method Not Allowed'', w)
      | NoRoute \<Rightarrow> (plain_text 404 ''404 page not found'', w)
      | Redirect p \<Rightarrow> (\<lparr>rs_Status = 301, rs_ContentType = ''text/html; charset=utf-8'', rs_Body = p\<rparr>, w))"

definition finish :: "gateway_env \<Rightarrow> http_request \<Rightarrow> int \<Rightarrow> Server \<Rightarrow> Server" where
  "finish env r status s =
     s\<lparr>gs_metrics := Observe (rq_Method r @ '' '' @ rq_Path r) status (ge_end env - ge_start env) (gs_metrics s)\<rparr>"

definition limited :: "'z auth_runtime_scheme \<Rightarrow> gateway_env \<Rightarrow> http_request \<Rightarrow> Server \<Rightarrow> bool \<times> Server" where
  "limited rt env r s =
     (case gs_limiter s of
        None \<Rightarrow> (False, s)
      | Some l \<Rightarrow> (case Allow rt (ge_allow env) (clientIP r) l of (ok, l') \<Rightarrow> (\<not> ok, s\<lparr>gs_limiter := Some l'\<rparr>)))"

definition authenticate :: "'z auth_runtime_scheme \<Rightarrow> gateway_env \<Rightarrow> Server \<Rightarrow> http_request \<Rightarrow> http_request option" where
  "authenticate rt env s r =
     (if gs_authDisabled s \<or> \<not> requiresAuth r then Some r
      else case VerifyBearer rt (gs_secret s) (ge_verify env) (first_of (rq_Header r) ''Authorization'') of
             Inl _ \<Rightarrow> None
           | Inr claims \<Rightarrow> Some (WithClaims claims r))"

text \<open>The response comes with the request identifier that is set as its \<open>X-Request-ID\<close>.\<close>

definition middleware ::
  "'z auth_runtime_scheme \<Rightarrow> gateway_env \<Rightarrow> 'w clients \<Rightarrow> http_request \<Rightarrow> Server \<times> 'w \<Rightarrow> (string \<times> http_response) \<times> Server \<times> 'w" where
  "middleware rt env h r st =
     (let rid = requestID rt (ge_stamp env) r;
          (refused, s) = limited rt env r (fst st)
      in if refused then
           let resp = http_Error 429 ''rate limit exceeded'' in ((rid, resp), finish env r (rs_Status resp) s, snd st)
         else case authenticate rt env s r of
                None \<Rightarrow> let resp = http_Error 401 ''unauthorized'' in ((rid, resp), finish env r (rs_Status resp) s, snd st)
              | Some r' \<Rightarrow>
                  let (resp, w) = serve_mux rt env h s r' (snd st) in ((rid, resp), finish env r' (rs_Status resp) s, w))"

text \<open>A request enters the middleware without claims in its context.\<close>

fun serve_all ::
  "'z auth_runtime_scheme \<Rightarrow> 'w clients \<Rightarrow> (gateway_env \<times> http_request) list \<Rightarrow> Server \<times> 'w \<Rightarrow> Server \<times> 'w" where
  "serve_all rt h [] st = st"
| "serve_all rt h ((env, r) # rs) st = serve_all rt h rs (snd (middleware rt env h (r\<lparr>rq_Claims := None\<rparr>) st))"

subsection \<open>Public routes\<close>

lemma url_unescape_sep:
  "url_unescape (a @ CHR ''/'' # b) = Some p \<Longrightarrow>
   \<exists>u v. url_unescape a = Some u \<and> url_unescape b = Some v \<and> p = u @ CHR ''/'' # v"
proof (induction a arbitrary: p rule: url_unescape.induct)
  case (2 c s)
  show ?case
  proof (cases "c = CHR ''%''")
    case True
    have slash: "hex_value CHR ''/'' = None" by (simp add: hex_value_def byte_def)
    obtain x y t where s: "s = x # y # t"
      using "2.prems" True slash by (cases s; cases "tl s") (auto split: option.splits list.splits)
    with "2.prems" True obtain i j where ij: "hex_value x = Some i" "hex_value y = Some j"
      by (auto split: option.splits)
    with s True "2.prems" obtain q where "url_unescape (t @ CHR ''/'' # b) = Some q" "p = char_of (i * 16 + j) # q" by auto
    with "2.IH"(1) [OF True s refl refl ij] s True ij show ?thesis by fastforce
  next
    case False
    with "2.prems" obtain q where "url_unescape (s @ CHR ''/'' # b) = Some q" "p = c # q" by auto
    with "2.IH"(2) [OF False] False show ?thesis by fastforce
  qed
qed auto

lemma unescape_Join:
  "url_unescape (Join ss ''/'') = Some p \<Longrightarrow> p = Join (map (\<lambda>s. case url_unescape s of Some u \<Rightarrow> u | None \<Rightarrow> s) ss) ''/''"
proof (induction ss arbitrary: p rule: induct_list012)
  case (3 x y zs)
  then obtain u v where uv: "url_unescape x = Some u" "url_unescape (Join (y # zs) ''/'') = Some v" "p = u @ CHR ''/'' # v"
    using url_unescape_sep [of x "Join (y # zs) ''/''" p] by auto
  with "3.IH"(2) [OF uv(2)] show ?case by simp
qed simp_all

text \<open>The decoded path is the joined segments the patterns are matched with.\<close>

lemma path_segments:
  assumes "url_unescape (rq_EscapedPath r) = Some p" and "rq_EscapedPath r = CHR ''/'' # q"
  shows "rq_Path r = CHR ''/'' # Join (segments (rq_EscapedPath r)) ''/''"
proof -
  obtain u where "url_unescape q = Some u" "p = CHR ''/'' # u" using assms by auto
  with unescape_Join [of "Split q CHR ''/''" u] assms show ?thesis
    by (simp add: rq_Path_def segments_def Join_Split)
qed

lemma clean_path_rooted: "\<exists>q. clean_path p = CHR ''/'' # q"
proof -
  let ?p1 = "if p = [] then ''/'' else if hd p \<noteq> CHR ''/'' then CHR ''/'' # p else p"
  have "rooted ?p1" by (cases p) (auto simp: rooted_Cons)
  then have "\<exists>t. filepath_Clean ?p1 = CHR ''/'' # t" by (simp add: filepath_Clean_def Let_def)
  then show ?thesis by (auto simp: clean_path_def Let_def)
qed

lemma match_segments_simps [simp]:
  "match_segments (Lit l # ps) ss = Some vs \<longleftrightarrow> (\<exists>t. ss = l # t \<and> match_segments ps t = Some vs)"
  "match_segments (Wild # ps) ss = Some vs \<longleftrightarrow> (\<exists>x t us. ss = x # t \<and> x \<noteq> [] \<and> match_segments ps t = Some us \<and> vs = x # us)"
  "match_segments [] ss = Some vs \<longleftrightarrow> ss = [] \<and> vs = []"
  by (cases ss; auto)+

text \<open>A request is routed by one of the registered patterns, and only when its path starts with a slash.\<close>

lemma mux_Found:
  assumes "mux_handler r = Found ro vs"
  obtains m pat q where "(m, pat, ro) \<in> set routes" "method_matches m (rq_Method r)"
    "match_segments pat (segments (rq_EscapedPath r)) = Some vs" "rq_EscapedPath r = CHR ''/'' # q"
proof -
  have f: "find_route (rq_Method r) (segments (rq_EscapedPath r)) = Some (ro, vs)"
    and c: "rq_Method r = ''CONNECT'' \<or> clean_path (rq_EscapedPath r) = rq_EscapedPath r"
    using assms by (auto simp: mux_handler_def Let_def split: if_splits option.splits)
  obtain m pat where x: "(m, pat, ro) \<in> set routes" "method_matches m (rq_Method r)"
    "match_segments pat (segments (rq_EscapedPath r)) = Some vs"
    using f by (fastforce simp: find_route_def find_Some_iff in_set_conv_nth split: option.splits)
  moreover have "rq_Method r \<noteq> ''CONNECT''" using x(1,2) by (auto simp: routes_def method_matches_def)
  then obtain q where "rq_EscapedPath r = CHR ''/'' # q" using c clean_path_rooted by metis
  ultimately show thesis using that by blast
qed

lemma public_route:
  assumes "\<not> requiresAuth r" and "mux_handler r = Found ro vs"
  shows "ro \<in> {RHealth, RReady, RMetrics, RLogin}"
proof -
  obtain m pat q where x: "(m, pat, ro) \<in> set routes" "method_matches m (rq_Method r)"
    "match_segments pat (segments (rq_EscapedPath r)) = Some vs" "rq_EscapedPath r = CHR ''/'' # q"
    using mux_Found [OF assms(2)] .
  have "rq_Path r \<in> {''/healthz'', ''/readyz'', ''/metrics'', ''/identity/login''}"
    using assms(1) by (auto simp: requiresAuth_def split: if_splits)
  moreover from this have "url_unescape (rq_EscapedPath r) \<noteq> None"
    by (cases "url_unescape (rq_EscapedPath r)") (auto simp: rq_Path_def)
  then obtain p where "url_unescape (rq_EscapedPath r) = Some p" by blast
  note path_segments [OF this x(4)]
  ultimately show ?thesis using x(1,3) by (auto simp: routes_def)
qed

subsection \<open>What the middleware does\<close>

text \<open>The routing does not look at the claims.\<close>

lemma mux_handler_claims [simp]: "mux_handler (r\<lparr>rq_Claims := c\<rparr>) = mux_handler r"
  by (simp add: mux_handler_def Let_def)

lemma limited_keeps: "limited rt env r s = (b, s') \<Longrightarrow> gs_secret s' = gs_secret s \<and> gs_authDisabled s' = gs_authDisabled s"
  by (auto simp: limited_def split: option.splits prod.splits)

lemma finish_keeps [simp]:
  "gs_secret (finish env r status s) = gs_secret s" "gs_authDisabled (finish env r status s) = gs_authDisabled s"
  by (simp_all add: finish_def)

lemma middleware_cases:
  assumes "middleware rt env h r (s, w) = ((rid, resp), s', w')"
  obtains (refused) "w' = w" "resp = http_Error 429 ''rate limit exceeded''" "gs_limiter s \<noteq> None"
    | (unauthorized) "w' = w" "resp = http_Error 401 ''unauthorized''" "requiresAuth r" "\<not> gs_authDisabled s"
        "\<not> is_ok (VerifyBearer rt (gs_secret s) (ge_verify env) (first_of (rq_Header r) ''Authorization''))"
    | (public) s1 where "serve_mux rt env h s1 r w = (resp, w')" "gs_authDisabled s \<or> \<not> requiresAuth r"
    | (verified) s1 claims where "serve_mux rt env h s1 (r\<lparr>rq_Claims := Some claims\<rparr>) w = (resp, w')"
        "requiresAuth r" "\<not> gs_authDisabled s"
        "VerifyBearer rt (gs_secret s) (ge_verify env) (first_of (rq_Header r) ''Authorization'') = Inr claims"
proof -
  obtain b s1 where l: "limited rt env r s = (b, s1)" by fastforce
  note k = limited_keeps [OF l]
  show thesis
  proof (cases b)
    case True
    then show thesis using assms l refused by (auto simp: middleware_def limited_def Let_def split: option.splits)
  next
    case False
    show thesis
    proof (cases "gs_authDisabled s \<or> \<not> requiresAuth r")
      case True
      then show thesis using assms l False k public by (auto simp: middleware_def authenticate_def Let_def split: prod.splits)
    next
      case needs: False
      show thesis
        using assms l False k needs unauthorized verified
        by (cases "VerifyBearer rt (gs_secret s) (ge_verify env) (first_of (rq_Header r) ''Authorization'')")
          (auto simp: middleware_def authenticate_def is_ok_iff Let_def split: prod.splits)
    qed
  qed
qed

lemma middleware_keeps:
  "middleware rt env h r (s, w) = (x, s', w') \<Longrightarrow> gs_secret s' = gs_secret s \<and> gs_authDisabled s' = gs_authDisabled s"
  by (cases "limited rt env r s")
    (auto simp: middleware_def Let_def dest: limited_keeps split: prod.splits if_splits option.splits)

text \<open>
  Property C3. The authentication gate. While authentication is on, a request whose bearer token does not verify is answered
  401 or 429 and changes nothing behind the gateway, unless it is routed to the health check, the readiness check, the
  metrics or the login; and of these only the login reaches a service's state. Encoded and unclean paths are no way around it.
\<close>

theorem auth_gate:
  assumes "\<not> gs_authDisabled s"
    and "\<not> is_ok (VerifyBearer rt (gs_secret s) (ge_verify env) (first_of (rq_Header r) ''Authorization''))"
    and "middleware rt env h r (s, w) = ((rid, resp), s', w')"
  shows "(rs_Status resp \<in> {401, 429} \<and> w' = w)
    \<or> (\<exists>ro vs. mux_handler r = Found ro vs \<and> ro \<in> {RHealth, RReady, RMetrics} \<and> w' = w)
    \<or> (\<exists>vs. mux_handler r = Found RLogin vs \<and> (resp, w') = login h r w)
    \<or> (\<forall>ro vs. mux_handler r \<noteq> Found ro vs) \<and> w' = w"
  using assms(3)
proof (cases rule: middleware_cases)
  case (public s1)
  with assms(1) have na: "\<not> requiresAuth r" by simp
  show ?thesis
  proof (cases "mux_handler r")
    case (Found ro vs)
    from public_route [OF na Found] show ?thesis using public(1) Found by (auto simp: serve_mux_def)
  qed (use public in \<open>auto simp: serve_mux_def\<close>)
qed (use assms(1,2) in \<open>auto simp: http_Error_def WriteJSON_def is_ok_iff\<close>)

end
