(* ===== verification/Gateway_Forwarding.thy ===== *)
theory Gateway_Forwarding
  imports Gateway_Server
begin

text \<open>
  What reaches the Document Intake service from a client's HTTP request, and what the client learns of an upstream error.
\<close>

subsection \<open>Documents and uploads\<close>

text \<open>The bodies a client writes, in the encoding of \<open>Go_Json\<close>.\<close>

definition document_body_json :: "document_body \<Rightarrow> json" where
  "document_body_json b =
     JObj [(''organization_id'', JStr (db_OrganizationID b)), (''type'', JStr (db_Type b)), (''filename'', JStr (db_Filename b)),
       (''content_type'', JStr (db_ContentType b)), (''content_base64'', JStr (db_ContentBase64 b))]"

definition upload_body_json :: "upload_request_body \<Rightarrow> json" where
  "upload_body_json b =
     JObj [(''filename'', JStr (ub_Filename b)), (''content_type'', JStr (ub_ContentType b)),
       (''content_base64'', JStr (ub_ContentBase64 b)), (''idempotency_key'', JStr (ub_IdempotencyKey b))]"

lemma StdEncode_ascii: "is_ascii (StdEncode s)"
proof -
  have "list_all (\<lambda>c. byte c < 128) std_alphabet" by (simp add: std_alphabet_def byte_def)
  then show ?thesis
    using encode64_alphabet [OF good_std, of s] by (auto simp: StdEncode_def is_ascii_def list_all_iff byte_def)
qed

lemma StdEncode_Nil_iff [simp]: "StdEncode s = [] \<longleftrightarrow> s = []"
proof -
  have "StdEncode [] = []" by (simp add: StdEncode_def)
  then show ?thesis by (metis Std_roundtrip option.inject)
qed

lemma decode_document_body:
  assumes "rq_Body r = enc_json (document_body_json b) @ t" and "at_end t"
  shows "decodeJSON document_fields
      \<lparr>db_OrganizationID = [], db_Type = [], db_Filename = [], db_ContentType = [], db_ContentBase64 = []\<rparr> r
    = Some \<lparr>db_OrganizationID = to_valid (db_OrganizationID b), db_Type = to_valid (db_Type b),
        db_Filename = to_valid (db_Filename b), db_ContentType = to_valid (db_ContentType b),
        db_ContentBase64 = to_valid (db_ContentBase64 b)\<rparr>"
proof -
  have "json_Decode (rq_Body r) = Some (valid_json (document_body_json b))"
    unfolding assms(1) by (rule Decode_enc_json [OF _ assms(2)]) (simp add: document_body_json_def)
  then show ?thesis
    by (simp add: decodeJSON_def document_body_json_def to_valid_ascii is_ascii_def byte_def set_struct_def document_fields_def
        find_field_def set_string_def)
qed

lemma decode_upload_body:
  assumes "rq_Body r = enc_json (upload_body_json b) @ t" and "at_end t"
  shows "decodeJSON upload_fields \<lparr>ub_Filename = [], ub_ContentType = [], ub_ContentBase64 = [], ub_IdempotencyKey = []\<rparr> r
    = Some \<lparr>ub_Filename = to_valid (ub_Filename b), ub_ContentType = to_valid (ub_ContentType b),
        ub_ContentBase64 = to_valid (ub_ContentBase64 b), ub_IdempotencyKey = to_valid (ub_IdempotencyKey b)\<rparr>"
proof -
  have "json_Decode (rq_Body r) = Some (valid_json (upload_body_json b))"
    unfolding assms(1) by (rule Decode_enc_json [OF _ assms(2)]) (simp add: upload_body_json_def)
  then show ?thesis
    by (simp add: decodeJSON_def upload_body_json_def to_valid_ascii is_ascii_def byte_def set_struct_def upload_fields_def
        find_field_def set_string_def)
qed

definition user_body_json :: "CreateUserRequest \<Rightarrow> json" where
  "user_body_json u =
     JObj [(''organization_id'', JStr (cr_OrganizationId u)), (''email'', JStr (cr_Email u)), (''password'', JStr (cr_Password u)),
       (''roles'', JArr (map JStr (cr_Roles u)))]"

lemma decode_user_body:
  assumes "rq_Body r = enc_json (user_body_json u) @ t" and "at_end t"
  shows "decodeJSON user_fields \<lparr>cr_OrganizationId = [], cr_Email = [], cr_Password = [], cr_Roles = []\<rparr> r
    = Some \<lparr>cr_OrganizationId = to_valid (cr_OrganizationId u), cr_Email = to_valid (cr_Email u),
        cr_Password = to_valid (cr_Password u), cr_Roles = map to_valid (cr_Roles u)\<rparr>"
proof -
  have "json_Decode (rq_Body r) = Some (valid_json (user_body_json u))"
    unfolding assms(1) by (rule Decode_enc_json [OF _ assms(2)]) (simp add: user_body_json_def list_all_iff)
  moreover have "get_strings [] (map (valid_json \<circ> JStr) rs) = Some (map to_valid rs)" for rs
    using get_strings_JStr [of "[]" "map to_valid rs"] by (simp add: comp_def)
  ultimately show ?thesis
    by (simp add: decodeJSON_def user_body_json_def to_valid_ascii is_ascii_def byte_def set_struct_def user_fields_def
        find_field_def set_string_def set_strings_def)
qed

definition claims_metadata :: "Claims \<Rightarrow> metadata" where
  "claims_metadata c =
     md_Pairs [(''x-organization-id'', c_OrganizationID c), (''x-user-id'', c_Subject c), (''x-roles'', Join (c_Roles c) '','')]"

lemma withIdentityMetadata_claims [simp]: "withIdentityMetadata (r\<lparr>rq_Claims := Some c\<rparr>) org = claims_metadata c"
  by (simp add: withIdentityMetadata_def claims_metadata_def)

lemma organizationID_claims [simp]:
  "organizationID (r\<lparr>rq_Claims := Some c\<rparr>) fb = (if c_OrganizationID c \<noteq> [] then c_OrganizationID c else fb)"
  by (simp add: organizationID_def)

text \<open>
  A request that the middleware lets through is answered by the handler of its route, with the verified claims.
\<close>

lemma middleware_route:
  assumes "limited rt env r s = (False, s1)" and "\<not> gs_authDisabled s" and "requiresAuth r"
    and "VerifyBearer rt (gs_secret s) (ge_verify env) (first_of (rq_Header r) ''Authorization'') = Inr claims"
    and "mux_handler r = Found ro vs"
  shows "(snd (fst (middleware rt env h r (s, w))), snd (snd (middleware rt env h r (s, w))))
    = serve_route rt env h s1 ro vs (r\<lparr>rq_Claims := Some claims\<rparr>) w"
proof -
  show ?thesis
    using assms limited_keeps [OF assms(1)]
    by (simp add: middleware_def authenticate_def serve_mux_def Let_def split: prod.splits)
qed

lemma createDocument_forwards:
  assumes "rq_Body r = enc_json (document_body_json (b\<lparr>db_ContentBase64 := StdEncode content\<rparr>)) @ t" and "at_end t"
    and "c_OrganizationID claims \<noteq> []" and "to_valid (db_Type b) \<noteq> []" and "to_valid (db_Filename b) \<noteq> []" and "content \<noteq> []"
  shows "createDocument h (r\<lparr>rq_Claims := Some claims\<rparr>) w = respond 201 document_json (cl_CreateDocument h (claims_metadata claims)
           \<lparr>cd_OrganizationId = c_OrganizationID claims, cd_Type = to_valid (db_Type b), cd_Filename = to_valid (db_Filename b),
            cd_ContentType = to_valid (db_ContentType b), cd_Content = content\<rparr> w)"
proof -
  let ?r = "r\<lparr>rq_Claims := Some claims\<rparr>"
  have "rq_Body ?r = enc_json (document_body_json (b\<lparr>db_ContentBase64 := StdEncode content\<rparr>)) @ t" using assms(1) by simp
  from decode_document_body [OF this assms(2)] show ?thesis
    using assms(3-6) by (simp add: createDocument_def to_valid_ascii [OF StdEncode_ascii])
qed

lemma uploadDocument_forwards:
  assumes "rq_Body r = enc_json (upload_body_json (b\<lparr>ub_ContentBase64 := StdEncode content\<rparr>)) @ t" and "at_end t"
    and "c_OrganizationID claims \<noteq> []" and "to_valid (ub_Filename b) \<noteq> []" and "content \<noteq> []"
  shows "uploadDocument_handler h (r\<lparr>rq_Claims := Some claims\<rparr>) i w =
    respond 202 upload_response_json (cl_UploadDocument h (claims_metadata claims)
           \<lparr>ud_OrganizationId = c_OrganizationID claims, ud_DocumentId = i, ud_Filename = to_valid (ub_Filename b),
            ud_ContentType = to_valid (ub_ContentType b), ud_Content = content, ud_IdempotencyKey = to_valid (ub_IdempotencyKey b)\<rparr> w)"
proof -
  let ?r = "r\<lparr>rq_Claims := Some claims\<rparr>"
  have "rq_Body ?r = enc_json (upload_body_json (b\<lparr>ub_ContentBase64 := StdEncode content\<rparr>)) @ t" using assms(1) by simp
  from decode_upload_body [OF this assms(2)] show ?thesis
    using assms(3-5) by (simp add: uploadDocument_handler_def to_valid_ascii [OF StdEncode_ascii])
qed

text \<open>
  Property C21. A document arrives intact and under the caller's own organization. When a client with a verified token posts a
  document with the JSON body of its fields and the base64 text of its content, the Document Intake service is called with exactly
  these bytes as content, with the organization of the token whatever organization the body names, and with the subject and the
  roles of the token in the metadata.
\<close>

theorem document_forwarded:
  assumes "limited rt env r s = (False, s1)" and "\<not> gs_authDisabled s" and "requiresAuth r"
    and "VerifyBearer rt (gs_secret s) (ge_verify env) (first_of (rq_Header r) ''Authorization'') = Inr claims"
    and "mux_handler r = Found RCreateDocument []"
    and "rq_Body r = enc_json (document_body_json (b\<lparr>db_ContentBase64 := StdEncode content\<rparr>)) @ t" and "at_end t"
    and "c_OrganizationID claims \<noteq> []" and "to_valid (db_Type b) \<noteq> []" and "to_valid (db_Filename b) \<noteq> []" and "content \<noteq> []"
  shows "(snd (fst (middleware rt env h r (s, w))), snd (snd (middleware rt env h r (s, w))))
    = respond 201 document_json
        (cl_CreateDocument h (claims_metadata claims)
           \<lparr>cd_OrganizationId = c_OrganizationID claims, cd_Type = to_valid (db_Type b), cd_Filename = to_valid (db_Filename b),
            cd_ContentType = to_valid (db_ContentType b), cd_Content = content\<rparr> w)"
  unfolding middleware_route [OF assms(1-5)] serve_route.simps by (rule createDocument_forwards [OF assms(6-11)])

text \<open>
  The same of an upload: the bytes, the document identifier of the path and the idempotency key arrive as sent,
  under the organization of the token.
\<close>

theorem upload_forwarded:
  assumes "limited rt env r s = (False, s1)" and "\<not> gs_authDisabled s" and "requiresAuth r"
    and "VerifyBearer rt (gs_secret s) (ge_verify env) (first_of (rq_Header r) ''Authorization'') = Inr claims"
    and "mux_handler r = Found RUploadDocument [i]"
    and "rq_Body r = enc_json (upload_body_json (b\<lparr>ub_ContentBase64 := StdEncode content\<rparr>)) @ t" and "at_end t"
    and "c_OrganizationID claims \<noteq> []" and "to_valid (ub_Filename b) \<noteq> []" and "content \<noteq> []"
  shows "(snd (fst (middleware rt env h r (s, w))), snd (snd (middleware rt env h r (s, w))))
    = respond 202 upload_response_json
        (cl_UploadDocument h (claims_metadata claims)
           \<lparr>ud_OrganizationId = c_OrganizationID claims, ud_DocumentId = i, ud_Filename = to_valid (ub_Filename b),
            ud_ContentType = to_valid (ub_ContentType b), ud_Content = content, ud_IdempotencyKey = to_valid (ub_IdempotencyKey b)\<rparr> w)"
  unfolding middleware_route [OF assms(1-5)] serve_route.simps list.sel by (rule uploadDocument_forwards [OF assms(6-10)])

subsection \<open>Errors\<close>

lemma writeUpstreamError_status:
  "rs_Status (writeUpstreamError e) \<in> {400, 401, 403, 404, 408, 409, 502, 503, 504}"
  by (cases e) (auto simp: writeUpstreamError_def status_response_def http_Error_def WriteJSON_def split: code.split)

lemma respond_success:
  assumes "respond status body x = (resp, w')" and "rs_Status resp < 400"
  shows "\<exists>v. x = (Inr v, w') \<and> resp = WriteJSON status (body v)"
proof (cases "fst x")
  case (Inl e)
  with assms writeUpstreamError_status [of e] show ?thesis by (auto simp: respond_def split: prod.splits)
qed (use assms in \<open>auto simp: respond_def split: prod.splits\<close>)

lemma http_Error_status [simp]: "rs_Status (http_Error st msg) = st"
  by (simp add: http_Error_def WriteJSON_def)

lemma invalid_body_status [simp]: "rs_Status invalid_body = 400"
  by (simp add: invalid_body_def)


subsection \<open>A concrete gateway\<close>

definition sample_proto_doc :: ProtoDocument where
  "sample_proto_doc = \<lparr>pd_Id = ''doc_1'', pd_OrganizationId = ''acme'', pd_Type = ''invoice'', pd_Filename = ''a.pdf'',
     pd_ContentType = [], pd_Status = ''uploaded'', pd_CreatedAt = [], pd_Uploads = []\<rparr>"

text \<open>Services that count their calls.\<close>

definition unreachable :: "nat \<Rightarrow> (call_error + 'a) \<times> nat" where
  "unreachable n = (Inl (GrpcStatus (Status Unavailable ''connection refused'')), n)"

definition sample_clients :: "nat clients" where
  "sample_clients =
     \<lparr>cl_CreateUser = (\<lambda>_. unreachable), cl_Login = (\<lambda>_. unreachable),
      cl_CreateDocument = (\<lambda>_ _ n. (Inr sample_proto_doc, Suc n)), cl_GetDocument = (\<lambda>_ _ n. (Inr sample_proto_doc, n)),
      cl_UploadDocument = (\<lambda>_ req n. (Inr \<lparr>ur_UploadId = ''upl_1'', ur_DocumentId = ud_DocumentId req, ur_StorageRef = [], ur_Checksum = []\<rparr>, Suc n)),
      cl_GetDocumentStatus = (\<lambda>_ _. unreachable), cl_StartVerification = (\<lambda>_. unreachable),
      cl_GetVerification = (\<lambda>_. unreachable), cl_HealthChecks = []\<rparr>"

definition sample_server :: Server where
  "sample_server = NewServer \<lparr>dp_Metrics = None, dp_JWTSecret = ''secret'', dp_AuthDisabled = False, dp_RateLimiter = None\<rparr>"

definition sample_gateway_env :: gateway_env where
  "sample_gateway_env = \<lparr>ge_start = 0, ge_stamp = 0, ge_allow = 0, ge_verify = 0, ge_end = 1, ge_format6 = (\<lambda>_. [])\<rparr>"

definition sample_claims :: Claims where
  "sample_claims = \<lparr>c_Subject = ''usr_1'', c_OrganizationID = ''acme'', c_Roles = [''member''], c_ExpiresAt = 0\<rparr>"

definition sample_post :: "string \<Rightarrow> string \<Rightarrow> string \<Rightarrow> http_request" where
  "sample_post path authorization body =
     \<lparr>rq_Method = ''POST'', rq_EscapedPath = path, rq_Query = [], rq_Header = [(''Authorization'', authorization)], rq_Body = body,
      rq_RemoteAddr = ''10.0.0.1:999'', rq_Claims = None\<rparr>"

lemma sample_claims_org [simp]: "c_OrganizationID sample_claims = ''acme''"
  by (simp add: sample_claims_def)

definition sample_bearer :: string where
  "sample_bearer = ''Bearer '' @ sign sample_auth_runtime ''secret'' sample_claims"

lemma sample_server_simps [simp]:
  "gs_secret sample_server = ''secret''" "\<not> gs_authDisabled sample_server"
  "limited rt env r sample_server = (False, sample_server)"
  by (simp_all add: sample_server_def NewServer_def limited_def)

lemma sample_post_simps [simp]:
  "first_of (rq_Header (sample_post path a body)) ''Authorization'' = a" "rq_Body (sample_post path a body) = body"
  "rq_Path (sample_post path a body) = (case url_unescape path of Some p \<Rightarrow> p | None \<Rightarrow> path)"
  "rq_Method (sample_post path a body) = ''POST''" "rq_EscapedPath (sample_post path a body) = path"
  by (simp_all add: sample_post_def first_of_def rq_Path_def split: option.split)

lemma sample_verifies [simp]: "VerifyBearer sample_auth_runtime ''secret'' now sample_bearer = Inr sample_claims"
  unfolding sample_bearer_def
  by (subst VerifyBearer_sign)
    (simp_all add: sample_claims_def in_int64_def check_claims_def valid_claims_def to_valid_ascii is_ascii_def byte_def)

lemma sample_route [simp]:
  "mux_handler (sample_post ''/documents'' a body) = Found RCreateDocument []"
  "mux_handler (sample_post ''/documents/doc_1/uploads'' a body) = Found RUploadDocument [''doc_1'']"
proof -
  have "clean_path ''/documents'' = ''/documents''" "find_route ''POST'' (segments ''/documents'') = Some (RCreateDocument, [])"
    "clean_path ''/documents/doc_1/uploads'' = ''/documents/doc_1/uploads''"
    "find_route ''POST'' (segments ''/documents/doc_1/uploads'') = Some (RUploadDocument, [''doc_1''])"
    by code_simp+
  then show "mux_handler (sample_post ''/documents'' a body) = Found RCreateDocument []"
    "mux_handler (sample_post ''/documents/doc_1/uploads'' a body) = Found RUploadDocument [''doc_1'']"
    by (simp_all add: mux_handler_def)
qed

lemma sample_requires [simp]:
  "requiresAuth (sample_post ''/documents'' a body)" "requiresAuth (sample_post ''/documents/doc_1/uploads'' a body)"
  by (simp_all add: requiresAuth_def)

definition sample_document_body :: document_body where
  "sample_document_body = \<lparr>db_OrganizationID = ''other'', db_Type = ''invoice'', db_Filename = ''a.pdf'', db_ContentType = [],
     db_ContentBase64 = StdEncode ''data''\<rparr>"

theorem document_forwarded_witness:
  "snd (snd (middleware sample_auth_runtime sample_gateway_env sample_clients
     (sample_post ''/documents'' sample_bearer (enc_json (document_body_json sample_document_body))) (sample_server, 0))) = 1"
proof -
  have "(snd (fst (middleware sample_auth_runtime sample_gateway_env sample_clients
      (sample_post ''/documents'' sample_bearer (enc_json (document_body_json sample_document_body))) (sample_server, 0))),
    snd (snd (middleware sample_auth_runtime sample_gateway_env sample_clients
      (sample_post ''/documents'' sample_bearer (enc_json (document_body_json sample_document_body))) (sample_server, 0))))
    = respond 201 document_json (cl_CreateDocument sample_clients (claims_metadata sample_claims)
        \<lparr>cd_OrganizationId = c_OrganizationID sample_claims, cd_Type = to_valid (db_Type sample_document_body),
         cd_Filename = to_valid (db_Filename sample_document_body), cd_ContentType = to_valid (db_ContentType sample_document_body),
         cd_Content = ''data''\<rparr> 0)"
    by (rule document_forwarded [where t = "[]" and ?s1.0 = sample_server])
      (simp_all add: sample_document_body_def at_end_def to_valid_ascii is_ascii_def byte_def)
  then show ?thesis by (simp add: respond_def sample_clients_def)
qed

definition sample_upload_body :: upload_request_body where
  "sample_upload_body = \<lparr>ub_Filename = ''a.pdf'', ub_ContentType = [], ub_ContentBase64 = StdEncode ''data'', ub_IdempotencyKey = ''k''\<rparr>"

theorem upload_forwarded_witness:
  "snd (snd (middleware sample_auth_runtime sample_gateway_env sample_clients
     (sample_post ''/documents/doc_1/uploads'' sample_bearer (enc_json (upload_body_json sample_upload_body))) (sample_server, 0))) = 1"
proof -
  have "(snd (fst (middleware sample_auth_runtime sample_gateway_env sample_clients
      (sample_post ''/documents/doc_1/uploads'' sample_bearer (enc_json (upload_body_json sample_upload_body))) (sample_server, 0))),
    snd (snd (middleware sample_auth_runtime sample_gateway_env sample_clients
      (sample_post ''/documents/doc_1/uploads'' sample_bearer (enc_json (upload_body_json sample_upload_body))) (sample_server, 0))))
    = respond 202 upload_response_json (cl_UploadDocument sample_clients (claims_metadata sample_claims)
        \<lparr>ud_OrganizationId = c_OrganizationID sample_claims, ud_DocumentId = ''doc_1'', ud_Filename = to_valid (ub_Filename sample_upload_body),
         ud_ContentType = to_valid (ub_ContentType sample_upload_body), ud_Content = ''data'',
         ud_IdempotencyKey = to_valid (ub_IdempotencyKey sample_upload_body)\<rparr> 0)"
    by (rule upload_forwarded [where t = "[]" and ?s1.0 = sample_server])
      (simp_all add: sample_upload_body_def at_end_def to_valid_ascii is_ascii_def byte_def)
  then show ?thesis by (simp add: respond_def sample_clients_def)
qed

theorem auth_gate_witness:
  "snd (snd (middleware sample_auth_runtime sample_gateway_env sample_clients
     (sample_post ''/documents'' [] (enc_json (document_body_json sample_document_body))) (sample_server, 0))) = 0"
proof -
  let ?r = "sample_post ''/documents'' [] (enc_json (document_body_json sample_document_body))"
  obtain rid resp s' w' where m: "middleware sample_auth_runtime sample_gateway_env sample_clients ?r (sample_server, 0) = ((rid, resp), s', w')"
    by (metis prod.collapse)
  have "VerifyBearer sample_auth_runtime ''secret'' (ge_verify sample_gateway_env) [] = Inl ''missing bearer token''"
    by (simp add: VerifyBearer_def HasPrefix_def)
  with auth_gate [OF _ _ m] m show ?thesis by (auto simp: is_ok_iff)
qed


end
