(* ===== verification/Verification_Stub.thy ===== *)
theory Verification_Stub
  imports Gateway_Handlers
begin

text \<open>
  The verification service of the local stack (\<open>cmd/verification-stub/main.go\<close>): both methods are unimplemented. The
  service description that \<open>main\<close> registers decodes a request and calls the method; the decoders are gRPC's, so parameters.
\<close>

definition stub_unimplemented :: status_error where
  "stub_unimplemented = Status Unimplemented ''verification service is not implemented in this local stack''"

definition stub_StartVerification :: "StartVerificationRequest \<Rightarrow> Verification rpc_result" where
  "stub_StartVerification req = Inl stub_unimplemented"

definition stub_GetVerification :: "GetVerificationRequest \<Rightarrow> Verification rpc_result" where
  "stub_GetVerification req = Inl stub_unimplemented"

definition stub_handler :: "('r \<Rightarrow> Verification rpc_result) \<Rightarrow> (bytes \<Rightarrow> status_error + 'r) \<Rightarrow> bytes \<Rightarrow> Verification rpc_result" where
  "stub_handler run decoder message = (case decoder message of Inl err \<Rightarrow> Inl err | Inr req \<Rightarrow> run req)"

definition stub_methods ::
  "(bytes \<Rightarrow> status_error + StartVerificationRequest) \<Rightarrow> (bytes \<Rightarrow> status_error + GetVerificationRequest)
     \<Rightarrow> (string \<times> (bytes \<Rightarrow> Verification rpc_result)) list" where
  "stub_methods decodeStart decodeGet =
     [(''StartVerification'', stub_handler stub_StartVerification decodeStart),
      (''GetVerification'', stub_handler stub_GetVerification decodeGet)]"

lemma stub_never_answers:
  assumes "(name, method) \<in> set (stub_methods decodeStart decodeGet)"
  shows "\<exists>err. method message = Inl err
    \<and> (err = stub_unimplemented \<or> decodeStart message = Inl err \<or> decodeGet message = Inl err)"
  using assms
  by (auto simp: stub_methods_def stub_handler_def stub_StartVerification_def stub_GetVerification_def split: sum.splits)

end
