(* ===== verification/Identity_Accounts.thy ===== *)
theory Identity_Accounts
  imports Identity_Service
begin

text \<open>
  What the Identity service promises, over any store that satisfies \<open>user_store\<close>: accounts are never changed, a login
  succeeds only with the account's password and yields a token for that account, and a user that was
  created can log in.
\<close>

subsection \<open>Over any store\<close>

context user_store
begin

definition served :: "'s Identity \<Rightarrow> bool" where
  "served s \<longleftrightarrow> id_store s = ops \<and> invar (id_db s)"

lemma CreateUser_keeps:
  assumes "served s" and "fresh (id_db s) (identity_newID rt ''usr'' (ie_rand env 1) (ie_now env 0))"
    and "CreateUser rt env req s = (r, s')"
  shows "served s' \<and> (accounts (id_db s) e = Some v \<longrightarrow> accounts (id_db s') e = Some v)
    \<and> (fresh (id_db s) i \<longrightarrow> i \<noteq> identity_newID rt ''usr'' (ie_rand env 1) (ie_now env 0) \<longrightarrow> fresh (id_db s') i)"
  using assms(3)
proof (cases rule: CreateUser_cases)
  case (asked email h x db)
  note call = asked(4) [unfolded assms(1) [unfolded served_def, THEN conjunct1]]
  have inv: "invar (id_db s)" using assms(1) by (simp add: served_def)
  have "invar db"
    using create_invar [OF inv _ call] assms(2) by simp
  then show ?thesis
    using create_keeps [OF inv _ call] fresh_law [OF inv call] assms(1,2) asked(5) by (auto simp: served_def)
qed (use assms(1) in auto)

lemma Login_keeps:
  assumes "served s" and "Login rt env req s = (r, s')"
  shows "served s' \<and> accounts (id_db s') = accounts (id_db s) \<and> (fresh (id_db s) i \<longrightarrow> fresh (id_db s') i)"
  using assms(2)
proof (cases rule: Login_cases)
  case (checked email user token e db)
  with save_law [of "id_db s"] assms(1) show ?thesis by (auto simp: served_def)
qed (use assms(1) in auto)

lemma run_keeps:
  assumes "served s" and "distinct (new_ids rt cs) \<or> (\<forall>s i. fresh s i)" and "\<forall>i \<in> set (new_ids rt cs). fresh (id_db s) i"
    and "accounts (id_db s) e = Some v"
  shows "accounts (id_db (run_identity rt cs s)) e = Some v"
  using assms
proof (induction rt cs arbitrary: s rule: new_ids.induct)
  case (2 rt env req cs)
  obtain r s' where c: "CreateUser rt env req s = (r, s')" by fastforce
  have new: "fresh (id_db s) (identity_newID rt ''usr'' (ie_rand env 1) (ie_now env 0))" using "2.prems"(3) by simp
  from CreateUser_keeps [OF "2.prems"(1) new c] "2.prems" have "served s'" "accounts (id_db s') e = Some v"
    "\<forall>i \<in> set (new_ids rt cs). fresh (id_db s') i" by auto
  moreover have "distinct (new_ids rt cs) \<or> (\<forall>s i. fresh s i)" using "2.prems"(2) by auto
  ultimately show ?case using "2.IH" [of s'] c by simp
next
  case (3 rt env req cs)
  obtain r s' where c: "Login rt env req s = (r, s')" by fastforce
  from Login_keeps [OF "3.prems"(1) c] "3.prems" have "served s'" "accounts (id_db s') e = Some v"
    "\<forall>i \<in> set (new_ids rt cs). fresh (id_db s') i" by auto
  with "3.IH" [of s'] "3.prems"(2) c show ?case by simp
qed simp

lemma Login_sound:
  assumes "served s" and "Login rt env req s = (Inr resp, s')"
  shows "\<exists>email u. normalizeEmail rt (lq_Email req) = Some email \<and> accounts (id_db s) (norm email) = Some u
    \<and> \<not> us_Disabled u \<and> VerifyPassword rt (us_PasswordHash u) (lq_Password req) \<and> lr_User resp = toProtoUser rt u
    \<and> lr_AccessToken resp = AccessToken rt (id_secret s) (ie_now env 0) (us_ID u) (us_OrganizationID u) (us_Roles u) (id_accessTokenTTL s)"
  using assms(2)
proof (cases rule: Login_cases)
  case (checked email user token e db)
  then have "accounts (id_db s) (norm email) = Some user" using assms(1) lookup_law by (simp add: served_def)
  with checked show ?thesis by (auto simp: is_ok_iff)
qed simp

end

subsection \<open>Over a store that answers\<close>

text \<open>\<open>available s tok\<close> says that the store in the state \<open>s\<close> answers a login and can save its refresh token \<open>tok\<close>.\<close>

locale available_store = user_store ops norm accounts invar fresh
  for ops :: "'s identity_iface" and norm :: "string \<Rightarrow> string" and accounts :: "'s \<Rightarrow> string \<rightharpoonup> User"
    and invar :: "'s \<Rightarrow> bool" and fresh :: "'s \<Rightarrow> string \<Rightarrow> bool" +
  fixes available :: "'s \<Rightarrow> RefreshTokenRecord \<Rightarrow> bool"
  assumes lookup_available: "available s tok \<Longrightarrow> accounts s (norm email) = Some v \<Longrightarrow> is_UserByEmail ops email s = Inr v"
    and save_available: "available s tok \<Longrightarrow> accounts s e = Some v \<Longrightarrow> tk_UserID tok = us_ID v \<Longrightarrow>
      fst (is_SaveRefreshToken ops tok s) = None"
begin

text \<open>The login of an account with its password succeeds.\<close>

lemma Login_available:
  assumes "id_store s = ops" and "normalizeEmail rt (lq_Email req) = Some email" and "lq_Password req \<noteq> []"
    and "accounts (id_db s) (norm email) = Some u" and "\<not> us_Disabled u" and "VerifyPassword rt (us_PasswordHash u) (lq_Password req)"
    and "ie_rand env 0 = Inr bs"
    and "available (id_db s) \<lparr>tk_Token = RawURLEncode bs, tk_UserID = us_ID u, tk_ExpiresAt = ie_now env 1 + id_refreshTokenTTL s,
        tk_CreatedAt = ie_now env 1\<rparr>"
  shows "\<exists>resp s'. Login rt env req s = (Inr resp, s') \<and> lr_User resp = toProtoUser rt u
    \<and> lr_AccessToken resp = AccessToken rt (id_secret s) (ie_now env 0) (us_ID u) (us_OrganizationID u) (us_Roles u) (id_accessTokenTTL s)"
proof -
  have look: "is_UserByEmail ops email (id_db s) = Inr u" by (rule lookup_available [OF assms(8,4)])
  obtain db where "is_SaveRefreshToken ops \<lparr>tk_Token = RawURLEncode bs, tk_UserID = us_ID u,
      tk_ExpiresAt = ie_now env 1 + id_refreshTokenTTL s, tk_CreatedAt = ie_now env 1\<rparr> (id_db s) = (None, db)"
    using save_available [OF assms(8,4)] by (cases "is_SaveRefreshToken ops \<lparr>tk_Token = RawURLEncode bs, tk_UserID = us_ID u,
      tk_ExpiresAt = ie_now env 1 + id_refreshTokenTTL s, tk_CreatedAt = ie_now env 1\<rparr> (id_db s)") auto
  with assms(1-3,5-7) look show ?thesis by (simp add: Login_def RefreshToken_def Let_def)
qed

end

text \<open>The memory store always answers; PostgreSQL if no statement of the call fails and the token is new.\<close>

interpretation mem_av: available_store "memory_identity rt" "store_normalizeEmail rt" memory_accounts memory_invar
  "\<lambda>m i. usersByID m i = None" "\<lambda>_ _. True"
  by unfold_locales
    (auto simp: memory_identity_def mem_UserByEmail_def memory_accounts_def mem_SaveRefreshToken_def split: option.splits)

definition pg_available :: "'z runtime_scheme \<Rightarrow> Postgres \<Rightarrow> RefreshTokenRecord \<Rightarrow> bool" where
  "pg_available rt s tok \<longleftrightarrow>
     (\<forall>k. ip_fault s (ip_calls s) k = None) \<and> hashToken rt (tk_Token tok) \<notin> tk_Token ` set (it_tokens (ip_tables s))"

interpretation pg_av: available_store "postgres_identity rt" "store_normalizeEmail rt" postgres_accounts postgres_wf "\<lambda>_ _. True"
  "pg_available rt"
proof (unfold_locales, goal_cases)
  case (1 s tok email v)
  then show ?case by (simp add: pg_available_def postgres_identity_def pg_UserByEmail_def postgres_accounts_def)
next
  case (2 s tok e v)
  then have "v \<in> set (it_users (ip_tables s))" by (auto simp: postgres_accounts_def find_Some_iff)
  with 2 show ?case
    by (auto simp: pg_available_def postgres_identity_def pg_SaveRefreshToken_def id_tx_def insert_token_def list_ex_iff image_iff)
qed

subsection \<open>On the two stores\<close>

text \<open>
  Property C16. Accounts are never changed. Whatever users the service on PostgreSQL creates and whatever logins it
  serves, and whatever statements the database fails, the account of an email keeps its identifier, organization, password hash
  and roles.
\<close>

theorem accounts_never_change:
  assumes "id_store s = postgres_identity rt" and "postgres_wf (id_db s)" and "postgres_accounts (id_db s) e = Some v"
  shows "postgres_accounts (id_db (run_identity rt cs s)) e = Some v"
  by (rule pg_id.run_keeps) (use assms in \<open>simp_all add: pg_id.served_def\<close>)

text \<open>
  Property C15. A login succeeds only for an account that is not disabled and with a password its hash accepts, and the
  access token it returns is issued for exactly that account: its identifier, its organization and its roles.
\<close>

theorem login_sound:
  assumes "id_store s = memory_identity rt" and "memory_invar (id_db s)" and "Login rt env req s = (Inr resp, s')"
  shows "\<exists>email u. normalizeEmail rt (lq_Email req) = Some email
    \<and> memory_accounts (id_db s) (store_normalizeEmail rt email) = Some u
    \<and> \<not> us_Disabled u \<and> VerifyPassword rt (us_PasswordHash u) (lq_Password req) \<and> lr_User resp = toProtoUser rt u
    \<and> lr_AccessToken resp = AccessToken rt (id_secret s) (ie_now env 0) (us_ID u) (us_OrganizationID u) (us_Roles u) (id_accessTokenTTL s)"
  by (rule mem_id.Login_sound [OF _ assms(3)]) (use assms(1,2) in \<open>simp add: mem_id.served_def\<close>)

lemma login_after_create:
  assumes "id_store s = memory_identity rt" and "CreateUser rt env req s = (Inr user, s')" and "ie_rand env' 0 = Inr bs"
  shows "\<exists>resp s''. Login rt env' \<lparr>lq_Email = cr_Email req, lq_Password = cr_Password req\<rparr> s' = (Inr resp, s'')
    \<and> lr_User resp = user
    \<and> lr_AccessToken resp = AccessToken rt (id_secret s) (ie_now env' 0) (pr_Id user) (pr_OrganizationId user) (pr_Roles user) (id_accessTokenTTL s)"
  using assms(2)
proof (cases rule: CreateUser_cases)
  case (asked email h x db)
  from asked(6) obtain v where v: "x = Inr v" "user = toProtoUser rt v" using asked(7) by (auto simp: is_ok_iff)
  let ?u = "created_user rt env req email h"
  have db: "mem_CreateUser rt (ie_now env 2) ?u (id_db s) = (Inr v, db)"
    using asked(4) assms(1) v(1) by (simp add: memory_identity_def)
  have v': "v = dated (ie_now env 2) (?u\<lparr>us_Email := store_normalizeEmail rt email\<rparr>)"
    using db by (auto simp: mem_CreateUser_def created_user_def Let_def split: option.splits)
  have ok: "\<not> us_Disabled v" "us_PasswordHash v = h" by (simp_all add: v' dated_def created_user_def Let_def)
  have hash: "VerifyPassword rt h (cr_Password req)" "cr_Password req \<noteq> []"
    using asked(3) VerifyPassword_hash by (auto simp: HashPassword_def split: if_splits sum.splits)
  have "id_store s' = memory_identity rt" "memory_accounts (id_db s') (store_normalizeEmail rt email) = Some v"
    using assms(1) asked(5) db by (auto simp: mem_CreateUser_def memory_accounts_def created_user_def Let_def split: option.splits)
  from mem_av.Login_available [OF this(1) _ _ this(2), of rt "\<lparr>lq_Email = cr_Email req, lq_Password = cr_Password req\<rparr>" env' bs]
    asked(2,5) assms(3) ok hash v(2) show ?thesis by (auto simp: toProtoUser_def)
qed simp

text \<open>
  Property C17. A user that has been created can log in: with the email and the password of the creation, whenever
  the random source works, the login succeeds and returns the user the creation returned and a token for it.
\<close>

theorem create_then_login:
  assumes "id_store s = memory_identity rt" and "CreateUser rt env req s = (Inr user, s')" and "ie_rand env' 0 = Inr bs"
  shows "\<exists>resp s''. Login rt env' \<lparr>lq_Email = cr_Email req, lq_Password = cr_Password req\<rparr> s' = (Inr resp, s'')
    \<and> lr_User resp = user
    \<and> lr_AccessToken resp = AccessToken rt (id_secret s) (ie_now env' 0) (pr_Id user) (pr_OrganizationId user) (pr_Roles user) (id_accessTokenTTL s)"
  by (rule login_after_create [OF assms])

text \<open>
  The check of the organization looks at the text as sent, but the trimmed text is stored: a blank organization
  passes, and the user that is created belongs to the empty organization.
\<close>

theorem blank_organization_accepted:
  assumes "id_store s = memory_identity rt" and "TrimSpace (cr_OrganizationId req) = []" and "cr_OrganizationId req \<noteq> []"
    and "normalizeEmail rt (cr_Email req) = Some email" and "HashPassword rt (ie_rand env 0) (cr_Password req) = Inr h"
    and "userIDByEmail (id_db s) (store_normalizeEmail rt email) = None"
  shows "\<exists>user. fst (CreateUser rt env req s) = Inr user \<and> pr_OrganizationId user = []"
  using assms by (simp add: CreateUser_def memory_identity_def mem_CreateUser_def created_user_def toProtoUser_def dated_def Let_def)

subsection \<open>A concrete service\<close>

definition sample_identity_env :: identity_env where
  "sample_identity_env = \<lparr>ie_now = (\<lambda>n. int n), ie_rand = (\<lambda>n. Inr [char_of (65 + n)])\<rparr>"

definition sample_identity :: "Memory Identity" where
  "sample_identity = NewIdentity (memory_identity sample_auth_runtime) NewMemory ''secret'' (15 * minute) (60 * minute)"

definition sample_user_request :: "string \<Rightarrow> CreateUserRequest" where
  "sample_user_request org = \<lparr>cr_OrganizationId = org, cr_Email = ''ada@x.y'', cr_Password = ''difference engine'', cr_Roles = [''Member '']\<rparr>"

definition sample_user :: ProtoUser where
  "sample_user = \<lparr>pr_Id = ''usr_42'', pr_OrganizationId = ''acme'', pr_Email = ''ada@x.y'', pr_Roles = [''member''], pr_Disabled = False,
     pr_CreatedAt = ''1''\<rparr>"

definition sample_identity_created :: "Memory Identity" where
  "sample_identity_created = snd (CreateUser sample_auth_runtime sample_identity_env (sample_user_request ''acme'') sample_identity)"

lemma sample_CreateUser:
  "fst (CreateUser sample_auth_runtime sample_identity_env (sample_user_request ''acme'') sample_identity) = Inr sample_user"
  by code_simp

lemma sample_identity_store: "id_store sample_identity = memory_identity sample_auth_runtime"
  by (simp add: sample_identity_def NewIdentity_def)

lemma sample_created: "CreateUser sample_auth_runtime sample_identity_env (sample_user_request ''acme'') sample_identity = (Inr sample_user, sample_identity_created)"
  using sample_CreateUser by (simp add: sample_identity_created_def prod_eq_iff)

theorem create_then_login_witness:
  "\<exists>resp s'. Login sample_auth_runtime sample_identity_env \<lparr>lq_Email = ''ada@x.y'', lq_Password = ''difference engine''\<rparr> sample_identity_created = (Inr resp, s')
    \<and> lr_User resp = sample_user"
proof -
  show ?thesis
    using create_then_login [OF sample_identity_store sample_created, of sample_identity_env "[char_of (65 :: nat)]"]
    by (auto simp: sample_identity_env_def sample_user_request_def)
qed

lemma sample_identity_created_invar: "memory_invar (id_db sample_identity_created) \<and> id_store sample_identity_created = memory_identity sample_auth_runtime"
proof -
  have "memory_invar (id_db sample_identity) \<and> usersByID (id_db sample_identity) i = None" for i
    by (simp add: sample_identity_def NewIdentity_def memory_invar_new) (simp add: NewMemory_def)
  then show ?thesis
    using mem_id.CreateUser_keeps [OF _ _ sample_created] sample_identity_store unfolding mem_id.served_def by blast
qed

theorem login_sound_witness:
  "\<exists>resp u. fst (Login sample_auth_runtime sample_identity_env \<lparr>lq_Email = ''ada@x.y'', lq_Password = ''difference engine''\<rparr> sample_identity_created) = Inr resp
    \<and> memory_accounts (id_db sample_identity_created) ''ada@x.y'' = Some u \<and> lr_User resp = toProtoUser sample_auth_runtime u"
proof -
  obtain resp s' where l: "Login sample_auth_runtime sample_identity_env \<lparr>lq_Email = ''ada@x.y'', lq_Password = ''difference engine''\<rparr> sample_identity_created = (Inr resp, s')"
    using login_after_create [OF sample_identity_store sample_created, of sample_identity_env "[char_of (65 :: nat)]"]
    by (auto simp: sample_identity_env_def sample_user_request_def)
  have n: "normalizeEmail sample_auth_runtime ''ada@x.y'' = Some ''ada@x.y''" "store_normalizeEmail sample_auth_runtime ''ada@x.y'' = ''ada@x.y''"
    by code_simp+
  from login_sound [OF _ _ l] sample_identity_created_invar n l show ?thesis by auto
qed

theorem blank_organization_accepted_witness:
  "\<exists>user. fst (CreateUser sample_auth_runtime sample_identity_env (sample_user_request '' '') sample_identity) = Inr user \<and> pr_OrganizationId user = []"
proof -
  have "TrimSpace '' '' = []" "normalizeEmail sample_auth_runtime ''ada@x.y'' = Some ''ada@x.y''"
    "HashPassword sample_auth_runtime (Inr [char_of (65 :: nat)]) ''difference engine'' = Inr ''sha256$QQ$AAAAAAAAAAAAAAAAAAAAAAAAAAAAAAAAAAAAAAAAAAA''"
    by code_simp+
  then show ?thesis
    by (intro blank_organization_accepted [OF sample_identity_store])
      (simp_all add: sample_user_request_def sample_identity_env_def sample_identity_def NewIdentity_def NewMemory_def)
qed

definition sample_account :: User where
  "sample_account = \<lparr>us_ID = ''usr_1'', us_OrganizationID = ''acme'', us_Email = ''ada@x.y'', us_PasswordHash = ''sha256$a$b'',
     us_Roles = [''member''], us_Disabled = False, us_CreatedAt = 0\<rparr>"

definition sample_pg_identity :: "Postgres Identity" where
  "sample_pg_identity = NewIdentity (postgres_identity sample_auth_runtime)
     \<lparr>ip_tables = \<lparr>it_users = [sample_account], it_tokens = []\<rparr>, ip_calls = 0, ip_fault = (\<lambda>_ _. None)\<rparr> ''secret'' minute minute"

theorem accounts_never_change_witness:
  "postgres_accounts (id_db (run_identity sample_auth_runtime
      [(sample_identity_env, CallCreateUser (sample_user_request ''evil''))] sample_pg_identity)) ''ada@x.y'' = Some sample_account"
  by (rule accounts_never_change)
    (simp_all add: sample_pg_identity_def NewIdentity_def postgres_wf_def postgres_accounts_def sample_account_def)

end
