(* ===== verification/System.thy ===== *)
theory System
  imports Gateway_Forwarding Verification_Stub Identity_Accounts Intake_Memory Intake_Postgres
begin

text \<open>
  The services wired together: the gateway's clients call the Identity service, the Document Intake service and the verification
  stub over gRPC (\<open>grpcclient/clients.go\<close> and the services' \<open>main.go\<close>). What gRPC does to a call is a parameter: a call may fail before
  it reaches the service, its answer may be lost after the service has acted, and the metadata arrives as the transport delivers it.
\<close>

subsection \<open>Calls over gRPC\<close>

record ('u, 's, 'o) world =
  wo_identity :: "'u Identity"
  wo_intake :: "('s, 'o) Service"
  wo_calls :: nat

text \<open>The transport and the services' environments, by the number of the call.\<close>

record transport =
  tp_fault :: "nat \<Rightarrow> call_error option"
  tp_lost :: "nat \<Rightarrow> call_error option"
  tp_deliver :: "metadata \<Rightarrow> metadata option"
  tp_serving :: "string \<Rightarrow> nat \<Rightarrow> bool"
  tp_intake_env :: "nat \<Rightarrow> call_env"
  tp_identity_env :: "nat \<Rightarrow> identity_env"

text \<open>
  gRPC delivers the values of a call's metadata as they were attached, or fails the call; it may add keys of its own.
\<close>

definition faithful :: "transport \<Rightarrow> bool" where
  "faithful tp \<longleftrightarrow> (\<forall>md md' k. tp_deliver tp md = Some md' \<longrightarrow> k \<in> {''x-organization-id'', ''x-roles''} \<longrightarrow> md_Get md' k = md_Get md k)"

definition over_grpc ::
  "transport \<Rightarrow> (('u, 's, 'o) world \<Rightarrow> ('a rpc_result \<times> ('u, 's, 'o) world) option) \<Rightarrow> ('u, 's, 'o) world
   \<Rightarrow> (call_error + 'a) \<times> ('u, 's, 'o) world" where
  "over_grpc tp serve w =
     (let n = wo_calls w; w1 = w\<lparr>wo_calls := Suc n\<rparr>
      in case tp_fault tp n of
           Some err \<Rightarrow> (Inl err, w1)
         | None \<Rightarrow>
             (case serve w1 of
                None \<Rightarrow> (Inl (GrpcStatus (Status DeadlineExceeded ''context deadline exceeded'')), w1)
              | Some (result, w2) \<Rightarrow>
                  (case tp_lost tp n of Some err \<Rightarrow> (Inl err, w2) | None \<Rightarrow> (map_sum GrpcStatus id result, w2))))"

definition serve_intake ::
  "'z float_runtime_scheme \<Rightarrow> transport \<Rightarrow> metadata \<Rightarrow> intake_call \<Rightarrow> ('u, 's, 'o) world
   \<Rightarrow> (intake_reply rpc_result \<times> ('u, 's, 'o) world) option" where
  "serve_intake rt tp md call w =
     (case tp_deliver tp md of
        None \<Rightarrow> Some (Inl (Status Internal ''invalid metadata''), w)
      | Some ctx \<Rightarrow>
          map_option (map_prod id (\<lambda>s. w\<lparr>wo_intake := s\<rparr>))
            (intake_serve rt (tp_intake_env tp (wo_calls w - 1)) (Some ctx) call (wo_intake w)))"

definition serve_identity ::
  "'z auth_runtime_scheme \<Rightarrow> transport \<Rightarrow> identity_call \<Rightarrow> ('u, 's, 'o) world
   \<Rightarrow> (identity_reply rpc_result \<times> ('u, 's, 'o) world) option" where
  "serve_identity rt tp call w =
     Some (map_prod id (\<lambda>s. w\<lparr>wo_identity := s\<rparr>)
       (identity_handle rt (tp_identity_env tp (wo_calls w - 1)) call (wo_identity w)))"

text \<open>A client stub takes the reply of its method.\<close>

definition expect :: "('b \<Rightarrow> 'a option) \<Rightarrow> (call_error + 'b) \<times> 'w \<Rightarrow> (call_error + 'a) \<times> 'w" where
  "expect sel = map_prod (\<lambda>r. case r of Inl err \<Rightarrow> Inl err
     | Inr b \<Rightarrow> (case sel b of None \<Rightarrow> Inl (GrpcStatus (Status Internal ''unexpected reply'')) | Some a \<Rightarrow> Inr a)) id"

fun reply_document :: "intake_reply \<Rightarrow> ProtoDocument option" where
  "reply_document (ReplyDocument d) = Some d" | "reply_document _ = None"

fun reply_upload :: "intake_reply \<Rightarrow> UploadDocumentResponse option" where
  "reply_upload (ReplyUpload u) = Some u" | "reply_upload _ = None"

fun reply_status :: "intake_reply \<Rightarrow> DocumentStatus option" where
  "reply_status (ReplyStatus d) = Some d" | "reply_status _ = None"

fun reply_user :: "identity_reply \<Rightarrow> ProtoUser option" where
  "reply_user (ReplyUser u) = Some u" | "reply_user _ = None"

fun reply_login :: "identity_reply \<Rightarrow> LoginResponse option" where
  "reply_login (ReplyLogin l) = Some l" | "reply_login _ = None"

definition wired ::
  "'y auth_runtime_scheme \<Rightarrow> 'z float_runtime_scheme \<Rightarrow> transport \<Rightarrow> ('u, 's, 'o) world clients" where
  "wired rt rti tp =
     \<lparr>cl_CreateUser = (\<lambda>req w. expect reply_user (over_grpc tp (serve_identity rt tp (CallCreateUser req)) w)),
      cl_Login = (\<lambda>req w. expect reply_login (over_grpc tp (serve_identity rt tp (CallLogin req)) w)),
      cl_CreateDocument = (\<lambda>md req w. expect reply_document (over_grpc tp (serve_intake rti tp md (CallCreateDocument (Some req))) w)),
      cl_GetDocument = (\<lambda>md req w. expect reply_document (over_grpc tp (serve_intake rti tp md (CallGetDocument (Some req))) w)),
      cl_UploadDocument = (\<lambda>md req w. expect reply_upload (over_grpc tp (serve_intake rti tp md (CallUploadDocument (Some req))) w)),
      cl_GetDocumentStatus =
        (\<lambda>md req w. expect reply_status (over_grpc tp (serve_intake rti tp md (CallGetDocumentStatus (Some req))) w)),
      cl_StartVerification = (\<lambda>req w. over_grpc tp (\<lambda>w1. Some (stub_StartVerification req, w1)) w),
      cl_GetVerification = (\<lambda>req w. over_grpc tp (\<lambda>w1. Some (stub_GetVerification req, w1)) w),
      cl_HealthChecks = map (\<lambda>name. (name, \<lambda>w. tp_serving tp name (wo_calls w))) [''identity'', ''documents'', ''verification'']\<rparr>"

subsection \<open>Isolation\<close>

lemma over_grpc_cases:
  assumes "over_grpc tp serve w = (r, w')"
  obtains (failed) err where "r = Inl err" "w' = w\<lparr>wo_calls := Suc (wo_calls w)\<rparr>"
    | (served) x where "serve (w\<lparr>wo_calls := Suc (wo_calls w)\<rparr>) = Some (x, w')" "\<And>v. r = Inr v \<Longrightarrow> x = Inr v"
  using assms by (auto simp: over_grpc_def Let_def split: option.splits prod.splits) (metis Inl_Inr_False map_sum.simps obj_sumE id_apply sum.inject(2))+

lemma respond_world: "respond status body x = (resp, w) \<Longrightarrow> w = snd x"
  by (auto simp: respond_def split: prod.splits sum.splits)

lemma expect_world [simp]: "snd (expect sel x) = snd x"
  by (simp add: expect_def)

lemma claimed_org_claims [simp]: "claimed_org (claims_metadata c) = TrimSpace (c_OrganizationID c)"
  by (simp add: claimed_org_def claims_metadata_def md_Pairs_def)

lemma identity_keeps_intake:
  "over_grpc tp (serve_identity rt tp call) w = (r, w') \<Longrightarrow> wo_intake w' = wo_intake w"
  by (erule over_grpc_cases) (auto simp: serve_identity_def map_prod_def split: prod.splits)

text \<open>What the handlers that reach the Document Intake service do to the world, with verified claims.\<close>

lemma handler_world:
  defines "q c r \<equiv> r\<lparr>rq_Claims := Some c\<rparr>"
  shows "createDocument h (q c r) w = (resp, w') \<Longrightarrow> w' = w \<or> (\<exists>req. w' = snd (cl_CreateDocument h (claims_metadata c) req w))"
    and "getDocument h (q c r) i w = (resp, w') \<Longrightarrow> w' = w \<or> (\<exists>req. w' = snd (cl_GetDocument h (claims_metadata c) req w))"
    and "uploadDocument_handler h (q c r) i w = (resp, w') \<Longrightarrow> w' = w \<or> (\<exists>req. w' = snd (cl_UploadDocument h (claims_metadata c) req w))"
    and "getDocumentStatus_handler h (q c r) i w = (resp, w') \<Longrightarrow>
           w' = w \<or> (\<exists>req. w' = snd (cl_GetDocumentStatus h (claims_metadata c) req w))"
  unfolding q_def
  by (auto simp: createDocument_def getDocument_def uploadDocument_handler_def getDocumentStatus_handler_def Let_def
      split: option.splits if_splits dest!: respond_world)

text \<open>The other handlers change nothing of the Document Intake service, with or without claims.\<close>

lemma other_routes:
  assumes "serve_route rt env (wired rt rti tp) s ro vs r w = (resp, w')"
    and "ro \<notin> {RCreateDocument, RGetDocument, RUploadDocument, RDocumentStatus}"
  shows "wo_intake w' = wo_intake w"
proof -
  have id: "wo_intake (snd (over_grpc tp (serve_identity rt tp call) w)) = wo_intake w" for call
    by (rule identity_keeps_intake [OF surjective_pairing])
  have stub: "wo_intake (snd (over_grpc tp (\<lambda>w1. Some (x, w1)) w)) = wo_intake w" for x :: "Verification rpc_result"
    by (simp add: over_grpc_def Let_def split: option.split)
  show ?thesis
    using assms
    by (cases ro)
      (auto simp: createUser_def login_def startVerification_def getVerification_def Let_def wired_def id stub
        split: option.splits if_splits dest!: respond_world)
qed

context tenant_store
begin

lemma serve_intake_isolated:
  assumes "faithful tp" and "safe (wo_intake w)" and "over_grpc tp (serve_intake rt tp md call) w = (r, w')"
  shows "safe (wo_intake w') \<and> caller_step view (Some md) (sv_db (wo_intake w)) (sv_db (wo_intake w'))"
  using assms(3)
proof (cases rule: over_grpc_cases)
  case (served x)
  show ?thesis
  proof (cases "tp_deliver tp md")
    case (Some ctx)
    then obtain s where i: "intake_serve rt (tp_intake_env tp (wo_calls w)) (Some ctx) call (wo_intake w) = Some (x, s)"
      "wo_intake w' = s"
      using served(1) by (auto simp: serve_intake_def)
    have "md_Get ctx ''x-organization-id'' = md_Get md ''x-organization-id''"
      using assms(1) Some by (simp add: faithful_def)
    then have "claimed_org ctx = claimed_org md" by (simp add: claimed_org_def)
    with intake_serve_isolated [OF assms(2) i(1)] i(2) show ?thesis by (simp add: caller_step_def)
  qed (use served(1) assms(2) in \<open>auto simp: serve_intake_def\<close>)
qed (use assms(2) in simp)

lemma route_isolated:
  assumes "faithful tp" and "safe (wo_intake w)"
    and "serve_route rt env (wired rt rti tp) s ro vs (r\<lparr>rq_Claims := Some c\<rparr>) w = (resp, w')"
  shows "safe (wo_intake w') \<and> caller_step view (Some (claims_metadata c)) (sv_db (wo_intake w)) (sv_db (wo_intake w'))"
proof -
  have iso: "safe (wo_intake (snd (over_grpc tp (serve_intake rti tp (claims_metadata c) call) w)))
      \<and> caller_step view (Some (claims_metadata c)) (sv_db (wo_intake w))
          (sv_db (wo_intake (snd (over_grpc tp (serve_intake rti tp (claims_metadata c) call) w))))" for call
    by (rule serve_intake_isolated [OF assms(1,2) surjective_pairing])
  consider "ro \<in> {RCreateDocument, RGetDocument, RUploadDocument, RDocumentStatus}"
    | "ro \<notin> {RCreateDocument, RGetDocument, RUploadDocument, RDocumentStatus}" by blast
  then show ?thesis
  proof cases
    case 1
    then show ?thesis
      using assms(2,3) iso by (auto simp: wired_def dest!: handler_world)
  next
    case 2
    from other_routes [OF assms(3) this] assms(2) show ?thesis by simp
  qed
qed

lemma middleware_isolated:
  assumes "faithful tp" and "safe (wo_intake w)" and "\<not> gs_authDisabled s"
    and "middleware rt env (wired rt rti tp) r (s, w) = ((rid, resp), s', w')"
  shows "safe (wo_intake w') \<and> (sv_db (wo_intake w') = sv_db (wo_intake w)
    \<or> (\<exists>claims. VerifyBearer rt (gs_secret s) (ge_verify env) (first_of (rq_Header r) ''Authorization'') = Inr claims
        \<and> caller_step view (Some (claims_metadata claims)) (sv_db (wo_intake w)) (sv_db (wo_intake w'))))"
  using assms(4)
proof (cases rule: middleware_cases)
  case (public s1)
  with assms(3) have na: "\<not> requiresAuth r" by simp
  show ?thesis
  proof (cases "mux_handler r")
    case (Found ro vs)
    then have "serve_route rt env (wired rt rti tp) s1 ro vs r w = (resp, w')" using public(1) by (simp add: serve_mux_def)
    from other_routes [OF this] public_route [OF na Found] assms(2) show ?thesis by auto
  qed (use public assms(2) in \<open>auto simp: serve_mux_def\<close>)
next
  case (verified s1 claims)
  show ?thesis
  proof (cases "mux_handler r")
    case (Found ro vs)
    then have "serve_route rt env (wired rt rti tp) s1 ro vs (r\<lparr>rq_Claims := Some claims\<rparr>) w = (resp, w')"
      using verified(1) by (simp add: serve_mux_def)
    from route_isolated [OF assms(1,2) this] verified(4) show ?thesis by blast
  qed (use verified assms(2) in \<open>auto simp: serve_mux_def\<close>)
qed (use assms(2) in auto)

lemma serve_all_isolated:
  assumes "faithful tp" and "\<not> gs_authDisabled s" and "safe (wo_intake w)" and "view (sv_db (wo_intake w)) i = Some d"
    and "\<forall>(env, r) \<in> set rs. \<forall>claims. VerifyBearer rt (gs_secret s) (ge_verify env) (first_of (rq_Header r) ''Authorization'') = Inr claims
      \<longrightarrow> \<not> owned_by (TrimSpace (c_OrganizationID claims)) d"
    and "serve_all rt (wired rt rti tp) rs (s, w) = (s', w')"
  shows "safe (wo_intake w') \<and> view (sv_db (wo_intake w')) i = Some d"
  using assms(2-)
proof (induction rs arbitrary: s w)
  case (Cons x rs)
  obtain env r where x: "x = (env, r)" by (cases x)
  obtain rid resp s1 w1 where m: "middleware rt env (wired rt rti tp) (r\<lparr>rq_Claims := None\<rparr>) (s, w) = ((rid, resp), s1, w1)"
    by (metis prod.collapse)
  note iso = middleware_isolated [OF assms(1) Cons.prems(2,1) m]
  note keep = middleware_keeps [OF m]
  have "view (sv_db (wo_intake w1)) i = Some d"
    using iso Cons.prems(3,4) x tenant_step_other [of view] unfolding caller_step_def by fastforce
  moreover have "serve_all rt (wired rt rti tp) rs (s1, w1) = (s', w')" using Cons.prems(5) x m by simp
  ultimately show ?case using Cons.IH [of s1 w1] iso keep Cons.prems(1,4) by simp
qed simp

lemma GetDocument_served:
  assumes "faithful tp" and "safe (wo_intake w)" and "cl_GetDocument (wired rt rti tp) md req w = (Inr pd, w')"
  shows "\<exists>d. view (sv_db (wo_intake w)) (gd_Id req) = Some d \<and> owned_by (claimed_org md) d \<and> pd = toProtoDocument rti d"
proof -
  obtain x where x: "over_grpc tp (serve_intake rti tp md (CallGetDocument (Some req))) w = (Inr x, w')" "x = ReplyDocument pd"
    using assms(3)
    by (auto simp: wired_def expect_def map_prod_def split: prod.splits sum.splits option.splits elim: reply_document.elims)
  from x(1) show ?thesis
  proof (cases rule: over_grpc_cases)
    case (served y)
    then have y: "y = Inr x" by simp
    obtain ctx where ctx: "tp_deliver tp md = Some ctx" "GetDocument rti (Some ctx) (Some req) (wo_intake w) = Inr pd"
      using served(1) x(2) y
      by (cases "GetDocument rti (tp_deliver tp md) (Some req) (wo_intake w)")
        (auto simp: serve_intake_def intake_serve_def UnaryServerInterceptor_def split: option.splits)
    have "claimed_org ctx = claimed_org md" using assms(1) ctx(1) by (simp add: faithful_def claimed_org_def)
    with GetDocument_own [OF assms(2) ctx(2)] show ?thesis by auto
  qed simp
qed

end

text \<open>
  Property C1. Tenant isolation of the whole system, on PostgreSQL. Whatever requests reach the gateway, in whatever order,
  with whatever paths, bodies and headers, whatever calls between the services fail or lose their answer and whatever statements
  the database fails: a document changes only if some request carries a token that the gateway's secret verifies
  for the document's organization.
\<close>

theorem system_tenant_isolation:
  assumes "faithful tp" and "\<not> gs_authDisabled s"
    and "sv_store (wo_intake w) = postgres_ops" and "pg_invar (sv_db (wo_intake w))"
    and "pg_view (sv_db (wo_intake w)) i = Some d"
    and "\<forall>(env, r) \<in> set rs. \<forall>claims. VerifyBearer rt (gs_secret s) (ge_verify env) (first_of (rq_Header r) ''Authorization'') = Inr claims
      \<longrightarrow> TrimSpace (c_OrganizationID claims) \<noteq> TrimSpace (d_OrganizationID d)"
    and "serve_all rt (wired rt rti tp) rs (s, w) = (s', w')"
  shows "pg_view (sv_db (wo_intake w')) i = Some d \<and> pg_invar (sv_db (wo_intake w'))"
proof -
  have safe: "pg.safe (wo_intake w)" using assms(3,4) unfolding pg.safe_def by simp
  have "\<forall>(env, r) \<in> set rs. \<forall>claims. VerifyBearer rt (gs_secret s) (ge_verify env) (first_of (rq_Header r) ''Authorization'') = Inr claims
      \<longrightarrow> \<not> owned_by (TrimSpace (c_OrganizationID claims)) d"
    using assms(6) by (fastforce simp: owned_by_def)
  from pg.serve_all_isolated [OF assms(1,2) safe assms(5) this assms(7)] show ?thesis unfolding pg.safe_def by simp
qed

text \<open>What a verified request is answered by its handler.\<close>

lemma verified_answer:
  assumes "middleware rt env h r (s, w) = ((rid, resp), s', w')" and "\<not> gs_authDisabled s" and "rs_Status resp < 400"
    and "mux_handler r = Found ro vs" and "ro \<notin> {RHealth, RReady, RMetrics, RLogin}"
  obtains s1 claims where "serve_route rt env h s1 ro vs (r\<lparr>rq_Claims := Some claims\<rparr>) w = (resp, w')"
    "VerifyBearer rt (gs_secret s) (ge_verify env) (first_of (rq_Header r) ''Authorization'') = Inr claims"
  using assms(1)
proof (cases rule: middleware_cases)
  case (public s1)
  with assms(2) public_route [OF _ assms(4)] assms(5) show ?thesis by blast
next
  case (verified s1 claims)
  then show ?thesis using assms(4) that by (simp add: serve_mux_def)
qed (use assms(3) in auto)

lemma getDocument_success:
  assumes "getDocument h (r\<lparr>rq_Claims := Some c\<rparr>) i w = (resp, w')" and "rs_Status resp < 400"
  obtains req pd where "cl_GetDocument h (claims_metadata c) req w = (Inr pd, w')" "gd_Id req = i" "resp = WriteJSON 200 (document_json pd)"
proof -
  obtain req where r: "respond 200 document_json (cl_GetDocument h (claims_metadata c) req w) = (resp, w')" "gd_Id req = i"
    using assms by (auto simp: getDocument_def Let_def split: if_splits)
  from respond_success [OF r(1) assms(2)] r(2) show thesis using that by blast
qed

text \<open>
  Property C2. A document is only ever shown to its own organization: when the gateway answers the request for a document with
  success, the request has a token that verifies for the organization the document belongs to, and the body is the stored
  document of that identifier.
\<close>

theorem system_reads_own:
  assumes "faithful tp" and "\<not> gs_authDisabled s"
    and "sv_store (wo_intake w) = postgres_ops" and "pg_invar (sv_db (wo_intake w))"
    and "mux_handler r = Found RGetDocument [i]" and "rs_Status resp < 400"
    and "middleware rt env (wired rt rti tp) r (s, w) = ((rid, resp), s', w')"
  shows "\<exists>claims d. VerifyBearer rt (gs_secret s) (ge_verify env) (first_of (rq_Header r) ''Authorization'') = Inr claims
    \<and> pg_view (sv_db (wo_intake w)) i = Some d \<and> TrimSpace (d_OrganizationID d) = TrimSpace (c_OrganizationID claims)
    \<and> resp = WriteJSON 200 (document_json (toProtoDocument rti d))"
proof -
  have safe: "pg.safe (wo_intake w)" using assms(3,4) unfolding pg.safe_def by simp
  obtain s1 claims where v: "serve_route rt env (wired rt rti tp) s1 RGetDocument [i] (r\<lparr>rq_Claims := Some claims\<rparr>) w = (resp, w')"
    "VerifyBearer rt (gs_secret s) (ge_verify env) (first_of (rq_Header r) ''Authorization'') = Inr claims"
    using verified_answer [OF assms(7,2,6,5)] by blast
  then have "getDocument (wired rt rti tp) (r\<lparr>rq_Claims := Some claims\<rparr>) i w = (resp, w')" by simp
  then obtain req pd where g: "cl_GetDocument (wired rt rti tp) (claims_metadata claims) req w = (Inr pd, w')" "gd_Id req = i"
    "resp = WriteJSON 200 (document_json pd)" by (rule getDocument_success [OF _ assms(6)])
  from pg.GetDocument_served [OF assms(1) safe g(1)] g(2,3) v(2) show ?thesis by (auto simp: owned_by_def)
qed

subsection \<open>Creating and reading a document\<close>

lemma CreateDocument_served:
  assumes "cl_CreateDocument (wired rt rti tp) md req w = (Inr pd, w')"
  obtains ctx where "tp_deliver tp md = Some ctx"
    "CreateDocument rti (tp_intake_env tp (wo_calls w)) (Some ctx) (Some req) (wo_intake w) = (Inr pd, wo_intake w')"
proof -
  obtain x where x: "over_grpc tp (serve_intake rti tp md (CallCreateDocument (Some req))) w = (Inr x, w')" "x = ReplyDocument pd"
    using assms
    by (auto simp: wired_def expect_def map_prod_def split: prod.splits sum.splits option.splits elim: reply_document.elims)
  from x(1) show thesis
  proof (cases rule: over_grpc_cases)
    case (served y)
    then show thesis
      using x(2) that
      by (cases "CreateDocument rti (tp_intake_env tp (wo_calls w)) (tp_deliver tp md) (Some req) (wo_intake w)")
        (auto simp: serve_intake_def intake_serve_def UnaryServerInterceptor_def map_sum_def split: option.splits sum.splits)
  qed simp
qed

lemma GetDocument_served_ok:
  assumes "tp_fault tp (wo_calls w) = None" and "tp_lost tp (wo_calls w) = None" and "tp_deliver tp md = Some ctx"
    and "GetDocument rti (Some ctx) (Some req) (wo_intake w) = Inr pd"
  shows "cl_GetDocument (wired rt rti tp) md req w = (Inr pd, w\<lparr>wo_calls := Suc (wo_calls w)\<rparr>)"
  using assms
  by (simp add: wired_def over_grpc_def expect_def serve_intake_def intake_serve_def UnaryServerInterceptor_def Let_def)

lemma createDocument_success:
  assumes "createDocument h (r\<lparr>rq_Claims := Some c\<rparr>) w = (resp, w')" and "rs_Status resp < 400"
  obtains req pd where "cl_CreateDocument h (claims_metadata c) req w = (Inr pd, w')" "resp = WriteJSON 201 (document_json pd)"
    "c_OrganizationID c \<noteq> [] \<longrightarrow> cd_OrganizationId req = c_OrganizationID c"
proof -
  obtain req where r: "respond 201 document_json (cl_CreateDocument h (claims_metadata c) req w) = (resp, w')"
      "c_OrganizationID c \<noteq> [] \<longrightarrow> cd_OrganizationId req = c_OrganizationID c"
    using assms by (auto simp: createDocument_def Let_def split: option.splits if_splits)
  from respond_success [OF r(1) assms(2)] r(2) show thesis using that by blast
qed

text \<open>
  Property C4. Reading after writing, through the whole system. When the posting of a document is answered with success, then the
  request for the document of the identifier in the answer, with the same token while it is valid, is answered with success
  and the same document, unless the limiter refuses it or the call fails.
\<close>

theorem document_round_trip:
  assumes "faithful tp" and "\<not> gs_authDisabled s" and "sv_store (wo_intake w) = memory_ops"
    and "mux_handler r = Found RCreateDocument []" and "rs_Status resp < 400"
    and "middleware rt env (wired rt rti tp) r (s, w) = ((rid, resp), s1, w1)"
    and "VerifyBearer rt (gs_secret s) (ge_verify env') (first_of (rq_Header r') ''Authorization'')
      = VerifyBearer rt (gs_secret s) (ge_verify env) (first_of (rq_Header r) ''Authorization'')"
    and "limited rt env' r' s1 = (False, s2)" and "tp_fault tp (wo_calls w1) = None" and "tp_lost tp (wo_calls w1) = None"
  shows "\<exists>pd. resp = WriteJSON 201 (document_json pd) \<and> pd_Id pd = newID (tp_intake_env tp (wo_calls w)) 0 ''doc''
    \<and> (mux_handler r' = Found RGetDocument [pd_Id pd] \<longrightarrow>
        snd (fst (middleware rt env' (wired rt rti tp) r' (s1, w1))) = WriteJSON 200 (document_json pd))"
proof -
  obtain s3 c where v: "serve_route rt env (wired rt rti tp) s3 RCreateDocument [] (r\<lparr>rq_Claims := Some c\<rparr>) w = (resp, w1)"
    "VerifyBearer rt (gs_secret s) (ge_verify env) (first_of (rq_Header r) ''Authorization'') = Inr c"
    using verified_answer [OF assms(6,2,5,4)] by blast
  then have "createDocument (wired rt rti tp) (r\<lparr>rq_Claims := Some c\<rparr>) w = (resp, w1)" by simp
  then obtain req pd where g: "cl_CreateDocument (wired rt rti tp) (claims_metadata c) req w = (Inr pd, w1)"
    "resp = WriteJSON 201 (document_json pd)" "c_OrganizationID c \<noteq> [] \<longrightarrow> cd_OrganizationId req = c_OrganizationID c"
    by (rule createDocument_success [OF _ assms(5)])
  obtain ctx where ctx: "tp_deliver tp (claims_metadata c) = Some ctx"
    "CreateDocument rti (tp_intake_env tp (wo_calls w)) (Some ctx) (Some req) (wo_intake w) = (Inr pd, wo_intake w1)"
    by (rule CreateDocument_served [OF g(1)])
  obtain d where d: "Require rti (Some ctx) (TrimSpace (cd_OrganizationId req)) PermissionCreate = None" "pd = toProtoDocument rti d"
    "d_ID d = newID (tp_intake_env tp (wo_calls w)) 0 ''doc''"
    using CreateDocument_memory [OF assms(3) ctx(2)] by metis
  have "claimed_org ctx \<noteq> []" using d(1) by (metis Require_None_iff option.inject)
  moreover have "claimed_org ctx = TrimSpace (c_OrganizationID c)"
    using assms(1) ctx(1) by (simp add: faithful_def claimed_org_def flip: claimed_org_claims)
  ultimately have org: "c_OrganizationID c \<noteq> []" by auto
  have read: "cl_GetDocument (wired rt rti tp) (claims_metadata c) \<lparr>gd_OrganizationId = c_OrganizationID c, gd_Id = pd_Id pd\<rparr> w1
      = (Inr pd, w1\<lparr>wo_calls := Suc (wo_calls w1)\<rparr>)"
    using get_after_create [OF assms(3) ctx(2)] g(3) org by (intro GetDocument_served_ok [OF assms(9,10) ctx(1)]) simp
  have "snd (fst (middleware rt env' (wired rt rti tp) r' (s1, w1))) = WriteJSON 200 (document_json pd)"
    if m: "mux_handler r' = Found RGetDocument [pd_Id pd]"
  proof -
    note k = middleware_keeps [OF assms(6)]
    have "requiresAuth r'" using public_route [OF _ m] by blast
    with middleware_route [OF assms(8) _ this _ m] k assms(2,7) v(2)
    have "snd (fst (middleware rt env' (wired rt rti tp) r' (s1, w1)))
        = fst (getDocument (wired rt rti tp) (r'\<lparr>rq_Claims := Some c\<rparr>) (pd_Id pd) w1)"
      by (metis fst_conv list.sel(1) serve_route.simps(7))
    also have "\<dots> = WriteJSON 200 (document_json pd)"
      using org read by (simp add: getDocument_def respond_def)
    finally show ?thesis .
  qed
  moreover have "pd_Id pd = newID (tp_intake_env tp (wo_calls w)) 0 ''doc''" using d(2,3) by (simp add: toProtoDocument_def)
  ultimately show ?thesis using g(2) by blast
qed

end
