(* ===== verification/System_Accounts.thy ===== *)
theory System_Accounts
  imports System
begin

text \<open>
  Accounts and overload through the whole system: who can create which account, that the token of a login is accepted by the
  gateway, and how the refusal of an overloaded Document Intake service reaches the client.
\<close>

subsection \<open>Accounts\<close>

lemma CreateUser_served_ok:
  assumes "tp_fault tp (wo_calls w) = None" and "tp_lost tp (wo_calls w) = None"
    and "CreateUser rt (tp_identity_env tp (wo_calls w)) req (wo_identity w) = (Inr u, ids)"
  shows "cl_CreateUser (wired rt rti tp) req w = (Inr u, w\<lparr>wo_calls := Suc (wo_calls w), wo_identity := ids\<rparr>)"
  using assms by (simp add: wired_def over_grpc_def expect_def serve_identity_def Let_def)

lemma Login_served_ok:
  assumes "tp_fault tp (wo_calls w) = None" and "tp_lost tp (wo_calls w) = None"
    and "Login rt (tp_identity_env tp (wo_calls w)) req (wo_identity w) = (Inr l, ids)"
  shows "cl_Login (wired rt rti tp) req w = (Inr l, w\<lparr>wo_calls := Suc (wo_calls w), wo_identity := ids\<rparr>)"
  using assms by (simp add: wired_def over_grpc_def expect_def serve_identity_def Let_def)

lemma created_user_fields:
  assumes "id_store s = memory_identity rt" and "CreateUser rt env req s = (Inr u, s')"
  shows "pr_OrganizationId u = TrimSpace (cr_OrganizationId req)
    \<and> pr_Roles u = (if cleanRoles rt (cr_Roles req) = [] then [''member''] else cleanRoles rt (cr_Roles req))"
  using assms(2)
proof (cases rule: CreateUser_cases)
  case (asked email h x db)
  then obtain v where v: "x = Inr v" "u = toProtoUser rt v" by (auto simp: is_ok_iff)
  with asked(4) assms(1) show ?thesis
    by (auto simp: memory_identity_def mem_CreateUser_def created_user_def dated_def toProtoUser_def Let_def split: option.splits)
qed simp

text \<open>
  Property C37. The route that creates users asks for a token but not for whose token it is. A caller with any
  verified token, whatever its organization and roles, creates an account of any organization with any roles: the body alone
  decides.
\<close>

theorem any_caller_creates_any_account:
  assumes "limited rt env r s = (False, s1)" and "\<not> gs_authDisabled s" and "requiresAuth r"
    and "VerifyBearer rt (gs_secret s) (ge_verify env) (first_of (rq_Header r) ''Authorization'') = Inr claims"
    and "mux_handler r = Found RCreateUser []" and "rq_Body r = enc_json (user_body_json req) @ t" and "at_end t"
    and "req = \<lparr>cr_OrganizationId = org, cr_Email = email, cr_Password = password, cr_Roles = roles\<rparr>"
    and "to_valid org = org" and "to_valid email = email" and "to_valid password = password" and "map to_valid roles = roles"
    and "email \<noteq> []" and "tp_fault tp (wo_calls w) = None" and "tp_lost tp (wo_calls w) = None"
    and "id_store (wo_identity w) = memory_identity rt"
    and "CreateUser rt (tp_identity_env tp (wo_calls w)) req (wo_identity w) = (Inr u, ids)"
  shows "snd (fst (middleware rt env (wired rt rti tp) r (s, w))) = WriteJSON 201 (user_json u)
    \<and> wo_identity (snd (snd (middleware rt env (wired rt rti tp) r (s, w)))) = ids
    \<and> pr_OrganizationId u = TrimSpace org \<and> (cleanRoles rt roles \<noteq> [] \<longrightarrow> pr_Roles u = cleanRoles rt roles)"
proof -
  have "password \<noteq> []" "org \<noteq> []"
    using assms(8,17) by (auto simp: CreateUser_def HashPassword_def split: if_splits option.splits)
  moreover have "rq_Body (r\<lparr>rq_Claims := Some claims\<rparr>) = enc_json (user_body_json req) @ t" using assms(6) by simp
  note decode_user_body [OF this assms(7)]
  ultimately have "createUser (wired rt rti tp) (r\<lparr>rq_Claims := Some claims\<rparr>) w
      = respond 201 user_json (cl_CreateUser (wired rt rti tp) req w)"
    using assms(8-13) by (simp add: createUser_def)
  also have "\<dots> = (WriteJSON 201 (user_json u), w\<lparr>wo_calls := Suc (wo_calls w), wo_identity := ids\<rparr>)"
    unfolding CreateUser_served_ok [OF assms(14,15,17)] by (simp add: respond_def)
  finally have "(snd (fst (middleware rt env (wired rt rti tp) r (s, w))), snd (snd (middleware rt env (wired rt rti tp) r (s, w))))
      = (WriteJSON 201 (user_json u), w\<lparr>wo_calls := Suc (wo_calls w), wo_identity := ids\<rparr>)"
    unfolding middleware_route [OF assms(1-5)] serve_route.simps .
  then show ?thesis using created_user_fields [OF assms(16,17)] assms(8) by simp
qed

text \<open>
  Property C14. The token of a login opens the gateway. When the services share the secret, the access token of a successful
  login is accepted by the gateway until the second it expires, as the user, the organization and the roles of the account that
  logged in, and refused from then on.
\<close>

theorem login_opens_gateway:
  assumes "id_store ids = memory_identity rt" and "memory_invar (id_db ids)" and "id_secret ids = gs_secret s"
    and "Login rt env req ids = (Inr resp, ids')" and "lr_User resp = u"
    and "in_int64 (time_Unix (ie_now env 0 + id_accessTokenTTL ids))" and "0 < time_Unix (ie_now env 0 + id_accessTokenTTL ids)"
    and "pr_Id u \<noteq> []" and "to_valid (pr_Id u) = pr_Id u" and "to_valid (pr_OrganizationId u) = pr_OrganizationId u"
    and "map to_valid (pr_Roles u) = pr_Roles u"
  shows "VerifyBearer rt (gs_secret s) now (''Bearer '' @ lr_AccessToken resp) =
    (if time_Unix now < time_Unix (ie_now env 0 + id_accessTokenTTL ids)
     then Inr \<lparr>c_Subject = pr_Id u, c_OrganizationID = pr_OrganizationId u, c_Roles = pr_Roles u,
            c_ExpiresAt = time_Unix (ie_now env 0 + id_accessTokenTTL ids)\<rparr>
     else Inl ''expired token'')"
proof -
  obtain email v where "lr_User resp = toProtoUser rt v"
    "lr_AccessToken resp = AccessToken rt (id_secret ids) (ie_now env 0) (us_ID v) (us_OrganizationID v) (us_Roles v) (id_accessTokenTTL ids)"
    using mem_id.Login_sound [OF _ assms(4)] assms(1,2) unfolding mem_id.served_def by blast
  then have "lr_AccessToken resp = AccessToken rt (gs_secret s) (ie_now env 0) (pr_Id u) (pr_OrganizationId u) (pr_Roles u) (id_accessTokenTTL ids)"
    using assms(3,5) by (auto simp: toProtoUser_def)
  then show ?thesis by (simp only: VerifyBearer_AccessToken [OF assms(6-11)])
qed

subsection \<open>Overload\<close>

text \<open>
  An upload that the Document Intake service refuses because its pool is saturated, the organization exceeds its
  rate or the circuit of the object storage is open is answered with \<open>502 Bad Gateway\<close>: the gateway's table of codes has no
  entry for \<open>ResourceExhausted\<close>, and the \<open>retry-after\<close> the service sets is not passed on. Nothing is stored.
\<close>

theorem overload_is_bad_gateway:
  assumes "limited rt env r s = (False, s1)" and "\<not> gs_authDisabled s" and "requiresAuth r"
    and "VerifyBearer rt (gs_secret s) (ge_verify env) (first_of (rq_Header r) ''Authorization'') = Inr claims"
    and "mux_handler r = Found RUploadDocument [i]"
    and "rq_Body r = enc_json (upload_body_json (b\<lparr>ub_ContentBase64 := StdEncode content\<rparr>)) @ t" and "at_end t"
    and "c_OrganizationID claims \<noteq> []" and "TrimSpace i \<noteq> []" and "TrimSpace (to_valid (ub_Filename b)) \<noteq> []" and "content \<noteq> []"
    and "tp_fault tp (wo_calls w) = None" and "tp_lost tp (wo_calls w) = None" and "tp_deliver tp (claims_metadata claims) = Some ctx"
    and "Require rti (Some ctx) (TrimSpace (c_OrganizationID claims)) PermissionUpload = None"
    and "\<not> oversized (wo_intake w) content"
    and "isAllowedType rti (wo_intake w) (content_type_of rti (to_valid (ub_ContentType b)) content)"
    and "sv_objectStorage (wo_intake w) = Some obj" and "sv_uploadPool (wo_intake w) = Some pool"
    and "acquire rti (ce_now (tp_intake_env tp (wo_calls w)) 0) (TrimSpace (c_OrganizationID claims)) pool = (Some err, pool')"
  shows "snd (fst (middleware rt env (wired rt rti tp) r (s, w))) = http_Error 502 err
    \<and> sv_db (wo_intake (snd (snd (middleware rt env (wired rt rti tp) r (s, w))))) = sv_db (wo_intake w)"
proof -
  let ?req = "\<lparr>ud_OrganizationId = c_OrganizationID claims, ud_DocumentId = i, ud_Filename = to_valid (ub_Filename b),
    ud_ContentType = to_valid (ub_ContentType b), ud_Content = content, ud_IdempotencyKey = to_valid (ub_IdempotencyKey b)\<rparr>"
  let ?s' = "metrics_update UploadRejected
    ((wo_intake w)\<lparr>sv_uploadPool := Some pool', sv_headers := sv_headers (wo_intake w) @ [(''retry-after'', ''1'')]\<rparr>)"
  have "to_valid (ub_Filename b) \<noteq> []" using assms(10) by auto
  then have h: "uploadDocument_handler (wired rt rti tp) (r\<lparr>rq_Claims := Some claims\<rparr>) i w
      = respond 202 upload_response_json (cl_UploadDocument (wired rt rti tp) (claims_metadata claims) ?req w)"
    using uploadDocument_forwards [OF assms(6-8) _ assms(11)] by simp
  have "TrimSpace (c_OrganizationID claims) \<noteq> []" using Require_org_nonempty [OF assms(15)] by simp
  then have "UploadDocument rti (tp_intake_env tp (wo_calls w)) (Some ctx) (Some ?req) (wo_intake w)
      = Some (Inl (Status ResourceExhausted err), ?s')"
    using assms(9-11,15-20) by (simp add: UploadDocument_def Let_def)
  then have "cl_UploadDocument (wired rt rti tp) (claims_metadata claims) ?req w
      = (Inl (GrpcStatus (Status ResourceExhausted err)), w\<lparr>wo_calls := Suc (wo_calls w), wo_intake := ?s'\<rparr>)"
    using assms(12-14)
    by (simp add: wired_def over_grpc_def expect_def serve_intake_def intake_serve_def UnaryServerInterceptor_def Let_def)
  then have "uploadDocument_handler (wired rt rti tp) (r\<lparr>rq_Claims := Some claims\<rparr>) i w
      = (http_Error 502 err, w\<lparr>wo_calls := Suc (wo_calls w), wo_intake := ?s'\<rparr>)"
    unfolding h by (simp add: respond_def writeUpstreamError_def status_response_def)
  then have "(snd (fst (middleware rt env (wired rt rti tp) r (s, w))), snd (snd (middleware rt env (wired rt rti tp) r (s, w))))
      = (http_Error 502 err, w\<lparr>wo_calls := Suc (wo_calls w), wo_intake := ?s'\<rparr>)"
    unfolding middleware_route [OF assms(1-5)] serve_route.simps list.sel .
  then show ?thesis by (simp add: metrics_update_def)
qed

end
