(* ===== verification/System_Samples.thy ===== *)
theory System_Samples
  imports System_Accounts
begin

text \<open>
  Concrete worlds behind the concrete gateway of \<open>Gateway_Forwarding\<close>, and the properties of \<open>System\<close> and \<open>System_Accounts\<close> on them.
\<close>

definition sample_transport :: transport where
  "sample_transport =
     \<lparr>tp_fault = (\<lambda>_. None), tp_lost = (\<lambda>_. None), tp_deliver = Some, tp_serving = (\<lambda>_ _. True), tp_intake_env = (\<lambda>_. sample_env 0),
      tp_identity_env = (\<lambda>_. sample_identity_env)\<rparr>"

lemma sample_transport_simps [simp]:
  "tp_fault sample_transport n = None" "tp_lost sample_transport n = None" "tp_deliver sample_transport md = Some md"
  "faithful sample_transport" "tp_intake_env sample_transport n = sample_env 0" "tp_identity_env sample_transport n = sample_identity_env"
  by (simp_all add: sample_transport_def faithful_def)

definition pg_world :: "(Memory, PostgresStore, local_fs) world" where
  "pg_world = \<lparr>wo_identity = sample_identity, wo_intake = sample_pg_service, wo_calls = 0\<rparr>"

definition memory_world :: "(MemoryStore, local_fs) Service \<Rightarrow> (Memory, MemoryStore, local_fs) world" where
  "memory_world s = \<lparr>wo_identity = sample_identity, wo_intake = s, wo_calls = 0\<rparr>"

lemma sample_world_simps [simp]:
  "wo_intake pg_world = sample_pg_service" "wo_calls pg_world = 0" "wo_intake (memory_world s) = s" "wo_calls (memory_world s) = 0"
  "wo_identity (memory_world s) = sample_identity"
  by (simp_all add: pg_world_def memory_world_def)

text \<open>A token of another organization.\<close>

definition other_claims :: Claims where
  "other_claims = \<lparr>c_Subject = ''usr_9'', c_OrganizationID = ''other'', c_Roles = [''member''], c_ExpiresAt = 0\<rparr>"

definition other_bearer :: string where
  "other_bearer = ''Bearer '' @ sign sample_auth_runtime ''secret'' other_claims"

lemma other_claims_org [simp]: "c_OrganizationID other_claims = ''other''"
  by (simp add: other_claims_def)

lemma other_verifies [simp]: "VerifyBearer sample_auth_runtime ''secret'' now other_bearer = Inr other_claims"
  unfolding other_bearer_def
  by (subst VerifyBearer_sign)
    (simp_all add: other_claims_def in_int64_def check_claims_def valid_claims_def to_valid_ascii is_ascii_def byte_def)

lemma sample_trims [simp]: "TrimSpace ''acme'' = ''acme''" "TrimSpace ''other'' = ''other''"
  by code_simp+

definition sample_get :: "string \<Rightarrow> http_request" where
  "sample_get path = (sample_post path sample_bearer [])\<lparr>rq_Method := ''GET''\<rparr>"

lemma sample_get_simps [simp]:
  "first_of (rq_Header (sample_get path)) ''Authorization'' = sample_bearer"
  by (simp add: sample_get_def first_of_def sample_post_def)

lemma sample_get_route [simp]:
  "mux_handler (sample_get ''/documents/d1'') = Found RGetDocument [''d1'']"
  "mux_handler (sample_get ''/documents/doc_00'') = Found RGetDocument [''doc_00'']"
proof -
  have "clean_path ''/documents/d1'' = ''/documents/d1''" "find_route ''GET'' (segments ''/documents/d1'') = Some (RGetDocument, [''d1''])"
    "clean_path ''/documents/doc_00'' = ''/documents/doc_00''"
    "find_route ''GET'' (segments ''/documents/doc_00'') = Some (RGetDocument, [''doc_00''])"
    by code_simp+
  then show "mux_handler (sample_get ''/documents/d1'') = Found RGetDocument [''d1'']"
    "mux_handler (sample_get ''/documents/doc_00'') = Found RGetDocument [''doc_00'']"
    by (simp_all add: mux_handler_def sample_get_def)
qed

lemma sample_get_requires [simp]: "requiresAuth (sample_get ''/documents/d1'')" "requiresAuth (sample_get ''/documents/doc_00'')"
  by (simp_all add: requiresAuth_def rq_Path_def sample_get_def)

text \<open>The upload of another organization leaves the document alone.\<close>

theorem system_tenant_isolation_witness:
  "pg_view (sv_db (wo_intake (snd (serve_all sample_auth_runtime (wired sample_auth_runtime sample_intake_runtime sample_transport)
      [(sample_gateway_env, sample_post ''/documents/d2/uploads'' other_bearer (enc_json (upload_body_json sample_upload_body)))]
      (sample_server, pg_world))))) ''d2'' = pg_view sample_pg ''d2''"
proof -
  let ?r = "sample_post ''/documents/d2/uploads'' other_bearer (enc_json (upload_body_json sample_upload_body))"
  obtain d where d: "pg_view sample_pg ''d2'' = Some d" "d_OrganizationID d = ''acme''"
    by (simp add: pg_view_def view_tables_def sample_pg_def sample_doc_row_def)
  have "\<forall>(env, r) \<in> set [(sample_gateway_env, ?r)]. \<forall>claims.
      VerifyBearer sample_auth_runtime (gs_secret sample_server) (ge_verify env) (first_of (rq_Header r) ''Authorization'') = Inr claims
      \<longrightarrow> TrimSpace (c_OrganizationID claims) \<noteq> TrimSpace (d_OrganizationID d)"
    using d(2) by auto
  from system_tenant_isolation [OF _ _ _ _ _ this prod.collapse [symmetric],
      where tp = sample_transport and w = pg_world and rti = sample_intake_runtime and i = "''d2''"] d
  show ?thesis by simp
qed

lemma getDocument_ok:
  assumes "cl_GetDocument h (claims_metadata c) \<lparr>gd_OrganizationId = c_OrganizationID c, gd_Id = i\<rparr> w = (Inr pd, w')"
    and "c_OrganizationID c \<noteq> []"
  shows "getDocument h (r\<lparr>rq_Claims := Some c\<rparr>) i w = (WriteJSON 200 (document_json pd), w')"
  using assms by (simp add: getDocument_def respond_def)

theorem system_reads_own_witness:
  "\<exists>resp s' w' d. snd (fst (middleware sample_auth_runtime sample_gateway_env
        (wired sample_auth_runtime sample_intake_runtime sample_transport) (sample_get ''/documents/d1'') (sample_server, pg_world))) = resp
    \<and> pg_view sample_pg ''d1'' = Some d \<and> TrimSpace (d_OrganizationID d) = ''acme''
    \<and> resp = WriteJSON 200 (document_json (toProtoDocument sample_intake_runtime d))"
proof -
  let ?h = "wired sample_auth_runtime sample_intake_runtime sample_transport" and ?r = "sample_get ''/documents/d1''"
  let ?m = "middleware sample_auth_runtime sample_gateway_env ?h ?r (sample_server, pg_world)"
  have "is_ok (GetDocument sample_intake_runtime (Some (claims_metadata sample_claims))
      (Some \<lparr>gd_OrganizationId = ''acme'', gd_Id = ''d1''\<rparr>) sample_pg_service)" by code_simp
  then obtain pd where "GetDocument sample_intake_runtime (Some (claims_metadata sample_claims))
      (Some \<lparr>gd_OrganizationId = ''acme'', gd_Id = ''d1''\<rparr>) sample_pg_service = Inr pd" by (auto simp: is_ok_iff)
  then have "cl_GetDocument ?h (claims_metadata sample_claims) \<lparr>gd_OrganizationId = ''acme'', gd_Id = ''d1''\<rparr> pg_world
      = (Inr pd, pg_world\<lparr>wo_calls := Suc (wo_calls pg_world)\<rparr>)"
    by (intro GetDocument_served_ok) simp_all
  then have "(snd (fst ?m), snd (snd ?m)) = (WriteJSON 200 (document_json pd), pg_world\<lparr>wo_calls := Suc (wo_calls pg_world)\<rparr>)"
    by (subst middleware_route [where ?s1.0 = sample_server and claims = sample_claims and ro = RGetDocument and vs = "[''d1'']"])
      (simp_all add: getDocument_ok)
  moreover obtain rid resp s' w' where m: "?m = ((rid, resp), s', w')" by (metis prod.collapse)
  ultimately have "rs_Status resp < 400" by (simp add: WriteJSON_def)
  from system_reads_own [OF _ _ _ _ _ this m, of "''d1''"] m show ?thesis by simp
qed

definition pdf_body :: document_body where
  "pdf_body = \<lparr>db_OrganizationID = [], db_Type = ''invoice'', db_Filename = ''a.pdf'', db_ContentType = ''application/pdf'',
     db_ContentBase64 = StdEncode ''data''\<rparr>"

lemma sample_ascii [simp]:
  "to_valid ''invoice'' = ''invoice''" "to_valid ''a.pdf'' = ''a.pdf''" "to_valid ''application/pdf'' = ''application/pdf''"
  by (simp_all add: to_valid_ascii is_ascii_def byte_def)

abbreviation sample_wired :: "(Memory, 's, 'o) world clients" where
  "sample_wired \<equiv> wired sample_auth_runtime sample_intake_runtime sample_transport"

abbreviation pdf_post :: http_request where
  "pdf_post \<equiv> sample_post ''/documents'' sample_bearer (enc_json (document_body_json pdf_body))"

lemma sample_CreateDocument:
  obtains pd s1 where "CreateDocument sample_intake_runtime (sample_env 0) (Some (claims_metadata sample_claims)) (Some sample_create) sample_service = (Inr pd, s1)"
proof -
  have "is_ok (fst (CreateDocument sample_intake_runtime (sample_env 0) (Some (claims_metadata sample_claims)) (Some sample_create) sample_service))"
    by code_simp
  then show thesis using that unfolding is_ok_iff by (metis prod.collapse)
qed

lemma sample_posted:
  obtains rid s2 w2 pd where "middleware sample_auth_runtime sample_gateway_env sample_wired pdf_post (sample_server, memory_world sample_service)
    = ((rid, WriteJSON 201 (document_json pd)), s2, w2)"
proof -
  obtain pd s1 where c: "CreateDocument sample_intake_runtime (sample_env 0) (Some (claims_metadata sample_claims)) (Some sample_create) sample_service = (Inr pd, s1)"
    by (rule sample_CreateDocument)
  have "createDocument sample_wired (pdf_post\<lparr>rq_Claims := Some sample_claims\<rparr>) (memory_world sample_service)
      = respond 201 document_json (cl_CreateDocument sample_wired (claims_metadata sample_claims) sample_create (memory_world sample_service))"
    by (subst createDocument_forwards [where b = pdf_body and content = "''data''" and t = "[]"])
      (simp_all add: pdf_body_def at_end_def sample_create_def)
  moreover have "cl_CreateDocument sample_wired (claims_metadata sample_claims) sample_create (memory_world sample_service)
      = (Inr pd, (memory_world sample_service)\<lparr>wo_calls := 1, wo_intake := s1\<rparr>)"
    using c by (simp add: wired_def over_grpc_def expect_def serve_intake_def intake_serve_def UnaryServerInterceptor_def Let_def)
  ultimately have h: "createDocument sample_wired (pdf_post\<lparr>rq_Claims := Some sample_claims\<rparr>) (memory_world sample_service)
      = (WriteJSON 201 (document_json pd), (memory_world sample_service)\<lparr>wo_calls := 1, wo_intake := s1\<rparr>)"
    by (simp add: respond_def)
  have "(snd (fst (middleware sample_auth_runtime sample_gateway_env sample_wired pdf_post (sample_server, memory_world sample_service))),
      snd (snd (middleware sample_auth_runtime sample_gateway_env sample_wired pdf_post (sample_server, memory_world sample_service))))
      = (WriteJSON 201 (document_json pd), (memory_world sample_service)\<lparr>wo_calls := 1, wo_intake := s1\<rparr>)"
    by (subst middleware_route [where ?s1.0 = sample_server and claims = sample_claims and ro = RCreateDocument and vs = "[]"])
      (simp_all add: h)
  then show thesis using that by (metis fst_conv prod.collapse)
qed

lemma unlimited_after:
  assumes "middleware rt env h r (s, w) = (x, s', w')" and "gs_limiter s = None"
  shows "limited rt' env' r' s' = (False, s')"
  using assms
  by (auto simp: middleware_def Let_def finish_def limited_def split: prod.splits option.splits if_splits)

theorem document_round_trip_witness:
  "\<exists>pd (w1 :: Server \<times> (Memory, MemoryStore, local_fs) world).
    snd (fst (middleware sample_auth_runtime sample_gateway_env sample_wired pdf_post (sample_server, memory_world sample_service)))
      = WriteJSON 201 (document_json pd)
    \<and> snd (fst (middleware sample_auth_runtime sample_gateway_env sample_wired (sample_get ''/documents/doc_00'') w1))
      = WriteJSON 200 (document_json pd)"
proof -
  obtain rid s2 w2 x where m: "middleware sample_auth_runtime sample_gateway_env sample_wired pdf_post (sample_server, memory_world sample_service)
    = ((rid, WriteJSON 201 (document_json x)), s2, w2)" by (rule sample_posted)
  have lim: "limited sample_auth_runtime sample_gateway_env (sample_get ''/documents/doc_00'') s2 = (False, s2)"
    by (rule unlimited_after [OF m]) (simp add: sample_server_def NewServer_def)
  have new: "newID (sample_env 0) 0 ''doc'' = ''doc_00''" by code_simp
  have pre: "faithful sample_transport" "\<not> gs_authDisabled sample_server" "sv_store (wo_intake (memory_world sample_service)) = memory_ops"
    "mux_handler pdf_post = Found RCreateDocument []" "rs_Status (WriteJSON 201 (document_json x)) < 400" by (simp_all add: WriteJSON_def)
  have same: "VerifyBearer sample_auth_runtime (gs_secret sample_server) (ge_verify sample_gateway_env)
        (first_of (rq_Header (sample_get ''/documents/doc_00'')) ''Authorization'')
      = VerifyBearer sample_auth_runtime (gs_secret sample_server) (ge_verify sample_gateway_env) (first_of (rq_Header pdf_post) ''Authorization'')"
    by simp
  from document_round_trip [OF pre m same lim sample_transport_simps(1,2)] obtain pd where pd: "WriteJSON 201 (document_json x) = WriteJSON 201 (document_json pd)"
    "pd_Id pd = newID (tp_intake_env sample_transport (wo_calls (memory_world sample_service))) 0 ''doc''"
    "mux_handler (sample_get ''/documents/doc_00'') = Found RGetDocument [pd_Id pd] \<longrightarrow>
      snd (fst (middleware sample_auth_runtime sample_gateway_env sample_wired (sample_get ''/documents/doc_00'') (s2, w2)))
      = WriteJSON 200 (document_json pd)"
    by (elim exE conjE)
  have "pd_Id pd = ''doc_00''" using pd(2) new by simp
  then have "snd (fst (middleware sample_auth_runtime sample_gateway_env sample_wired (sample_get ''/documents/doc_00'') (s2, w2)))
      = WriteJSON 200 (document_json pd)" using pd(3) by simp
  moreover have "snd (fst (middleware sample_auth_runtime sample_gateway_env sample_wired pdf_post (sample_server, memory_world sample_service)))
      = WriteJSON 201 (document_json pd)" unfolding m pd(1) by simp
  ultimately show ?thesis by (intro exI conjI)
qed

text \<open>A member of \<open>other\<close> creates an account of \<open>acme\<close>.\<close>

definition account_post :: http_request where
  "account_post = sample_post ''/identity/users'' other_bearer (enc_json (user_body_json (sample_user_request ''acme'')))"

lemma account_post_simps [simp]:
  "mux_handler account_post = Found RCreateUser []" "requiresAuth account_post"
  "first_of (rq_Header account_post) ''Authorization'' = other_bearer"
  "rq_Body account_post = enc_json (user_body_json (sample_user_request ''acme''))"
proof -
  have "clean_path ''/identity/users'' = ''/identity/users''" "find_route ''POST'' (segments ''/identity/users'') = Some (RCreateUser, [])"
    by code_simp+
  then show "mux_handler account_post = Found RCreateUser []" by (simp add: mux_handler_def account_post_def)
qed (simp_all add: account_post_def requiresAuth_def)

theorem any_caller_creates_any_account_witness:
  "snd (fst (middleware sample_auth_runtime sample_gateway_env sample_wired account_post
     (sample_server, memory_world sample_service))) = WriteJSON 201 (user_json sample_user)"
proof -
  have "snd (fst (middleware sample_auth_runtime sample_gateway_env sample_wired account_post
        (sample_server, memory_world sample_service))) = WriteJSON 201 (user_json sample_user)
    \<and> wo_identity (snd (snd (middleware sample_auth_runtime sample_gateway_env sample_wired account_post
        (sample_server, memory_world sample_service)))) = sample_identity_created
    \<and> pr_OrganizationId sample_user = TrimSpace ''acme''
    \<and> (cleanRoles sample_auth_runtime [''Member ''] \<noteq> [] \<longrightarrow> pr_Roles sample_user = cleanRoles sample_auth_runtime [''Member ''])"
    by (rule any_caller_creates_any_account [where ?s1.0 = sample_server and claims = other_claims and t = "[]"
          and req = "sample_user_request ''acme''" and email = "''ada@x.y''" and password = "''difference engine''"])
      (simp_all add: at_end_def to_valid_ascii is_ascii_def byte_def sample_identity_store sample_created, simp add: sample_user_request_def)
  then show ?thesis by blast
qed

theorem login_opens_gateway_witness:
  "\<exists>resp s'. Login sample_auth_runtime sample_identity_env \<lparr>lq_Email = ''ada@x.y'', lq_Password = ''difference engine''\<rparr> sample_identity_created
      = (Inr resp, s')
    \<and> VerifyBearer sample_auth_runtime ''secret'' 0 (''Bearer '' @ lr_AccessToken resp)
      = Inr \<lparr>c_Subject = ''usr_42'', c_OrganizationID = ''acme'', c_Roles = [''member''], c_ExpiresAt = 900\<rparr>"
proof -
  obtain resp s' where l: "Login sample_auth_runtime sample_identity_env \<lparr>lq_Email = ''ada@x.y'', lq_Password = ''difference engine''\<rparr> sample_identity_created = (Inr resp, s')"
    "lr_User resp = sample_user"
    using login_after_create [OF sample_identity_store sample_created, of sample_identity_env "[char_of (65 :: nat)]"]
    by (auto simp: sample_identity_env_def sample_user_request_def)
  have id: "id_secret sample_identity_created = ''secret''" "id_accessTokenTTL sample_identity_created = 15 * minute"
    by code_simp+
  have exp: "time_Unix (ie_now sample_identity_env 0 + id_accessTokenTTL sample_identity_created) = 900"
    unfolding id(2) by (simp add: time_Unix_def sample_identity_env_def)
  have user: "pr_Id sample_user = ''usr_42''" "pr_OrganizationId sample_user = ''acme''" "pr_Roles sample_user = [''member'']"
    by (simp_all add: sample_user_def)
  have "VerifyBearer sample_auth_runtime (gs_secret sample_server) 0 (''Bearer '' @ lr_AccessToken resp) =
    (if time_Unix 0 < time_Unix (ie_now sample_identity_env 0 + id_accessTokenTTL sample_identity_created)
     then Inr \<lparr>c_Subject = pr_Id sample_user, c_OrganizationID = pr_OrganizationId sample_user, c_Roles = pr_Roles sample_user,
            c_ExpiresAt = time_Unix (ie_now sample_identity_env 0 + id_accessTokenTTL sample_identity_created)\<rparr>
     else Inl ''expired token'')"
    using sample_identity_created_invar
    by (intro login_opens_gateway [OF _ _ _ l])
      (simp_all only: exp user, simp_all add: id in_int64_def to_valid_ascii is_ascii_def byte_def)
  moreover have "time_Unix 0 = 0" by (simp add: time_Unix_def)
  ultimately show ?thesis using l(1) by (simp add: exp user del: append.simps)
qed

text \<open>A service whose circuit is open.\<close>

definition busy_pool :: uploadPool where
  "busy_pool = \<lparr>up_sem = 0, up_config = \<lparr>pc_Workers = 1, pc_TenantRate = Fin 1, pc_TenantBurst = 1, pc_FailureThreshold = 1, pc_OpenDuration = 1\<rparr>,
     up_tenants = Map.empty, up_failures = 0, up_openUntil = 10\<rparr>"

definition busy_service :: "(MemoryStore, local_fs) Service" where
  "busy_service = sample_created\<lparr>sv_uploadPool := Some busy_pool\<rparr>"

definition pdf_upload_body :: upload_request_body where
  "pdf_upload_body = \<lparr>ub_Filename = ''a.pdf'', ub_ContentType = ''application/pdf'', ub_ContentBase64 = StdEncode ''data'', ub_IdempotencyKey = []\<rparr>"

theorem overload_is_bad_gateway_witness:
  "snd (fst (middleware sample_auth_runtime sample_gateway_env sample_wired
      (sample_post ''/documents/doc_1/uploads'' sample_bearer (enc_json (upload_body_json pdf_upload_body)))
      (sample_server, memory_world busy_service))) = http_Error 502 ''object storage circuit is open''"
proof -
  let ?m = "middleware sample_auth_runtime sample_gateway_env sample_wired
      (sample_post ''/documents/doc_1/uploads'' sample_bearer (enc_json (upload_body_json pdf_upload_body)))
      (sample_server, memory_world busy_service)"
  have "snd (fst ?m) = http_Error 502 ''object storage circuit is open''
    \<and> sv_db (wo_intake (snd (snd ?m))) = sv_db (wo_intake (memory_world busy_service))"
  proof (rule overload_is_bad_gateway [where ?s1.0 = sample_server and claims = sample_claims and t = "[]" and i = "''doc_1''"
        and b = pdf_upload_body and content = "''data''" and obj = "local_ops sample_intake_runtime ''/data''" and pool = busy_pool
        and pool' = busy_pool and ctx = "claims_metadata sample_claims"])
    show "Require sample_intake_runtime (Some (claims_metadata sample_claims)) (TrimSpace (c_OrganizationID sample_claims)) PermissionUpload = None"
      by code_simp
    show "\<not> oversized (wo_intake (memory_world busy_service)) ''data''"
      unfolding sample_world_simps by code_simp
    show "isAllowedType sample_intake_runtime (wo_intake (memory_world busy_service))
        (content_type_of sample_intake_runtime (to_valid (ub_ContentType pdf_upload_body)) ''data'')"
      unfolding sample_world_simps by code_simp
    show "TrimSpace ''doc_1'' \<noteq> []" "TrimSpace (to_valid (ub_Filename pdf_upload_body)) \<noteq> []"
      by (code_simp, simp add: pdf_upload_body_def, code_simp)
  qed (simp_all add: pdf_upload_body_def at_end_def busy_service_def busy_pool_def acquire_def sample_created_storage sample_env_def)
  then show ?thesis by blast
qed

end
