(* ===== verification/Gateway_Answers.thy ===== *)
theory Gateway_Answers
  imports Gateway_Forwarding
begin

text \<open>
  What every answer of the gateway has in common: its JSON is well formed; and the routing decides by the patterns alone,
  whatever the order of their registration.
\<close>

subsection \<open>Routing\<close>

lemma find_first:
  "find P xs = Some x \<Longrightarrow> x \<in> set xs \<and> P x"
  by (auto simp: find_Some_iff)

lemma find_unique:
  assumes "x \<in> set xs" and "P x" and "\<And>y. y \<in> set xs \<Longrightarrow> P y \<Longrightarrow> y = x"
  shows "find P xs = Some x"
proof -
  obtain y where "find P xs = Some y" using assms(1,2) by (cases "find P xs") (auto simp: find_None_iff)
  with find_first [OF this] assms(3) show ?thesis by simp
qed

lemma methods_disjoint: "method_matches ''GET'' m \<Longrightarrow> \<not> method_matches ''POST'' m"
  by (auto simp: method_matches_def)

text \<open>Two patterns overlap if some path can match both.\<close>

fun overlap :: "pattern_segment list \<Rightarrow> pattern_segment list \<Rightarrow> bool" where
  "overlap [] [] = True"
| "overlap (Lit a # ps) (Lit b # qs) = (a = b \<and> overlap ps qs)"
| "overlap (_ # ps) (_ # qs) = overlap ps qs"
| "overlap _ _ = False"

lemma overlap_match: "match_segments pat1 segs = Some us \<Longrightarrow> match_segments pat2 segs = Some vs \<Longrightarrow> overlap pat1 pat2"
proof (induction pat1 segs arbitrary: us vs pat2 rule: match_segments.induct)
  case (2 l ps s ss)
  then show ?case
    by (cases pat2; cases "hd pat2") (auto split: if_splits)
next
  case (3 ps s ss)
  then show ?case
    by (cases pat2; cases "hd pat2") (auto split: if_splits)
qed (use match_segments.elims in \<open>auto elim: match_segments.elims\<close>)

lemma routes_disjoint:
  "list_all (\<lambda>(m1, pat1, ro1). list_all (\<lambda>(m2, pat2, ro2). m1 = m2 \<and> overlap pat1 pat2 \<longrightarrow> (pat1, ro1) = (pat2, ro2)) routes) routes"
  by (simp add: routes_def)

lemma one_pattern:
  assumes "(m1, pat1, ro1) \<in> set routes" and "(m2, pat2, ro2) \<in> set routes" and "method_matches m1 m" and "method_matches m2 m"
    and "match_segments pat1 segs = Some us" and "match_segments pat2 segs = Some vs"
  shows "(m1, pat1, ro1) = (m2, pat2, ro2)"
proof -
  have "m1 \<in> {''GET'', ''POST''}" "m2 \<in> {''GET'', ''POST''}" using assms(1,2) by (auto simp: routes_def)
  then have "m1 = m2" using assms(3,4) methods_disjoint [of m] by auto
  moreover have "m1 = m2 \<and> overlap pat1 pat2 \<longrightarrow> (pat1, ro1) = (pat2, ro2)"
    using routes_disjoint assms(1,2) unfolding list_all_iff by fast
  ultimately show ?thesis using overlap_match [OF assms(5,6)] by simp
qed


subsection \<open>JSON\<close>

definition json_answer :: "http_response \<Rightarrow> bool" where
  "json_answer resp \<longleftrightarrow> (\<exists>st v. resp = WriteJSON st v \<and> writable max_depth v)"

lemma json_answerI: "writable max_depth v \<Longrightarrow> json_answer (WriteJSON st v)"
  by (auto simp: json_answer_def)

lemma Error_answer [simp]: "json_answer (http_Error st msg)"
  unfolding http_Error_def by (rule json_answerI) simp

lemma invalid_body_answer [simp]: "json_answer invalid_body"
  by (simp add: invalid_body_def)

lemma upstream_answer [simp]: "json_answer (writeUpstreamError e)"
  by (simp add: writeUpstreamError_def status_response_def split: call_error.split)

text \<open>The messages nest at most three levels deep, and their numbers are integers.\<close>

lemma fields_writable:
  "list_all (\<lambda>(k, v). writable d v) (str_field k s)" "list_all (\<lambda>(k, v). writable d v) (int_field k i)"
  "0 < d \<Longrightarrow> list_all (\<lambda>(k, v). writable d v) (strs_field k ss)"
  using valid_number_show_int [of i] by (auto simp: str_field_def int_field_def strs_field_def list_all_iff)

lemma upload_writable: "0 < d \<Longrightarrow> writable d (upload_json u)"
  by (simp add: upload_json_def fields_writable)

lemma uploads_writable: "0 < d \<Longrightarrow> list_all (writable d) (map upload_json us)"
  by (simp add: list_all_iff upload_writable)

lemma messages_writable:
  "writable max_depth (user_json u)" "writable max_depth (login_json l)" "writable max_depth (document_json pd)"
  "writable max_depth (upload_response_json ur)" "writable max_depth (status_json ds)" "writable max_depth (verification_json vf)"
  by (auto simp: user_json_def login_json_def document_json_def upload_response_json_def status_json_def verification_json_def
      fields_writable uploads_writable list_all_append split: option.splits)

lemma respond_answer:
  "(\<And>v. writable max_depth (body v)) \<Longrightarrow> respond st body x = (resp, w') \<Longrightarrow> json_answer resp"
  by (auto simp: respond_def json_answerI split: prod.splits sum.splits)

lemma route_answer:
  assumes "serve_route rt env h s ro vs r w = (resp, w')" and "ro \<noteq> RMetrics"
  shows "json_answer resp"
  using assms messages_writable
  by (cases ro)
    (auto simp: health_def ready_def login_def createUser_def createDocument_def getDocument_def uploadDocument_handler_def
      getDocumentStatus_handler_def startVerification_def getVerification_def Let_def intro!: json_answerI
      split: option.splits if_splits prod.splits dest!: respond_answer [rotated])

text \<open>
  Property C40. What the gateway declares as JSON is JSON: the body of every answer with the content type
  \<open>application/json\<close>, whatever the services answered and whatever bytes are in the texts, is a JSON value and a newline, and a
  decoder reads exactly that value, with stray bytes replaced.
\<close>

theorem answers_are_json:
  assumes "middleware rt env h r (s, w) = ((rid, resp), s', w')" and "rs_ContentType resp = ''application/json''"
  shows "\<exists>v. rs_Body resp = enc_json v @ [CHR 0x0A] \<and> json_Decode (rs_Body resp) = Some (valid_json v)"
proof -
  have mux: "json_answer x \<or> rs_ContentType x \<noteq> ''application/json''" if "serve_mux rt env h s1 q w = (x, w')" for s1 q x
  proof (cases "mux_handler q")
    case (Found ro vs)
    with that have "serve_route rt env h s1 ro vs q w = (x, w')" by (simp add: serve_mux_def)
    then show ?thesis using route_answer [of rt env h s1 ro vs q w x w'] by (cases "ro = RMetrics") auto
  qed (use that in \<open>auto simp: serve_mux_def plain_text_def\<close>)
  have "json_answer resp"
    using assms(1) by (cases rule: middleware_cases) (use mux assms(2) in auto)
  then obtain st v where v: "resp = WriteJSON st v" "writable max_depth v" by (auto simp: json_answer_def)
  then have b: "rs_Body resp = enc_json v @ [CHR 0x0A]" by (simp add: WriteJSON_def)
  have "at_end [CHR 0x0A]" by (simp add: at_end_def num_char_def is_digit_def byte_def)
  from Decode_enc_json [OF v(2) this] b show ?thesis by (intro exI [of _ v]) simp
qed

theorem answers_are_json_witness:
  "\<exists>rid resp st. middleware sample_auth_runtime sample_gateway_env sample_clients (sample_post ''/documents'' [] []) (sample_server, 0) = ((rid, resp), st)
    \<and> json_Decode (rs_Body resp) = Some (valid_json (JObj [(''error'', JStr ''unauthorized'')]))"
proof -
  let ?r = "sample_post ''/documents'' [] []"
  obtain rid resp s' w' where m: "middleware sample_auth_runtime sample_gateway_env sample_clients ?r (sample_server, 0) = ((rid, resp), s', w')"
    by (metis prod.collapse)
  have b: "VerifyBearer sample_auth_runtime ''secret'' (ge_verify sample_gateway_env) [] = Inl ''missing bearer token''"
    by (simp add: VerifyBearer_def HasPrefix_def)
  have resp: "resp = http_Error 401 ''unauthorized''"
    using m b by (auto simp: middleware_def authenticate_def Let_def)
  then have ct: "rs_ContentType resp = ''application/json''" by (simp add: http_Error_def WriteJSON_def)
  from answers_are_json [OF m ct] obtain v where v: "rs_Body resp = enc_json v @ [CHR 0x0A]" "json_Decode (rs_Body resp) = Some (valid_json v)"
    by blast
  have "at_end [CHR 0x0A]" by (simp add: at_end_def num_char_def is_digit_def byte_def)
  then have "json_Decode (rs_Body resp) = Some (valid_json (JObj [(''error'', JStr ''unauthorized'')]))"
    using Decode_enc_json [where v = "JObj [(''error'', JStr ''unauthorized'')]" and t = "[CHR 0x0A]"]
    unfolding resp http_Error_def WriteJSON_def by simp
  with m v show ?thesis by blast
qed

end
