(* ===== verification/Go_Duration.thy ===== *)
theory Go_Duration
  imports Go_Numeric
begin

text \<open>
  \<open>time.ParseDuration\<close>: a sign, and a sequence of decimal numbers with units. Durations are in nanoseconds; the fraction is
  scaled in \<open>float64\<close>.
\<close>

text \<open>\<open>leadingInt\<close>: the digits at the start, \<open>None\<close> when their value exceeds \<open>2 ^ 63\<close>.\<close>

fun leadingInt :: "nat \<Rightarrow> string \<Rightarrow> (nat \<times> string) option" where
  "leadingInt x [] = Some (x, [])"
| "leadingInt x (c # s) =
     (if \<not> is_digit c then Some (x, c # s)
      else if x > 2 ^ 63 div 10 then None
      else let y = 10 * x + (byte c - 48) in if y > 2 ^ 63 then None else leadingInt y s)"

text \<open>\<open>leadingFraction\<close>: the value of the digits up to the first that would overflow, and the scale that goes with it.\<close>

fun leadingFraction :: "nat \<Rightarrow> nat \<Rightarrow> bool \<Rightarrow> string \<Rightarrow> nat \<times> nat \<times> string" where
  "leadingFraction x scale overflow [] = (x, scale, [])"
| "leadingFraction x scale overflow (c # s) =
     (if \<not> is_digit c then (x, scale, c # s)
      else if overflow \<or> x > (2 ^ 63 - 1) div 10 then leadingFraction x scale True s
      else let y = 10 * x + (byte c - 48)
           in if y > 2 ^ 63 then leadingFraction x scale True s else leadingFraction y (10 * scale) False s)"

definition duration_units :: "(string \<times> nat) list" where
  "duration_units =
     [(''ns'', 1), (''us'', 1000), ([CHR 0xC2, CHR 0xB5, CHR ''s''], 1000), ([CHR 0xCE, CHR 0xBC, CHR ''s''], 1000),
      (''ms'', 1000000), (''s'', 1000000000), (''m'', 60000000000), (''h'', 3600000000000)]"

definition unit_char :: "char \<Rightarrow> bool" where
  "unit_char c \<longleftrightarrow> c \<noteq> CHR ''.'' \<and> \<not> is_digit c"

definition float_floor :: "float64 \<Rightarrow> nat" where
  "float_floor x = (case x of Fin r \<Rightarrow> nat \<lfloor>r\<rfloor> | _ \<Rightarrow> 0)"

text \<open>The optional fraction after the digits, and whether it had digits.\<close>

definition duration_fraction :: "string \<Rightarrow> nat \<times> nat \<times> string \<times> bool" where
  "duration_fraction s =
     (if s \<noteq> [] \<and> hd s = CHR ''.'' then
        (case leadingFraction 0 1 False (tl s) of (f, scale, t) \<Rightarrow> (f, scale, t, length t \<noteq> length (tl s)))
      else (0, 1, s, False))"

definition in_unit :: "'z float_runtime_scheme \<Rightarrow> nat \<Rightarrow> nat \<Rightarrow> nat \<Rightarrow> nat \<Rightarrow> nat option" where
  "in_unit rt v f scale unit =
     (if v > 2 ^ 63 div unit then None
      else
        let frac = (if f = 0 then 0
                    else float_floor (fmul (round64 rt) (round64 rt (of_nat f)) (round64 rt (of_nat unit / of_nat scale))));
            total = v * unit + frac
        in if total > 2 ^ 63 then None else Some total)"

text \<open>One number with its unit: the nanoseconds it adds, and the rest.\<close>

definition duration_term :: "'z float_runtime_scheme \<Rightarrow> string \<Rightarrow> (nat \<times> string) option" where
  "duration_term rt s =
     (if s = [] \<or> \<not> (hd s = CHR ''.'' \<or> is_digit (hd s)) then None
      else case leadingInt 0 s of
        None \<Rightarrow> None
      | Some (v, s1) \<Rightarrow>
          (case duration_fraction s1 of
             (f, scale, s2, post) \<Rightarrow>
               if length s1 = length s \<and> \<not> post then None
               else case map_of duration_units (takeWhile unit_char s2) of
                 None \<Rightarrow> None
               | Some unit \<Rightarrow> map_option (\<lambda>total. (total, dropWhile unit_char s2)) (in_unit rt v f scale unit)))"

lemma leadingInt_length: "leadingInt x s = Some (v, t) \<Longrightarrow> length t \<le> length s"
  by (induction x s rule: leadingInt.induct) (auto simp: Let_def split: if_splits)

lemma leadingFraction_length: "leadingFraction x sc ov s = (f, scale, t) \<Longrightarrow> length t \<le> length s"
proof (induction x sc ov s rule: leadingFraction.induct)
  case (2 x sc ov c s)
  have "10 * x + (byte c - 48) = 10 * x + byte c - 48" if "is_digit c" using that by (simp add: is_digit_def)
  with 2 show ?case by (auto simp: Let_def split: if_splits)
qed simp

lemma duration_units_Nil: "map_of duration_units [] = None"
  by (simp add: duration_units_def)

lemma duration_term_length:
  assumes "duration_term rt s = Some (d, t)"
  shows "length t < length s"
proof -
  obtain v s1 where v: "leadingInt 0 s = Some (v, s1)" using assms by (auto simp: duration_term_def split: if_splits option.splits)
  obtain f scale s2 post where p: "duration_fraction s1 = (f, scale, s2, post)" by (metis prod.exhaust)
  have "length s2 \<le> length s1"
    using p leadingFraction_length [of 0 1 False "tl s1"] by (auto simp: duration_fraction_def split: if_splits prod.splits)
  also have "\<dots> \<le> length s" by (rule leadingInt_length [OF v])
  finally have s2: "length s2 \<le> length s" .
  have t: "t = dropWhile unit_char s2" and u: "map_of duration_units (takeWhile unit_char s2) \<noteq> None"
    using assms v p by (auto simp: duration_term_def split: if_splits option.splits)
  from u have "takeWhile unit_char s2 \<noteq> []" using duration_units_Nil by metis
  then have "0 < length (takeWhile unit_char s2)" by simp
  moreover have "length (takeWhile unit_char s2) + length t = length s2"
    unfolding t by (metis length_append takeWhile_dropWhile_id)
  ultimately show ?thesis using s2 by linarith
qed

function duration_terms :: "'z float_runtime_scheme \<Rightarrow> nat \<Rightarrow> string \<Rightarrow> nat option" where
  "duration_terms rt d s =
     (if s = [] then Some d
      else case duration_term rt s of
        None \<Rightarrow> None
      | Some (v, t) \<Rightarrow> if d + v > 2 ^ 63 then None else duration_terms rt (d + v) t)"
  by pat_completeness auto
termination by (relation "measure (\<lambda>(rt, d, s). length s)") (auto dest: duration_term_length)

declare duration_terms.simps [simp del]

definition ParseDuration :: "'z float_runtime_scheme \<Rightarrow> string \<Rightarrow> duration option" where
  "ParseDuration rt s =
     (let neg = (s \<noteq> [] \<and> hd s = CHR ''-'');
          s1 = (if s \<noteq> [] \<and> (hd s = CHR ''-'' \<or> hd s = CHR ''+'') then tl s else s)
      in if s1 = ''0'' then Some 0
         else if s1 = [] then None
         else case duration_terms rt 0 s1 of
           None \<Rightarrow> None
         | Some d \<Rightarrow> if neg then Some (- int d) else if d > 2 ^ 63 - 1 then None else Some (int d))"

text \<open>A duration that parses is an \<open>int64\<close>.\<close>

lemma duration_terms_bound: "duration_terms rt d s = Some v \<Longrightarrow> d \<le> 2 ^ 63 \<Longrightarrow> v \<le> 2 ^ 63"
proof (induction rt d s rule: duration_terms.induct)
  case (1 rt d s)
  then show ?case
    by (subst (asm) (2) duration_terms.simps) (auto split: if_splits option.splits)
qed

lemma ParseDuration_int64: "ParseDuration rt s = Some d \<Longrightarrow> in_int64 d"
  using duration_terms_bound [of rt 0]
  by (fastforce simp: ParseDuration_def Let_def in_int64_def split: if_splits option.splits)

end
