(* ===== verification/Services_Config.thy ===== *)
theory Services_Config
  imports Go_Duration Upload_Pool Rate_Limiter
begin

text \<open>
  The configurations of the three services (their packages \<open>config\<close>). The environment is a function from names to values, empty
  for a variable that is not set; \<open>strconv.ParseFloat\<close> is the parameter \<open>parse_float\<close>, \<open>None\<close> an error.
\<close>

type_synonym environment = "string \<Rightarrow> string"

abbreviation seconds :: "int \<Rightarrow> duration" where
  "seconds n \<equiv> n * 1000000000"

definition ParseBool :: "string \<Rightarrow> bool option" where
  "ParseBool s =
     (if s \<in> set [''1'', ''t'', ''T'', ''true'', ''TRUE'', ''True''] then Some True
      else if s \<in> set [''0'', ''f'', ''F'', ''false'', ''FALSE'', ''False''] then Some False
      else None)"

subsection \<open>API gateway\<close>

record GatewayConfig =
  gc_Address :: string
  gc_JWTSecret :: string
  gc_AuthDisabled :: bool
  gc_RequestTimeout :: duration
  gc_RateLimitRPS :: int
  gc_RateLimitBurst :: int
  gc_IdentityTarget :: string
  gc_DocumentsTarget :: string
  gc_VerificationTarget :: string
  gc_GRPCInsecure :: bool

definition gw_env :: "environment \<Rightarrow> string \<Rightarrow> string \<Rightarrow> string" where
  "gw_env e key fallback = (let value = TrimSpace (e key) in if value = [] then fallback else value)"

definition gw_envBool :: "environment \<Rightarrow> string \<Rightarrow> bool \<Rightarrow> bool" where
  "gw_envBool e key fallback =
     (let value = TrimSpace (e key) in if value = [] then fallback else case ParseBool value of None \<Rightarrow> fallback | Some b \<Rightarrow> b)"

definition gw_envInt :: "environment \<Rightarrow> string \<Rightarrow> int \<Rightarrow> int" where
  "gw_envInt e key fallback =
     (let value = TrimSpace (e key) in if value = [] then fallback else case ParseInt value of None \<Rightarrow> fallback | Some i \<Rightarrow> i)"

definition gw_envDuration :: "'z float_runtime_scheme \<Rightarrow> environment \<Rightarrow> string \<Rightarrow> duration \<Rightarrow> duration" where
  "gw_envDuration rt e key fallback =
     (let value = TrimSpace (e key) in if value = [] then fallback else case ParseDuration rt value of None \<Rightarrow> fallback | Some d \<Rightarrow> d)"

definition gateway_Load :: "'z float_runtime_scheme \<Rightarrow> environment \<Rightarrow> string + GatewayConfig" where
  "gateway_Load rt e =
     (let cfg = \<lparr>gc_Address = gw_env e ''GATEWAY_ADDR'' '':8080'', gc_JWTSecret = e ''JWT_SECRET'',
                 gc_AuthDisabled = gw_envBool e ''GATEWAY_AUTH_DISABLED'' False,
                 gc_RequestTimeout = gw_envDuration rt e ''REQUEST_TIMEOUT'' (seconds 10),
                 gc_RateLimitRPS = gw_envInt e ''RATE_LIMIT_RPS'' 20, gc_RateLimitBurst = gw_envInt e ''RATE_LIMIT_BURST'' 40,
                 gc_IdentityTarget = gw_env e ''IDENTITY_GRPC_ADDR'' ''localhost:9001'',
                 gc_DocumentsTarget = gw_env e ''DOCUMENTS_GRPC_ADDR'' ''localhost:9002'',
                 gc_VerificationTarget = gw_env e ''VERIFICATION_GRPC_ADDR'' ''localhost:9003'',
                 gc_GRPCInsecure = gw_envBool e ''GRPC_INSECURE'' True\<rparr>
      in if \<not> gc_AuthDisabled cfg \<and> gc_JWTSecret cfg = [] then Inl ''JWT_SECRET is required unless GATEWAY_AUTH_DISABLED=true''
         else if gc_RateLimitRPS cfg \<le> 0 \<or> gc_RateLimitBurst cfg \<le> 0 then
           Inl ''RATE_LIMIT_RPS and RATE_LIMIT_BURST must be positive''
         else Inr cfg)"

subsection \<open>Identity service\<close>

record IdentityConfig =
  ic_Address :: string
  ic_JWTSecret :: string
  ic_Environment :: string
  ic_DatabaseURL :: string
  ic_DatabaseTimeout :: duration
  ic_AccessTokenTTL :: duration
  ic_RefreshTokenTTL :: duration
  ic_DevelopmentSeed :: bool
  ic_DevelopmentOrgID :: string
  ic_DevelopmentEmail :: string
  ic_DevelopmentPassword :: string

definition id_env :: "environment \<Rightarrow> string \<Rightarrow> string \<Rightarrow> string" where
  "id_env e key fallback = (if e key \<noteq> [] then e key else fallback)"

definition id_durationEnv :: "'z float_runtime_scheme \<Rightarrow> environment \<Rightarrow> string \<Rightarrow> duration \<Rightarrow> duration" where
  "id_durationEnv rt e key fallback =
     (if e key = [] then fallback else case ParseDuration rt (e key) of None \<Rightarrow> fallback | Some d \<Rightarrow> d)"

definition id_boolEnv :: "environment \<Rightarrow> string \<Rightarrow> bool \<Rightarrow> bool" where
  "id_boolEnv e key fallback = (if e key = [] then fallback else case ParseBool (e key) of None \<Rightarrow> fallback | Some b \<Rightarrow> b)"

definition identity_Load :: "'z float_runtime_scheme \<Rightarrow> environment \<Rightarrow> string + IdentityConfig" where
  "identity_Load rt e =
     (let cfg = \<lparr>ic_Address = id_env e ''IDENTITY_GRPC_ADDR'' '':9001'', ic_JWTSecret = e ''JWT_SECRET'',
                 ic_Environment = ToLower rt (TrimSpace (id_env e ''IDENTITY_ENV'' ''development'')),
                 ic_DatabaseURL = e ''DATABASE_URL'', ic_DatabaseTimeout = id_durationEnv rt e ''DATABASE_TIMEOUT'' (seconds 5),
                 ic_AccessTokenTTL = id_durationEnv rt e ''ACCESS_TOKEN_TTL'' (15 * minute),
                 ic_RefreshTokenTTL = id_durationEnv rt e ''REFRESH_TOKEN_TTL'' (30 * 24 * 60 * minute),
                 ic_DevelopmentSeed = id_boolEnv e ''IDENTITY_DEV_SEED'' True,
                 ic_DevelopmentOrgID = id_env e ''IDENTITY_DEV_ORG_ID'' ''dev-org'',
                 ic_DevelopmentEmail = id_env e ''IDENTITY_DEV_EMAIL'' ''admin@doclens.local'',
                 ic_DevelopmentPassword = id_env e ''IDENTITY_DEV_PASSWORD'' ''doclens-dev''\<rparr>
      in if ic_JWTSecret cfg = [] then Inl ''JWT_SECRET is required''
         else if ic_DatabaseURL cfg = [] \<and> ic_Environment cfg \<noteq> ''development'' then
           Inl ''DATABASE_URL is required outside development''
         else Inr cfg)"

subsection \<open>Document Intake service\<close>

record IntakeConfig =
  kc_Address :: string
  kc_MetricsAddress :: string
  kc_DatabaseURL :: string
  kc_StorageDir :: string
  kc_R2Endpoint :: string
  kc_R2AccessKeyID :: string
  kc_R2SecretAccessKey :: string
  kc_R2Bucket :: string
  kc_RabbitMQURL :: string
  kc_RabbitMQExchange :: string
  kc_MaxUploadBytes :: int
  kc_AllowedContentTypes :: "string list"
  kc_UploadWorkers :: int
  kc_UploadTenantRate :: float64
  kc_UploadTenantBurst :: int
  kc_UploadFailureLimit :: int
  kc_UploadCircuitOpen :: duration

definition intEnv :: "environment \<Rightarrow> string \<Rightarrow> int \<Rightarrow> int" where
  "intEnv e key fallback =
     (let value = TrimSpace (e key)
      in if value = [] then fallback
         else case ParseInt value of None \<Rightarrow> fallback | Some parsed \<Rightarrow> if parsed \<le> 0 then fallback else parsed)"

definition floatEnv :: "(string \<Rightarrow> float64 option) \<Rightarrow> environment \<Rightarrow> string \<Rightarrow> float64 \<Rightarrow> float64" where
  "floatEnv parse_float e key fallback =
     (let value = TrimSpace (e key)
      in if value = [] then fallback
         else case parse_float value of None \<Rightarrow> fallback | Some parsed \<Rightarrow> if fle parsed (Fin 0) then fallback else parsed)"

definition durationEnv :: "'z float_runtime_scheme \<Rightarrow> environment \<Rightarrow> string \<Rightarrow> duration \<Rightarrow> duration" where
  "durationEnv rt e key fallback =
     (let value = TrimSpace (e key)
      in if value = [] then fallback
         else case ParseDuration rt value of None \<Rightarrow> fallback | Some parsed \<Rightarrow> if parsed \<le> 0 then fallback else parsed)"

definition getenv :: "environment \<Rightarrow> string \<Rightarrow> string \<Rightarrow> string" where
  "getenv e key fallback = (let value = TrimSpace (e key) in if value \<noteq> [] then value else fallback)"

definition int64Env :: "environment \<Rightarrow> string \<Rightarrow> int \<Rightarrow> int" where
  "int64Env e key fallback =
     (let value = TrimSpace (e key)
      in if value = [] then fallback else case ParseInt value of None \<Rightarrow> fallback | Some parsed \<Rightarrow> parsed)"

fun csv_parts :: "'z runtime_scheme \<Rightarrow> string list \<Rightarrow> string list" where
  "csv_parts rt [] = []"
| "csv_parts rt (part # parts) =
     (let trimmed = TrimSpace part in if trimmed = [] then csv_parts rt parts else ToLower rt trimmed # csv_parts rt parts)"

definition parseCSV :: "'z runtime_scheme \<Rightarrow> string \<Rightarrow> string list" where
  "parseCSV rt value = csv_parts rt (Split value CHR '','')"

text \<open>\<open>Load\<close> of this service has no error case.\<close>

definition intake_Load :: "'z float_runtime_scheme \<Rightarrow> (string \<Rightarrow> float64 option) \<Rightarrow> environment \<Rightarrow> IntakeConfig" where
  "intake_Load rt parse_float e =
     (let cfg = \<lparr>kc_Address = getenv e ''DOCUMENT_INTAKE_GRPC_ADDR'' '':9002'',
                 kc_MetricsAddress = getenv e ''DOCUMENT_INTAKE_METRICS_ADDR'' '':9092'',
                 kc_DatabaseURL = TrimSpace (e ''DATABASE_URL''),
                 kc_StorageDir = getenv e ''DOCUMENT_INTAKE_STORAGE_DIR'' ''./data/documents'',
                 kc_R2Endpoint = TrimSpace (e ''R2_ENDPOINT''), kc_R2AccessKeyID = TrimSpace (e ''R2_ACCESS_KEY_ID''),
                 kc_R2SecretAccessKey = TrimSpace (e ''R2_SECRET_ACCESS_KEY''), kc_R2Bucket = TrimSpace (e ''R2_BUCKET''),
                 kc_RabbitMQURL = TrimSpace (e ''RABBITMQ_URL''), kc_RabbitMQExchange = getenv e ''RABBITMQ_EXCHANGE'' ''doclens.events'',
                 kc_MaxUploadBytes = int64Env e ''DOCUMENT_INTAKE_MAX_UPLOAD_BYTES'' (10 * 1024 * 1024),
                 kc_AllowedContentTypes = parseCSV rt
                   (getenv e ''DOCUMENT_INTAKE_ALLOWED_CONTENT_TYPES'' ''application/pdf,image/jpeg,image/png,image/webp''),
                 kc_UploadWorkers = intEnv e ''DOCUMENT_INTAKE_UPLOAD_WORKERS'' 8,
                 kc_UploadTenantRate = floatEnv parse_float e ''DOCUMENT_INTAKE_TENANT_UPLOAD_RATE'' (Fin 5),
                 kc_UploadTenantBurst = intEnv e ''DOCUMENT_INTAKE_TENANT_UPLOAD_BURST'' 10,
                 kc_UploadFailureLimit = intEnv e ''DOCUMENT_INTAKE_STORAGE_FAILURE_THRESHOLD'' 5,
                 kc_UploadCircuitOpen = durationEnv rt e ''DOCUMENT_INTAKE_STORAGE_CIRCUIT_OPEN'' (seconds 30)\<rparr>;
          cfg1 = (if kc_Address cfg = [] then cfg\<lparr>kc_Address := '':9002''\<rparr> else cfg)
      in if kc_AllowedContentTypes cfg1 = [] then
           cfg1\<lparr>kc_AllowedContentTypes := [''application/pdf'', ''image/jpeg'', ''image/png'', ''image/webp'']\<rparr>
         else cfg1)"

subsection \<open>What the values satisfy\<close>

lemma intEnv_pos: "0 < fallback \<Longrightarrow> 0 < intEnv e key fallback"
  by (auto simp: intEnv_def Let_def split: option.split)

lemma durationEnv_pos: "0 < fallback \<Longrightarrow> 0 < durationEnv rt e key fallback"
  by (auto simp: durationEnv_def Let_def split: option.split)

lemma floatEnv_pos: "\<not> fle fallback (Fin 0) \<Longrightarrow> \<not> fle (floatEnv pf e key fallback) (Fin 0)"
  by (auto simp: floatEnv_def Let_def split: option.split)

lemma csv_parts_nonempty: "x \<in> set (csv_parts rt parts) \<Longrightarrow> \<exists>p. TrimSpace p \<noteq> [] \<and> x = ToLower rt (TrimSpace p)"
  by (induction rt parts rule: csv_parts.induct) (auto simp: Let_def split: if_splits)

end
