(* ===== verification/Services_Start.thy ===== *)
theory Services_Start
  imports Services_Config Gateway_Server Identity_Accounts Intake_Service
begin

text \<open>
  How the services start: what each \<open>main\<close> builds from its configuration, and the gateway's connections
  (\<open>grpcclient/clients.go\<close>). The outcomes of connecting to databases and services are parameters.
\<close>

subsection \<open>Connections of the gateway\<close>

record Targets =
  tg_Identity :: string
  tg_Documents :: string
  tg_Verification :: string
  tg_Insecure :: bool

text \<open>The result and the connections that have been closed; the clients keep their connections in order.\<close>

definition Dial :: "(string \<Rightarrow> string + 'c) \<Rightarrow> Targets \<Rightarrow> (string + 'c list) \<times> 'c list" where
  "Dial dial targets =
     (if \<not> tg_Insecure targets then
        (Inl ''TLS gRPC dialing is not configured yet; set GRPC_INSECURE=true for local development'', [])
      else case dial (tg_Identity targets) of
        Inl err \<Rightarrow> (Inl err, [])
      | Inr identityConn \<Rightarrow>
          (case dial (tg_Documents targets) of
             Inl err \<Rightarrow> (Inl err, [identityConn])
           | Inr documentsConn \<Rightarrow>
               (case dial (tg_Verification targets) of
                  Inl err \<Rightarrow> (Inl err, [identityConn, documentsConn])
                | Inr verificationConn \<Rightarrow> (Inr [identityConn, documentsConn, verificationConn], []))))"

text \<open>\<open>Close\<close> closes every connection whatever the others return; \<open>errors.Join\<close> keeps the errors in order.\<close>

definition Close :: "('c \<Rightarrow> string option) \<Rightarrow> 'c list \<Rightarrow> string list \<times> 'c list" where
  "Close close conns = (List.map_filter close conns, conns)"

text \<open>The connections that a dialling of the targets opens, in order, up to the first failure.\<close>

fun opened :: "(string \<Rightarrow> string + 'c) \<Rightarrow> string list \<Rightarrow> 'c list" where
  "opened dial [] = []"
| "opened dial (t # ts) = (case dial t of Inl _ \<Rightarrow> [] | Inr c \<Rightarrow> c # opened dial ts)"

subsection \<open>What the mains build\<close>

definition gateway_start :: "'z float_runtime_scheme \<Rightarrow> GatewayConfig \<Rightarrow> Server" where
  "gateway_start rt cfg =
     NewServer \<lparr>dp_Metrics = Some NewMetrics, dp_JWTSecret = gc_JWTSecret cfg, dp_AuthDisabled = gc_AuthDisabled cfg,
       dp_RateLimiter = Some (NewLimiter rt (gc_RateLimitRPS cfg) (gc_RateLimitBurst cfg))\<rparr>"

definition gateway_targets :: "GatewayConfig \<Rightarrow> Targets" where
  "gateway_targets cfg =
     \<lparr>tg_Identity = gc_IdentityTarget cfg, tg_Documents = gc_DocumentsTarget cfg, tg_Verification = gc_VerificationTarget cfg,
      tg_Insecure = gc_GRPCInsecure cfg\<rparr>"

definition seeded :: "'z auth_runtime_scheme \<Rightarrow> identity_env \<Rightarrow> IdentityConfig \<Rightarrow> 's Identity \<Rightarrow> string + 's Identity" where
  "seeded rt env cfg s =
     (if ic_DevelopmentSeed cfg then
        (case SeedDevelopmentUser rt env (ic_DevelopmentOrgID cfg) (ic_DevelopmentEmail cfg) (ic_DevelopmentPassword cfg) s of
           (Some _, _) \<Rightarrow> Inl ''seed development user''
         | (None, s') \<Rightarrow> Inr s')
      else Inr s)"

text \<open>The database argument is the outcome of the connection and the migration.\<close>

definition identity_start ::
  "'z auth_runtime_scheme \<Rightarrow> identity_env \<Rightarrow> string + Postgres \<Rightarrow> IdentityConfig \<Rightarrow> string + (Memory Identity + Postgres Identity)" where
  "identity_start rt env database cfg =
     (if ic_DatabaseURL cfg = [] then
        map_sum id Inl (seeded rt env cfg
          (NewIdentity (memory_identity rt) NewMemory (ic_JWTSecret cfg) (ic_AccessTokenTTL cfg) (ic_RefreshTokenTTL cfg)))
      else case database of
        Inl err \<Rightarrow> Inl err
      | Inr db \<Rightarrow>
          map_sum id Inr (seeded rt env cfg
            (NewIdentity (postgres_identity rt) db (ic_JWTSecret cfg) (ic_AccessTokenTTL cfg) (ic_RefreshTokenTTL cfg))))"

datatype storage_kind = LocalStorage | R2Storage
datatype store_kind = MemoryStoreKind | PostgresStoreKind

text \<open>The choices of the Document Intake service: its object storage, its store, and whether the outbox publisher runs.\<close>

definition storage_choice :: "IntakeConfig \<Rightarrow> string + storage_kind" where
  "storage_choice cfg =
     (if kc_R2Endpoint cfg \<noteq> [] \<or> kc_R2Bucket cfg \<noteq> [] then
        if kc_R2Endpoint cfg = [] \<or> kc_R2AccessKeyID cfg = [] \<or> kc_R2SecretAccessKey cfg = [] \<or> kc_R2Bucket cfg = [] then
          Inl ''r2 configuration is incomplete''
        else Inr R2Storage
      else Inr LocalStorage)"

definition store_choice :: "IntakeConfig \<Rightarrow> store_kind" where
  "store_choice cfg = (if kc_DatabaseURL cfg \<noteq> [] then PostgresStoreKind else MemoryStoreKind)"

definition outbox_choice :: "IntakeConfig \<Rightarrow> string + bool" where
  "outbox_choice cfg =
     (if kc_RabbitMQURL cfg \<noteq> [] then
        if store_choice cfg = MemoryStoreKind then Inl ''rabbitmq requires postgres'' else Inr True
      else Inr False)"

lemma outbox_needs_postgres: "outbox_choice cfg = Inr True \<Longrightarrow> store_choice cfg = PostgresStoreKind"
  by (auto simp: outbox_choice_def split: if_splits intro: store_kind.exhaust)

lemma r2_complete:
  "storage_choice cfg = Inr R2Storage \<Longrightarrow> kc_R2Endpoint cfg \<noteq> [] \<and> kc_R2AccessKeyID cfg \<noteq> [] \<and> kc_R2SecretAccessKey cfg \<noteq> [] \<and> kc_R2Bucket cfg \<noteq> []"
  by (auto simp: storage_choice_def split: if_splits)

definition pool_config :: "IntakeConfig \<Rightarrow> UploadPoolConfig" where
  "pool_config cfg =
     \<lparr>pc_Workers = kc_UploadWorkers cfg, pc_TenantRate = kc_UploadTenantRate cfg, pc_TenantBurst = kc_UploadTenantBurst cfg,
      pc_FailureThreshold = kc_UploadFailureLimit cfg, pc_OpenDuration = kc_UploadCircuitOpen cfg\<rparr>"

definition intake_service ::
  "'z runtime_scheme \<Rightarrow> IntakeConfig \<Rightarrow> 's store_iface \<Rightarrow> 's \<Rightarrow> 'o obj_iface \<Rightarrow> 'o \<Rightarrow> string + ('s, 'o) Service" where
  "intake_service rt cfg st db obj objects =
     map_sum id (WithMetrics (Some NewIntakeMetrics))
       (WithUploadPool (pool_config cfg)
         (NewService rt st db (Some obj) objects (kc_MaxUploadBytes cfg) (kc_AllowedContentTypes cfg)))"

lemma seeded_secret: "seeded rt env cfg s = Inr s' \<Longrightarrow> id_secret s' = id_secret s"
  by (auto simp: seeded_def SeedDevelopmentUser_def CreateUser_def
      split: if_splits prod.splits option.splits sum.splits identity_error.splits)

subsection \<open>Properties\<close>

text \<open>
  Connections do not leak: when the gateway cannot connect to one of its services, every connection
  opened before is closed again, and when it can, none is closed and the clients hold all three.
\<close>

theorem dial_no_leak:
  assumes "Dial dial tg = (r, shut)" and "tg_Insecure tg"
  shows "opened dial [tg_Identity tg, tg_Documents tg, tg_Verification tg] = (case r of Inl _ \<Rightarrow> shut | Inr conns \<Rightarrow> conns)
    \<and> (is_ok r \<longrightarrow> shut = [])"
  using assms by (auto simp: Dial_def split: sum.splits)

theorem dial_no_leak_witness:
  "\<exists>r shut. Dial (\<lambda>t. if t = ''c'' then Inl ''refused'' else Inr t)
      \<lparr>tg_Identity = ''a'', tg_Documents = ''b'', tg_Verification = ''c'', tg_Insecure = True\<rparr> = (r, shut)
    \<and> shut = [''a'', ''b'']"
proof -
  let ?d = "\<lambda>t. if t = ''c'' then Inl ''refused'' else Inr t"
  let ?tg = "\<lparr>tg_Identity = ''a'', tg_Documents = ''b'', tg_Verification = ''c'', tg_Insecure = True\<rparr>"
  have d: "Dial ?d ?tg = (Inl ''refused'', [''a'', ''b''])" by (simp add: Dial_def)
  from dial_no_leak [OF d] d show ?thesis by simp
qed

text \<open>
  The Document Intake service accepts every environment for its upload pool: whatever the variables hold, the
  configuration has positive limits (or a NaN rate), so that the pool is always created and the service starts with it and
  with its metrics.
\<close>

theorem intake_pool_always_starts:
  "\<exists>s p. intake_service rt (intake_Load frt parse_float e) st db obj objects = Inr s \<and> sv_uploadPool s = Some p
    \<and> 0 < pc_Workers (up_config p) \<and> 0 < pc_TenantBurst (up_config p) \<and> 0 < pc_FailureThreshold (up_config p)
    \<and> 0 < pc_OpenDuration (up_config p) \<and> up_sem p = 0 \<and> sv_metrics s = Some NewIntakeMetrics"
proof -
  let ?c = "pool_config (intake_Load frt parse_float e)"
  have "0 < pc_Workers ?c" "0 < pc_TenantBurst ?c" "0 < pc_FailureThreshold ?c" "0 < pc_OpenDuration ?c"
    "\<not> fle (pc_TenantRate ?c) (Fin 0)"
    using floatEnv_pos [of "Fin 5"] by (auto simp: pool_config_def intake_Load_def Let_def intEnv_pos durationEnv_pos)
  then show ?thesis
    by (simp add: intake_service_def WithUploadPool_def newUploadPool_def WithMetrics_def not_le)
qed

text \<open>
  A gateway that starts is protected: its configuration has a secret unless authentication was switched off
  explicitly, and its limiter has a positive rate and a burst of at least one, so that the first request of every client address
  passes.
\<close>

theorem gateway_starts_protected:
  assumes "gateway_Load rt e = Inr cfg" and "round64 rt = Fin"
  shows "(gs_secret (gateway_start rt cfg) \<noteq> [] \<or> gw_envBool e ''GATEWAY_AUTH_DISABLED'' False)
    \<and> (\<exists>l. gs_limiter (gateway_start rt cfg) = Some l
        \<and> limiter_ok rt (of_int (gc_RateLimitRPS cfg)) (of_int (gc_RateLimitBurst cfg)) t l \<and> fst (Allow rt t key l))"
proof -
  have c: "gc_JWTSecret cfg \<noteq> [] \<or> gc_AuthDisabled cfg" "gc_AuthDisabled cfg = gw_envBool e ''GATEWAY_AUTH_DISABLED'' False"
    "0 < gc_RateLimitRPS cfg" "0 < gc_RateLimitBurst cfg"
    using assms(1) by (auto simp: gateway_Load_def Let_def not_le split: if_splits)
  have "fst (Allow rt t key (NewLimiter rt (gc_RateLimitRPS cfg) (gc_RateLimitBurst cfg)))"
    by (simp add: Allow_def NewLimiter_def)
  with c NewLimiter_ok [OF assms(2) c(3,4)] show ?thesis by (auto simp: gateway_start_def NewServer_def)
qed

text \<open>
  Services that are started from the same environment share the secret of the tokens, on either
  store, and it is not empty.
\<close>

theorem services_share_secret:
  assumes "gateway_Load rt e = Inr g" and "identity_Load rt e = Inr i" and "identity_start rt env database i = Inr s"
  shows "gs_secret (gateway_start rt g) \<noteq> []
    \<and> (case s of Inl m \<Rightarrow> id_secret m | Inr p \<Rightarrow> id_secret p) = gs_secret (gateway_start rt g)"
proof -
  have "gc_JWTSecret g = e ''JWT_SECRET''" "ic_JWTSecret i = e ''JWT_SECRET''" "ic_JWTSecret i \<noteq> []"
    using assms(1,2) by (auto simp: gateway_Load_def identity_Load_def Let_def split: if_splits)
  with assms(3) show ?thesis
    by (auto simp: identity_start_def gateway_start_def NewServer_def map_sum_def seeded_secret NewIdentity_def split: if_splits sum.splits)
qed

subsection \<open>The development user\<close>

lemma pg_first_user:
  assumes "pg_CreateUser rt now u db = (r, db')" and "it_users (ip_tables db) = []"
  shows "r \<noteq> Inl ErrUserExists"
  using assms
  by (auto simp: pg_CreateUser_def Let_def id_tx_def insert_user_def isUniqueViolation_def split: option.splits prod.splits if_splits)

lemma default_texts:
  "TrimSpace ''admin@doclens.local'' = ''admin@doclens.local''" "ToLower rt ''admin@doclens.local'' = ''admin@doclens.local''"
  "TrimSpace ''admin'' = ''admin''" "ToLower rt ''admin'' = ''admin''" "TrimSpace ''dev-org'' = ''dev-org''"
proof -
  show "TrimSpace ''admin@doclens.local'' = ''admin@doclens.local''" "TrimSpace ''admin'' = ''admin''" "TrimSpace ''dev-org'' = ''dev-org''"
    by code_simp+
  have "is_ascii ''admin@doclens.local''" "map lower_char ''admin@doclens.local'' = ''admin@doclens.local''"
    "is_ascii ''admin''" "map lower_char ''admin'' = ''admin''" by code_simp+
  then show "ToLower rt ''admin@doclens.local'' = ''admin@doclens.local''" "ToLower rt ''admin'' = ''admin''"
    by (simp_all add: ToLower_def)
qed

text \<open>
  Property C38. The development user is seeded in production. An Identity service that is started with
  \<open>IDENTITY_ENV=production\<close> on an empty database, with the variables of the development seed left unset, has an account of
  \<open>admin@doclens.local\<close> in \<open>dev-org\<close> that is not disabled and accepts the password \<open>doclens-dev\<close> that the code contains.
\<close>

theorem production_has_default_account:
  assumes "identity_Load rt e = Inr cfg" and "e ''IDENTITY_ENV'' = ''production''"
    and "e ''IDENTITY_DEV_SEED'' = []" and "e ''IDENTITY_DEV_EMAIL'' = []" and "e ''IDENTITY_DEV_PASSWORD'' = []"
    and "e ''IDENTITY_DEV_ORG_ID'' = []" and "it_users (ip_tables db) = []" and "postgres_wf db"
    and "identity_start rt env (Inr db) cfg = Inr (Inr s)"
  shows "\<exists>u. postgres_accounts (id_db s) ''admin@doclens.local'' = Some u \<and> us_OrganizationID u = ''dev-org''
    \<and> us_Roles u = [''admin''] \<and> \<not> us_Disabled u \<and> VerifyPassword rt (us_PasswordHash u) ''doclens-dev''"
proof -
  let ?s0 = "NewIdentity (postgres_identity rt) db (ic_JWTSecret cfg) (ic_AccessTokenTTL cfg) (ic_RefreshTokenTTL cfg)"
  let ?req = "\<lparr>cr_OrganizationId = ''dev-org'', cr_Email = ''admin@doclens.local'', cr_Password = ''doclens-dev'', cr_Roles = [''admin'']\<rparr>"
  have cfg: "ic_DevelopmentSeed cfg" "ic_DevelopmentOrgID cfg = ''dev-org''" "ic_DevelopmentEmail cfg = ''admin@doclens.local''"
    "ic_DevelopmentPassword cfg = ''doclens-dev''"
    using assms(1,3-6) by (auto simp: identity_Load_def id_env_def id_boolEnv_def Let_def split: if_splits)
  have "seeded rt env cfg ?s0 = Inr s"
    using assms(9) by (auto simp: identity_start_def map_sum_def split: if_splits sum.splits)
  then have "SeedDevelopmentUser rt env ''dev-org'' ''admin@doclens.local'' ''doclens-dev'' ?s0 = (None, s)"
    by (auto simp: seeded_def cfg split: prod.splits option.splits)
  then obtain r where c: "CreateUser rt env ?req ?s0 = (r, s)" "\<And>err. r = Inl err \<Longrightarrow> status_code err = AlreadyExists"
    by (auto simp: SeedDevelopmentUser_def split: prod.splits sum.splits if_splits)
  obtain h where h: "normalizeEmail rt ''admin@doclens.local'' = Some ''admin@doclens.local''"
    "HashPassword rt (ie_rand env 0) ''doclens-dev'' = Inr h"
    using c by (auto simp: CreateUser_def normalizeEmail_def default_texts Let_def split: sum.splits if_splits)
  let ?u = "created_user rt env ?req ''admin@doclens.local'' h"
  obtain x db' where p: "pg_CreateUser rt (ie_now env 2) ?u db = (x, db')" by fastforce
  have "is_ok x \<and> id_db s = db'"
    using c h p pg_first_user [OF p assms(7)]
    by (auto simp: CreateUser_def NewIdentity_def postgres_identity_def is_ok_iff split: sum.splits identity_error.splits)
  then obtain v where v: "x = Inr v" "id_db s = db'" by (auto simp: is_ok_iff)
  have "is_CreateUser (postgres_identity rt) (ie_now env 2) ?u db = (Inr v, db')"
    using p v(1) by (simp add: postgres_identity_def)
  then have "same_account v (?u\<lparr>us_Email := store_normalizeEmail rt (us_Email ?u)\<rparr>)"
    "\<exists>r. same_account r v \<and> postgres_accounts db' = (postgres_accounts db)(store_normalizeEmail rt (us_Email ?u) \<mapsto> r)"
    using pg_id.create_law [OF assms(8) TrueI] by blast+
  then obtain w where w: "postgres_accounts db' ''admin@doclens.local'' = Some w" "same_account w (?u\<lparr>us_Email := ''admin@doclens.local''\<rparr>)"
    by (auto simp: store_normalizeEmail_def created_user_def Let_def default_texts same_account_def)
  have "VerifyPassword rt h ''doclens-dev''"
    using h(2) VerifyPassword_hash by (auto simp: HashPassword_def split: if_splits sum.splits)
  moreover have "us_OrganizationID w = ''dev-org''" "us_Roles w = [''admin'']" "\<not> us_Disabled w" "us_PasswordHash w = h"
    using w(2) by (cases w; simp add: same_account_def created_user_def cleanRoles_def Let_def default_texts)+
  ultimately show ?thesis using w(1) v(2) by auto
qed

subsection \<open>Concrete environments\<close>

definition sample_environment :: environment where
  "sample_environment = (\<lambda>_. [])(''JWT_SECRET'' := ''secret'', ''IDENTITY_ENV'' := ''production'', ''DATABASE_URL'' := ''postgres://db'')"

definition empty_database :: Postgres where
  "empty_database = \<lparr>ip_tables = \<lparr>it_users = [], it_tokens = []\<rparr>, ip_calls = 0, ip_fault = (\<lambda>_ _. None)\<rparr>"

lemma sample_gateway_Load: "\<exists>cfg. gateway_Load sample_auth_runtime sample_environment = Inr cfg"
proof -
  have "is_ok (gateway_Load sample_auth_runtime sample_environment)" by code_simp
  then show ?thesis by (simp add: is_ok_iff)
qed

lemma sample_identity_Load: "\<exists>cfg. identity_Load sample_auth_runtime sample_environment = Inr cfg"
proof -
  have "is_ok (identity_Load sample_auth_runtime sample_environment)" by code_simp
  then show ?thesis by (simp add: is_ok_iff)
qed

lemma sample_identity_start:
  assumes "identity_Load sample_auth_runtime sample_environment = Inr cfg"
  obtains s where "identity_start sample_auth_runtime sample_identity_env (Inr empty_database) cfg = Inr (Inr s)"
proof -
  have "(case identity_Load sample_auth_runtime sample_environment of Inl _ \<Rightarrow> False | Inr cfg \<Rightarrow>
      (case identity_start sample_auth_runtime sample_identity_env (Inr empty_database) cfg of Inr (Inr s) \<Rightarrow> True | _ \<Rightarrow> False))"
    by code_simp
  with assms show thesis using that by (auto split: sum.splits)
qed

theorem gateway_starts_protected_witness:
  "\<exists>cfg l. gateway_Load sample_auth_runtime sample_environment = Inr cfg
    \<and> gs_limiter (gateway_start sample_auth_runtime cfg) = Some l \<and> fst (Allow sample_auth_runtime 0 ''10.0.0.1'' l)"
proof -
  obtain cfg where c: "gateway_Load sample_auth_runtime sample_environment = Inr cfg" using sample_gateway_Load by blast
  from gateway_starts_protected [OF c] c show ?thesis by auto
qed

theorem services_share_secret_witness:
  "\<exists>g i s. gateway_Load sample_auth_runtime sample_environment = Inr g \<and> identity_Load sample_auth_runtime sample_environment = Inr i
    \<and> identity_start sample_auth_runtime sample_identity_env (Inr empty_database) i = Inr (Inr s)
    \<and> id_secret s = gs_secret (gateway_start sample_auth_runtime g)"
proof -
  obtain g i where c: "gateway_Load sample_auth_runtime sample_environment = Inr g"
    "identity_Load sample_auth_runtime sample_environment = Inr i" using sample_gateway_Load sample_identity_Load by blast
  obtain s where s: "identity_start sample_auth_runtime sample_identity_env (Inr empty_database) i = Inr (Inr s)"
    by (rule sample_identity_start [OF c(2)])
  from services_share_secret [OF c s] c s show ?thesis by auto
qed

theorem production_has_default_account_witness:
  "\<exists>cfg s u. identity_Load sample_auth_runtime sample_environment = Inr cfg
    \<and> identity_start sample_auth_runtime sample_identity_env (Inr empty_database) cfg = Inr (Inr s)
    \<and> postgres_accounts (id_db s) ''admin@doclens.local'' = Some u
    \<and> VerifyPassword sample_auth_runtime (us_PasswordHash u) ''doclens-dev''"
proof -
  obtain cfg where c: "identity_Load sample_auth_runtime sample_environment = Inr cfg" using sample_identity_Load by blast
  obtain s where s: "identity_start sample_auth_runtime sample_identity_env (Inr empty_database) cfg = Inr (Inr s)"
    by (rule sample_identity_start [OF c])
  have "it_users (ip_tables empty_database) = []" "postgres_wf empty_database"
    by (simp_all add: empty_database_def postgres_wf_def)
  from production_has_default_account [OF c _ _ _ _ _ this s] c s show ?thesis by (auto simp: sample_environment_def)
qed

end
