(* ===== verification/Connections.thy ===== *)
theory Connections
  imports Outbox Services_Start
begin

text \<open>
  What the services open before they serve: the pools of connections to PostgreSQL (\<open>NewPostgresStore\<close> of the intake,
  \<open>NewPostgres\<close> of the Identity service) with their migrations, and the connection to RabbitMQ. The drivers (pgx, amqp091) are
  parameters: which of their calls fail. The start of the Identity service on a database is composed from these; what an account is
  survives it.
\<close>

subsection \<open>Resources\<close>

datatype resource = RPool | RConnection | RChannel | RMetricsServer
datatype lifecycle = Opened resource | Closed resource

fun after_event :: "resource list \<Rightarrow> lifecycle \<Rightarrow> resource list" where
  "after_event rs (Opened r) = rs @ [r]"
| "after_event rs (Closed r) = remove1 r rs"

definition still_open :: "lifecycle list \<Rightarrow> resource list" where
  "still_open evs = foldl after_event [] evs"

subsection \<open>Pools of connections\<close>

text \<open>\<open>None\<close> leaves a setting as the URL gives it.\<close>

record pool_settings =
  pl_URL :: string
  pl_MaxConns :: "int option"
  pl_MinConns :: "int option"
  pl_MaxConnLifetime :: "duration option"

text \<open>A ping may carry a timeout.\<close>

record pool_driver =
  dr_ParseConfig :: "string \<Rightarrow> string option"
  dr_NewWithConfig :: "pool_settings \<Rightarrow> string option"
  dr_Ping :: "pool_settings \<Rightarrow> duration option \<Rightarrow> string option"

definition NewPostgresStore :: "pool_driver \<Rightarrow> string \<Rightarrow> (string + pool_settings) \<times> lifecycle list" where
  "NewPostgresStore drv databaseURL =
     (case dr_ParseConfig drv databaseURL of
        Some err \<Rightarrow> (Inl (''parse database url: '' @ err), [])
      | None \<Rightarrow>
          let config = \<lparr>pl_URL = databaseURL, pl_MaxConns = Some 20, pl_MinConns = Some 2, pl_MaxConnLifetime = Some (30 * minute)\<rparr>
          in case dr_NewWithConfig drv config of
               Some err \<Rightarrow> (Inl (''create database pool: '' @ err), [])
             | None \<Rightarrow>
                 (case dr_Ping drv config None of
                    Some err \<Rightarrow> (Inl (''ping database: '' @ err), [Opened RPool, Closed RPool])
                  | None \<Rightarrow> (Inr config, [Opened RPool])))"

definition pg_store_Close :: "lifecycle list" where
  "pg_store_Close = [Closed RPool]"

definition defaultOperationTimeout :: duration where
  "defaultOperationTimeout = 5 * second"

record identity_pool =
  ph_pool :: pool_settings
  ph_operationTimeout :: duration

definition NewPostgres :: "pool_driver \<Rightarrow> string \<Rightarrow> duration \<Rightarrow> (string + identity_pool) \<times> lifecycle list" where
  "NewPostgres drv databaseURL operationTimeout =
     (if databaseURL = [] then (Inl ''database URL is required'', [])
      else
        let timeout = (if operationTimeout \<le> 0 then defaultOperationTimeout else operationTimeout);
            config = \<lparr>pl_URL = databaseURL, pl_MaxConns = None, pl_MinConns = None, pl_MaxConnLifetime = None\<rparr>
        in case dr_ParseConfig drv databaseURL of
             Some err \<Rightarrow> (Inl err, [])
           | None \<Rightarrow>
               (case dr_NewWithConfig drv config of
                  Some err \<Rightarrow> (Inl err, [])
                | None \<Rightarrow>
                    (case dr_Ping drv config (Some timeout) of
                       Some err \<Rightarrow> (Inl err, [Opened RPool, Closed RPool])
                     | None \<Rightarrow> (Inr \<lparr>ph_pool = config, ph_operationTimeout = timeout\<rparr>, [Opened RPool]))))"

definition postgres_Close :: "lifecycle list" where
  "postgres_Close = [Closed RPool]"

text \<open>The deadline of an operation that starts at \<open>now\<close>.\<close>

definition operationContext :: "identity_pool \<Rightarrow> time \<Rightarrow> time" where
  "operationContext p now = now + ph_operationTimeout p"

subsection \<open>Migrations\<close>

text \<open>A database before and after a migration: a table may be missing.\<close>

definition create_if_missing :: "'a \<Rightarrow> 'a option \<Rightarrow> 'a option" where
  "create_if_missing fresh t = (case t of None \<Rightarrow> Some fresh | Some rows \<Rightarrow> Some rows)"

record identity_schema =
  sc_versions :: "nat list option"
  sc_users :: "User list option"
  sc_tokens :: "RefreshTokenRecord list option"

definition initialMigration :: "identity_schema \<Rightarrow> identity_schema" where
  "initialMigration sc =
     (let sc1 = \<lparr>sc_versions = create_if_missing [] (sc_versions sc), sc_users = create_if_missing [] (sc_users sc),
                 sc_tokens = create_if_missing [] (sc_tokens sc)\<rparr>
      in sc1\<lparr>sc_versions := map_option (\<lambda>vs. if 1 \<in> set vs then vs else vs @ [1]) (sc_versions sc1)\<rparr>)"

text \<open>
  \<open>Migrate\<close> in a transaction: statement 0 begins it, 1 is the migration, 2 the commit, whose error leaves open whether it was applied.
\<close>

definition Migrate :: "(nat \<Rightarrow> (string \<times> bool) option) \<Rightarrow> identity_schema \<Rightarrow> string option \<times> identity_schema" where
  "Migrate fault sc =
     (case fault 0 of
        Some (err, _) \<Rightarrow> (Some err, sc)
      | None \<Rightarrow>
          (case fault 1 of
             Some (err, _) \<Rightarrow> (Some err, sc)
           | None \<Rightarrow>
               (case fault 2 of
                  None \<Rightarrow> (None, initialMigration sc)
                | Some (err, applied) \<Rightarrow> (Some err, if applied then initialMigration sc else sc))))"

record intake_schema =
  sh_documents :: "(string \<rightharpoonup> Document) option"
  sh_jobs :: "(string \<rightharpoonup> ProcessingJob) option"
  sh_uploads :: "UploadRecord list option"
  sh_outbox :: "OutboxRow list option"

text \<open>\<open>migrations/001_initial.sql\<close>; the columns it adds to an older table \<open>uploads\<close> are fields of the rows here.\<close>

definition intake_migration :: "intake_schema \<Rightarrow> intake_schema" where
  "intake_migration sh =
     \<lparr>sh_documents = create_if_missing Map.empty (sh_documents sh), sh_jobs = create_if_missing Map.empty (sh_jobs sh),
      sh_uploads = create_if_missing [] (sh_uploads sh), sh_outbox = create_if_missing [] (sh_outbox sh)\<rparr>"

text \<open>\<open>PostgresStore.Migrate\<close>: one statement outside a transaction, with the text of the migration as its argument.\<close>

definition store_Migrate ::
  "(string \<times> bool) option \<Rightarrow> (intake_schema \<Rightarrow> intake_schema) \<Rightarrow> intake_schema \<Rightarrow> string option \<times> intake_schema" where
  "store_Migrate fault migration sh =
     (case fault of
        None \<Rightarrow> (None, migration sh)
      | Some (err, applied) \<Rightarrow> (Some err, if applied then migration sh else sh))"

lemma create_if_missing_simps [simp]:
  "create_if_missing e (Some x) = Some x" "create_if_missing e None = Some e"
  "create_if_missing e (create_if_missing e' t) = create_if_missing e' t"
  by (simp_all add: create_if_missing_def split: option.split)

lemma initialMigration_users [simp]:
  "sc_users (initialMigration sc) = create_if_missing [] (sc_users sc)"
  "sc_tokens (initialMigration sc) = create_if_missing [] (sc_tokens sc)"
  by (simp_all add: initialMigration_def Let_def)

lemma initialMigration_idem: "initialMigration (initialMigration sc) = initialMigration sc"
  by (cases "sc_versions sc") (auto simp: initialMigration_def Let_def)

lemma intake_migration_idem: "intake_migration (intake_migration sh) = intake_migration sh"
  by (simp add: intake_migration_def)

text \<open>Whatever a migration meets, the rows of the tables that are there stay.\<close>

lemma Migrate_keeps:
  assumes "Migrate fault sc = (e, sc')"
  shows "(sc_users sc = Some us \<longrightarrow> sc_users sc' = Some us) \<and> (sc_tokens sc = Some ts \<longrightarrow> sc_tokens sc' = Some ts)
    \<and> (e = None \<longrightarrow> sc_users sc' \<noteq> None \<and> sc_tokens sc' \<noteq> None)"
  using assms by (cases "sc_users sc"; cases "sc_tokens sc") (auto simp: Migrate_def split: option.splits prod.splits if_splits)

lemma store_Migrate_keeps:
  assumes "store_Migrate fault intake_migration sh = (e, sh')"
  shows "(sh_documents sh = Some d \<longrightarrow> sh_documents sh' = Some d) \<and> (sh_uploads sh = Some u \<longrightarrow> sh_uploads sh' = Some u)
    \<and> (sh_jobs sh = Some j \<longrightarrow> sh_jobs sh' = Some j) \<and> (sh_outbox sh = Some b \<longrightarrow> sh_outbox sh' = Some b)"
  using assms by (auto simp: store_Migrate_def intake_migration_def split: option.splits prod.splits if_splits)

subsection \<open>RabbitMQ\<close>

record amqp_driver =
  aq_Dial :: "string \<Rightarrow> string option"
  aq_Channel :: "string option"
  aq_ExchangeDeclare :: "string \<Rightarrow> string option"

record RabbitPublisher =
  rp_exchange :: string

definition NewRabbitPublisher :: "amqp_driver \<Rightarrow> string \<Rightarrow> string \<Rightarrow> (string + RabbitPublisher) \<times> lifecycle list" where
  "NewRabbitPublisher drv url exchange =
     (case aq_Dial drv url of
        Some err \<Rightarrow> (Inl (''connect rabbitmq: '' @ err), [])
      | None \<Rightarrow>
          (case aq_Channel drv of
             Some err \<Rightarrow> (Inl (''open rabbitmq channel: '' @ err), [Opened RConnection, Closed RConnection])
           | None \<Rightarrow>
               (case aq_ExchangeDeclare drv exchange of
                  Some err \<Rightarrow> (Inl (''declare rabbitmq exchange: '' @ err),
                    [Opened RConnection, Opened RChannel, Closed RChannel, Closed RConnection])
                | None \<Rightarrow> (Inr \<lparr>rp_exchange = exchange\<rparr>, [Opened RConnection, Opened RChannel]))))"

text \<open>The arguments are the errors of closing the channel and the connection.\<close>

definition rabbit_Close :: "string option \<Rightarrow> string option \<Rightarrow> string option \<times> lifecycle list" where
  "rabbit_Close channelErr connectionErr =
     ((if channelErr \<noteq> None then channelErr else connectionErr), [Closed RChannel, Closed RConnection])"

record Publishing =
  pm_Exchange :: string
  pm_RoutingKey :: string
  pm_ContentType :: string
  pm_DeliveryMode :: int
  pm_MessageId :: string
  pm_Timestamp :: time
  pm_Body :: bytes

definition Persistent :: int where
  "Persistent = 2"

definition Publish :: "RabbitPublisher \<Rightarrow> time \<Rightarrow> OutboxRecord \<Rightarrow> Publishing" where
  "Publish p now record =
     \<lparr>pm_Exchange = rp_exchange p, pm_RoutingKey = ob_RoutingKey record, pm_ContentType = ''application/json'',
      pm_DeliveryMode = Persistent, pm_MessageId = ob_ID record, pm_Timestamp = now, pm_Body = ob_Payload record\<rparr>"

text \<open>
  A batch invents no message: whatever it hands to the broker is persistent and carries the identifier, the routing key and the payload
  of a row of the outbox.
\<close>

theorem messages_from_rows:
  assumes "publishOutboxBatch env (s, []) = (e, (s', sent))"
  shows "\<forall>m \<in> set (map (Publish p now) sent). pm_DeliveryMode m = 2 \<and> pm_Exchange m = rp_exchange p
    \<and> (\<exists>r \<in> set (t_outbox (ps_tables s)). pm_MessageId m = or_ID r \<and> pm_RoutingKey m = or_RoutingKey r \<and> pm_Body m = or_Payload r)"
proof -
  have "\<exists>r \<in> set (t_outbox (ps_tables s)). ob_ID rc = or_ID r \<and> ob_RoutingKey rc = or_RoutingKey r \<and> ob_Payload rc = or_Payload r"
    if m: "rc \<in> set sent" for rc
  proof -
    obtain x s1 where c: "ClaimOutbox (be_now env) (be_locked env) 50 s = (x, s1)" by fastforce
    with assms m obtain records where r: "x = Inr records" "publish_records env 0 records (s1, []) = (s', sent)"
      by (cases x) (auto simp: publishOutboxBatch_def)
    then have "rc \<in> set records" using publish_records_from [OF r(2)] m by auto
    with ClaimOutbox_records c r(1) claimed_rows show ?thesis by metis
  qed
  then show ?thesis by (auto simp: Publish_def Persistent_def)
qed

subsection \<open>What is open after a connection attempt\<close>

theorem connections_no_leak:
  "NewPostgresStore drv url = (r, evs) \<Longrightarrow> still_open evs = (if is_ok r then [RPool] else [])"
  "NewPostgres drv url timeout = (q, evs') \<Longrightarrow> still_open evs' = (if is_ok q then [RPool] else [])"
  "NewRabbitPublisher aq url exchange = (p, evs'') \<Longrightarrow> still_open evs'' = (if is_ok p then [RConnection, RChannel] else [])"
  by (auto simp: NewPostgresStore_def NewPostgres_def NewRabbitPublisher_def still_open_def Let_def split: option.splits if_splits)

text \<open>An operation on the Identity service's database always has a deadline in the future, whatever timeout is configured.\<close>

lemma operation_deadline: "NewPostgres drv url timeout = (Inr p, evs) \<Longrightarrow> now < operationContext p now"
  by (auto simp: NewPostgres_def operationContext_def Let_def defaultOperationTimeout_def split: option.splits if_splits)

subsection \<open>The Document Intake service\<close>

text \<open>
  The connections of the intake's \<open>main\<close> in their order: pool, migration file, migration, publisher. Any error is
  followed by the exit of the process.
\<close>

definition open_store ::
  "pool_driver \<Rightarrow> string option \<Rightarrow> (string \<times> bool) option \<Rightarrow> IntakeConfig \<Rightarrow> intake_schema
     \<Rightarrow> (string + pool_settings option) \<times> intake_schema \<times> lifecycle list" where
  "open_store drv readFile fault cfg sh =
     (if kc_DatabaseURL cfg = [] then (Inr None, sh, [])
      else case NewPostgresStore drv (kc_DatabaseURL cfg) of
        (Inl err, evs) \<Rightarrow> (Inl err, sh, evs)
      | (Inr pool, evs) \<Rightarrow>
          (case readFile of
             Some err \<Rightarrow> (Inl err, sh, evs)
           | None \<Rightarrow>
               (case store_Migrate fault intake_migration sh of
                  (Some err, sh') \<Rightarrow> (Inl err, sh', evs)
                | (None, sh') \<Rightarrow> (Inr (Some pool), sh', evs))))"

definition open_publisher ::
  "amqp_driver \<Rightarrow> IntakeConfig \<Rightarrow> pool_settings option \<Rightarrow> (string + RabbitPublisher option) \<times> lifecycle list" where
  "open_publisher aq cfg postgresStore =
     (if kc_RabbitMQURL cfg = [] then (Inr None, [])
      else if postgresStore = None then (Inl ''set DATABASE_URL when RABBITMQ_URL is configured'', [])
      else case NewRabbitPublisher aq (kc_RabbitMQURL cfg) (kc_RabbitMQExchange cfg) of
        (r, evs) \<Rightarrow> (map_sum id Some r, evs))"

text \<open>The deferred calls, the last one first.\<close>

definition intake_shutdown :: "pool_settings option \<Rightarrow> RabbitPublisher option \<Rightarrow> string option \<Rightarrow> string option \<Rightarrow> lifecycle list" where
  "intake_shutdown pool publisher channelErr connectionErr =
     (if publisher = None then [] else snd (rabbit_Close channelErr connectionErr)) @ (if pool = None then [] else pg_store_Close)"

text \<open>
  A service that has started and is stopped has closed everything it opened; and it publishes only with a store, the one
  that \<open>store_choice\<close> and \<open>outbox_choice\<close> say.
\<close>

theorem intake_lifecycle:
  assumes "open_store drv readFile fault cfg sh = (Inr pool, sh', evs)" and "open_publisher aq cfg pool = (Inr publisher, evs')"
  shows "still_open (evs @ evs' @ intake_shutdown pool publisher channelErr connectionErr) = []"
    and "outbox_choice cfg = Inr (publisher \<noteq> None)" and "store_choice cfg = PostgresStoreKind \<longleftrightarrow> pool \<noteq> None"
  using assms
  by (auto simp: open_store_def open_publisher_def NewPostgresStore_def NewRabbitPublisher_def intake_shutdown_def rabbit_Close_def
      pg_store_Close_def still_open_def outbox_choice_def store_choice_def Let_def split: if_splits option.splits prod.splits sum.splits)

end
