(* ===== verification/Identity_Restart.thy ===== *)
theory Identity_Restart
  imports Connections
begin

text \<open>
  The start of the Identity service on its database, from the connection to the development user, and what survives it: an
  account that was created before a restart can log in after it.
\<close>

subsection \<open>The start\<close>

definition database_of :: "(nat \<Rightarrow> nat \<Rightarrow> (string \<times> bool) option) \<Rightarrow> identity_schema \<Rightarrow> Postgres" where
  "database_of fault sc =
     \<lparr>ip_tables = \<lparr>it_users = (case sc_users sc of None \<Rightarrow> [] | Some us \<Rightarrow> us),
                   it_tokens = (case sc_tokens sc of None \<Rightarrow> [] | Some ts \<Rightarrow> ts)\<rparr>,
      ip_calls = 0, ip_fault = fault\<rparr>"

definition schema_of :: "identity_tables \<Rightarrow> identity_schema" where
  "schema_of t = \<lparr>sc_versions = Some [1], sc_users = Some (it_users t), sc_tokens = Some (it_tokens t)\<rparr>"

text \<open>The faults are those of the migration and those of the later calls.\<close>

definition open_identity ::
  "pool_driver \<Rightarrow> (nat \<Rightarrow> (string \<times> bool) option) \<Rightarrow> (nat \<Rightarrow> nat \<Rightarrow> (string \<times> bool) option) \<Rightarrow> IdentityConfig \<Rightarrow> identity_schema
     \<Rightarrow> (string + Postgres) \<times> identity_schema \<times> lifecycle list" where
  "open_identity drv mfault fault cfg sc =
     (case NewPostgres drv (ic_DatabaseURL cfg) (ic_DatabaseTimeout cfg) of
        (Inl err, evs) \<Rightarrow> (Inl err, sc, evs)
      | (Inr p, evs) \<Rightarrow>
          (case Migrate mfault sc of
             (Some err, sc') \<Rightarrow> (Inl err, sc', evs @ postgres_Close)
           | (None, sc') \<Rightarrow> (Inr (database_of fault sc'), sc', evs)))"

definition identity_main ::
  "'z auth_runtime_scheme \<Rightarrow> identity_env \<Rightarrow> pool_driver \<Rightarrow> (nat \<Rightarrow> (string \<times> bool) option) \<Rightarrow> (nat \<Rightarrow> nat \<Rightarrow> (string \<times> bool) option)
     \<Rightarrow> IdentityConfig \<Rightarrow> identity_schema \<Rightarrow> (string + (Memory Identity + Postgres Identity)) \<times> lifecycle list" where
  "identity_main rt env drv mfault fault cfg sc =
     (case (if ic_DatabaseURL cfg = [] then (Inl [], sc, []) else open_identity drv mfault fault cfg sc) of
        (database, sc', evs) \<Rightarrow> (identity_start rt env database cfg, evs))"

lemma open_identity_leak:
  "open_identity drv mfault fault cfg sc = (r, sc', evs) \<Longrightarrow> still_open evs = (if is_ok r then [RPool] else [])"
  by (auto simp: open_identity_def NewPostgres_def postgres_Close_def still_open_def Let_def split: if_splits option.splits prod.splits)

lemma open_identity_tables:
  assumes "open_identity drv mfault fault cfg (schema_of t) = (Inr db, sc', evs)"
  shows "ip_tables db = t \<and> ip_fault db = fault"
  using assms Migrate_keeps [of mfault "schema_of t" _ _ "it_users t" "it_tokens t"]
  by (fastforce simp: open_identity_def database_of_def schema_of_def split: sum.splits prod.splits option.splits)

lemma identity_main_postgres:
  assumes "identity_main rt env drv mfault fault cfg (schema_of t) = (Inr (Inr s), evs)"
  obtains db where "ip_tables db = t" "ip_fault db = fault"
    "seeded rt env cfg (NewIdentity (postgres_identity rt) db (ic_JWTSecret cfg) (ic_AccessTokenTTL cfg) (ic_RefreshTokenTTL cfg)) = Inr s"
proof -
  obtain d sc' where d: "open_identity drv mfault fault cfg (schema_of t) = (d, sc', evs)" "identity_start rt env d cfg = Inr (Inr s)"
    "ic_DatabaseURL cfg \<noteq> []"
    using assms by (auto simp: identity_main_def identity_start_def map_sum_def split: if_splits prod.splits sum.splits)
  then obtain db where db: "d = Inr db" by (cases d) (auto simp: identity_start_def)
  with d open_identity_tables show thesis
    by (intro that [of db]) (auto simp: identity_start_def map_sum_def split: sum.splits)
qed

subsection \<open>Accounts across a restart\<close>

lemma postgres_accounts_tables: "ip_tables s = ip_tables t \<Longrightarrow> postgres_accounts s = postgres_accounts t"
  by (simp add: postgres_accounts_def [abs_def])

lemma postgres_wf_tables: "ip_tables s = ip_tables t \<Longrightarrow> postgres_wf s = postgres_wf t"
  by (simp add: postgres_wf_def)

lemma seeded_keeps:
  assumes "seeded rt env cfg s = Inr s'" and "id_store s = postgres_identity rt" and "postgres_wf (id_db s)"
    and "postgres_accounts (id_db s) e = Some v"
  shows "id_store s' = postgres_identity rt \<and> postgres_wf (id_db s') \<and> postgres_accounts (id_db s') e = Some v"
proof (cases "ic_DevelopmentSeed cfg")
  case True
  let ?req = "\<lparr>cr_OrganizationId = ic_DevelopmentOrgID cfg, cr_Email = ic_DevelopmentEmail cfg, cr_Password = ic_DevelopmentPassword cfg,
    cr_Roles = [''admin'']\<rparr>"
  obtain r where c: "CreateUser rt env ?req s = (r, s')"
    using True assms(1) by (auto simp: seeded_def SeedDevelopmentUser_def split: prod.splits sum.splits option.splits if_splits)
  from pg_id.CreateUser_keeps [OF _ TrueI c] assms(2-4) show ?thesis unfolding pg_id.served_def by blast
qed (use assms in \<open>simp add: seeded_def\<close>)

lemma pg_CreateUser_fault: "pg_CreateUser rt now u s = (r, s') \<Longrightarrow> ip_fault s' = ip_fault s"
  by (auto simp: pg_CreateUser_def id_tx_def id_tick_def Let_def split: prod.splits option.splits sum.splits if_splits)

lemma seeded_fault:
  assumes "seeded rt env cfg s = Inr s'" and "id_store s = postgres_identity rt"
  shows "ip_fault (id_db s') = ip_fault (id_db s)"
proof (cases "ic_DevelopmentSeed cfg")
  case True
  then obtain req r where c: "CreateUser rt env req s = (r, s')"
    using assms(1) by (auto simp: seeded_def SeedDevelopmentUser_def split: prod.splits sum.splits option.splits if_splits)
  then show ?thesis
  proof (cases rule: CreateUser_cases)
    case (asked email h x db)
    then have "pg_CreateUser rt (ie_now env 2) (created_user rt env req email h) (id_db s) = (x, db)"
      using assms(2) by (simp add: postgres_identity_def)
    from pg_CreateUser_fault [OF this] asked(5) show ?thesis by simp
  qed simp
qed (use assms in \<open>simp add: seeded_def\<close>)

lemma created_account:
  assumes "id_store s = postgres_identity rt" and "postgres_wf (id_db s)" and "CreateUser rt env req s = (Inr user, s1)"
  obtains email u where "normalizeEmail rt (cr_Email req) = Some email" "cr_Password req \<noteq> []"
    "postgres_accounts (id_db s1) (store_normalizeEmail rt email) = Some u" "postgres_wf (id_db s1)" "\<not> us_Disabled u"
    "VerifyPassword rt (us_PasswordHash u) (cr_Password req)" "us_ID u = pr_Id user" "us_OrganizationID u = pr_OrganizationId user"
    "us_Roles u = pr_Roles user"
  using assms(3)
proof (cases rule: CreateUser_cases)
  case (asked email h x db)
  from asked(6) obtain v where v: "x = Inr v" "user = toProtoUser rt v" using asked(7) by (auto simp: is_ok_iff)
  let ?u = "created_user rt env req email h"
  have call: "is_CreateUser (postgres_identity rt) (ie_now env 2) ?u (id_db s) = (Inr v, db)" using asked(4) assms(1) v(1) by simp
  note law = pg_id.create_law [OF assms(2) TrueI call]
  then obtain r where r: "same_account r v" "postgres_accounts db (store_normalizeEmail rt (us_Email ?u)) = Some r" by auto
  have e: "us_Email ?u = email" by (simp add: created_user_def Let_def)
  have hash: "VerifyPassword rt h (cr_Password req)" "cr_Password req \<noteq> []"
    using asked(3) VerifyPassword_hash by (auto simp: HashPassword_def split: if_splits sum.splits)
  have "\<not> us_Disabled r" "us_PasswordHash r = h" "us_ID r = us_ID v" "us_OrganizationID r = us_OrganizationID v" "us_Roles r = us_Roles v"
    using r(1) law by (cases r; cases v; simp add: same_account_def created_user_def Let_def)+
  with that [OF asked(2) hash(2), of r] r(2) law hash(1) v(2) asked(5) e show thesis by (simp add: toProtoUser_def)
qed simp

text \<open>
  Property C18. Accounts survive a restart. A user that was created on PostgreSQL can log in after the service has been started again
  on the same database, through the migration and the seeding of the development user and whatever statements fail during
  them: with the email and the password of the creation, for the same identifier, organization and roles. The login
  itself needs a working database and a refresh token that is new.
\<close>

theorem account_survives_restart:
  assumes "id_store s = postgres_identity rt" and "postgres_wf (id_db s)" and "CreateUser rt env req s = (Inr user, s1)"
    and "identity_main rt env1 drv mfault fault cfg (schema_of (ip_tables (id_db s1))) = (Inr (Inr s2), evs)"
    and "ie_rand env' 0 = Inr bs" and "\<And>k. ip_fault (id_db s2) (ip_calls (id_db s2)) k = None"
    and "hashToken rt (RawURLEncode bs) \<notin> tk_Token ` set (it_tokens (ip_tables (id_db s2)))"
  shows "\<exists>resp s3. Login rt env' \<lparr>lq_Email = cr_Email req, lq_Password = cr_Password req\<rparr> s2 = (Inr resp, s3)
    \<and> pr_Id (lr_User resp) = pr_Id user \<and> pr_OrganizationId (lr_User resp) = pr_OrganizationId user
    \<and> pr_Roles (lr_User resp) = pr_Roles user"
proof -
  obtain email u where u: "normalizeEmail rt (cr_Email req) = Some email" "cr_Password req \<noteq> []"
    "postgres_accounts (id_db s1) (store_normalizeEmail rt email) = Some u" "postgres_wf (id_db s1)" "\<not> us_Disabled u"
    "VerifyPassword rt (us_PasswordHash u) (cr_Password req)" "us_ID u = pr_Id user" "us_OrganizationID u = pr_OrganizationId user"
    "us_Roles u = pr_Roles user"
    by (rule created_account [OF assms(1-3)])
  obtain db where db: "ip_tables db = ip_tables (id_db s1)" "ip_fault db = fault"
    "seeded rt env1 cfg (NewIdentity (postgres_identity rt) db (ic_JWTSecret cfg) (ic_AccessTokenTTL cfg) (ic_RefreshTokenTTL cfg)) = Inr s2"
    by (rule identity_main_postgres [OF assms(4)])
  have "postgres_wf db" "postgres_accounts db (store_normalizeEmail rt email) = Some u"
    using u(3,4) postgres_wf_tables [OF db(1)] postgres_accounts_tables [OF db(1)] by simp_all
  with seeded_keeps [OF db(3)] have s2: "id_store s2 = postgres_identity rt" "postgres_accounts (id_db s2) (store_normalizeEmail rt email) = Some u"
    by (simp_all add: NewIdentity_def)
  have "pg_available rt (id_db s2) \<lparr>tk_Token = RawURLEncode bs, tk_UserID = us_ID u, tk_ExpiresAt = ie_now env' 1 + id_refreshTokenTTL s2,
      tk_CreatedAt = ie_now env' 1\<rparr>"
    using assms(6,7) by (simp add: pg_available_def)
  then have "\<exists>resp s3. Login rt env' \<lparr>lq_Email = cr_Email req, lq_Password = cr_Password req\<rparr> s2 = (Inr resp, s3)
    \<and> lr_User resp = toProtoUser rt u
    \<and> lr_AccessToken resp = AccessToken rt (id_secret s2) (ie_now env' 0) (us_ID u) (us_OrganizationID u) (us_Roles u) (id_accessTokenTTL s2)"
    using s2 u assms(5) by (intro pg_av.Login_available) simp_all
  with u(7-9) show ?thesis by (auto simp: toProtoUser_def)
qed

subsection \<open>A concrete restart\<close>

definition sample_config :: IdentityConfig where
  "sample_config = \<lparr>ic_Address = '':50051'', ic_JWTSecret = ''secret'', ic_Environment = ''development'', ic_DatabaseURL = ''postgres://db'',
     ic_DatabaseTimeout = 0, ic_AccessTokenTTL = 15 * minute, ic_RefreshTokenTTL = 60 * minute, ic_DevelopmentSeed = True,
     ic_DevelopmentOrgID = ''dev-org'', ic_DevelopmentEmail = ''admin@doclens.local'', ic_DevelopmentPassword = ''doclens-dev''\<rparr>"

definition sample_driver :: pool_driver where
  "sample_driver = \<lparr>dr_ParseConfig = (\<lambda>_. None), dr_NewWithConfig = (\<lambda>_. None), dr_Ping = (\<lambda>_ _. None)\<rparr>"

definition sample_pg_start :: "Postgres Identity" where
  "sample_pg_start = NewIdentity (postgres_identity sample_auth_runtime) empty_database ''secret'' (15 * minute) (60 * minute)"

definition sample_pg_created :: "ProtoUser rpc_result \<times> Postgres Identity" where
  "sample_pg_created = CreateUser sample_auth_runtime sample_identity_env (sample_user_request ''acme'') sample_pg_start"

definition sample_restart :: "(string + (Memory Identity + Postgres Identity)) \<times> lifecycle list" where
  "sample_restart = identity_main sample_auth_runtime sample_identity_env sample_driver (\<lambda>_. None) (\<lambda>_ _. None) sample_config
     (schema_of (ip_tables (id_db (snd sample_pg_created))))"

lemma sample_pg_user: "fst sample_pg_created = Inr sample_user"
  by code_simp

lemma sample_restarted:
  "(case fst sample_restart of Inr (Inr s) \<Rightarrow> ip_calls (id_db s) = 1 \<and> it_tokens (ip_tables (id_db s)) = [] \<and> snd sample_restart = [Opened RPool] | _ \<Rightarrow> False)"
  by code_simp

lemma identity_main_fault:
  assumes "identity_main rt env drv mfault fault cfg (schema_of t) = (Inr (Inr s), evs)"
  shows "ip_fault (id_db s) = fault"
proof -
  obtain db where db: "ip_fault db = fault"
    "seeded rt env cfg (NewIdentity (postgres_identity rt) db (ic_JWTSecret cfg) (ic_AccessTokenTTL cfg) (ic_RefreshTokenTTL cfg)) = Inr s"
    by (rule identity_main_postgres [OF assms])
  from seeded_fault [OF db(2)] db(1) show ?thesis by (simp add: NewIdentity_def)
qed

theorem account_survives_restart_witness:
  "\<exists>s2 evs resp s3. sample_restart = (Inr (Inr s2), evs)
    \<and> Login sample_auth_runtime sample_identity_env \<lparr>lq_Email = ''ada@x.y'', lq_Password = ''difference engine''\<rparr> s2 = (Inr resp, s3)
    \<and> pr_OrganizationId (lr_User resp) = ''acme''"
proof -
  obtain s1 where c: "CreateUser sample_auth_runtime sample_identity_env (sample_user_request ''acme'') sample_pg_start = (Inr sample_user, s1)"
    using sample_pg_user unfolding sample_pg_created_def by (metis prod.collapse)
  obtain s2 where "fst sample_restart = Inr (Inr s2)" and t: "it_tokens (ip_tables (id_db s2)) = []"
    using sample_restarted by (auto split: sum.splits)
  then obtain evs where r: "sample_restart = (Inr (Inr s2), evs)" by (metis prod.collapse)
  have m: "identity_main sample_auth_runtime sample_identity_env sample_driver (\<lambda>_. None) (\<lambda>_ _. None) sample_config
     (schema_of (ip_tables (id_db s1))) = (Inr (Inr s2), evs)"
    using r c by (simp add: sample_restart_def sample_pg_created_def)
  have st: "id_store sample_pg_start = postgres_identity sample_auth_runtime" "postgres_wf (id_db sample_pg_start)"
    by (simp_all add: sample_pg_start_def NewIdentity_def postgres_wf_def empty_database_def)
  have rand: "ie_rand sample_identity_env 0 = Inr [char_of (65 :: nat)]" by (simp add: sample_identity_env_def)
  from account_survives_restart [OF st c m rand] identity_main_fault [OF m] t r show ?thesis
    by (auto simp: sample_user_request_def sample_user_def)
qed

end
