(* ===== verification/Outbox_Shutdown.thy ===== *)
theory Outbox_Shutdown
  imports Outbox
begin

text \<open>
  The outbox publisher when its context is cancelled: every statement of \<open>ClaimOutbox\<close>,
  \<open>MarkOutboxPublished\<close> and \<open>MarkOutboxFailed\<close> carries the context that \<open>main\<close> gives \<open>RunOutboxPublisher\<close>
  (\<open>events/rabbitmq.go\<close>), and SIGINT or SIGTERM cancels it.
\<close>

text \<open>
  From the call \<open>c\<close> of the store on, the context is cancelled: a statement ends with the context's error and is not applied.
\<close>

definition cancelled_from :: "nat \<Rightarrow> PostgresStore \<Rightarrow> bool" where
  "cancelled_from c s \<longleftrightarrow> (\<forall>call k. c \<le> call \<longrightarrow> (\<exists>e. ps_fault s call k = Some (e, False)))"

lemma cancelled_exec:
  assumes "cancelled_from c s" and "c \<le> ps_calls s"
  shows "\<exists>x. auto_exec s k stmt t = (Some x, t)"
proof -
  obtain x where "ps_fault s (ps_calls s) k = Some (x, False)" using assms unfolding cancelled_from_def by blast
  then show ?thesis by (simp add: auto_exec_def stmt_fault_def)
qed

lemma cancelled_tick: "cancelled_from c s \<Longrightarrow> c \<le> ps_calls s \<Longrightarrow> cancelled_from c (tick t s) \<and> c \<le> ps_calls (tick t s)"
  by (simp add: cancelled_from_def tick_def)

lemma cancelled_mark:
  assumes "cancelled_from c s" and "c \<le> ps_calls s"
  shows "\<exists>x. MarkOutboxPublished i p s = (Some x, tick (ps_tables s) s)"
    and "\<exists>x. MarkOutboxFailed i err p s = (Some x, tick (ps_tables s) s)"
proof -
  show "\<exists>x. MarkOutboxPublished i p s = (Some x, tick (ps_tables s) s)"
    unfolding MarkOutboxPublished_def using cancelled_exec [OF assms, of 0] by (metis (no_types, lifting) case_prod_conv)
  show "\<exists>x. MarkOutboxFailed i err p s = (Some x, tick (ps_tables s) s)"
    unfolding MarkOutboxFailed_def using cancelled_exec [OF assms, of 0] by (metis (no_types, lifting) case_prod_conv)
qed

text \<open>A record of a batch after the cancellation leaves the tables as they are, whatever the broker answers.\<close>

lemma cancelled_record:
  assumes "cancelled_from c s" and "c \<le> ps_calls s" and "publish_record env k record (s, sent) = (s', sent')"
  shows "ps_tables s' = ps_tables s \<and> cancelled_from c s' \<and> c \<le> ps_calls s'
    \<and> sent' = (if be_publish env k record = None then sent @ [record] else sent)"
proof -
  define s1 where "s1 = (if be_publish env k record = None then tick (ps_tables s) s else s)"
  have s1: "ps_tables s1 = ps_tables s" "cancelled_from c s1" "c \<le> ps_calls s1"
    using assms(1,2) cancelled_tick [OF assms(1,2)] by (simp_all add: s1_def)
  obtain x where x: "(case be_publish env k record of
        None \<Rightarrow> MarkOutboxPublished (ob_ID record) (be_clock env (2 * k)) s | Some e \<Rightarrow> (Some e, s)) = (Some x, s1)"
    using cancelled_mark(1) [OF assms(1,2), of "ob_ID record" "be_clock env (2 * k)"]
    by (cases "be_publish env k record") (auto simp: s1_def)
  obtain y where "MarkOutboxFailed (ob_ID record) x (be_clock env (2 * k + 1) + backoff (ob_AttemptCount record)) s1
      = (y, tick (ps_tables s1) s1)" using cancelled_mark(2) [OF s1(2,3)] by blast
  with x assms(3) have "s' = tick (ps_tables s1) s1" "sent' = (if be_publish env k record = None then sent @ [record] else sent)"
    by (simp_all add: publish_record_def)
  then show ?thesis using cancelled_tick [OF s1(2,3)] s1(1) by (simp add: tick_def)
qed

lemma cancelled_records:
  assumes "cancelled_from c s" and "c \<le> ps_calls s" and "publish_records env k rs (s, sent) = (s', sent')"
  shows "ps_tables s' = ps_tables s \<and> ((\<forall>j r. be_publish env j r \<noteq> None) \<longrightarrow> sent' = sent)"
  using assms
proof (induction rs arbitrary: k s sent)
  case (Cons r rs)
  obtain s1 sent1 where 1: "publish_record env k r (s, sent) = (s1, sent1)" by fastforce
  note c = cancelled_record [OF Cons.prems(1,2) 1]
  from Cons.IH [of s1 "Suc k" sent1] Cons.prems(3) 1 c show ?case by auto
qed simp

text \<open>The rows of the claimed records are \<open>publishing\<close>, and stay so.\<close>

lemma claimed_publishing:
  assumes "claim_tables now locked limit t = (rs, t')" and "record \<in> set rs"
  shows "\<exists>r \<in> set (t_outbox t'). or_ID r = ob_ID record \<and> or_Status r = ''publishing''"
proof -
  let ?ids = "claimed_ids now locked limit (t_outbox t)"
  obtain r where "r \<in> set (t_outbox t)" "or_ID r \<in> set ?ids" "record = outbox_record (claim_row ?ids r)"
    and t': "t_outbox t' = map (claim_row ?ids) (t_outbox t)"
    using assms by (auto simp: claim_tables_def Let_def)
  then have "claim_row ?ids r \<in> set (t_outbox t')" "or_ID (claim_row ?ids r) = ob_ID record"
    "or_Status (claim_row ?ids r) = ''publishing''"
    by (simp_all add: outbox_record_def) (simp add: claim_row_def)
  then show ?thesis by blast
qed

lemma ClaimOutbox_ok:
  assumes "ClaimOutbox now locked limit s = (Inr records, s1)"
  obtains t where "claim_tables now locked limit (ps_tables s) = (records, t)" "s1 = tick t s"
  using assms by (auto simp: ClaimOutbox_def split: prod.splits option.splits)

text \<open>
  Property C27. A graceful shutdown loses events. When SIGTERM cancels the publisher's context after a batch has claimed its rows, every
  claimed event stays in the status \<open>publishing\<close>, whatever the broker answered; the publisher of the restarted service, in
  any number of batches, changes it no more and sends it no more; if the broker took no message after the cancellation, the event
  is never published at all.
\<close>

theorem shutdown_loses_events:
  assumes "distinct (map or_ID (t_outbox (ps_tables s)))"
    and "ClaimOutbox (be_now env) (be_locked env) 50 s = (Inr records, s1)" and "record \<in> set records"
    and "cancelled_from (ps_calls s1) s1"
    and "publishOutboxBatch env (s, sent) = (e, (s2, sent2))"
    and "ps_tables restarted = ps_tables s2" and "RunOutboxPublisher envs (restarted, sent2) = (s', sent')"
  shows "(\<exists>r \<in> set (t_outbox (ps_tables s')). or_ID r = ob_ID record \<and> or_Status r = ''publishing'')
    \<and> (ob_ID record \<in> ob_ID ` set sent' \<longrightarrow> ob_ID record \<in> ob_ID ` set sent2)
    \<and> ((\<forall>j r. be_publish env j r \<noteq> None) \<longrightarrow> sent2 = sent)"
proof -
  obtain t where t: "claim_tables (be_now env) (be_locked env) 50 (ps_tables s) = (records, t)" "s1 = tick t s"
    by (rule ClaimOutbox_ok [OF assms(2)])
  have "publish_records env 0 records (s1, sent) = (s2, sent2)"
    using assms(2,5) by (simp add: publishOutboxBatch_def)
  from cancelled_records [OF assms(4) order_refl this] t(2)
  have s2: "ps_tables s2 = t" "(\<forall>j r. be_publish env j r \<noteq> None) \<longrightarrow> sent2 = sent" by (simp_all add: tick_def)
  obtain r where r: "r \<in> set (t_outbox t)" "or_ID r = ob_ID record" "or_Status r = ''publishing''"
    using claimed_publishing [OF t(1) assms(3)] by blast
  have "distinct (map or_ID (t_outbox t))"
    using rows_changed_distinct [OF conjunct1 [OF claim_changed [OF t(1)]]] assms(1) by simp
  then have "distinct (map or_ID (t_outbox (ps_tables restarted)))" "r \<in> set (t_outbox (ps_tables restarted))"
    using r(1) s2(1) assms(6) by simp_all
  from run_keeps_publishing [OF this r(3) assms(7)] r s2(2) show ?thesis by auto
qed

subsection \<open>A concrete shutdown\<close>

text \<open>The claim is call 0; the signal comes before call 1, and the connection to the broker is closed.\<close>

definition stopped_outbox :: PostgresStore where
  "stopped_outbox = sample_outbox\<lparr>ps_fault := (\<lambda>call k. if 1 \<le> call then Some (''context canceled'', False) else None)\<rparr>"

definition stopped_batch :: batch_env where
  "stopped_batch = sample_batch\<lparr>be_publish := (\<lambda>_ _. Some ''channel/connection is not open'')\<rparr>"

lemma stopped_claim:
  "\<exists>records s1. ClaimOutbox (be_now stopped_batch) (be_locked stopped_batch) 50 stopped_outbox = (Inr records, s1)
     \<and> map ob_ID records = [''evt_1''] \<and> ps_calls s1 = 1 \<and> ps_fault s1 = ps_fault stopped_outbox"
proof -
  have "claimed_ids 1000 (\<lambda>_. False) 50 [sample_row ''evt_1'' ''pending'', sample_row ''evt_2'' ''publishing''] = [''evt_1'']"
    by code_simp
  then show ?thesis
    by (simp add: ClaimOutbox_def claim_tables_def Let_def stopped_outbox_def sample_outbox_def stopped_batch_def sample_batch_def
        stmt_fault_def tick_def claim_row_def outbox_record_def sample_row_def)
qed

theorem shutdown_loses_events_witness:
  "\<exists>e s2. publishOutboxBatch stopped_batch (stopped_outbox, []) = (e, (s2, []))
    \<and> (\<exists>r \<in> set (t_outbox (ps_tables (fst (RunOutboxPublisher [sample_batch, sample_batch] (s2\<lparr>ps_fault := (\<lambda>_ _. None)\<rparr>, []))))).
        or_ID r = ''evt_1'' \<and> or_Status r = ''publishing'')
    \<and> ''evt_1'' \<notin> ob_ID ` set (snd (RunOutboxPublisher [sample_batch, sample_batch] (s2\<lparr>ps_fault := (\<lambda>_ _. None)\<rparr>, [])))"
proof -
  obtain records s1 where c: "ClaimOutbox (be_now stopped_batch) (be_locked stopped_batch) 50 stopped_outbox = (Inr records, s1)"
    "map ob_ID records = [''evt_1'']" "ps_calls s1 = 1" "ps_fault s1 = ps_fault stopped_outbox" using stopped_claim by (elim exE conjE)
  then obtain x where x: "x \<in> set records" "ob_ID x = ''evt_1''" by (cases records) auto
  obtain e s2 sent2 where b: "publishOutboxBatch stopped_batch (stopped_outbox, []) = (e, (s2, sent2))" by (metis prod.collapse)
  obtain s' sent' where r: "RunOutboxPublisher [sample_batch, sample_batch] (s2\<lparr>ps_fault := (\<lambda>_ _. None)\<rparr>, sent2) = (s', sent')"
    by fastforce
  have d: "distinct (map or_ID (t_outbox (ps_tables stopped_outbox)))"
    by (simp add: stopped_outbox_def sample_outbox_def sample_row_def)
  have cf: "cancelled_from (ps_calls s1) s1" using c(3,4) by (simp add: cancelled_from_def stopped_outbox_def)
  from shutdown_loses_events [OF d c(1) x(1) cf b _ r] have res:
    "\<exists>r \<in> set (t_outbox (ps_tables s')). or_ID r = ''evt_1'' \<and> or_Status r = ''publishing''"
    "''evt_1'' \<in> ob_ID ` set sent' \<longrightarrow> ''evt_1'' \<in> ob_ID ` set sent2" "sent2 = []"
    using x(2) by (auto simp: stopped_batch_def)
  then show ?thesis using b r by auto
qed

end
