(* ===== verification/Service_Lifecycle.thy ===== *)
theory Service_Lifecycle
  imports Connections
begin

text \<open>
  The life of the services' processes once they have started: signals, shutdown and the exit status. Each \<open>main\<close> is a
  step relation over the states of its process. Two contracts, \<open>draining_server\<close> and \<open>lawful_server\<close>, say what a
  server that drains promises; the gateway's process, which uses \<open>net/http\<close>, and the processes of the gRPC services satisfy them.
\<close>

subsection \<open>What a server that drains promises\<close>

text \<open>
  A shutdown that has begun goes on, each of its steps is progress, and it is not stuck before the process is gone.
\<close>

locale draining_server =
  fixes step :: "'p \<Rightarrow> 'p \<Rightarrow> bool" and draining :: "'p \<Rightarrow> bool" and gone :: "'p \<Rightarrow> bool" and rank :: "'p \<Rightarrow> nat"
  assumes draining_step: "draining p \<Longrightarrow> step p q \<Longrightarrow> draining q"
    and rank_step: "draining p \<Longrightarrow> step p q \<Longrightarrow> rank q < rank p"
    and progress: "draining p \<Longrightarrow> \<not> gone p \<Longrightarrow> \<exists>q. step p q"
begin

lemma draining_run: "step\<^sup>*\<^sup>* p q \<Longrightarrow> draining p \<Longrightarrow> draining q"
  by (induction rule: rtranclp_induct) (auto intro: draining_step)

lemma run_bounded: "(step ^^ n) p q \<Longrightarrow> draining p \<Longrightarrow> n + rank q \<le> rank p"
proof (induction n arbitrary: q)
  case (Suc n)
  then obtain u where u: "(step ^^ n) p u" "step u q" by auto
  have "draining u" using draining_run Suc.prems(2) u(1) by (metis relpowp_imp_rtranclp)
  with Suc.IH [OF u(1)] Suc.prems(2) rank_step [OF _ u(2)] show ?case by simp
qed auto

lemma stuck_gone: "step\<^sup>*\<^sup>* p q \<Longrightarrow> draining p \<Longrightarrow> \<forall>u. \<not> step q u \<Longrightarrow> gone q"
  using draining_run progress by blast

lemma drains: "draining p \<Longrightarrow> \<exists>q. step\<^sup>*\<^sup>* p q \<and> gone q"
proof (induction "rank p" arbitrary: p rule: less_induct)
  case less
  show ?case
  proof (cases "gone p")
    case False
    then obtain u where u: "step p u" using progress less.prems by blast
    then obtain q where "step\<^sup>*\<^sup>* u q \<and> gone q" using less.hyps rank_step draining_step less.prems by blast
    then show ?thesis using u converse_rtranclp_into_rtranclp [of step] by blast
  qed blast
qed

end

text \<open>
  What it serves changes by the handling of requests only, and it releases what the handlers use only when no work is in
  flight; a process that has released it takes no further step.
\<close>

locale lawful_server = draining_server +
  fixes served :: "'p \<Rightarrow> 'd" and handled :: "'d \<Rightarrow> 'd \<Rightarrow> bool" and inflight :: "'p \<Rightarrow> nat" and released :: "'p \<Rightarrow> bool"
  assumes served_step: "step p q \<Longrightarrow> served q = served p \<or> handled (served p) (served q)"
    and released_last: "step p q \<Longrightarrow> \<not> released p"
    and released_idle: "step p q \<Longrightarrow> released q \<Longrightarrow> inflight q = 0"
begin

lemma run_served: "step\<^sup>*\<^sup>* p q \<Longrightarrow> handled\<^sup>*\<^sup>* (served p) (served q)"
proof (induction rule: rtranclp_induct)
  case (step q u)
  show ?case using served_step [OF step.hyps(2)]
  proof
    assume "handled (served q) (served u)"
    with step.IH show ?thesis by (rule rtranclp.rtrancl_into_rtrancl)
  qed (use step.IH in simp)
qed simp

lemma run_released: "step\<^sup>*\<^sup>* p q \<Longrightarrow> \<not> released p \<Longrightarrow> released q \<Longrightarrow> inflight q = 0"
  by (induction rule: rtranclp_induct) (auto dest: released_idle)

end

subsection \<open>The gateway's process\<close>

text \<open>
  The server of \<open>net/http\<close> as \<open>main\<close> uses it: its listener, the connections of clients with Go's \<open>ConnState\<close>, and \<open>Shutdown\<close>,
  which closes the listener and then waits until no connection is left.
\<close>

datatype listener = NotListening | Listening | ListenerClosed
datatype ConnState = StateNew | StateActive | StateIdle
datatype exit_status = Exit int | KilledBySignal

record ('w, 'c) gateway_process =
  gp_listener :: listener
  gp_registered :: bool
  gp_done :: bool
  gp_shutdown :: bool
  gp_listenerErr :: bool
  gp_conns :: "(nat \<times> ConnState) list"
  gp_served :: "Server \<times> 'w"
  gp_clients :: "'c list"
  gp_exit :: "exit_status option"

definition set_conn :: "nat \<Rightarrow> ConnState \<Rightarrow> (nat \<times> ConnState) list \<Rightarrow> (nat \<times> ConnState) list" where
  "set_conn c st conns = map (\<lambda>(i, s). if i = c then (i, st) else (i, s)) conns"

definition drop_conn :: "nat \<Rightarrow> (nat \<times> ConnState) list \<Rightarrow> (nat \<times> ConnState) list" where
  "drop_conn c conns = filter (\<lambda>(i, _). i \<noteq> c) conns"

text \<open>
  The goroutine that listens calls \<open>stop\<close> when it fails: the context is done, and a signal has its default effect again. While
  the registration stands, a second signal changes nothing. A request runs on its connection until the middleware
  has answered it. \<open>Shutdown\<close> fails on the error of closing the listener, or after ten seconds with a connection left; \<open>os.Exit\<close>
  then skips the deferred \<open>clients.Close\<close>.
\<close>

inductive gateway_step ::
  "'z auth_runtime_scheme \<Rightarrow> 'w clients \<Rightarrow> ('w, 'c) gateway_process \<Rightarrow> ('w, 'c) gateway_process \<Rightarrow> bool" for rt h where
  listens: "gp_exit p = None \<Longrightarrow> \<not> gp_shutdown p \<Longrightarrow> gp_listener p = NotListening \<Longrightarrow>
    gateway_step rt h p (p\<lparr>gp_listener := Listening\<rparr>)"
| listen_fails: "gp_exit p = None \<Longrightarrow> \<not> gp_shutdown p \<Longrightarrow> gp_listener p \<noteq> ListenerClosed \<Longrightarrow>
    gateway_step rt h p (p\<lparr>gp_listener := ListenerClosed, gp_done := True, gp_registered := False\<rparr>)"
| signal: "gp_exit p = None \<Longrightarrow> gp_registered p \<Longrightarrow> \<not> gp_done p \<Longrightarrow> gateway_step rt h p (p\<lparr>gp_done := True\<rparr>)"
| signal_kills: "gp_exit p = None \<Longrightarrow> \<not> gp_registered p \<Longrightarrow> gateway_step rt h p (p\<lparr>gp_exit := Some KilledBySignal\<rparr>)"
| accept: "gp_exit p = None \<Longrightarrow> \<not> gp_shutdown p \<Longrightarrow> gp_listener p = Listening \<Longrightarrow> c \<notin> fst ` set (gp_conns p) \<Longrightarrow>
    gateway_step rt h p (p\<lparr>gp_conns := (c, StateNew) # gp_conns p\<rparr>)"
| request: "gp_exit p = None \<Longrightarrow> (c, st) \<in> set (gp_conns p) \<Longrightarrow> st \<noteq> StateActive \<Longrightarrow>
    gateway_step rt h p (p\<lparr>gp_conns := set_conn c StateActive (gp_conns p)\<rparr>)"
| answer: "gp_exit p = None \<Longrightarrow> (c, StateActive) \<in> set (gp_conns p) \<Longrightarrow>
    gateway_step rt h p (p\<lparr>gp_conns := (if keep \<and> \<not> gp_shutdown p then set_conn c StateIdle (gp_conns p) else drop_conn c (gp_conns p)),
      gp_served := snd (middleware rt env h (r\<lparr>rq_Claims := None\<rparr>) (gp_served p))\<rparr>)"
| conn_close: "gp_exit p = None \<Longrightarrow> (c, st) \<in> set (gp_conns p) \<Longrightarrow> st \<noteq> StateActive \<Longrightarrow>
    gateway_step rt h p (p\<lparr>gp_conns := drop_conn c (gp_conns p)\<rparr>)"
| shutdown: "gp_exit p = None \<Longrightarrow> gp_done p \<Longrightarrow> \<not> gp_shutdown p \<Longrightarrow> (err \<longrightarrow> gp_listener p = Listening) \<Longrightarrow>
    gateway_step rt h p (p\<lparr>gp_shutdown := True, gp_listenerErr := err, gp_listener := ListenerClosed\<rparr>)"
| stopped: "gp_exit p = None \<Longrightarrow> gp_shutdown p \<Longrightarrow> gp_conns p = [] \<Longrightarrow> \<not> gp_listenerErr p \<Longrightarrow>
    gateway_step rt h p (p\<lparr>gp_exit := Some (Exit 0), gp_clients := []\<rparr>)"
| shutdown_fails: "gp_exit p = None \<Longrightarrow> gp_shutdown p \<Longrightarrow> gp_conns p \<noteq> [] \<or> gp_listenerErr p \<Longrightarrow>
    gateway_step rt h p (p\<lparr>gp_exit := Some (Exit 1)\<rparr>)"

inductive_cases gateway_stepE: "gateway_step rt h p q"

definition conn_weight :: "nat \<times> ConnState \<Rightarrow> nat" where
  "conn_weight x = (if snd x = StateActive then 1 else 2)"

definition gateway_rank :: "('w, 'c) gateway_process \<Rightarrow> nat" where
  "gateway_rank p = sum_list (map conn_weight (gp_conns p)) + (if gp_exit p = None then 1 else 0) + (if gp_done p then 0 else 1)"

definition gateway_draining :: "('w, 'c) gateway_process \<Rightarrow> bool" where
  "gateway_draining p \<longleftrightarrow> gp_shutdown p"

definition gateway_handled :: "'z auth_runtime_scheme \<Rightarrow> 'w clients \<Rightarrow> Server \<times> 'w \<Rightarrow> Server \<times> 'w \<Rightarrow> bool" where
  "gateway_handled rt h st st' \<longleftrightarrow> (\<exists>env r. st' = snd (middleware rt env h (r\<lparr>rq_Claims := None\<rparr>) st))"

lemma weight_drop:
  "(c, st) \<in> set conns \<Longrightarrow> sum_list (map conn_weight (drop_conn c conns)) < sum_list (map conn_weight conns)"
proof (induction conns)
  case (Cons x conns)
  have "sum_list (map conn_weight (drop_conn c conns)) \<le> sum_list (map conn_weight conns)"
    unfolding drop_conn_def by (induction conns) auto
  moreover have "0 < conn_weight x" by (simp add: conn_weight_def)
  ultimately show ?case using Cons by (cases "fst x = c") (auto simp: drop_conn_def split: prod.splits)
qed simp

lemma weight_activate:
  assumes "(c, st) \<in> set conns" and "st \<noteq> StateActive"
  shows "sum_list (map conn_weight (set_conn c StateActive conns)) < sum_list (map conn_weight conns)"
  using assms(1)
proof (induction conns)
  case (Cons x conns)
  have le: "sum_list (map conn_weight (set_conn c StateActive conns)) \<le> sum_list (map conn_weight conns)"
    unfolding set_conn_def by (induction conns) (auto simp: conn_weight_def)
  show ?case
  proof (cases "x = (c, st)")
    case True
    have "conn_weight (c, StateActive) = 1" "conn_weight (c, st) = 2" using assms(2) by (simp_all add: conn_weight_def)
    then show ?thesis using le True by (simp add: set_conn_def)
  next
    case False
    with Cons have "sum_list (map conn_weight (set_conn c StateActive conns)) < sum_list (map conn_weight conns)" by simp
    moreover have "conn_weight (case x of (i, s) \<Rightarrow> if i = c then (i, StateActive) else (i, s)) \<le> conn_weight x"
      by (auto simp: conn_weight_def split: prod.splits)
    ultimately show ?thesis by (simp add: set_conn_def)
  qed
qed simp

lemma gateway_progress:
  assumes "gp_exit p = None" and "gp_shutdown p"
  shows "\<exists>q. gateway_step rt h p q"
  using gateway_step.stopped [of p rt h] gateway_step.shutdown_fails [of p rt h] assms by blast

lemma gateway_step_running: "gateway_step rt h p q \<Longrightarrow> gp_exit p = None"
  by (erule gateway_stepE) auto

interpretation gw: lawful_server "gateway_step rt h" gateway_draining "\<lambda>p. gp_exit p \<noteq> None" gateway_rank
  gp_served "gateway_handled rt h" "\<lambda>p. length (gp_conns p)" "\<lambda>p. gp_exit p = Some (Exit 0)"
  for rt :: "'z auth_runtime_scheme" and h :: "'w clients"
proof unfold_locales
  fix p q :: "('w, 'c) gateway_process"
  assume step: "gateway_step rt h p q"
  show "gateway_draining p \<Longrightarrow> gateway_draining q" using step by (cases) (auto simp: gateway_draining_def)
  show "gateway_draining p \<Longrightarrow> gateway_rank q < gateway_rank p" using step
    by cases (auto simp: gateway_draining_def gateway_rank_def weight_drop weight_activate)
  show "gp_served q = gp_served p \<or> gateway_handled rt h (gp_served p) (gp_served q)" using step
    by cases (auto simp: gateway_handled_def)
  show "gp_exit p \<noteq> Some (Exit 0)" using gateway_step_running [OF step] by simp
  show "gp_exit q = Some (Exit 0) \<Longrightarrow> length (gp_conns q) = 0" using step by cases auto
qed (simp add: gateway_draining_def gateway_progress)

lemma gateway_handled_all: "(gateway_handled rt h)\<^sup>*\<^sup>* st st' \<Longrightarrow> \<exists>rs. serve_all rt h rs st = st'"
proof (induction rule: converse_rtranclp_induct)
  case base
  have "serve_all rt h [] st' = st'" by simp
  then show ?case by blast
next
  case (step st u)
  then obtain env r rs where "u = snd (middleware rt env h (r\<lparr>rq_Claims := None\<rparr>) st)" "serve_all rt h rs u = st'"
    by (auto simp: gateway_handled_def)
  then have "serve_all rt h ((env, r) # rs) st = st'" by simp
  then show ?case by blast
qed

subsection \<open>The processes of the gRPC services\<close>

text \<open>
  The gRPC server is a library; what is asked of it is its documentation. \<open>Serve\<close> ends with an error unless
  \<open>GracefulStop\<close> was called; \<open>GracefulStop\<close> lets no new call in and waits until the pending calls are finished. The arguments
  are whether \<open>GracefulStop\<close> was called and the number of calls in flight.
\<close>

datatype serve_result = ServeNil | ErrServerStopped | ServeFailed string

record grpc_library =
  gl_Accepts :: "bool \<Rightarrow> nat \<Rightarrow> bool"
  gl_Returns :: "bool \<Rightarrow> nat \<Rightarrow> serve_result \<Rightarrow> bool"

definition graceful_library :: "grpc_library \<Rightarrow> bool" where
  "graceful_library lib \<longleftrightarrow>
     (\<forall>n. \<not> gl_Accepts lib True n)
     \<and> (\<forall>n r. gl_Returns lib True n r \<longrightarrow> n = 0 \<and> (r = ServeNil \<or> r = ErrServerStopped))
     \<and> (\<exists>r. gl_Returns lib True 0 r)
     \<and> (\<forall>n r. gl_Returns lib False n r \<longrightarrow> (\<exists>err. r = ServeFailed err))"

record 's grpc_process =
  rp_inflight :: nat
  rp_done :: bool
  rp_stopping :: bool
  rp_state :: 's
  rp_log :: "lifecycle list"
  rp_exit :: "int option"

text \<open>
  \<open>handle\<close> is a handler of the service, \<open>None\<close> when it does not return, and \<open>deferred\<close> what the deferred calls of \<open>main\<close> close.
  \<open>os.Exit\<close> skips them. A signal after the first changes nothing, since the registration stands until \<open>main\<close> returns.
\<close>

inductive grpc_step ::
  "grpc_library \<Rightarrow> ('c \<Rightarrow> 's \<Rightarrow> 's option) \<Rightarrow> lifecycle list \<Rightarrow> 's grpc_process \<Rightarrow> 's grpc_process \<Rightarrow> bool" for lib handle deferred where
  call_starts: "rp_exit p = None \<Longrightarrow> gl_Accepts lib (rp_stopping p) (rp_inflight p) \<Longrightarrow>
    grpc_step lib handle deferred p (p\<lparr>rp_inflight := rp_inflight p + 1\<rparr>)"
| call_ends: "rp_exit p = None \<Longrightarrow> 0 < rp_inflight p \<Longrightarrow> handle c (rp_state p) = Some s \<Longrightarrow>
    grpc_step lib handle deferred p (p\<lparr>rp_inflight := rp_inflight p - 1, rp_state := s\<rparr>)"
| signalled: "rp_exit p = None \<Longrightarrow> \<not> rp_done p \<Longrightarrow> grpc_step lib handle deferred p (p\<lparr>rp_done := True\<rparr>)"
| graceful_stop: "rp_exit p = None \<Longrightarrow> rp_done p \<Longrightarrow> \<not> rp_stopping p \<Longrightarrow>
    grpc_step lib handle deferred p (p\<lparr>rp_stopping := True\<rparr>)"
| serve_returns: "rp_exit p = None \<Longrightarrow> gl_Returns lib (rp_stopping p) (rp_inflight p) r \<Longrightarrow> r = ServeNil \<or> r = ErrServerStopped \<Longrightarrow>
    grpc_step lib handle deferred p (p\<lparr>rp_exit := Some 0, rp_log := rp_log p @ deferred\<rparr>)"
| serve_fails: "rp_exit p = None \<Longrightarrow> gl_Returns lib (rp_stopping p) (rp_inflight p) (ServeFailed err) \<Longrightarrow>
    grpc_step lib handle deferred p (p\<lparr>rp_exit := Some 1\<rparr>)"

inductive_cases grpc_stepE: "grpc_step lib handle deferred p q"

definition grpc_rank :: "'s grpc_process \<Rightarrow> nat" where
  "grpc_rank p = rp_inflight p + (if rp_exit p = None then 1 else 0) + (if rp_done p then 0 else 1)"

definition grpc_handled :: "('c \<Rightarrow> 's \<Rightarrow> 's option) \<Rightarrow> 's \<Rightarrow> 's \<Rightarrow> bool" where
  "grpc_handled handle s s' \<longleftrightarrow> (\<exists>c. handle c s = Some s')"

lemma grpc_step_running: "grpc_step lib handle deferred p q \<Longrightarrow> rp_exit p = None"
  by (erule grpc_stepE) auto

text \<open>A process of a gRPC service over a library that keeps its documentation, with handlers that return, is a lawful server.\<close>

lemma grpc_lawful:
  fixes handle :: "'c \<Rightarrow> 's \<Rightarrow> 's option"
  assumes "graceful_library lib" and "\<And>c s. handle c s \<noteq> None"
  shows "lawful_server (grpc_step lib handle deferred) rp_stopping (\<lambda>p. rp_exit p \<noteq> None) grpc_rank
    rp_state (grpc_handled handle) rp_inflight (\<lambda>p. rp_exit p = Some 0)"
proof unfold_locales
  fix p q
  assume step: "grpc_step lib handle deferred p q"
  show "rp_stopping p \<Longrightarrow> rp_stopping q" using step by cases auto
  show "rp_stopping p \<Longrightarrow> grpc_rank q < grpc_rank p" using step assms(1)
    by cases (auto simp: grpc_rank_def graceful_library_def)
  show "rp_state q = rp_state p \<or> grpc_handled handle (rp_state p) (rp_state q)" using step
    by cases (auto simp: grpc_handled_def)
  show "rp_exit p \<noteq> Some 0" using grpc_step_running [OF step] by simp
  show "rp_exit q = Some 0 \<Longrightarrow> rp_inflight q = 0" using step
  proof cases
    case (serve_returns r)
    with assms(1) have "rp_stopping p" unfolding graceful_library_def by (cases "rp_stopping p") fastforce+
    with serve_returns assms(1) show ?thesis unfolding graceful_library_def by auto
  qed auto
next
  fix p :: "'s grpc_process"
  assume p: "rp_stopping p" "\<not> rp_exit p \<noteq> None"
  show "\<exists>q. grpc_step lib handle deferred p q"
  proof (cases "rp_inflight p")
    case 0
    then obtain r where r: "gl_Returns lib (rp_stopping p) (rp_inflight p) r" "r = ServeNil \<or> r = ErrServerStopped"
      using assms(1) p(1) unfolding graceful_library_def by auto
    with p(2) grpc_step.serve_returns [of p lib r handle deferred] show ?thesis by blast
  next
    case (Suc n)
    obtain c s' where "handle c (rp_state p) = Some s'" using assms(2) by fast
    then show ?thesis using p(2) Suc grpc_step.call_ends [of p handle c s' lib deferred] by auto
  qed
qed

text \<open>An exit without an error follows a signal, and the log then ends with what the deferred calls close.\<close>

definition grpc_closed :: "lifecycle list \<Rightarrow> lifecycle list \<Rightarrow> 's grpc_process \<Rightarrow> bool" where
  "grpc_closed evs deferred p \<longleftrightarrow>
     (rp_stopping p \<longrightarrow> rp_done p) \<and> (rp_exit p = Some 0 \<longrightarrow> rp_stopping p \<and> rp_log p = evs @ deferred)
     \<and> (rp_exit p \<noteq> Some 0 \<longrightarrow> rp_log p = evs)
     \<and> (rp_exit p = None \<or> rp_exit p = Some 0 \<or> rp_exit p = Some 1 \<and> \<not> rp_stopping p)"

lemma grpc_closed_step:
  assumes "graceful_library lib" and "grpc_closed evs deferred p" and "grpc_step lib handle deferred p q"
  shows "grpc_closed evs deferred q"
  using assms(3)
proof cases
  case (serve_returns r)
  with assms(1) have "rp_stopping p" unfolding graceful_library_def by (cases "rp_stopping p") fastforce+
  with serve_returns assms(2) show ?thesis by (simp add: grpc_closed_def)
next
  case (serve_fails err)
  with assms(1) have "\<not> rp_stopping p" unfolding graceful_library_def by fastforce
  with serve_fails assms(2) show ?thesis by (simp add: grpc_closed_def)
qed (use assms(2) in \<open>auto simp: grpc_closed_def\<close>)

lemma grpc_closed_run:
  "(grpc_step lib handle deferred)\<^sup>*\<^sup>* p q \<Longrightarrow> graceful_library lib \<Longrightarrow> grpc_closed evs deferred p \<Longrightarrow> grpc_closed evs deferred q"
  by (induction rule: rtranclp_induct) (auto intro: grpc_closed_step)

text \<open>
  What a run of the process of a gRPC service guarantees: its state is the result of handled calls; at an exit without an error no call is in
  flight and what the deferred calls close is closed; and once \<open>GracefulStop\<close> was called, every run is short, and one leads to that exit.
\<close>

lemma grpc_run:
  assumes "graceful_library lib" and "\<And>c s. handle c s \<noteq> None"
    and "(grpc_step lib handle deferred)\<^sup>*\<^sup>* p q" and "grpc_closed evs deferred p" and "rp_exit p = None"
  shows "(grpc_handled handle)\<^sup>*\<^sup>* (rp_state p) (rp_state q)"
    and "rp_exit q = Some 0 \<Longrightarrow> rp_inflight q = 0 \<and> rp_done q \<and> rp_log q = evs @ deferred"
    and "rp_exit q \<noteq> Some 0 \<Longrightarrow> rp_log q = evs"
    and "rp_stopping q \<Longrightarrow> (grpc_step lib handle deferred ^^ n) q u \<Longrightarrow> n \<le> rp_inflight q + 1"
    and "rp_stopping q \<Longrightarrow> \<exists>u. (grpc_step lib handle deferred)\<^sup>*\<^sup>* q u \<and> rp_exit u = Some 0"
proof -
  note law = grpc_lawful [of lib handle deferred, OF assms(1,2)]
  note drain = lawful_server.axioms(1) [OF law]
  have q: "grpc_closed evs deferred q" by (rule grpc_closed_run [OF assms(3,1,4)])
  show "(grpc_handled handle)\<^sup>*\<^sup>* (rp_state p) (rp_state q)" by (rule lawful_server.run_served [OF law assms(3)])
  show "rp_exit q = Some 0 \<Longrightarrow> rp_inflight q = 0 \<and> rp_done q \<and> rp_log q = evs @ deferred"
    using lawful_server.run_released [OF law assms(3)] assms(5) q by (simp add: grpc_closed_def)
  show "rp_exit q \<noteq> Some 0 \<Longrightarrow> rp_log q = evs" using q by (simp add: grpc_closed_def)
  show "n \<le> rp_inflight q + 1" if s: "rp_stopping q" "(grpc_step lib handle deferred ^^ n) q u"
  proof -
    have "n + grpc_rank u \<le> grpc_rank q" using draining_server.run_bounded [OF drain s(2,1)] .
    moreover have "grpc_rank q \<le> rp_inflight q + 1" using q s(1) by (simp add: grpc_rank_def grpc_closed_def)
    ultimately show ?thesis by simp
  qed
  show "\<exists>u. (grpc_step lib handle deferred)\<^sup>*\<^sup>* q u \<and> rp_exit u = Some 0" if s: "rp_stopping q"
  proof -
    obtain u where u: "(grpc_step lib handle deferred)\<^sup>*\<^sup>* q u" "rp_exit u \<noteq> None"
      using draining_server.drains [OF drain s] by blast
    then have "rp_stopping u" "grpc_closed evs deferred u"
      using draining_server.draining_run [OF drain u(1) s] grpc_closed_run [OF u(1) assms(1) q] by blast+
    with u show ?thesis by (auto simp: grpc_closed_def)
  qed
qed

text \<open>The gateway's process never takes back a client connection it has closed, and closes them at its regular exit only.\<close>

lemma gateway_clients_step:
  "gateway_step rt h p q \<Longrightarrow> gp_clients q = (if gp_exit q = Some (Exit 0) then [] else gp_clients p)"
  by (erule gateway_stepE) auto

lemma gateway_clients_run:
  "(gateway_step rt h)\<^sup>*\<^sup>* p q \<Longrightarrow> gp_exit p = None \<Longrightarrow> gp_clients q = (if gp_exit q = Some (Exit 0) then [] else gp_clients p)"
proof (induction rule: rtranclp_induct)
  case (step y z)
  with gateway_clients_step [OF step.hyps(2)] gateway_step_running [OF step.hyps(2)] show ?case by simp
qed simp

lemma gateway_shutdown_bound:
  assumes "gp_shutdown q" and "(gateway_step rt h ^^ n) q u"
  shows "n \<le> 2 * length (gp_conns q) + 2"
proof -
  have "sum_list (map conn_weight xs) \<le> 2 * length xs" for xs by (induction xs) (auto simp: conn_weight_def)
  from this [of "gp_conns q"] have "gateway_rank q \<le> 2 * length (gp_conns q) + 2" by (simp add: gateway_rank_def)
  moreover have "n + gateway_rank u \<le> gateway_rank q"
    using gw.run_bounded [OF assms(2)] assms(1) by (simp add: gateway_draining_def)
  ultimately show ?thesis by simp
qed

text \<open>A gateway whose listener failed before a connection came serves no request, and ends as if it had been asked to.\<close>

definition never_served :: "Server \<times> 'w \<Rightarrow> ('w, 'c) gateway_process \<Rightarrow> bool" where
  "never_served st p \<longleftrightarrow> gp_listener p = ListenerClosed \<and> gp_conns p = [] \<and> \<not> gp_listenerErr p \<and> gp_served p = st
     \<and> (\<forall>c. gp_exit p = Some (Exit c) \<longrightarrow> c = 0)"

lemma never_served_step: "gateway_step rt h p q \<Longrightarrow> never_served st p \<Longrightarrow> never_served st q"
  by (erule gateway_stepE) (auto simp: never_served_def)

lemma never_served_run: "(gateway_step rt h)\<^sup>*\<^sup>* p q \<Longrightarrow> never_served st p \<Longrightarrow> never_served st q"
  by (induction rule: rtranclp_induct) (auto intro: never_served_step)

end
