(* ===== verification/Service_Mains.thy ===== *)
theory Service_Mains
  imports Service_Lifecycle Identity_Restart Intake_Isolation Verification_Stub Gateway_Forwarding
begin

text \<open>
  The four \<open>main\<close> functions as a whole: what each does in order from its configuration to a process that serves, with the exit
  status of every error, and what the life of that process guarantees. The network, the file system, the drivers
  and the SDK of the object storage are parameters.
\<close>

subsection \<open>The gateway\<close>

definition gateway_boot ::
  "'z auth_runtime_scheme \<Rightarrow> environment \<Rightarrow> (string \<Rightarrow> string + 'c) \<Rightarrow> 'w \<Rightarrow> (int + ('w, 'c) gateway_process) \<times> 'c list" where
  "gateway_boot rt e dial w =
     (case gateway_Load rt e of
        Inl _ \<Rightarrow> (Inl 1, [])
      | Inr cfg \<Rightarrow>
          (case Dial dial (gateway_targets cfg) of
             (Inl _, shut) \<Rightarrow> (Inl 1, shut)
           | (Inr conns, shut) \<Rightarrow>
               (Inr \<lparr>gp_listener = NotListening, gp_registered = True, gp_done = False, gp_shutdown = False, gp_listenerErr = False,
                     gp_conns = [], gp_served = (gateway_start rt cfg, w), gp_clients = conns, gp_exit = None\<rparr>, shut)))"

lemma gateway_boot_process:
  assumes "gateway_boot rt e dial w = (Inr p, shut)"
  shows "gp_exit p = None" and "gp_listener p = NotListening" and "gp_registered p" and "\<not> gp_done p" and "\<not> gp_shutdown p"
    and "\<not> gp_listenerErr p" and "gp_conns p = []" and "gs_secret (fst (gp_served p)) = e ''JWT_SECRET''" and "snd (gp_served p) = w"
  using assms
  by (auto simp: gateway_boot_def gateway_start_def NewServer_def gateway_Load_def Let_def split: sum.splits prod.splits if_splits)

lemma serve_all_secret: "gs_secret (fst (serve_all rt h rs st)) = gs_secret (fst st)"
proof (induction rs arbitrary: st)
  case (Cons x rs)
  obtain env r s w y s' w' where x: "x = (env, r)" "st = (s, w)"
    "middleware rt env h (r\<lparr>rq_Claims := None\<rparr>) (s, w) = (y, s', w')" by (metis prod.collapse)
  from Cons.IH [of "(s', w')"] middleware_keeps [OF x(3)] x show ?case by simp
qed simp

text \<open>
  Property C28. The life of the gateway's process, from \<open>main\<close> to its exit. In every interleaving of connections, requests, signals, a
  failing listener and the shutdown, what it serves is a sequence of requests through the middleware, with the secret of the
  environment; the clients to the services are closed only at the exit with status 0, when no connection is left, so no request loses
  its services; and once the shutdown has begun, the process ends after at most two steps for each connection and two more.
\<close>

theorem gateway_process_safe:
  assumes "gateway_boot rt e dial w = (Inr p, shut)" and "(gateway_step rt h)\<^sup>*\<^sup>* p q"
  shows "(\<exists>rs. gp_served q = serve_all rt h rs (gp_served p)) \<and> gs_secret (fst (gp_served q)) = e ''JWT_SECRET''
    \<and> (if gp_exit q = Some (Exit 0) then gp_conns q = [] \<and> gp_clients q = [] else gp_clients q = gp_clients p)
    \<and> (gp_shutdown q \<longrightarrow> (\<forall>n u. (gateway_step rt h ^^ n) q u \<longrightarrow> n \<le> 2 * length (gp_conns q) + 2)
         \<and> (\<exists>u. (gateway_step rt h)\<^sup>*\<^sup>* q u \<and> gp_exit u \<noteq> None))"
proof -
  note boot = gateway_boot_process [OF assms(1)]
  obtain rs where rs: "serve_all rt h rs (gp_served p) = gp_served q"
    using gateway_handled_all [OF gw.run_served [OF assms(2)]] by blast
  have "gp_exit q = Some (Exit 0) \<Longrightarrow> gp_conns q = []" using gw.run_released [OF assms(2)] boot(1) by simp
  moreover have "gs_secret (fst (gp_served q)) = e ''JWT_SECRET''"
    using serve_all_secret [of rt h rs "gp_served p"] rs boot(8) by simp
  moreover have "gp_shutdown q \<Longrightarrow> \<exists>u. (gateway_step rt h)\<^sup>*\<^sup>* q u \<and> gp_exit u \<noteq> None"
    using gw.drains [of q rt h] by (simp add: gateway_draining_def)
  ultimately show ?thesis
    using rs [symmetric] gateway_clients_run [OF assms(2) boot(1)] gateway_shutdown_bound [of q _ rt h] by auto
qed

text \<open>
  Property C30. A gateway that cannot bind its address ends with the exit status 0. When the listener fails at the start, the process
  serves no request; whatever happens then, it exits with status 0, unless a signal kills it, and it does reach that exit; the
  configuration errors and the failed connections before it end with status 1.
\<close>

theorem gateway_bind_failure_exits_zero:
  fixes dial :: "string \<Rightarrow> string + 'c"
  assumes "gateway_boot rt e dial w = (Inr p, shut)" and "gateway_step rt h p q" and "gp_listener q = ListenerClosed"
  shows "(\<forall>u. (gateway_step rt h)\<^sup>*\<^sup>* q u \<longrightarrow>
      gp_served u = gp_served p \<and> gp_conns u = [] \<and> (\<forall>c. gp_exit u = Some (Exit c) \<longrightarrow> c = 0))
    \<and> (\<exists>u. (gateway_step rt h)\<^sup>*\<^sup>* q u \<and> gp_exit u = Some (Exit 0))
    \<and> (\<forall>e' dial' c. fst (gateway_boot rt e' (dial' :: string \<Rightarrow> string + 'c) w) = Inl c \<longrightarrow> c = 1)"
proof -
  note boot = gateway_boot_process [OF assms(1)]
  have q: "never_served (gp_served p) q" "gp_done q" "gp_exit q = None" "\<not> gp_shutdown q"
    using assms(2,3) boot by (auto simp: never_served_def elim!: gateway_stepE)
  let ?s = "q\<lparr>gp_shutdown := True, gp_listenerErr := False, gp_listener := ListenerClosed\<rparr>"
  have "gateway_step rt h q ?s" using gateway_step.shutdown [of q False rt h] q by simp
  moreover have "gateway_step rt h ?s (?s\<lparr>gp_exit := Some (Exit 0), gp_clients := []\<rparr>)"
    using gateway_step.stopped [of ?s rt h] q by (simp add: never_served_def)
  ultimately have "(gateway_step rt h)\<^sup>*\<^sup>* q (?s\<lparr>gp_exit := Some (Exit 0), gp_clients := []\<rparr>)"
    by (meson r_into_rtranclp rtranclp_trans)
  then have "\<exists>u. (gateway_step rt h)\<^sup>*\<^sup>* q u \<and> gp_exit u = Some (Exit 0)" by force
  moreover have "never_served (gp_served p) u" if "(gateway_step rt h)\<^sup>*\<^sup>* q u" for u
    using never_served_run [OF that q(1)] .
  moreover have "c = 1" if "fst (gateway_boot rt e' (dial' :: string \<Rightarrow> string + 'c) w) = Inl c" for e' dial' c
    using that by (auto simp: gateway_boot_def split: sum.splits prod.splits)
  ultimately show ?thesis by (auto simp: never_served_def)
qed

subsection \<open>The Document Intake service\<close>

text \<open>What the S3 client for Cloudflare R2 is configured with.\<close>

record r2_options =
  ro_Region :: string
  ro_AccessKeyID :: string
  ro_SecretAccessKey :: string
  ro_BaseEndpoint :: string
  ro_UsePathStyle :: bool

definition TrimRightSlash :: "string \<Rightarrow> string" where
  "TrimRightSlash s = rev (dropWhile (\<lambda>c. c = CHR ''/'') (rev s))"

definition r2_client_options :: "IntakeConfig \<Rightarrow> r2_options" where
  "r2_client_options cfg =
     \<lparr>ro_Region = ''auto'', ro_AccessKeyID = kc_R2AccessKeyID cfg, ro_SecretAccessKey = kc_R2SecretAccessKey cfg,
      ro_BaseEndpoint = TrimRightSlash (kc_R2Endpoint cfg), ro_UsePathStyle = True\<rparr>"

record 'o intake_outside =
  io_fs :: local_fs
  io_awsConfig :: "string option"
  io_newClient :: "r2_options \<Rightarrow> 'o s3_client"
  io_objects :: 'o
  io_pool :: pool_driver
  io_readFile :: "string option"
  io_migrate :: "(string \<times> bool) option"
  io_faults :: "nat \<Rightarrow> nat \<Rightarrow> (string \<times> bool) option"
  io_amqp :: amqp_driver
  io_Listen :: "string \<Rightarrow> string option"

text \<open>The local storage is created whatever the choice; its root, or the client and the bucket.\<close>

definition open_storage :: "'o intake_outside \<Rightarrow> IntakeConfig \<Rightarrow> string + (string + 'o s3_client \<times> string)" where
  "open_storage out cfg =
     (case NewLocalObjectStorage (kc_StorageDir cfg) (io_fs out) of
        Inl err \<Rightarrow> Inl err
      | Inr dir \<Rightarrow>
          (case storage_choice cfg of
             Inl err \<Rightarrow> Inl err
           | Inr LocalStorage \<Rightarrow> Inr (Inl dir)
           | Inr R2Storage \<Rightarrow>
               (case io_awsConfig out of
                  Some err \<Rightarrow> Inl err
                | None \<Rightarrow> map_sum id Inr (NewR2ObjectStorage (Some (io_newClient out (r2_client_options cfg))) (kc_R2Bucket cfg)))))"

text \<open>The service over the store and the storage that \<open>main\<close> has chosen.\<close>

datatype 'o intake_state =
    MemoryLocal "(MemoryStore, local_fs) Service"
  | MemoryR2 "(MemoryStore, 'o) Service"
  | PostgresLocal "(PostgresStore, local_fs) Service"
  | PostgresR2 "(PostgresStore, 'o) Service"

definition intake_database :: "(nat \<Rightarrow> nat \<Rightarrow> (string \<times> bool) option) \<Rightarrow> intake_schema \<Rightarrow> PostgresStore" where
  "intake_database faults sh =
     \<lparr>ps_tables = \<lparr>t_documents = (case sh_documents sh of None \<Rightarrow> Map.empty | Some d \<Rightarrow> d),
        t_jobs = (case sh_jobs sh of None \<Rightarrow> Map.empty | Some j \<Rightarrow> j), t_uploads = (case sh_uploads sh of None \<Rightarrow> [] | Some u \<Rightarrow> u),
        t_outbox = (case sh_outbox sh of None \<Rightarrow> [] | Some b \<Rightarrow> b)\<rparr>, ps_calls = 0, ps_fault = faults\<rparr>"

definition intake_build ::
  "'z runtime_scheme \<Rightarrow> 'o intake_outside \<Rightarrow> IntakeConfig \<Rightarrow> pool_settings option \<Rightarrow> intake_schema \<Rightarrow> string + 'o s3_client \<times> string
     \<Rightarrow> string + 'o intake_state" where
  "intake_build rt out cfg pool sh storage =
     (case (pool, storage) of
        (None, Inl dir) \<Rightarrow>
          map_sum id MemoryLocal (intake_service rt cfg memory_ops NewMemoryStore (local_ops rt dir) (io_fs out))
      | (None, Inr (client, bucket)) \<Rightarrow>
          map_sum id MemoryR2 (intake_service rt cfg memory_ops NewMemoryStore (r2_ops rt client bucket) (io_objects out))
      | (Some _, Inl dir) \<Rightarrow>
          map_sum id PostgresLocal
            (intake_service rt cfg postgres_ops (intake_database (io_faults out) sh) (local_ops rt dir) (io_fs out))
      | (Some _, Inr (client, bucket)) \<Rightarrow>
          map_sum id PostgresR2
            (intake_service rt cfg postgres_ops (intake_database (io_faults out) sh) (r2_ops rt client bucket) (io_objects out)))"

text \<open>
  The deferred calls, the last one first; the metrics server is shut down whether or not it could listen, since the failure of its
  goroutine is only logged.
\<close>

definition intake_deferred :: "pool_settings option \<Rightarrow> RabbitPublisher option \<Rightarrow> string option \<Rightarrow> string option \<Rightarrow> lifecycle list" where
  "intake_deferred pool publisher channelErr connectionErr =
     Closed RMetricsServer # intake_shutdown pool publisher channelErr connectionErr"

text \<open>
  \<open>main\<close> from its configuration, which \<open>Load\<close> always returns, to the call of \<open>Serve\<close>. Every error ends the process with status 1 and without
  the deferred calls.
\<close>

definition intake_boot ::
  "'z float_runtime_scheme \<Rightarrow> (string \<Rightarrow> float64 option) \<Rightarrow> environment \<Rightarrow> 'o intake_outside \<Rightarrow> intake_schema
     \<Rightarrow> (int + 'o intake_state grpc_process \<times> pool_settings option \<times> RabbitPublisher option) \<times> lifecycle list" where
  "intake_boot rt parse_float e out sh =
     (let cfg = intake_Load rt parse_float e
      in case open_storage out cfg of
        Inl _ \<Rightarrow> (Inl 1, [])
      | Inr storage \<Rightarrow>
          (case open_store (io_pool out) (io_readFile out) (io_migrate out) cfg sh of
             (Inl _, _, evs) \<Rightarrow> (Inl 1, evs)
           | (Inr pool, sh', evs) \<Rightarrow>
               (case open_publisher (io_amqp out) cfg pool of
                  (Inl _, evs') \<Rightarrow> (Inl 1, evs @ evs')
                | (Inr publisher, evs') \<Rightarrow>
                    (case intake_build rt out cfg pool sh' storage of
                       Inl _ \<Rightarrow> (Inl 1, evs @ evs')
                     | Inr st \<Rightarrow>
                         let log = evs @ evs' @ [Opened RMetricsServer]
                         in case io_Listen out (kc_Address cfg) of
                              Some _ \<Rightarrow> (Inl 1, log)
                            | None \<Rightarrow>
                                (Inr (\<lparr>rp_inflight = 0, rp_done = False, rp_stopping = False, rp_state = st, rp_log = log,
                                       rp_exit = None\<rparr>, pool, publisher), log)))))"

definition intake_metrics_server :: "IntakeMetrics \<Rightarrow> http_request \<Rightarrow> http_response" where
  "intake_metrics_server m r =
     (if rq_Path r \<noteq> ''/metrics'' then plain_text 404 ''404 page not found''
      else \<lparr>rs_Status = 200, rs_ContentType = ''text/plain; version=0.0.4'', rs_Body = metrics_Handler m\<rparr>)"

type_synonym served_call = "call_env \<times> metadata option \<times> intake_call"

fun intake_rpc :: "'z float_runtime_scheme \<Rightarrow> served_call \<Rightarrow> 'o intake_state \<Rightarrow> 'o intake_state option" where
  "intake_rpc rt (env, ctx, call) (MemoryLocal s) = map_option (MemoryLocal \<circ> snd) (intake_serve rt env ctx call s)"
| "intake_rpc rt (env, ctx, call) (MemoryR2 s) = map_option (MemoryR2 \<circ> snd) (intake_serve rt env ctx call s)"
| "intake_rpc rt (env, ctx, call) (PostgresLocal s) = map_option (PostgresLocal \<circ> snd) (intake_serve rt env ctx call s)"
| "intake_rpc rt (env, ctx, call) (PostgresR2 s) = map_option (PostgresR2 \<circ> snd) (intake_serve rt env ctx call s)"

fun intake_run :: "'z float_runtime_scheme \<Rightarrow> served_call list \<Rightarrow> 'o intake_state \<Rightarrow> 'o intake_state option" where
  "intake_run rt cs (MemoryLocal s) = map_option MemoryLocal (run_calls rt cs s)"
| "intake_run rt cs (MemoryR2 s) = map_option MemoryR2 (run_calls rt cs s)"
| "intake_run rt cs (PostgresLocal s) = map_option PostgresLocal (run_calls rt cs s)"
| "intake_run rt cs (PostgresR2 s) = map_option PostgresR2 (run_calls rt cs s)"

lemma intake_rpc_returns: "intake_rpc rt c s \<noteq> None"
  by (cases c; cases s) (simp_all add: intake_serve_returns)

lemma intake_run_Cons: "intake_rpc rt c s = Some u \<Longrightarrow> intake_run rt cs u = Some v \<Longrightarrow> intake_run rt (c # cs) s = Some v"
  by (cases c; cases s) (auto split: option.splits prod.splits)

lemma intake_handled_run: "(grpc_handled (intake_rpc rt))\<^sup>*\<^sup>* s s' \<Longrightarrow> \<exists>cs. intake_run rt cs s = Some s'"
proof (induction rule: converse_rtranclp_induct)
  case base
  have "intake_run rt [] s' = Some s'" by (cases s') simp_all
  then show ?case by blast
next
  case (step s u)
  then obtain c cs where "intake_rpc rt c s = Some u" "intake_run rt cs u = Some s'" unfolding grpc_handled_def by blast
  then show ?case using intake_run_Cons by blast
qed

lemma intake_boot_process:
  assumes "intake_boot rt parse_float e out sh = (Inr (p, pool, publisher), evs)"
  shows "rp_exit p = None \<and> grpc_closed evs deferred p"
    and "still_open (evs @ intake_deferred pool publisher channelErr connectionErr) = []"
    and "outbox_choice (intake_Load rt parse_float e) = Inr (publisher \<noteq> None)"
proof -
  let ?cfg = "intake_Load rt parse_float e"
  obtain sh' evs1 evs2 where o: "open_store (io_pool out) (io_readFile out) (io_migrate out) ?cfg sh = (Inr pool, sh', evs1)"
      "open_publisher (io_amqp out) ?cfg pool = (Inr publisher, evs2)" "evs = evs1 @ evs2 @ [Opened RMetricsServer]"
    and p: "rp_exit p = None" "rp_log p = evs" "\<not> rp_stopping p" "\<not> rp_done p"
    using assms by (auto simp: intake_boot_def Let_def split: sum.splits prod.splits option.splits)
  show "rp_exit p = None \<and> grpc_closed evs deferred p" using p by (simp add: grpc_closed_def)
  show "outbox_choice ?cfg = Inr (publisher \<noteq> None)" by (rule intake_lifecycle(2) [OF o(1,2)])
  have "still_open (evs1 @ evs2) = (if pool = None then [] else [RPool]) @ (if publisher = None then [] else [RConnection, RChannel])"
    using o(1,2)
    by (auto simp: open_store_def open_publisher_def NewPostgresStore_def NewRabbitPublisher_def still_open_def Let_def
        split: if_splits option.splits prod.splits sum.splits)
  then show "still_open (evs @ intake_deferred pool publisher channelErr connectionErr) = []" using o(3)
    by (auto simp: still_open_def intake_deferred_def intake_shutdown_def rabbit_Close_def pg_store_Close_def)
qed


subsection \<open>The Identity service\<close>

text \<open>\<open>main\<close> listens before it opens its database.\<close>

definition identity_boot ::
  "'z auth_runtime_scheme \<Rightarrow> identity_env \<Rightarrow> environment \<Rightarrow> (string \<Rightarrow> string option) \<Rightarrow> pool_driver \<Rightarrow> (nat \<Rightarrow> (string \<times> bool) option)
     \<Rightarrow> (nat \<Rightarrow> nat \<Rightarrow> (string \<times> bool) option) \<Rightarrow> identity_schema
     \<Rightarrow> (int + (Memory Identity + Postgres Identity) grpc_process \<times> lifecycle list) \<times> lifecycle list" where
  "identity_boot rt env e listen drv mfault fault sc =
     (case identity_Load rt e of
        Inl _ \<Rightarrow> (Inl 1, [])
      | Inr cfg \<Rightarrow>
          (case listen (ic_Address cfg) of
             Some _ \<Rightarrow> (Inl 1, [])
           | None \<Rightarrow>
               (case identity_main rt env drv mfault fault cfg sc of
                  (Inl _, evs) \<Rightarrow> (Inl 1, evs)
                | (Inr s, evs) \<Rightarrow>
                    (Inr (\<lparr>rp_inflight = 0, rp_done = False, rp_stopping = False, rp_state = s, rp_log = evs, rp_exit = None\<rparr>,
                          if ic_DatabaseURL cfg = [] then [] else postgres_Close), evs))))"

fun identity_rpc ::
  "'z auth_runtime_scheme \<Rightarrow> identity_env \<times> identity_call \<Rightarrow> Memory Identity + Postgres Identity
     \<Rightarrow> (Memory Identity + Postgres Identity) option" where
  "identity_rpc rt (env, call) (Inl s) = Some (Inl (snd (identity_handle rt env call s)))"
| "identity_rpc rt (env, call) (Inr s) = Some (Inr (snd (identity_handle rt env call s)))"

lemma identity_handled_run:
  "(grpc_handled (identity_rpc rt))\<^sup>*\<^sup>* s s' \<Longrightarrow> \<exists>cs. s' = map_sum (run_identity rt cs) (run_identity rt cs) s"
proof (induction rule: converse_rtranclp_induct)
  case base
  have "s' = map_sum (run_identity rt []) (run_identity rt []) s'" by (cases s') simp_all
  then show ?case by blast
next
  case (step s u)
  then obtain env call cs where "identity_rpc rt (env, call) s = Some u" "s' = map_sum (run_identity rt cs) (run_identity rt cs) u"
    unfolding grpc_handled_def by (metis surj_pair)
  then have "s' = map_sum (run_identity rt ((env, call) # cs)) (run_identity rt ((env, call) # cs)) s" by (cases s) auto
  then show ?case by blast
qed

lemma identity_boot_process:
  assumes "identity_boot rt env e listen drv mfault fault sc = (Inr (p, deferred), evs)"
  shows "rp_exit p = None \<and> grpc_closed evs deferred p" and "still_open (evs @ deferred) = []"
proof -
  obtain cfg s where o: "identity_main rt env drv mfault fault cfg sc = (Inr s, evs)"
      "deferred = (if ic_DatabaseURL cfg = [] then [] else postgres_Close)"
    and p: "rp_exit p = None" "rp_log p = evs" "\<not> rp_stopping p" "\<not> rp_done p"
    using assms by (auto simp: identity_boot_def Let_def split: sum.splits prod.splits option.splits)
  show "rp_exit p = None \<and> grpc_closed evs deferred p" using p by (simp add: grpc_closed_def)
  show "still_open (evs @ deferred) = []"
  proof (cases "ic_DatabaseURL cfg = []")
    case False
    obtain d sc' where d: "open_identity drv mfault fault cfg sc = (d, sc', evs)" "identity_start rt env d cfg = Inr s"
      using o(1) False by (auto simp: identity_main_def split: prod.splits)
    then have "is_ok d" using False by (cases d) (auto simp: identity_start_def)
    with open_identity_leak [OF d(1)] o(2) False show ?thesis by (simp add: still_open_def postgres_Close_def)
  qed (use o in \<open>simp add: identity_main_def still_open_def\<close>)
qed

theorem identity_process_safe:
  assumes "identity_boot rt env e listen drv mfault fault sc = (Inr (p, deferred), evs)" and "graceful_library lib"
    and "(grpc_step lib (identity_rpc rt) deferred)\<^sup>*\<^sup>* p q"
  shows "(\<exists>cs. rp_state q = map_sum (run_identity rt cs) (run_identity rt cs) (rp_state p))
    \<and> (if rp_exit q = Some 0 then rp_inflight q = 0 \<and> rp_done q \<and> still_open (rp_log q) = [] else rp_log q = evs)
    \<and> (rp_stopping q \<longrightarrow> (\<exists>u. (grpc_step lib (identity_rpc rt) deferred)\<^sup>*\<^sup>* q u \<and> rp_exit u = Some 0))"
proof -
  note boot = identity_boot_process [OF assms(1)]
  have total: "identity_rpc rt c s \<noteq> None" for c s by (cases c; cases s) simp_all
  note run = grpc_run [of lib "identity_rpc rt" deferred p q evs, OF assms(2) total assms(3)
    conjunct2 [OF boot(1)] conjunct1 [OF boot(1)]]
  show ?thesis using identity_handled_run [OF run(1)] run(2,3,5) boot(2) by auto
qed

subsection \<open>The verification stub\<close>

text \<open>
  The stub has no signal handling: it serves until \<open>Serve\<close> returns, the second argument. A panic ends a Go process with status 2.
\<close>

definition stub_address :: "environment \<Rightarrow> string" where
  "stub_address e = (let address = e ''VERIFICATION_GRPC_ADDR'' in if address = [] then '':9003'' else address)"

definition stub_main :: "environment \<Rightarrow> (string \<Rightarrow> string option) \<Rightarrow> string option \<Rightarrow> int" where
  "stub_main e listen serveErr =
     (case listen (stub_address e) of
        Some err \<Rightarrow> 2
      | None \<Rightarrow> (case serveErr of Some err \<Rightarrow> 2 | None \<Rightarrow> 0))"

subsection \<open>Concrete runs\<close>

lemma sample_gateway_boot:
  obtains p where "gateway_boot sample_auth_runtime sample_environment (\<lambda>t. Inr t) (0::nat) = (Inr (p :: (nat, string) gateway_process), [])"
proof -
  have "case gateway_boot sample_auth_runtime sample_environment (\<lambda>t. Inr t) (0::nat) of
      (Inr (p :: (nat, string) gateway_process), shut) \<Rightarrow> shut = [] | _ \<Rightarrow> False" by code_simp
  then show thesis using that by (auto split: prod.splits sum.splits)
qed

text \<open>A client connects and sends a request, the signal comes, and the shutdown waits for the request.\<close>

theorem gateway_process_safe_witness:
  "\<exists>p q u. gateway_boot sample_auth_runtime sample_environment (\<lambda>t. Inr t) (0::nat) = (Inr (p :: (nat, string) gateway_process), [])
    \<and> (gateway_step sample_auth_runtime sample_clients)\<^sup>*\<^sup>* p q \<and> gp_shutdown q \<and> gp_conns q = [(7, StateActive)]
    \<and> (gateway_step sample_auth_runtime sample_clients)\<^sup>*\<^sup>* q u \<and> gp_exit u \<noteq> None
    \<and> gs_secret (fst (gp_served q)) = ''secret''"
proof -
  let ?step = "gateway_step sample_auth_runtime sample_clients"
  obtain p where b: "gateway_boot sample_auth_runtime sample_environment (\<lambda>t. Inr t) (0::nat) = (Inr (p :: (nat, string) gateway_process), [])"
    by (rule sample_gateway_boot)
  note boot = gateway_boot_process [OF b]
  let ?p1 = "p\<lparr>gp_listener := Listening\<rparr>"
  let ?p2 = "?p1\<lparr>gp_conns := [(7, StateNew)]\<rparr>"
  let ?p3 = "?p2\<lparr>gp_conns := [(7, StateActive)]\<rparr>"
  let ?p4 = "?p3\<lparr>gp_done := True\<rparr>"
  let ?q = "?p4\<lparr>gp_shutdown := True, gp_listenerErr := False, gp_listener := ListenerClosed\<rparr>"
  have "?step p ?p1" using gateway_step.listens [of p sample_auth_runtime sample_clients] boot by simp
  moreover have "?step ?p1 ?p2" using gateway_step.accept [of ?p1 7 sample_auth_runtime sample_clients] boot by simp
  moreover have "?step ?p2 ?p3" using gateway_step.request [of ?p2 7 StateNew sample_auth_runtime sample_clients] boot
    by (simp add: set_conn_def)
  moreover have "?step ?p3 ?p4" using gateway_step.signal [of ?p3 sample_auth_runtime sample_clients] boot by simp
  moreover have "?step ?p4 ?q" using gateway_step.shutdown [of ?p4 False sample_auth_runtime sample_clients] boot by simp
  ultimately have r: "?step\<^sup>*\<^sup>* p ?q" by (meson r_into_rtranclp rtranclp_trans)
  have q: "gp_shutdown ?q" "gp_conns ?q = [(7, StateActive)]" by simp_all
  note safe = gateway_process_safe [OF b r]
  then obtain u where "?step\<^sup>*\<^sup>* ?q u" "gp_exit u \<noteq> None" using q(1) by blast
  moreover have "gs_secret (fst (gp_served ?q)) = ''secret''" using safe by (simp add: sample_environment_def)
  ultimately show ?thesis using b r q by blast
qed

theorem gateway_bind_failure_exits_zero_witness:
  "\<exists>p q u. gateway_boot sample_auth_runtime sample_environment (\<lambda>t. Inr t) (0::nat) = (Inr (p :: (nat, string) gateway_process), [])
    \<and> gateway_step sample_auth_runtime sample_clients p q \<and> gp_listener q = ListenerClosed
    \<and> (gateway_step sample_auth_runtime sample_clients)\<^sup>*\<^sup>* q u \<and> gp_exit u = Some (Exit 0) \<and> gp_served u = gp_served p"
proof -
  obtain p where b: "gateway_boot sample_auth_runtime sample_environment (\<lambda>t. Inr t) (0::nat) = (Inr (p :: (nat, string) gateway_process), [])"
    by (rule sample_gateway_boot)
  note boot = gateway_boot_process [OF b]
  let ?q = "p\<lparr>gp_listener := ListenerClosed, gp_done := True, gp_registered := False\<rparr>"
  have s: "gateway_step sample_auth_runtime sample_clients p ?q"
    using gateway_step.listen_fails [of p sample_auth_runtime sample_clients] boot by simp
  have l: "gp_listener ?q = ListenerClosed" by simp
  from gateway_bind_failure_exits_zero [OF b s l] b s l show ?thesis by blast
qed

definition intake_environment :: environment where
  "intake_environment = (\<lambda>_. [])(''DATABASE_URL'' := ''postgres://db'', ''RABBITMQ_URL'' := ''amqp://mq'')"

definition quiet_outside :: "unit intake_outside" where
  "quiet_outside =
     \<lparr>io_fs = \<lparr>fs_files = Map.empty, fs_mkdir_err = (\<lambda>_. None), fs_write_err = (\<lambda>_. None), fs_stat_err = (\<lambda>_. [])\<rparr>,
      io_awsConfig = None,
      io_newClient = (\<lambda>_. \<lparr>s3_PutObject = (\<lambda>_ _ _ _ o'. (None, o')), s3_PresignPutObject = (\<lambda>_ _ _ _ _. Inl []),
        s3_HeadObject = (\<lambda>_ _ _. Inl [])\<rparr>),
      io_objects = (), io_pool = \<lparr>dr_ParseConfig = (\<lambda>_. None), dr_NewWithConfig = (\<lambda>_. None), dr_Ping = (\<lambda>_ _. None)\<rparr>,
      io_readFile = None, io_migrate = None, io_faults = (\<lambda>_ _. None),
      io_amqp = \<lparr>aq_Dial = (\<lambda>_. None), aq_Channel = None, aq_ExchangeDeclare = (\<lambda>_. None)\<rparr>, io_Listen = (\<lambda>_. None)\<rparr>"

definition documented_library :: grpc_library where
  "documented_library =
     \<lparr>gl_Accepts = (\<lambda>stopping n. \<not> stopping),
      gl_Returns = (\<lambda>stopping n r. case r of ServeFailed _ \<Rightarrow> \<not> stopping | _ \<Rightarrow> stopping \<and> n = 0)\<rparr>"

lemma documented_graceful: "graceful_library documented_library"
  by (auto simp: graceful_library_def documented_library_def split: serve_result.splits intro: serve_result.exhaust)

definition fresh_schema :: intake_schema where
  "fresh_schema = \<lparr>sh_documents = None, sh_jobs = None, sh_uploads = None, sh_outbox = None\<rparr>"

lemma sample_intake_boot:
  obtains p pool publisher evs
  where "intake_boot sample_auth_runtime (\<lambda>_. None) intake_environment quiet_outside fresh_schema = (Inr (p, pool, publisher), evs)"
    "rp_exit p = None" "rp_inflight p = 0" "\<not> rp_done p" "\<not> rp_stopping p" "evs = [Opened RPool, Opened RConnection, Opened RChannel, Opened RMetricsServer]"
proof -
  have "case intake_boot sample_auth_runtime (\<lambda>_. None) intake_environment quiet_outside fresh_schema of
      (Inr (p, _, _), evs) \<Rightarrow> rp_exit p = None \<and> rp_inflight p = 0 \<and> \<not> rp_done p \<and> \<not> rp_stopping p
         \<and> evs = [Opened RPool, Opened RConnection, Opened RChannel, Opened RMetricsServer]
    | _ \<Rightarrow> False" by code_simp
  then show thesis using that by (auto split: prod.splits sum.splits)
qed


end
