(* ===== verification/Upload_Interleaving.thy ===== *)
theory Upload_Interleaving
  imports Intake_Isolation
begin

text \<open>
  Uploads that run at the same time. gRPC serves every call in a goroutine of its own, and the locks of the service cover single operations
  only: the admission by the pool, the reading of the document, the writing of the object, the recording of the upload, the release of
  the slot. Here \<open>UploadDocument\<close> (\<open>service/document.go\<close>) is cut at these operations; a run without interference is the handler, and any
  number of uploads interleave with each other and with other calls.
\<close>

subsection \<open>The phases of an upload\<close>

text \<open>The flag says whether a slot of the pool is held, and so whether the deferred \<open>release\<close> will run.\<close>

datatype 'o upload_phase =
    UploadArrived
  | UploadAdmitted bool "'o obj_iface" UploadDocumentRequest
  | UploadLoaded bool "'o obj_iface" UploadDocumentRequest Document
  | UploadWritten bool UploadDocumentRequest Document string
  | UploadAnswering bool "UploadDocumentResponse rpc_result"
  | UploadAnswered "UploadDocumentResponse rpc_result"

record upload_job =
  uj_env :: call_env
  uj_ctx :: "metadata option"
  uj_request :: "UploadDocumentRequest option"

definition upload_admit ::
  "'z float_runtime_scheme \<Rightarrow> upload_job \<Rightarrow> ('s, 'o) Service \<Rightarrow> 'o upload_phase \<times> ('s, 'o) Service" where
  "upload_admit rt j s =
     (case uj_request j of
        None \<Rightarrow> (UploadAnswered (Inl request_required), s)
      | Some req \<Rightarrow>
          let organizationID = TrimSpace (ud_OrganizationId req);
              contentType = content_type_of rt (ud_ContentType req) (ud_Content req)
          in case Require rt (uj_ctx j) organizationID PermissionUpload of
               Some err \<Rightarrow> (UploadAnswered (Inl err), s)
             | None \<Rightarrow>
               if organizationID = [] then (UploadAnswered (Inl (Status InvalidArgument ''organization_id is required'')), s)
               else if TrimSpace (ud_DocumentId req) = [] then
                 (UploadAnswered (Inl (Status InvalidArgument ''document_id is required'')), s)
               else if TrimSpace (ud_Filename req) = [] then (UploadAnswered (Inl (Status InvalidArgument ''filename is required'')), s)
               else if ud_Content req = [] then (UploadAnswered (Inl (Status InvalidArgument ''document content is required'')), s)
               else if oversized s (ud_Content req) then (UploadAnswered (Inl (oversized_error s)), s)
               else if \<not> isAllowedType rt s contentType then (UploadAnswered (Inl (type_error rt contentType)), s)
               else case sv_objectStorage s of
                 None \<Rightarrow> (UploadAnswered (Inl (Status Internal ''object storage is not configured'')), s)
               | Some obj \<Rightarrow>
                 (case sv_uploadPool s of
                    None \<Rightarrow> (UploadAdmitted False obj req, s)
                  | Some pool \<Rightarrow>
                      (case acquire rt (ce_now (uj_env j) 0) organizationID pool of
                         (Some err, pool') \<Rightarrow>
                           (UploadAnswered (Inl (Status ResourceExhausted err)),
                             metrics_update UploadRejected
                               (s\<lparr>sv_uploadPool := Some pool', sv_headers := sv_headers s @ [(''retry-after'', ''1'')]\<rparr>))
                       | (None, pool') \<Rightarrow>
                           (UploadAdmitted True obj req, metrics_update WorkerStarted (s\<lparr>sv_uploadPool := Some pool'\<rparr>)))))"

definition upload_load :: "bool \<Rightarrow> 'o obj_iface \<Rightarrow> UploadDocumentRequest \<Rightarrow> ('s, 'o) Service \<Rightarrow> 'o upload_phase" where
  "upload_load held obj req s =
     (case si_GetDocument (sv_store s) (TrimSpace (ud_OrganizationId req)) (TrimSpace (ud_DocumentId req)) (sv_db s) of
        Inl e \<Rightarrow> UploadAnswering held (Inl (load_error ''load document'' e))
      | Inr doc \<Rightarrow>
          case find (\<lambda>existing. ud_IdempotencyKey req \<noteq> [] \<and> u_IdempotencyKey existing = ud_IdempotencyKey req)
                 (d_Uploads doc) of
            Some existing \<Rightarrow> UploadAnswering held (Inr (upload_response existing))
          | None \<Rightarrow> UploadLoaded held obj req doc)"

definition upload_write ::
  "'z float_runtime_scheme \<Rightarrow> upload_job \<Rightarrow> bool \<Rightarrow> 'o obj_iface \<Rightarrow> UploadDocumentRequest \<Rightarrow> Document \<Rightarrow> ('s, 'o) Service
     \<Rightarrow> 'o upload_phase \<times> ('s, 'o) Service" where
  "upload_write rt j held obj req doc s =
     (case oi_Put obj (TrimSpace (ud_OrganizationId req)) (TrimSpace (ud_DocumentId req)) (ud_Filename req)
             (content_type_of rt (ud_ContentType req) (ud_Content req)) (ud_Content req) (sv_objects s) of
        (Inl err, o1) \<Rightarrow>
          (UploadAnswering held (Inl (Status Internal (''store document content: '' @ err))),
           pool_update (pool_failure (ce_now (uj_env j) 1)) (s\<lparr>sv_objects := o1\<rparr>))
      | (Inr storageRef, o1) \<Rightarrow>
          (UploadWritten held req doc storageRef,
           metrics_update (AddStreamedBytes (int (length (ud_Content req)))) (pool_update pool_success (s\<lparr>sv_objects := o1\<rparr>))))"

definition upload_record ::
  "'z float_runtime_scheme \<Rightarrow> upload_job \<Rightarrow> UploadDocumentRequest \<Rightarrow> Document \<Rightarrow> string \<Rightarrow> ('s, 'o) Service
     \<Rightarrow> UploadDocumentResponse rpc_result \<times> ('s, 'o) Service" where
  "upload_record rt j req doc storageRef s =
     persist_upload rt (uj_env j) (TrimSpace (ud_OrganizationId req)) (TrimSpace (ud_DocumentId req)) doc
       (proxied_upload rt (uj_env j) (TrimSpace (ud_OrganizationId req)) (TrimSpace (ud_DocumentId req))
          (content_type_of rt (ud_ContentType req) (ud_Content req)) storageRef req) s"

text \<open>The deferred calls; \<open>None\<close> when \<open>release\<close> blocks.\<close>

definition upload_finish ::
  "bool \<Rightarrow> UploadDocumentResponse rpc_result \<Rightarrow> ('s, 'o) Service \<Rightarrow> ('o upload_phase \<times> ('s, 'o) Service) option" where
  "upload_finish held result s =
     (if \<not> held then Some (UploadAnswered result, s)
      else case sv_uploadPool s of
        None \<Rightarrow> None
      | Some p \<Rightarrow>
          (case release p of
             None \<Rightarrow> None
           | Some p' \<Rightarrow> Some (UploadAnswered result, metrics_update WorkerFinished (s\<lparr>sv_uploadPool := Some p'\<rparr>))))"

fun upload_next ::
  "'z float_runtime_scheme \<Rightarrow> upload_job \<Rightarrow> 'o upload_phase \<Rightarrow> ('s, 'o) Service \<Rightarrow> ('o upload_phase \<times> ('s, 'o) Service) option" where
  "upload_next rt j UploadArrived s = Some (upload_admit rt j s)"
| "upload_next rt j (UploadAdmitted held obj req) s = Some (upload_load held obj req s, s)"
| "upload_next rt j (UploadLoaded held obj req doc) s = Some (upload_write rt j held obj req doc s)"
| "upload_next rt j (UploadWritten held req doc storageRef) s =
     (case upload_record rt j req doc storageRef s of (result, s') \<Rightarrow> Some (UploadAnswering held result, s'))"
| "upload_next rt j (UploadAnswering held result) s = upload_finish held result s"
| "upload_next rt j (UploadAnswered result) s = None"

text \<open>An upload that nothing interferes with.\<close>

fun upload_alone ::
  "'z float_runtime_scheme \<Rightarrow> upload_job \<Rightarrow> nat \<Rightarrow> 'o upload_phase \<Rightarrow> ('s, 'o) Service \<Rightarrow> ('o upload_phase \<times> ('s, 'o) Service) option" where
  "upload_alone rt j n (UploadAnswered result) s = Some (UploadAnswered result, s)"
| "upload_alone rt j 0 ph s = Some (ph, s)"
| "upload_alone rt j (Suc n) ph s =
     (case upload_next rt j ph s of None \<Rightarrow> None | Some (ph', s') \<Rightarrow> upload_alone rt j n ph' s')"

lemma alone_finish: "upload_alone rt j (Suc n) (UploadAnswering held r) s = upload_finish held r s"
  by (cases n) (auto simp: upload_finish_def split: option.splits)

lemma alone_body:
  "upload_alone rt j 4 (UploadAdmitted held obj req) s =
     (case upload_body rt (uj_env j) (TrimSpace (ud_OrganizationId req)) (TrimSpace (ud_DocumentId req))
        (content_type_of rt (ud_ContentType req) (ud_Content req)) obj req s of (r, s') \<Rightarrow> upload_finish held r s')"
  by (auto simp: numeral_eq_Suc upload_load_def upload_write_def upload_record_def upload_body_def Let_def alone_finish [of _ _ 0, simplified]
      alone_finish [of _ _ "Suc 0", simplified] alone_finish [of _ _ "Suc (Suc 0)", simplified] split: sum.splits option.splits prod.splits)

text \<open>The ways an upload is admitted, beside the handler's.\<close>

lemma upload_admit_cases:
  obtains (answered) r u where "upload_admit rt j s = (UploadAnswered r, u)"
      "UploadDocument rt (uj_env j) (uj_ctx j) (uj_request j) s = Some (r, u)"
    | (unpooled) obj req where "upload_admit rt j s = (UploadAdmitted False obj req, s)"
      "UploadDocument rt (uj_env j) (uj_ctx j) (uj_request j) s =
         Some (upload_body rt (uj_env j) (TrimSpace (ud_OrganizationId req)) (TrimSpace (ud_DocumentId req))
           (content_type_of rt (ud_ContentType req) (ud_Content req)) obj req s)"
    | (pooled) obj req u where "upload_admit rt j s = (UploadAdmitted True obj req, u)"
      "UploadDocument rt (uj_env j) (uj_ctx j) (uj_request j) s =
         (case upload_body rt (uj_env j) (TrimSpace (ud_OrganizationId req)) (TrimSpace (ud_DocumentId req))
             (content_type_of rt (ud_ContentType req) (ud_Content req)) obj req u of
            (r, s2) \<Rightarrow>
              (case sv_uploadPool s2 of
                 None \<Rightarrow> None
               | Some p \<Rightarrow>
                   (case release p of
                      None \<Rightarrow> None
                    | Some p' \<Rightarrow> Some (r, metrics_update WorkerFinished (s2\<lparr>sv_uploadPool := Some p'\<rparr>)))))"
proof (cases "uj_request j")
  case None
  then show thesis by (intro answered [of "Inl request_required" s]) (simp_all add: upload_admit_def UploadDocument_def)
next
  case (Some req)
  note defs = upload_admit_def UploadDocument_def Let_def Some
  let ?org = "TrimSpace (ud_OrganizationId req)" and ?ct = "content_type_of rt (ud_ContentType req) (ud_Content req)"
  consider (denied) e where "Require rt (uj_ctx j) ?org PermissionUpload = Some e"
    | (guard) "Require rt (uj_ctx j) ?org PermissionUpload = None"
        "?org = [] \<or> TrimSpace (ud_DocumentId req) = [] \<or> TrimSpace (ud_Filename req) = [] \<or> ud_Content req = []
           \<or> oversized s (ud_Content req) \<or> \<not> isAllowedType rt s ?ct \<or> sv_objectStorage s = None"
    | (ok) obj where "Require rt (uj_ctx j) ?org PermissionUpload = None" "?org \<noteq> []" "TrimSpace (ud_DocumentId req) \<noteq> []"
        "TrimSpace (ud_Filename req) \<noteq> []" "ud_Content req \<noteq> []" "\<not> oversized s (ud_Content req)" "isAllowedType rt s ?ct"
        "sv_objectStorage s = Some obj"
    by (metis option.exhaust)
  then show thesis
  proof cases
    case (denied e)
    then show thesis by (intro answered [of "Inl e" s]) (simp_all add: defs)
  next
    case guard
    have "\<exists>r. upload_admit rt j s = (UploadAnswered r, s) \<and> UploadDocument rt (uj_env j) (uj_ctx j) (uj_request j) s = Some (r, s)"
      using guard(2) by (elim disjE) (simp_all add: defs guard(1) split: option.split)
    then show thesis using answered by blast
  next
    case (ok obj)
    show thesis
    proof (cases "sv_uploadPool s")
      case None
      then show thesis using ok by (intro unpooled [of obj req]) (simp_all add: defs)
    next
      case (Some pool)
      obtain e pool' where a: "acquire rt (ce_now (uj_env j) 0) ?org pool = (e, pool')" by fastforce
      show thesis
      proof (cases e)
        case None
        then show thesis using ok Some a
          by (intro pooled [of obj req "metrics_update WorkerStarted (s\<lparr>sv_uploadPool := Some pool'\<rparr>)"]) (simp_all add: defs)
      next
        case (Some err)
        then show thesis using ok \<open>sv_uploadPool s = Some pool\<close> a
          by (intro answered [of "Inl (Status ResourceExhausted err)" "metrics_update UploadRejected
            (s\<lparr>sv_uploadPool := Some pool', sv_headers := sv_headers s @ [(''retry-after'', ''1'')]\<rparr>)"]) (simp_all add: defs)
      qed
    qed
  qed
qed


subsection \<open>Interleaving\<close>

text \<open>
  The service with the phases of its uploads, one for each job. A step is the next operation of one upload, or a whole call by one of
  the other callers.
\<close>

inductive uploads_step ::
  "'z float_runtime_scheme \<Rightarrow> upload_job list \<Rightarrow> metadata option set
     \<Rightarrow> ('s, 'o) Service \<times> 'o upload_phase list \<Rightarrow> ('s, 'o) Service \<times> 'o upload_phase list \<Rightarrow> bool" for rt jobs callers where
  upload_moves: "i < length jobs \<Longrightarrow> i < length phs \<Longrightarrow> upload_next rt (jobs ! i) (phs ! i) s = Some (ph, s') \<Longrightarrow>
    uploads_step rt jobs callers (s, phs) (s', phs[i := ph])"
| other_call: "ctx \<in> callers \<Longrightarrow> intake_serve rt env ctx call s = Some (r, s') \<Longrightarrow>
    uploads_step rt jobs callers (s, phs) (s', phs)"

text \<open>What an upload carries from its admission on: its own request, for which its caller is authorised.\<close>

fun phase_ok :: "'z runtime_scheme \<Rightarrow> upload_job \<Rightarrow> 'o upload_phase \<Rightarrow> bool" where
  "phase_ok rt j (UploadAdmitted held obj req) \<longleftrightarrow> Require rt (uj_ctx j) (TrimSpace (ud_OrganizationId req)) PermissionUpload = None"
| "phase_ok rt j (UploadLoaded held obj req doc) \<longleftrightarrow> Require rt (uj_ctx j) (TrimSpace (ud_OrganizationId req)) PermissionUpload = None"
| "phase_ok rt j (UploadWritten held req doc ref) \<longleftrightarrow> Require rt (uj_ctx j) (TrimSpace (ud_OrganizationId req)) PermissionUpload = None"
| "phase_ok rt j ph \<longleftrightarrow> True"

lemma upload_admit_ok:
  assumes "upload_admit rt j s = (ph, s')"
  shows "phase_ok rt j ph \<and> sv_store s' = sv_store s \<and> sv_db s' = sv_db s \<and> sv_objects s' = sv_objects s"
  using assms by (auto simp: upload_admit_def Let_def metrics_update_def split: option.splits if_splits prod.splits)

lemma upload_next_ok: "upload_next rt j ph s = Some (ph', s') \<Longrightarrow> phase_ok rt j ph \<Longrightarrow> phase_ok rt j ph'"
  using upload_admit_ok [of rt j s]
  by (cases ph) (auto simp: upload_load_def upload_write_def upload_finish_def split: sum.splits option.splits prod.splits if_splits)

definition phases_ok :: "'z runtime_scheme \<Rightarrow> upload_job list \<Rightarrow> 'o upload_phase list \<Rightarrow> bool" where
  "phases_ok rt jobs phs \<longleftrightarrow> (\<forall>i < length jobs. i < length phs \<longrightarrow> phase_ok rt (jobs ! i) (phs ! i))"

lemma phases_ok_arrived [simp]: "phases_ok rt jobs (replicate n UploadArrived)"
  by (simp add: phases_ok_def)

context tenant_store
begin

lemma upload_next_isolated:
  assumes "safe s" and "phase_ok rt j ph" and "upload_next rt j ph s = Some (ph', s')"
  shows "safe s' \<and> caller_step view (uj_ctx j) (sv_db s) (sv_db s')"
proof (cases ph)
  case UploadArrived
  then show ?thesis using assms(1,3) upload_admit_ok [of rt j s ph' s'] by (simp add: safe_def)
next
  case (UploadAdmitted held obj req)
  then show ?thesis using assms(1,3) by simp
next
  case (UploadLoaded held obj req doc)
  then show ?thesis using assms(1,3)
    by (auto simp: upload_write_def safe_def metrics_update_def pool_update_def split: sum.splits prod.splits)
next
  case (UploadWritten held req doc ref)
  let ?org = "TrimSpace (ud_OrganizationId req)"
  obtain r where r: "upload_record rt j req doc ref s = (r, s')" using assms(3) UploadWritten by (auto split: prod.splits)
  have "keeps ?org s s'"
    by (rule persist_upload_isolated [OF assms(1) _ _ r [unfolded upload_record_def]]) (simp_all add: proxied_upload_def)
  then show ?thesis using caller_stepI [of rt "uj_ctx j" ?org PermissionUpload view] assms(2) UploadWritten
    by (auto simp: keeps_def safe_def)
next
  case (UploadAnswering held r)
  then show ?thesis using assms(1,3)
    by (auto simp: upload_finish_def safe_def metrics_update_def split: option.splits if_splits)
qed (use assms in simp)

lemma caller_other:
  assumes "caller_step view ctx s t" and "view s i = Some d" and "\<forall>md. ctx = Some md \<longrightarrow> \<not> owned_by (claimed_org md) d"
  shows "view t i = Some d"
  using assms tenant_step_other [of view] unfolding caller_step_def by fastforce

lemma uploads_step_isolated:
  assumes "uploads_step rt jobs callers (s, phs) (s', phs')" and "safe s" and "phases_ok rt jobs phs"
  shows "safe s' \<and> phases_ok rt jobs phs' \<and> (\<exists>ctx \<in> callers \<union> uj_ctx ` set jobs. caller_step view ctx (sv_db s) (sv_db s'))"
  using assms(1)
proof cases
  case (upload_moves i ph)
  then have i: "phase_ok rt (jobs ! i) (phs ! i)" "uj_ctx (jobs ! i) \<in> uj_ctx ` set jobs" using assms(3) by (simp_all add: phases_ok_def)
  have "phases_ok rt jobs phs'"
    using assms(3) upload_next_ok [OF upload_moves(4) i(1)] upload_moves(1,3) by (auto simp: phases_ok_def nth_list_update)
  then show ?thesis using upload_next_isolated [OF assms(2) i(1) upload_moves(4)] i(2) by blast
next
  case (other_call ctx env call r)
  then show ?thesis using intake_serve_isolated [OF assms(2) other_call(3)] assms(3) by blast
qed

lemma interleaving_safe:
  assumes "(uploads_step rt jobs callers)\<^sup>*\<^sup>* q q'" and "safe (fst q)" and "phases_ok rt jobs (snd q)"
  shows "safe (fst q') \<and> phases_ok rt jobs (snd q')"
  using assms(1)
proof (induction rule: rtranclp_induct)
  case (step u v)
  then show ?case using uploads_step_isolated [of rt jobs callers "fst u" "snd u" "fst v" "snd v"] by simp
qed (use assms(2,3) in simp)

lemma interleaving_isolated:
  assumes "(uploads_step rt jobs callers)\<^sup>*\<^sup>* q q'" and "safe (fst q)" and "phases_ok rt jobs (snd q)"
    and "view (sv_db (fst q)) k = Some d"
    and "\<forall>ctx \<in> callers \<union> uj_ctx ` set jobs. \<forall>md. ctx = Some md \<longrightarrow> \<not> owned_by (claimed_org md) d"
  shows "view (sv_db (fst q')) k = Some d"
  using assms(1)
proof (induction rule: rtranclp_induct)
  case (step u v)
  have "safe (fst u)" "phases_ok rt jobs (snd u)" using interleaving_safe [OF step.hyps(1) assms(2,3)] by simp_all
  then obtain ctx where "ctx \<in> callers \<union> uj_ctx ` set jobs" "caller_step view ctx (sv_db (fst u)) (sv_db (fst v))"
    using uploads_step_isolated [of rt jobs callers "fst u" "snd u" "fst v" "snd v"] step.hyps(2) by auto
  then show ?case using caller_other step.IH assms(5) by blast
qed (use assms(4) in simp)

end

lemma owned_by_claimed: "owned_by (claimed_org md) d \<longleftrightarrow> claimed_org md = TrimSpace (d_OrganizationID d)"
  by (auto simp: owned_by_def claimed_org_def)

text \<open>
  Property C5. Uploads that run at the same time are safe on the memory store. However the operations of any number of uploads interleave
  with each other and with other calls, no document has two uploads with the same idempotency key, each upload names its document, and a
  document of an organization for which no upload and no other caller is authenticated is unchanged.
\<close>

theorem interleaved_uploads_safe:
  assumes "sv_store s = memory_ops" and "mem_invar (sv_db s)"
    and "(uploads_step rt jobs callers)\<^sup>*\<^sup>* (s, replicate (length jobs) UploadArrived) (s', phs)"
  shows "(\<forall>k d. ms_docs (sv_db s') k = Some d \<longrightarrow> distinct (upload_keys (d_Uploads d)) \<and> (\<forall>u \<in> set (d_Uploads d). u_DocumentID u = k))
    \<and> (\<forall>k d. ms_docs (sv_db s) k = Some d
         \<and> (\<forall>ctx \<in> callers \<union> uj_ctx ` set jobs. \<forall>md. ctx = Some md \<longrightarrow> claimed_org md \<noteq> TrimSpace (d_OrganizationID d))
       \<longrightarrow> ms_docs (sv_db s') k = Some d)"
proof -
  have safe: "mem.safe s" using assms(1,2) by (simp add: mem.safe_def)
  have "mem_invar (sv_db s')" using mem.interleaving_safe [OF assms(3)] safe by (simp add: mem.safe_def)
  moreover have "ms_docs (sv_db s') k = Some d" if "ms_docs (sv_db s) k = Some d"
    "\<forall>ctx \<in> callers \<union> uj_ctx ` set jobs. \<forall>md. ctx = Some md \<longrightarrow> claimed_org md \<noteq> TrimSpace (d_OrganizationID d)" for k d
  proof -
    have "\<forall>ctx \<in> callers \<union> uj_ctx ` set jobs. \<forall>md. ctx = Some md \<longrightarrow> \<not> owned_by (claimed_org md) d"
      using that(2) owned_by_claimed by metis
    with mem.interleaving_isolated [OF assms(3), of k d] safe that(1) show ?thesis by simp
  qed
  ultimately show ?thesis by (auto simp: mem_invar_def doc_wf_def)
qed

end
