(* ===== verification/Upload_Races.thy ===== *)
theory Upload_Races
  imports Intake_Memory Upload_Interleaving
begin

text \<open>
  Two uploads to one document whose objects share a name. The local storage names an object by document and file name, so the
  later one replaces the earlier; and the answer of \<open>UploadDocument\<close> names the upload it wanted to record, which the store has not recorded
  when another upload with the same idempotency key came first.
\<close>

lemma local_Put_same:
  "local_Put rt dir org i fname ct c fs = (Inr ref, t) \<Longrightarrow> local_Put rt dir org i fname ct' c' fs' = (Inr ref', t') \<Longrightarrow> ref' = ref"
  by (auto simp: local_Put_def Let_def split: option.splits prod.splits)

subsection \<open>One after the other\<close>

lemma persist_upload_storage:
  "persist_upload rt env org i doc up s = (r, s') \<Longrightarrow> sv_objectStorage s' = sv_objectStorage s"
  by (auto simp: persist_upload_def store_upload_def publish_uploaded_def split: sum.splits option.splits prod.splits)

lemma upload_body_storage:
  "upload_body rt env org i ct obj req s = (r, s') \<Longrightarrow> sv_objectStorage s' = sv_objectStorage s"
  by (auto simp: upload_body_def Let_def pool_update_def metrics_update_def split: sum.splits option.splits prod.splits
      dest!: persist_upload_storage)

lemma UploadDocument_config:
  assumes "UploadDocument rt env ctx request s = Some (r, s')"
  shows "sv_store s' = sv_store s \<and> sv_objectStorage s' = sv_objectStorage s"
proof (cases rule: UploadDocument_cases [of rt env ctx request s])
  case (unpooled req obj)
  then have b: "upload_body rt env (TrimSpace (ud_OrganizationId req)) (TrimSpace (ud_DocumentId req))
      (content_type_of rt (ud_ContentType req) (ud_Content req)) obj req s = (r, s')" using assms by simp
  from upload_body_storage [OF b] upload_body_pool [OF b] show ?thesis by simp
next
  case (pooled req obj pool pool' r2 s2 p p')
  then show ?thesis using assms upload_body_storage [OF pooled(9)] upload_body_pool [OF pooled(9)]
    by (auto simp: metrics_update_def)
qed (use assms in \<open>auto simp: metrics_update_def\<close>)

lemma upload_stored:
  assumes "sv_store s = memory_ops" and "UploadDocument rt env ctx (Some req) s = Some (Inr resp, s')" and "ud_IdempotencyKey req = []"
    and "sv_objectStorage s = Some (local_ops lrt dir)"
  obtains d ref o1 where "ms_docs (sv_db s) (TrimSpace (ud_DocumentId req)) = Some d"
    "local_Put lrt dir (TrimSpace (ud_OrganizationId req)) (TrimSpace (ud_DocumentId req)) (ud_Filename req)
       (content_type_of rt (ud_ContentType req) (ud_Content req)) (ud_Content req) (sv_objects s) = (Inr ref, sv_objects s')"
    "ms_docs (sv_db s') = (ms_docs (sv_db s))(TrimSpace (ud_DocumentId req) \<mapsto>
       uploaded_doc (ce_now env 3) (proxied_upload rt env (TrimSpace (ud_OrganizationId req)) (TrimSpace (ud_DocumentId req))
         (content_type_of rt (ud_ContentType req) (ud_Content req)) ref req) d)"
    "ur_UploadId resp = newID env 0 ''upl''" "ur_StorageRef resp = ref"
proof -
  obtain obj t t' where b: "sv_store t = sv_store s" "sv_objectStorage s = Some obj" "sv_db t = sv_db s" "sv_objects t = sv_objects s"
      "sv_db s' = sv_db t'" "sv_objects s' = sv_objects t'"
      "upload_body rt env (TrimSpace (ud_OrganizationId req)) (TrimSpace (ud_DocumentId req))
       (content_type_of rt (ud_ContentType req) (ud_Content req)) obj req t = (Inr resp, t')"
    by (rule UploadDocument_body [OF assms(2)])
  from b(1) [unfolded assms(1)] b(7) show thesis
  proof (cases rule: upload_body_memory)
    case (existing d u)
    then show thesis using assms(3) by simp
  next
    case (stored d ref o1)
    have obj: "obj = local_ops lrt dir" using b(2) assms(4) by simp
    show thesis
    proof (rule that [of d ref])
      show "local_Put lrt dir (TrimSpace (ud_OrganizationId req)) (TrimSpace (ud_DocumentId req)) (ud_Filename req)
         (content_type_of rt (ud_ContentType req) (ud_Content req)) (ud_Content req) (sv_objects s) = (Inr ref, sv_objects s')"
        using stored(4,5) b(4,6) unfolding obj by (simp add: local_ops_def)
    qed (use stored b(3,5) in simp_all)
  qed
qed

text \<open>
  Property C35. A later upload destroys an earlier one. When two uploads to one document, both without an idempotency key, have the same
  file name and both succeed on the local storage, the document lists both with the same storage reference, and that file holds the
  content of the second: the first upload's checksum is that of a content that is gone.
\<close>

theorem later_upload_overwrites:
  assumes "sv_store s = memory_ops" and "sv_objectStorage s = Some (local_ops lrt dir)"
    and "UploadDocument rt env1 ctx1 (Some r1) s = Some (Inr a1, s1)" and "ud_IdempotencyKey r1 = []"
    and "UploadDocument rt env2 ctx2 (Some r2) s1 = Some (Inr a2, s2)" and "ud_IdempotencyKey r2 = []"
    and "TrimSpace (ud_OrganizationId r2) = TrimSpace (ud_OrganizationId r1)"
    and "TrimSpace (ud_DocumentId r2) = TrimSpace (ud_DocumentId r1)" and "ud_Filename r2 = ud_Filename r1"
  shows "\<exists>d us u v. ms_docs (sv_db s2) (TrimSpace (ud_DocumentId r1)) = Some d \<and> d_Uploads d = us @ [u, v]
    \<and> u_ID u = ur_UploadId a1 \<and> u_ID v = ur_UploadId a2 \<and> u_StorageRef u = ur_StorageRef a1 \<and> u_StorageRef v = u_StorageRef u
    \<and> u_Checksum u = hex_encode (sha256 rt (ud_Content r1)) \<and> u_SizeBytes u = int (length (ud_Content r1))
    \<and> fs_files (sv_objects s2) (u_StorageRef u) = Some (ud_Content r2)"
proof -
  let ?i = "TrimSpace (ud_DocumentId r1)"
  have st1: "sv_store s1 = memory_ops" "sv_objectStorage s1 = Some (local_ops lrt dir)"
    using UploadDocument_config [OF assms(3)] assms(1,2) by simp_all
  obtain d ref where 1: "ms_docs (sv_db s) ?i = Some d"
      "local_Put lrt dir (TrimSpace (ud_OrganizationId r1)) ?i (ud_Filename r1)
        (content_type_of rt (ud_ContentType r1) (ud_Content r1)) (ud_Content r1) (sv_objects s) = (Inr ref, sv_objects s1)"
      "ms_docs (sv_db s1) = (ms_docs (sv_db s))(?i \<mapsto> uploaded_doc (ce_now env1 3)
        (proxied_upload rt env1 (TrimSpace (ud_OrganizationId r1)) ?i (content_type_of rt (ud_ContentType r1) (ud_Content r1)) ref r1) d)"
      "ur_UploadId a1 = newID env1 0 ''upl''" "ur_StorageRef a1 = ref"
    by (rule upload_stored [OF assms(1,3,4,2)])
  obtain d2 ref2 where 2: "ms_docs (sv_db s1) ?i = Some d2"
      "local_Put lrt dir (TrimSpace (ud_OrganizationId r1)) ?i (ud_Filename r1)
        (content_type_of rt (ud_ContentType r2) (ud_Content r2)) (ud_Content r2) (sv_objects s1) = (Inr ref2, sv_objects s2)"
      "ms_docs (sv_db s2) = (ms_docs (sv_db s1))(?i \<mapsto> uploaded_doc (ce_now env2 3)
        (proxied_upload rt env2 (TrimSpace (ud_OrganizationId r1)) ?i (content_type_of rt (ud_ContentType r2) (ud_Content r2)) ref2 r2) d2)"
      "ur_UploadId a2 = newID env2 0 ''upl''"
    by (rule upload_stored [OF st1(1) assms(5,6) st1(2), unfolded assms(7-9)])
  have "fs_files (sv_objects s2) ref2 = Some (ud_Content r2)"
    using local.put_law [of lrt dir] 2(2) by (simp add: local_ops_def)
  moreover have "ref2 = ref" by (rule local_Put_same [OF 1(2) 2(2)])
  ultimately show ?thesis
    using 1 2 by (auto simp: stored_upload_def proxied_upload_def)
qed

subsection \<open>At the same time\<close>

text \<open>A time that \<open>time.Time.MarshalJSON\<close> accepts.\<close>

definition json_time :: "time \<Rightarrow> bool" where
  "json_time t \<longleftrightarrow> 0 \<le> time_Year t \<and> time_Year t < 10000"

lemma NewDocumentUploaded_ok: "json_time (u_CreatedAt up) \<Longrightarrow> \<exists>ev. NewDocumentUploaded eid doc up = Inr ev"
  by (simp add: NewDocumentUploaded_def json_Marshal_def time_MarshalJSON_def uploaded_envelope_def json_time_def Let_def)

lemma persist_upload_answers:
  assumes "sv_store s = memory_ops" and "ms_docs (sv_db s) i = Some d" and "owned_by org d" and "json_time (u_CreatedAt up)"
  shows "\<exists>s'. persist_upload rt env org i doc up s
      = (Inr \<lparr>ur_UploadId = u_ID up, ur_DocumentId = d_ID d, ur_StorageRef = u_StorageRef up, ur_Checksum = u_Checksum up\<rparr>, s')
    \<and> sv_store s' = memory_ops \<and> sv_objects s' = sv_objects s
    \<and> ms_docs (sv_db s') = (if has_key d (u_IdempotencyKey up) then ms_docs (sv_db s)
         else (ms_docs (sv_db s))(i \<mapsto> uploaded_doc (ce_now env 3) up d))"
proof -
  obtain ev where "NewDocumentUploaded (newID env 1 ''evt'') doc up = Inr ev" using NewDocumentUploaded_ok [OF assms(4)] by blast
  then show ?thesis using assms(1-3)
    by (simp add: persist_upload_def store_upload_def mem_UploadDocumentAndQueue_def mem_UploadDocument_eq)
qed

text \<open>An upload whose object is written: its next step records it, or finds its key and answers as if it had.\<close>

lemma upload_records:
  assumes "sv_store s = memory_ops" and "ms_docs (sv_db s) i = Some d" and "owned_by org d" and "json_time (ce_now (uj_env j) 2)"
    and "TrimSpace (ud_OrganizationId req) = org" and "TrimSpace (ud_DocumentId req) = i"
  obtains s' a where "upload_next rt j (UploadWritten h req doc ref) s = Some (UploadAnswering h (Inr a), s')"
    "ur_UploadId a = newID (uj_env j) 0 ''upl''" "sv_store s' = memory_ops" "sv_objects s' = sv_objects s"
    "ms_docs (sv_db s') = (if has_key d (ud_IdempotencyKey req) then ms_docs (sv_db s)
       else (ms_docs (sv_db s))(i \<mapsto> uploaded_doc (ce_now (uj_env j) 3)
         (proxied_upload rt (uj_env j) org i (content_type_of rt (ud_ContentType req) (ud_Content req)) ref req) d))"
proof -
  let ?up = "proxied_upload rt (uj_env j) org i (content_type_of rt (ud_ContentType req) (ud_Content req)) ref req"
  have "u_CreatedAt ?up = ce_now (uj_env j) 2" "u_IdempotencyKey ?up = ud_IdempotencyKey req" "u_ID ?up = newID (uj_env j) 0 ''upl''"
    by (simp_all add: proxied_upload_def)
  with persist_upload_answers [OF assms(1-3), of ?up rt "uj_env j" doc] assms(4) obtain s' where
    "persist_upload rt (uj_env j) org i doc ?up s = (Inr \<lparr>ur_UploadId = newID (uj_env j) 0 ''upl'', ur_DocumentId = d_ID d,
       ur_StorageRef = u_StorageRef ?up, ur_Checksum = u_Checksum ?up\<rparr>, s')"
    "sv_store s' = memory_ops" "sv_objects s' = sv_objects s"
    "ms_docs (sv_db s') = (if has_key d (ud_IdempotencyKey req) then ms_docs (sv_db s)
       else (ms_docs (sv_db s))(i \<mapsto> uploaded_doc (ce_now (uj_env j) 3) ?up d))" by auto
  then show thesis using assms(5,6) by (intro that) (auto simp: upload_record_def)
qed

lemma upload_writes:
  assumes "oi_Put obj (TrimSpace (ud_OrganizationId req)) (TrimSpace (ud_DocumentId req)) (ud_Filename req)
      (content_type_of rt (ud_ContentType req) (ud_Content req)) (ud_Content req) (sv_objects s) = (Inr ref, o1)"
  obtains s' where "upload_next rt j (UploadLoaded h obj req doc) s = Some (UploadWritten h req doc ref, s')"
    "sv_store s' = sv_store s" "sv_db s' = sv_db s" "sv_objects s' = o1"
  by (rule that [of "metrics_update (AddStreamedBytes (int (length (ud_Content req)))) (pool_update pool_success (s\<lparr>sv_objects := o1\<rparr>))"])
    (simp_all add: assms upload_write_def metrics_update_def pool_update_def)

lemma upload_stores:
  assumes "sv_store s = memory_ops" and "ms_docs (sv_db s) i = Some d" and "owned_by org d" and "json_time (ce_now (uj_env j) 2)"
    and "TrimSpace (ud_OrganizationId req) = org" and "TrimSpace (ud_DocumentId req) = i"
    and "local_Put lrt dir org i (ud_Filename req) (content_type_of rt (ud_ContentType req) (ud_Content req)) (ud_Content req)
      (sv_objects s) = (Inr ref, o1)"
  obtains w t a where "upload_next rt j (UploadLoaded h (local_ops lrt dir) req doc) s = Some (UploadWritten h req doc ref, w)"
    "upload_next rt j (UploadWritten h req doc ref) w = Some (UploadAnswering h (Inr a), t)"
    "ur_UploadId a = newID (uj_env j) 0 ''upl''" "sv_store t = memory_ops" "sv_objects t = o1"
    "ms_docs (sv_db t) = (if has_key d (ud_IdempotencyKey req) then ms_docs (sv_db s)
       else (ms_docs (sv_db s))(i \<mapsto> uploaded_doc (ce_now (uj_env j) 3)
         (proxied_upload rt (uj_env j) org i (content_type_of rt (ud_ContentType req) (ud_Content req)) ref req) d))"
proof -
  have put: "oi_Put (local_ops lrt dir) (TrimSpace (ud_OrganizationId req)) (TrimSpace (ud_DocumentId req)) (ud_Filename req)
      (content_type_of rt (ud_ContentType req) (ud_Content req)) (ud_Content req) (sv_objects s) = (Inr ref, o1)"
    using assms(5-7) by (simp add: local_ops_def)
  obtain w where w: "upload_next rt j (UploadLoaded h (local_ops lrt dir) req doc) s = Some (UploadWritten h req doc ref, w)"
    "sv_store w = sv_store s" "sv_db w = sv_db s" "sv_objects w = o1" by (rule upload_writes [OF put])
  have "sv_store w = memory_ops" "ms_docs (sv_db w) i = Some d" using w(2,3) assms(1,2) by simp_all
  from upload_records [OF this assms(3-6)] obtain t a where
    "upload_next rt j (UploadWritten h req doc ref) w = Some (UploadAnswering h (Inr a), t)"
    "ur_UploadId a = newID (uj_env j) 0 ''upl''" "sv_store t = memory_ops" "sv_objects t = sv_objects w"
    "ms_docs (sv_db t) = (if has_key d (ud_IdempotencyKey req) then ms_docs (sv_db w)
       else (ms_docs (sv_db w))(i \<mapsto> uploaded_doc (ce_now (uj_env j) 3)
         (proxied_upload rt (uj_env j) org i (content_type_of rt (ud_ContentType req) (ud_Content req)) ref req) d))" .
  with w show thesis using that by simp
qed

lemma upload_loads:
  assumes "sv_store s = memory_ops" and "ms_docs (sv_db s) (TrimSpace (ud_DocumentId req)) = Some d"
    and "owned_by (TrimSpace (ud_OrganizationId req)) d" and "\<not> has_key d (ud_IdempotencyKey req)"
  shows "upload_next rt j (UploadAdmitted h obj req) s = Some (UploadLoaded h obj req d, s)"
proof -
  have "find (\<lambda>e. ud_IdempotencyKey req \<noteq> [] \<and> u_IdempotencyKey e = ud_IdempotencyKey req) (d_Uploads d) = None"
    using assms(4) unfolding find_None_iff has_key_def by (metis imageI)
  then show ?thesis using assms(1-3) by (simp add: upload_load_def mem_GetDocument_def owned_by_def)
qed

text \<open>Steps of the first and of the second of two uploads.\<close>

lemma first_moves:
  "upload_next rt j1 ph s = Some (ph', s') \<Longrightarrow> uploads_step rt [j1, j2] callers (s, [ph, qh]) (s', [ph', qh])"
  using upload_moves [of 0 "[j1, j2]" "[ph, qh]" rt s ph' s' callers] by simp

lemma second_moves:
  "upload_next rt j2 qh s = Some (qh', s') \<Longrightarrow> uploads_step rt [j1, j2] callers (s, [ph, qh]) (s', [ph, qh'])"
  using upload_moves [of 1 "[j1, j2]" "[ph, qh]" rt s qh' s' callers] by simp

text \<open>Both are admitted and read the document; then the first writes and records, and the second after it.\<close>

lemma overtaken_run:
  assumes "upload_next rt j1 p0 s0 = Some (p1, s1)" and "upload_next rt j2 q0 s1 = Some (q1, s2)"
    and "upload_next rt j1 p1 s2 = Some (p2, s3)" and "upload_next rt j2 q1 s3 = Some (q2, s4)"
    and "upload_next rt j1 p2 s4 = Some (p3, s5)" and "upload_next rt j1 p3 s5 = Some (p4, s6)"
    and "upload_next rt j2 q2 s6 = Some (q3, s7)" and "upload_next rt j2 q3 s7 = Some (q4, s8)"
  shows "(uploads_step rt [j1, j2] callers)\<^sup>*\<^sup>* (s0, [p0, q0]) (s8, [p4, q4])"
proof -
  note after = converse_rtranclp_into_rtranclp [where r = "uploads_step rt [j1, j2] callers"]
  show ?thesis
    by (rule after [OF first_moves [OF assms(1)] after [OF second_moves [OF assms(2)] after [OF first_moves [OF assms(3)]
      after [OF second_moves [OF assms(4)] after [OF first_moves [OF assms(5)] after [OF first_moves [OF assms(6)]
      after [OF second_moves [OF assms(7)] after [OF second_moves [OF assms(8)] rtranclp.rtrancl_refl]]]]]]]])
qed

text \<open>
  Property C34. A retry that overtakes breaks idempotency. When two uploads with the same non-empty idempotency key, document and file name
  are both admitted, neither key being recorded yet, there is an interleaving in which both are answered with success and with different
  identifiers: the document lists only the first upload, the identifier of the second answer is recorded nowhere, and under the recorded
  reference lies the content of the second with the checksum of the first.
\<close>

theorem concurrent_retry_unrecorded:
  assumes "sv_store s = memory_ops" and "ms_docs (sv_db s) i = Some d" and "owned_by org d" and "\<not> has_key d key" and "key \<noteq> []"
    and "upload_admit rt j1 s = (UploadAdmitted h1 (local_ops lrt dir) r1, s1)"
    and "upload_admit rt j2 s1 = (UploadAdmitted h2 (local_ops lrt dir) r2, s2)"
    and "TrimSpace (ud_OrganizationId r1) = org" and "TrimSpace (ud_OrganizationId r2) = org"
    and "TrimSpace (ud_DocumentId r1) = i" and "TrimSpace (ud_DocumentId r2) = i" and "ud_Filename r2 = ud_Filename r1"
    and "ud_IdempotencyKey r1 = key" and "ud_IdempotencyKey r2 = key"
    and "local_Put lrt dir org i (ud_Filename r1) (content_type_of rt (ud_ContentType r1) (ud_Content r1)) (ud_Content r1)
      (sv_objects s) = (Inr ref, o1)"
    and "local_Put lrt dir org i (ud_Filename r2) (content_type_of rt (ud_ContentType r2) (ud_Content r2)) (ud_Content r2) o1 = (Inr ref2, o2)"
    and "json_time (ce_now (uj_env j1) 2)" and "json_time (ce_now (uj_env j2) 2)"
    and "newID (uj_env j2) 0 ''upl'' \<notin> insert (newID (uj_env j1) 0 ''upl'') (u_ID ` set (d_Uploads d))"
  shows "\<exists>s' a1 a2 d' u. (uploads_step rt [j1, j2] {})\<^sup>*\<^sup>* (s, [UploadArrived, UploadArrived])
      (s', [UploadAnswering h1 (Inr a1), UploadAnswering h2 (Inr a2)])
    \<and> ms_docs (sv_db s') i = Some d' \<and> d_Uploads d' = d_Uploads d @ [u] \<and> u_ID u = ur_UploadId a1
    \<and> ur_UploadId a2 \<notin> u_ID ` set (d_Uploads d')
    \<and> u_Checksum u = hex_encode (sha256 rt (ud_Content r1)) \<and> fs_files (sv_objects s') (u_StorageRef u) = Some (ud_Content r2)"
proof -
  let ?obj = "local_ops lrt dir"
  have s2: "sv_store s2 = memory_ops" "sv_db s2 = sv_db s" "sv_objects s2 = sv_objects s" "ms_docs (sv_db s2) i = Some d"
    using upload_admit_ok [OF assms(6)] upload_admit_ok [OF assms(7)] assms(1,2) by simp_all
  let ?up = "proxied_upload rt (uj_env j1) org i (content_type_of rt (ud_ContentType r1) (ud_Content r1)) ref r1"
  let ?d = "uploaded_doc (ce_now (uj_env j1) 3) ?up d" and ?u = "stored_upload ?up"
  obtain w1 t1 a1 where 1: "upload_next rt j1 (UploadLoaded h1 ?obj r1 d) s2 = Some (UploadWritten h1 r1 d ref, w1)"
    "upload_next rt j1 (UploadWritten h1 r1 d ref) w1 = Some (UploadAnswering h1 (Inr a1), t1)"
    "ur_UploadId a1 = newID (uj_env j1) 0 ''upl''" "sv_store t1 = memory_ops" "sv_objects t1 = o1"
    "ms_docs (sv_db t1) = (ms_docs (sv_db s))(i \<mapsto> ?d)"
    by (rule upload_stores [OF s2(1,4) assms(3,17,8,10) assms(15) [folded s2(3)]]) (use assms(4,13) s2(2) in simp)
  have d2: "ms_docs (sv_db t1) i = Some ?d" "owned_by org ?d" "has_key ?d (ud_IdempotencyKey r2)"
    using 1(6) assms(3,5,13,14) by (simp_all add: owned_by_def has_key_def stored_upload_def proxied_upload_def)
  obtain w2 t2 a2 where 2: "upload_next rt j2 (UploadLoaded h2 ?obj r2 d) t1 = Some (UploadWritten h2 r2 d ref2, w2)"
    "upload_next rt j2 (UploadWritten h2 r2 d ref2) w2 = Some (UploadAnswering h2 (Inr a2), t2)"
    "ur_UploadId a2 = newID (uj_env j2) 0 ''upl''" "sv_objects t2 = o2" "ms_docs (sv_db t2) = ms_docs (sv_db t1)"
    by (rule upload_stores [OF 1(4) d2(1,2) assms(18,9,11) assms(16) [folded 1(5)]]) (use d2(3) in simp)
  have loads: "upload_next rt j1 (UploadAdmitted h1 ?obj r1) s2 = Some (UploadLoaded h1 ?obj r1 d, s2)"
    "upload_next rt j2 (UploadAdmitted h2 ?obj r2) s2 = Some (UploadLoaded h2 ?obj r2 d, s2)"
    by (rule upload_loads; use s2 assms(2-4,8-14) in simp)+
  have admits: "upload_next rt j1 UploadArrived s = Some (UploadAdmitted h1 ?obj r1, s1)"
    "upload_next rt j2 UploadArrived s1 = Some (UploadAdmitted h2 ?obj r2, s2)" using assms(6,7) by simp_all
  note run = overtaken_run [OF admits loads 1(1,2) 2(1,2)]
  have "ref2 = ref" by (rule local_Put_same [OF assms(15) assms(16) [unfolded assms(12)]])
  moreover have "fs_files o2 ref2 = Some (ud_Content r2)"
    using local.put_law [of lrt dir] assms(16) by (simp add: local_ops_def)
  ultimately have u: "u_ID ?u = ur_UploadId a1" "u_Checksum ?u = hex_encode (sha256 rt (ud_Content r1))"
    "fs_files (sv_objects t2) (u_StorageRef ?u) = Some (ud_Content r2)"
    using 1(3) 2(4) by (simp_all add: stored_upload_def proxied_upload_def)
  have listed: "ms_docs (sv_db t2) i = Some ?d" "d_Uploads ?d = d_Uploads d @ [?u]" using 1(6) 2(5) by simp_all
  then have "ur_UploadId a2 \<notin> u_ID ` set (d_Uploads ?d)" using u(1) 1(3) 2(3) assms(19) by simp
  then show ?thesis using run u listed by blast
qed

subsection \<open>Concrete uploads\<close>

abbreviation sample_call :: "nat \<Rightarrow> string \<Rightarrow> string \<Rightarrow> (MemoryStore, local_fs) Service
    \<Rightarrow> (UploadDocumentResponse rpc_result \<times> (MemoryStore, local_fs) Service) option" where
  "sample_call k key content \<equiv> UploadDocument sample_intake_runtime (sample_env k) (Some (sample_md ''acme''))
     (Some (sample_upload ''acme'' key content))"

definition sample_first :: "(MemoryStore, local_fs) Service" where
  "sample_first = snd (the (sample_call 1 [] ''more'' sample_created))"

lemma sample_upload_fields:
  "ud_OrganizationId (sample_upload org key content) = org" "ud_DocumentId (sample_upload org key content) = ''doc_00''"
  "ud_Filename (sample_upload org key content) = ''b.pdf''" "ud_ContentType (sample_upload org key content) = ''application/pdf''"
  "ud_Content (sample_upload org key content) = content" "ud_IdempotencyKey (sample_upload org key content) = key"
  by (simp_all add: sample_upload_def)

theorem later_upload_overwrites_witness:
  "\<exists>a1 a2 s2. sample_call 1 [] ''more'' sample_created = Some (Inr a1, sample_first)
    \<and> sample_call 2 [] ''else'' sample_first = Some (Inr a2, s2) \<and> fs_files (sv_objects s2) (ur_StorageRef a1) = Some ''else''"
proof -
  obtain a1 s1 where r: "sample_call 1 [] ''more'' sample_created = Some (Inr a1, s1)" by (rule sample_upload_answered)
  have s1: "s1 = sample_first" unfolding sample_first_def r by simp
  have "map_option (is_ok \<circ> fst) (sample_call 2 [] ''else'' sample_first) = Some True" by code_simp
  then obtain a2 s2 where r2: "sample_call 2 [] ''else'' sample_first = Some (Inr a2, s2)" by (rule result_ok)
  note twice = later_upload_overwrites [OF sample_created_store(1) sample_created_storage r [unfolded s1] _ r2]
  have "fs_files (sv_objects s2) (ur_StorageRef a1) = Some ''else''"
    using twice by (simp only: sample_upload_fields simp_thms) metis
  then show ?thesis using r [unfolded s1] r2 by blast
qed

definition sample_job :: "nat \<Rightarrow> string \<Rightarrow> string \<Rightarrow> upload_job" where
  "sample_job k org content = \<lparr>uj_env = sample_env k, uj_ctx = Some (sample_md org), uj_request = Some (sample_upload org ''k1'' content)\<rparr>"

text \<open>What the witness needs of the service with one document, computed at once.\<close>

definition sample_ready :: "(MemoryStore, local_fs) Service \<Rightarrow> bool" where
  "sample_ready s \<longleftrightarrow> Option.is_none (sv_uploadPool s) \<and> sv_maxUploadBytes s = 1000
     \<and> isAllowedType sample_intake_runtime s ''application/pdf''
     \<and> (case ms_docs (sv_db s) ''doc_00'' of
          None \<Rightarrow> False
        | Some d \<Rightarrow> owned_by ''acme'' d \<and> \<not> has_key d ''k1''
            \<and> newID (sample_env 2) 0 ''upl'' \<notin> insert (newID (sample_env 1) 0 ''upl'') (u_ID ` set (d_Uploads d)))"

lemma sample_created_ready: "sample_ready sample_created"
  by code_simp

lemma sample_admit:
  assumes "content \<noteq> []" and "length content \<le> 1000"
  shows "upload_admit sample_intake_runtime (sample_job k ''acme'' content) sample_created
    = (UploadAdmitted False (local_ops sample_intake_runtime ''/data'') (sample_upload ''acme'' ''k1'' content), sample_created)"
proof -
  have c: "Require sample_intake_runtime (Some (sample_md ''acme'')) ''acme'' PermissionUpload = None" "TrimSpace ''acme'' = ''acme''"
    "TrimSpace ''doc_00'' = ''doc_00''" "TrimSpace ''b.pdf'' = ''b.pdf''" "TrimSpace ''application/pdf'' = ''application/pdf''"
    by code_simp+
  have "isAllowedType sample_intake_runtime sample_created ''application/pdf''" "sv_maxUploadBytes sample_created = 1000"
    "sv_uploadPool sample_created = None"
    using sample_created_ready by (simp_all only: sample_ready_def Option.is_none_def)
  then show ?thesis using assms c
    by (simp add: upload_admit_def sample_job_def sample_upload_fields Let_def sample_created_storage content_type_of_def oversized_def)
qed

lemma sample_created_facts:
  obtains d where "ms_docs (sv_db sample_created) ''doc_00'' = Some d" "owned_by ''acme'' d" "\<not> has_key d ''k1''"
    "newID (sample_env 2) 0 ''upl'' \<notin> insert (newID (sample_env 1) 0 ''upl'') (u_ID ` set (d_Uploads d))"
  using sample_created_ready that unfolding sample_ready_def by (auto split: option.splits)

lemma both_ok:
  assumes "case x of (Inr ref, o1) \<Rightarrow> is_ok (fst (f o1)) | _ \<Rightarrow> False"
  obtains ref o1 ref2 o2 where "x = (Inr ref, o1)" "f o1 = (Inr ref2, o2)"
proof -
  obtain r o1 where x: "x = (r, o1)" by (rule prod.exhaust)
  obtain r2 o2 where f: "f o1 = (r2, o2)" by (rule prod.exhaust)
  show thesis using assms that unfolding x by (cases r; cases r2) (simp_all add: f)
qed

lemma sample_puts:
  obtains ref o1 ref2 o2 where
    "local_Put sample_intake_runtime ''/data'' ''acme'' ''doc_00'' ''b.pdf'' ''application/pdf'' ''more'' (sv_objects sample_created) = (Inr ref, o1)"
    "local_Put sample_intake_runtime ''/data'' ''acme'' ''doc_00'' ''b.pdf'' ''application/pdf'' ''else'' o1 = (Inr ref2, o2)"
proof (rule both_ok)
  show "case local_Put sample_intake_runtime ''/data'' ''acme'' ''doc_00'' ''b.pdf'' ''application/pdf'' ''more'' (sv_objects sample_created) of
      (Inr ref, o1) \<Rightarrow> is_ok (fst (local_Put sample_intake_runtime ''/data'' ''acme'' ''doc_00'' ''b.pdf'' ''application/pdf'' ''else'' o1))
    | _ \<Rightarrow> False" by code_simp
qed (rule that)

theorem concurrent_retry_unrecorded_witness:
  "\<exists>s' a1 a2 d'. (uploads_step sample_intake_runtime [sample_job 1 ''acme'' ''more'', sample_job 2 ''acme'' ''else''] {})\<^sup>*\<^sup>*
      (sample_created, [UploadArrived, UploadArrived]) (s', [UploadAnswering False (Inr a1), UploadAnswering False (Inr a2)])
    \<and> ms_docs (sv_db s') ''doc_00'' = Some d' \<and> ur_UploadId a2 \<notin> u_ID ` set (d_Uploads d')"
proof -
  obtain d where d: "ms_docs (sv_db sample_created) ''doc_00'' = Some d" "owned_by ''acme'' d" "\<not> has_key d ''k1''"
    "newID (sample_env 2) 0 ''upl'' \<notin> insert (newID (sample_env 1) 0 ''upl'') (u_ID ` set (d_Uploads d))"
    by (rule sample_created_facts)
  obtain ref o1 ref2 o2 where p:
    "local_Put sample_intake_runtime ''/data'' ''acme'' ''doc_00'' ''b.pdf'' ''application/pdf'' ''more'' (sv_objects sample_created) = (Inr ref, o1)"
    "local_Put sample_intake_runtime ''/data'' ''acme'' ''doc_00'' ''b.pdf'' ''application/pdf'' ''else'' o1 = (Inr ref2, o2)"
    by (rule sample_puts)
  have c: "TrimSpace ''acme'' = ''acme''" "TrimSpace ''doc_00'' = ''doc_00''" "TrimSpace ''application/pdf'' = ''application/pdf''"
    by code_simp+
  have "json_time 2" by code_simp
  then have clock: "json_time (ce_now (sample_env k) 2)" for k by (simp add: sample_env_def)
  have job: "uj_env (sample_job k org content) = sample_env k" for k org content by (simp add: sample_job_def)
  have kind: "content_type_of sample_intake_runtime ''application/pdf'' x = ''application/pdf''" for x
    using c(3) by (simp add: content_type_of_def Let_def)
  have first: "upload_admit sample_intake_runtime (sample_job 1 ''acme'' ''more'') sample_created
      = (UploadAdmitted False (local_ops sample_intake_runtime ''/data'') (sample_upload ''acme'' ''k1'' ''more''), sample_created)"
    by (rule sample_admit) simp_all
  have second: "upload_admit sample_intake_runtime (sample_job 2 ''acme'' ''else'') sample_created
      = (UploadAdmitted False (local_ops sample_intake_runtime ''/data'') (sample_upload ''acme'' ''k1'' ''else''), sample_created)"
    by (rule sample_admit) simp_all
  have "\<exists>s' a1 a2 d' u. (uploads_step sample_intake_runtime [sample_job 1 ''acme'' ''more'', sample_job 2 ''acme'' ''else''] {})\<^sup>*\<^sup>*
      (sample_created, [UploadArrived, UploadArrived]) (s', [UploadAnswering False (Inr a1), UploadAnswering False (Inr a2)])
    \<and> ms_docs (sv_db s') ''doc_00'' = Some d' \<and> d_Uploads d' = d_Uploads d @ [u] \<and> u_ID u = ur_UploadId a1
    \<and> ur_UploadId a2 \<notin> u_ID ` set (d_Uploads d')
    \<and> u_Checksum u = hex_encode (sha256 sample_intake_runtime (ud_Content (sample_upload ''acme'' ''k1'' ''more'')))
    \<and> fs_files (sv_objects s') (u_StorageRef u) = Some (ud_Content (sample_upload ''acme'' ''k1'' ''else''))"
    by (rule concurrent_retry_unrecorded [OF sample_created_store(1) d(1-3) _ first second, where ref = ref and ?o1.0 = o1])
      (simp_all only: sample_upload_fields kind c p job clock d(4), simp_all)
  then show ?thesis by blast
qed

theorem interleaved_uploads_safe_witness:
  "\<exists>s' phs. (uploads_step sample_intake_runtime [sample_job 1 ''other'' ''xx'', sample_job 2 ''other'' ''yy''] {})\<^sup>*\<^sup>*
       (sample_created, [UploadArrived, UploadArrived]) (s', phs) \<and> phs \<noteq> [UploadArrived, UploadArrived]
     \<and> ms_docs (sv_db s') ''doc_00'' = ms_docs (sv_db sample_created) ''doc_00''"
proof -
  let ?jobs = "[sample_job 1 ''other'' ''xx'', sample_job 2 ''other'' ''yy'']"
  let ?step = "uploads_step sample_intake_runtime ?jobs {}"
  obtain ph s1 where a1: "upload_admit sample_intake_runtime (sample_job 1 ''other'' ''xx'') sample_created = (ph, s1)" by fastforce
  obtain qh s2 where a2: "upload_admit sample_intake_runtime (sample_job 2 ''other'' ''yy'') s1 = (qh, s2)" by fastforce
  have "?step (sample_created, [UploadArrived, UploadArrived]) (s1, [ph, UploadArrived])" using a1 by (intro first_moves) simp
  moreover have "?step (s1, [ph, UploadArrived]) (s2, [ph, qh])" using a2 by (intro second_moves) simp
  ultimately have r: "?step\<^sup>*\<^sup>* (sample_created, replicate (length ?jobs) UploadArrived) (s2, [ph, qh])"
    by (simp add: rtranclp.rtrancl_into_rtrancl)
  obtain d where d: "ms_docs (sv_db sample_created) ''doc_00'' = Some d" "d_OrganizationID d = ''acme''"
    by (rule sample_created_doc)
  have "claimed_org (sample_md ''other'') \<noteq> TrimSpace ''acme''" by code_simp
  with interleaved_uploads_safe [OF sample_created_store r] d have "ms_docs (sv_db s2) ''doc_00'' = Some d" by (auto simp: sample_job_def)
  moreover have "ph \<noteq> UploadArrived" using a1 by (auto simp: upload_admit_def Let_def split: option.splits if_splits prod.splits)
  ultimately show ?thesis using r d by auto
qed

end
